(* ===== verification/Prelude.thy ===== *)
theory Prelude
  imports Main "HOL-Library.Word"
begin

text \<open>
  What every theory of the development shares: the types that stand for Go's own types, the
  collections the proofs draw on, and facts about lists, maps and sums.

  A Go string is a sequence of bytes, which is what Isabelle's \<^typ>\<open>string\<close> (a list of
  8-bit characters) is. A \<open>time.Time\<close> that went through \<open>UTC()\<close> is an instant, an integer
  number of nanoseconds since the Unix epoch; a \<open>time.Duration\<close> is a number of nanoseconds.
  An operation that returns \<open>(T, error)\<close> returns a value of \<open>err + 'a\<close>, the error on
  the left.
\<close>

named_theorems go_simps "characteristic equations of the string and map operations"
named_theorems op_defs "definitions of the store's operations"

type_synonym time = int
type_synonym duration = int

abbreviation Second :: duration where
  "Second \<equiv> 1000000000"

abbreviation Minute :: duration where
  "Minute \<equiv> 60 * Second"

text \<open>
  Errors: the three sentinels of the request store, which callers tell apart with
  \<open>errors.Is\<close>, and any other error by its message.
\<close>

datatype err =
    ErrNotFound
  | ErrInvalidTransition
  | ErrExpired
  | ErrMsg string

type_synonym 'a res = "err + 'a"

section \<open>Sums\<close>

fun result_of :: "'e + 'a \<Rightarrow> 'a option" where
  "result_of (Inl e) = None"
| "result_of (Inr x) = Some x"

definition succeeds :: "'e + 'a \<Rightarrow> bool" where
  "succeeds r \<longleftrightarrow> (case r of Inl _ \<Rightarrow> False | Inr _ \<Rightarrow> True)"

lemma succeeds_simps [simp]: "\<not> succeeds (Inl e)" "succeeds (Inr x)"
  by (simp_all add: succeeds_def)

lemma succeeds_iff: "succeeds r \<longleftrightarrow> (\<exists>x. r = Inr x)"
  by (cases r) auto

definition res_bind :: "'e + 'a \<Rightarrow> ('a \<Rightarrow> 'e + 'b) \<Rightarrow> 'e + 'b" where
  "res_bind r f = (case r of Inl e \<Rightarrow> Inl e | Inr x \<Rightarrow> f x)"

lemma res_bind_simps [simp]: "res_bind (Inl e) f = Inl e" "res_bind (Inr x) f = f x"
  by (simp_all add: res_bind_def)

lemma res_bind_Inr: "res_bind r f = Inr y \<longleftrightarrow> (\<exists>x. r = Inr x \<and> f x = Inr y)"
  by (cases r) auto

section \<open>Maps\<close>

text \<open>Removing every key that maps to a value: the loop over \<open>delete\<close> in the Go code.\<close>

definition map_drop_value :: "('k \<rightharpoonup> 'v) \<Rightarrow> 'v \<Rightarrow> ('k \<rightharpoonup> 'v)" where
  "map_drop_value m v = (\<lambda>k. if m k = Some v then None else m k)"

lemma map_drop_value_None [simp]: "m k = None \<Longrightarrow> map_drop_value m v k = None"
  by (simp add: map_drop_value_def)

lemma map_drop_value_Some [simp]:
  "map_drop_value m v k = Some w \<longleftrightarrow> m k = Some w \<and> w \<noteq> v"
  by (auto simp: map_drop_value_def)

lemma map_drop_value_hit [simp]: "m k = Some v \<Longrightarrow> map_drop_value m v k = None"
  by (simp add: map_drop_value_def)

lemma map_drop_value_ran: "v \<notin> ran (map_drop_value m v)"
  by (auto simp: ran_def)

lemma map_drop_value_dom: "dom (map_drop_value m v) \<subseteq> dom m"
  by (auto simp: map_drop_value_def split: if_splits)

lemma map_drop_value_finite [intro]: "finite (dom m) \<Longrightarrow> finite (dom (map_drop_value m v))"
  by (rule finite_subset [OF map_drop_value_dom])

lemma map_drop_value_idem [simp]: "map_drop_value (map_drop_value m v) v = map_drop_value m v"
  by (auto simp: map_drop_value_def)

text \<open>
  The order in which a \<open>range\<close> loop visits a Go map is not fixed: it is a list of the keys,
  each once. Operations whose body runs once per entry take that list as an input.
\<close>

definition range_order :: "('k \<times> 'x) list \<Rightarrow> ('k \<rightharpoonup> 'v) \<Rightarrow> bool" where
  "range_order ord m \<longleftrightarrow> distinct (map fst ord) \<and> set (map fst ord) = dom m"

lemma range_order_finite: "range_order ord m \<Longrightarrow> finite (dom m)"
  unfolding range_order_def by (metis List.finite_set)

section \<open>Lists\<close>

lemma take_eq_append: "take (length p) s = p \<longleftrightarrow> (\<exists>t. s = p @ t)"
proof
  assume "take (length p) s = p"
  then have "s = p @ drop (length p) s" using append_take_drop_id [of "length p" s] by simp
  then show "\<exists>t. s = p @ t" ..
qed auto

text \<open>The loop that appends what a partial function yields.\<close>

fun filter_map :: "('a \<Rightarrow> 'b option) \<Rightarrow> 'a list \<Rightarrow> 'b list" where
  "filter_map f [] = []"
| "filter_map f (x # xs) =
     (case f x of None \<Rightarrow> filter_map f xs | Some y \<Rightarrow> y # filter_map f xs)"

lemma filter_map_cong: "(\<And>x. x \<in> set xs \<Longrightarrow> f x = g x) \<Longrightarrow> filter_map f xs = filter_map g xs"
  by (induction xs) (auto split: option.splits)

lemma set_filter_map: "set (filter_map f xs) = {y. \<exists>x \<in> set xs. f x = Some y}"
  by (induction xs) (auto split: option.splits)

lemma distinct_filter_map:
  assumes "distinct (map g xs)" and "\<And>x y. f x = Some y \<Longrightarrow> h y = g x"
  shows "distinct (map h (filter_map f xs))"
  using assms(1)
proof (induction xs)
  case (Cons x xs)
  have "h y \<notin> h ` set (filter_map f xs)" if "f x = Some y" for y
    using Cons.prems assms(2) that by (auto simp: set_filter_map image_iff)
  with Cons show ?case by (auto split: option.splits)
qed simp

end
