(* ===== verification/GoStrings.thy ===== *)
theory GoStrings
  imports Prelude
begin

text \<open>
  The operations of Go's \<open>strings\<close> package that the program uses, on byte strings.
  \<open>strings.TrimSpace\<close> removes every rune with Unicode's White_Space property from both ends;
  each such rune is listed by its UTF-8 bytes in \<open>go_spaces\<close>, and a string starts (ends) with
  such a rune exactly when its first (last) bytes are one of those sequences.
\<close>

section \<open>Prefixes and suffixes\<close>

definition HasPrefix :: "string \<Rightarrow> string \<Rightarrow> bool" where
  "HasPrefix s p \<longleftrightarrow> take (length p) s = p"

definition HasSuffix :: "string \<Rightarrow> string \<Rightarrow> bool" where
  "HasSuffix s p \<longleftrightarrow> length p \<le> length s \<and> drop (length s - length p) s = p"

definition TrimPrefix :: "string \<Rightarrow> string \<Rightarrow> string" where
  "TrimPrefix s p = (if HasPrefix s p then drop (length p) s else s)"

definition TrimSuffix :: "string \<Rightarrow> string \<Rightarrow> string" where
  "TrimSuffix s p = (if HasSuffix s p then take (length s - length p) s else s)"

lemma HasPrefix_iff: "HasPrefix s p \<longleftrightarrow> (\<exists>t. s = p @ t)"
  by (simp add: HasPrefix_def take_eq_append)

lemma HasSuffix_iff: "HasSuffix s p \<longleftrightarrow> (\<exists>t. s = t @ p)"
proof
  assume "HasSuffix s p"
  then have "s = take (length s - length p) s @ p"
    unfolding HasSuffix_def by (metis append_take_drop_id)
  then show "\<exists>t. s = t @ p" ..
next
  assume "\<exists>t. s = t @ p"
  then show "HasSuffix s p" by (auto simp: HasSuffix_def)
qed

lemma HasPrefix_append [simp]: "HasPrefix (p @ t) p"
  by (auto simp: HasPrefix_iff)

lemma HasSuffix_append [simp]: "HasSuffix (t @ p) p"
  by (auto simp: HasSuffix_iff)

lemma HasPrefix_Nil [simp]: "HasPrefix s []"
  by (simp add: HasPrefix_iff)

lemma HasSuffix_Nil [simp]: "HasSuffix s []"
  by (simp add: HasSuffix_iff)

lemma HasPrefix_of_Nil [simp]: "HasPrefix [] p \<longleftrightarrow> p = []"
  by (auto simp: HasPrefix_iff)

lemma HasPrefix_Cons [simp]: "HasPrefix (a # s) (b # p) \<longleftrightarrow> a = b \<and> HasPrefix s p"
  by (auto simp: HasPrefix_def)

lemma HasSuffix_rev: "HasSuffix s p \<longleftrightarrow> HasPrefix (rev s) (rev p)"
proof -
  have "(\<exists>t. s = t @ p) \<longleftrightarrow> (\<exists>t. rev s = rev p @ t)"
    by (metis rev_append rev_rev_ident)
  then show ?thesis by (simp add: HasSuffix_iff HasPrefix_iff)
qed

lemma TrimPrefix_append [simp]: "TrimPrefix (p @ t) p = t"
  by (simp add: TrimPrefix_def)

lemma TrimSuffix_append [simp]: "TrimSuffix (t @ p) p = t"
  by (simp add: TrimSuffix_def)

lemma HasPrefix_trans: "HasPrefix s t \<Longrightarrow> HasPrefix t p \<Longrightarrow> HasPrefix s p"
  by (auto simp: HasPrefix_iff)

section \<open>TrimSpace\<close>

definition go_spaces :: "string list" where
  "go_spaces =
    [[CHR 0x09], [CHR 0x0A], [CHR 0x0B], [CHR 0x0C], [CHR 0x0D], [CHR 0x20],
     [CHR 0xC2, CHR 0x85], [CHR 0xC2, CHR 0xA0],
     [CHR 0xE1, CHR 0x9A, CHR 0x80],
     [CHR 0xE2, CHR 0x80, CHR 0x80], [CHR 0xE2, CHR 0x80, CHR 0x81],
     [CHR 0xE2, CHR 0x80, CHR 0x82], [CHR 0xE2, CHR 0x80, CHR 0x83],
     [CHR 0xE2, CHR 0x80, CHR 0x84], [CHR 0xE2, CHR 0x80, CHR 0x85],
     [CHR 0xE2, CHR 0x80, CHR 0x86], [CHR 0xE2, CHR 0x80, CHR 0x87],
     [CHR 0xE2, CHR 0x80, CHR 0x88], [CHR 0xE2, CHR 0x80, CHR 0x89],
     [CHR 0xE2, CHR 0x80, CHR 0x8A], [CHR 0xE2, CHR 0x80, CHR 0xA8],
     [CHR 0xE2, CHR 0x80, CHR 0xA9], [CHR 0xE2, CHR 0x80, CHR 0xAF],
     [CHR 0xE2, CHR 0x81, CHR 0x9F], [CHR 0xE3, CHR 0x80, CHR 0x80]]"

definition front_match :: "string list \<Rightarrow> string \<Rightarrow> string option" where
  "front_match ps s = find (\<lambda>p. p \<noteq> [] \<and> HasPrefix s p) ps"

lemma front_match_Some:
  "front_match ps s = Some p \<Longrightarrow> p \<in> set ps \<and> p \<noteq> [] \<and> HasPrefix s p"
  by (auto simp: front_match_def find_Some_iff)

lemma front_match_None:
  "front_match ps s = None \<longleftrightarrow> (\<forall>p \<in> set ps. p = [] \<or> \<not> HasPrefix s p)"
  by (auto simp: front_match_def find_None_iff)

function strip_front :: "string list \<Rightarrow> string \<Rightarrow> string" where
  "strip_front ps s =
     (case front_match ps s of
        None \<Rightarrow> s
      | Some p \<Rightarrow> strip_front ps (drop (length p) s))"
  by pat_completeness auto
termination
  by (relation "measure (\<lambda>(ps, s). length s)")
     (auto dest!: front_match_Some simp: HasPrefix_iff)

declare strip_front.simps [simp del]

lemma strip_front_id: "front_match ps s = None \<Longrightarrow> strip_front ps s = s"
  by (simp add: strip_front.simps)

lemma strip_front_stop: "front_match ps (strip_front ps s) = None"
proof (induction ps s rule: strip_front.induct)
  case (1 ps s)
  show ?case
  proof (cases "front_match ps s")
    case None
    then show ?thesis by (simp add: strip_front_id)
  next
    case (Some p)
    with "1.IH" have "front_match ps (strip_front ps (drop (length p) s)) = None" by simp
    with Some show ?thesis by (simp add: strip_front.simps [of ps s])
  qed
qed

lemma strip_front_suffix: "\<exists>t. s = t @ strip_front ps s"
proof (induction ps s rule: strip_front.induct)
  case (1 ps s)
  show ?case
  proof (cases "front_match ps s")
    case None
    then show ?thesis by (simp add: strip_front_id)
  next
    case (Some p)
    with "1.IH" obtain t where "drop (length p) s = t @ strip_front ps (drop (length p) s)"
      by blast
    then have "s = (take (length p) s @ t) @ strip_front ps (drop (length p) s)"
      by (metis append.assoc append_take_drop_id)
    with Some show ?thesis
      by (intro exI [where x = "take (length p) s @ t"]) (simp add: strip_front.simps [of ps s])
  qed
qed

lemma strip_front_Nil [simp]: "strip_front ps [] = []"
  using strip_front_suffix [of "[]" ps] by simp

lemma front_match_prefix: "front_match ps (s @ t) = None \<Longrightarrow> front_match ps s = None"
  by (auto simp: front_match_None HasPrefix_iff)

definition TrimSpace :: "string \<Rightarrow> string" where
  "TrimSpace s = rev (strip_front (map rev go_spaces) (rev (strip_front go_spaces s)))"

text \<open>A string no rune of which is removed: neither end is white space.\<close>

definition trimmed :: "string \<Rightarrow> bool" where
  "trimmed s \<longleftrightarrow> front_match go_spaces s = None \<and> front_match (map rev go_spaces) (rev s) = None"

lemma TrimSpace_trimmed: "trimmed (TrimSpace s)"
proof -
  let ?l = "strip_front go_spaces s"
  obtain t where t: "rev ?l = t @ strip_front (map rev go_spaces) (rev ?l)"
    using strip_front_suffix by blast
  then have "?l = TrimSpace s @ rev t"
    unfolding TrimSpace_def by (metis rev_append rev_rev_ident)
  moreover have "front_match go_spaces ?l = None" by (rule strip_front_stop)
  ultimately have "front_match go_spaces (TrimSpace s) = None"
    by (metis front_match_prefix)
  moreover have "front_match (map rev go_spaces) (rev (TrimSpace s)) = None"
    by (simp add: TrimSpace_def strip_front_stop)
  ultimately show ?thesis by (simp add: trimmed_def)
qed

lemma TrimSpace_id: "trimmed s \<Longrightarrow> TrimSpace s = s"
  by (simp add: trimmed_def TrimSpace_def strip_front_id)

lemma TrimSpace_idem [simp]: "TrimSpace (TrimSpace s) = TrimSpace s"
  by (simp add: TrimSpace_id TrimSpace_trimmed)

lemma TrimSpace_Nil [simp]: "TrimSpace [] = []"
  by (simp add: TrimSpace_def)

text \<open>Strings of visible ASCII characters, which no white space rune touches.\<close>

definition graph_char :: "char \<Rightarrow> bool" where
  "graph_char c \<longleftrightarrow> (33::nat) \<le> of_char c \<and> of_char c \<le> (126::nat)"

lemma go_spaces_ends: "\<forall>p \<in> set go_spaces. p \<noteq> [] \<and> \<not> graph_char (hd p) \<and> \<not> graph_char (last p)"
  by (simp add: go_spaces_def graph_char_def)

lemma trimmed_ends:
  assumes "s \<noteq> [] \<Longrightarrow> graph_char (hd s) \<and> graph_char (last s)"
  shows "trimmed s"
proof -
  have "\<not> HasPrefix s p" if "p \<in> set go_spaces" for p
  proof
    assume "HasPrefix s p"
    moreover have "p \<noteq> []" "\<not> graph_char (hd p)" using that go_spaces_ends by auto
    ultimately show False using assms by (auto simp: HasPrefix_iff)
  qed
  moreover have "\<not> HasPrefix (rev s) (rev p)" if "p \<in> set go_spaces" for p
  proof
    assume "HasPrefix (rev s) (rev p)"
    then have "HasSuffix s p" by (simp add: HasSuffix_rev)
    moreover have "p \<noteq> []" "\<not> graph_char (last p)" using that go_spaces_ends by auto
    ultimately show False using assms by (auto simp: HasSuffix_iff)
  qed
  ultimately show ?thesis by (auto simp: trimmed_def front_match_None)
qed

lemma TrimSpace_graph: "(\<And>c. c \<in> set s \<Longrightarrow> graph_char c) \<Longrightarrow> TrimSpace s = s"
  by (intro TrimSpace_id trimmed_ends) auto

abbreviation blank :: "string \<Rightarrow> bool" where
  "blank s \<equiv> TrimSpace s = []"

section \<open>Splitting, case\<close>

fun split_first :: "char \<Rightarrow> string \<Rightarrow> (string \<times> string) option" where
  "split_first c [] = None"
| "split_first c (x # xs) =
     (if x = c then Some ([], xs)
      else map_option (\<lambda>(a, b). (x # a, b)) (split_first c xs))"

lemma split_first_None: "split_first c s = None \<longleftrightarrow> c \<notin> set s"
  by (induction s) auto

lemma split_first_Some:
  "split_first c s = Some (a, b) \<longleftrightarrow> s = a @ c # b \<and> c \<notin> set a"
proof (induction s arbitrary: a)
  case Nil
  then show ?case by simp
next
  case (Cons x xs)
  show ?case
    by (cases a) (auto simp: Cons.IH)
qed

definition ascii_lower :: "char \<Rightarrow> char" where
  "ascii_lower c = (if 65 \<le> (of_char c :: nat) \<and> (of_char c :: nat) \<le> 90
                    then char_of ((of_char c :: nat) + 32) else c)"

text \<open>
  \<open>strings.EqualFold(s, t)\<close> for a \<open>t\<close> whose letters have no non-ASCII case variant
  (that is, neither \<open>k\<close> nor \<open>s\<close>), as \<open>Bearer\<close>.
\<close>

definition EqualFold :: "string \<Rightarrow> string \<Rightarrow> bool" where
  "EqualFold s t \<longleftrightarrow> map ascii_lower s = map ascii_lower t"

fun split_on :: "char \<Rightarrow> string \<Rightarrow> string list" where
  "split_on c [] = [[]]"
| "split_on c (x # xs) =
     (case split_on c xs of
        [] \<Rightarrow> []
      | w # ws \<Rightarrow> if x = c then [] # w # ws else (x # w) # ws)"

lemma split_on_not_Nil [simp]: "split_on c s \<noteq> []"
  by (induction s) (auto split: list.splits)

lemma split_on_parts: "w \<in> set (split_on c s) \<Longrightarrow> c \<notin> set w"
proof (induction s arbitrary: w)
  case Nil
  then show ?case by simp
next
  case (Cons x xs)
  obtain v vs where v: "split_on c xs = v # vs" by (cases "split_on c xs") auto
  with Cons show ?case by (auto split: if_splits)
qed

section \<open>Hexadecimal\<close>

definition hex_digit :: "nat \<Rightarrow> char" where
  "hex_digit n = (if n < 10 then char_of (48 + n) else char_of (87 + n))"

definition hex_encode :: "string \<Rightarrow> string" where
  "hex_encode s = concat (map (\<lambda>c. [hex_digit (of_char c div 16), hex_digit (of_char c mod 16)]) s)"

definition hex_value :: "char \<Rightarrow> nat option" where
  "hex_value c = (let n = of_char c in
     if 48 \<le> n \<and> n \<le> 57 then Some (n - 48)
     else if 97 \<le> n \<and> n \<le> 102 then Some (n - 87)
     else if 65 \<le> n \<and> n \<le> 70 then Some (n - 55)
     else None)"

fun hex_decode :: "string \<Rightarrow> string res" where
  "hex_decode [] = Inr []"
| "hex_decode [a] =
     (case hex_value a of None \<Rightarrow> Inl (ErrMsg ''encoding/hex: invalid byte'')
      | Some _ \<Rightarrow> Inl (ErrMsg ''encoding/hex: odd length hex string''))"
| "hex_decode (a # b # s) =
     (case hex_value a of None \<Rightarrow> Inl (ErrMsg ''encoding/hex: invalid byte'')
      | Some x \<Rightarrow>
          (case hex_value b of None \<Rightarrow> Inl (ErrMsg ''encoding/hex: invalid byte'')
           | Some y \<Rightarrow>
               (case hex_decode s of Inl e \<Rightarrow> Inl e
                | Inr r \<Rightarrow> Inr (char_of (16 * x + y) # r))))"

lemma hex_digit_value: "n < 16 \<Longrightarrow> hex_value (hex_digit n) = Some n"
  by (auto simp: hex_value_def hex_digit_def Let_def)

lemma of_char_less [simp]: "(of_char c :: nat) < 256"
  by (metis char_of_mod_256 nat_of_char_less_256)

lemma hex_roundtrip: "hex_decode (hex_encode s) = Inr s"
proof (induction s)
  case Nil
  then show ?case by (simp add: hex_encode_def)
next
  case (Cons c s)
  have "(of_char c :: nat) div 16 < 16"
    using of_char_less [of c] by (simp add: less_mult_imp_div_less)
  then show ?case
    using Cons by (simp add: hex_encode_def hex_digit_value)
qed

lemma length_hex_encode [simp]: "length (hex_encode s) = 2 * length s"
  by (induction s) (auto simp: hex_encode_def)

lemma hex_decode_length: "hex_decode s = Inr r \<Longrightarrow> length s = 2 * length r"
  by (induction s arbitrary: r rule: hex_decode.induct) (auto split: option.splits sum.splits)

lemma hex_digit_graph: "n < 16 \<Longrightarrow> graph_char (hex_digit n)"
  by (auto simp: graph_char_def hex_digit_def)

lemma hex_encode_graph: "c \<in> set (hex_encode s) \<Longrightarrow> graph_char c"
proof -
  have "(of_char x :: nat) div 16 < 16" for x :: char
    using of_char_less [of x] by (simp add: less_mult_imp_div_less)
  then show "c \<in> set (hex_encode s) \<Longrightarrow> graph_char c"
    by (auto simp: hex_encode_def hex_digit_graph)
qed

lemma TrimSpace_hex [simp]: "TrimSpace (hex_encode s) = hex_encode s"
  by (rule TrimSpace_graph) (rule hex_encode_graph)

lemma hex_encode_inj [simp]: "hex_encode s = hex_encode t \<longleftrightarrow> s = t"
  by (metis hex_roundtrip sum.inject(2))

end
