(* ===== verification/Instants.thy ===== *)
theory Instants
  imports GoStrings
begin

text \<open>
  Instants as \<open>encoding/json\<close> writes them (RFC 3339 with nanoseconds), for the UTC times the program
  uses, and the proof that two instants in the years the format allows never share a text.
\<close>

section \<open>Instants as text\<close>

fun dec_digits :: "nat \<Rightarrow> nat \<Rightarrow> string" where
  "dec_digits 0 n = []"
| "dec_digits (Suc k) n = dec_digits k (n div 10) @ [char_of (48 + n mod 10)]"

text \<open>
  The proleptic Gregorian date of a day number (days since 1970-01-01), by cycles of 400, 100, 4 and
  1 years that begin on the first of March.
\<close>

definition civil_date :: "int \<Rightarrow> int \<times> int \<times> int" where
  "civil_date days =
     (let z = days + 719468;
          era = z div 146097; d400 = z mod 146097;
          n100 = d400 div 36524; n100 = n100 - n100 div 4; d100 = d400 - 36524 * n100;
          n4 = d100 div 1461; d4 = d100 mod 1461;
          n1 = d4 div 365; n1 = n1 - n1 div 4; doy = d4 - 365 * n1;
          mp = (5 * doy + 2) div 153;
          d = doy - (153 * mp + 2) div 5 + 1;
          m = (if mp < 10 then mp + 3 else mp - 9);
          y = 400 * era + 100 * n100 + 4 * n4 + n1 + (if m \<le> 2 then 1 else 0)
      in (y, m, d))"

text \<open>The fraction of a second with trailing zeros cut, as the layout \<open>.999999999\<close> prints it.\<close>

definition fraction :: "nat \<Rightarrow> string" where
  "fraction ns = (if ns = 0 then []
     else CHR 0x2E # rev (dropWhile (\<lambda>c. c = CHR 0x30) (rev (dec_digits 9 ns))))"

definition rfc3339 :: "time \<Rightarrow> string" where
  "rfc3339 t =
     (let secs = t div 1000000000; ns = t mod 1000000000;
          (y, m, d) = civil_date (secs div 86400); sod = secs mod 86400
      in dec_digits 4 (nat y) @ ''-'' @ dec_digits 2 (nat m) @ ''-'' @ dec_digits 2 (nat d) @ ''T''
         @ dec_digits 2 (nat (sod div 3600)) @ '':'' @ dec_digits 2 (nat (sod div 60 mod 60)) @ '':''
         @ dec_digits 2 (nat (sod mod 60)) @ fraction (nat ns) @ ''Z'')"

text \<open>\<open>MarshalJSON\<close> fails for a year outside 0 to 9999; the zero \<open>time.Time\<close> is in year 1.\<close>

definition year_ok :: "time \<Rightarrow> bool" where
  "year_ok t \<longleftrightarrow> -62167219200 * Second \<le> t \<and> t < 253402300800 * Second"

definition zero_time :: time where
  "zero_time = -62135596800 * Second"

section \<open>The date determines the day\<close>

lemma leap_cycle:
  fixes c d :: int
  assumes "1 < c" and "0 \<le> d" and "d \<le> 4 * c"
  shows "0 \<le> d div c - d div c div 4" "d div c - d div c div 4 \<le> 3"
    "0 \<le> d - c * (d div c - d div c div 4)" "d - c * (d div c - d div c div 4) \<le> c"
proof -
  have q: "0 \<le> d div c" using assms by (simp add: pos_imp_zdiv_nonneg_iff)
  have m: "c * (d div c) \<le> d" "d < c * (d div c) + c"
    using assms(1) mult_div_mod_eq [of c d] pos_mod_bound [of c d] pos_mod_sign [of c d] by linarith+
  have "c * (d div c) \<le> c * 4" using m(1) assms(3) by simp
  then have "d div c \<le> 4" using assms(1) by simp
  with q consider "d div c = 0" | "d div c = 1" | "d div c = 2" | "d div c = 3" | "d div c = 4" by linarith
  then show "0 \<le> d div c - d div c div 4" "d div c - d div c div 4 \<le> 3"
    "0 \<le> d - c * (d div c - d div c div 4)" "d - c * (d div c - d div c div 4) \<le> c"
    using m assms by (cases; simp)+
qed

lemma civil_parts:
  assumes "civil_date days = (y, m, d)"
  obtains era n100 n4 n1 doy mp where "days + 719468 = 146097 * era + 36524 * n100 + 1461 * n4 + 365 * n1 + doy"
    "0 \<le> n100" "n100 \<le> 3" "0 \<le> n4" "n4 \<le> 24" "0 \<le> n1" "n1 \<le> 3"
    "0 \<le> mp" "mp \<le> 11" "d = doy - (153 * mp + 2) div 5 + 1" "m = (if mp < 10 then mp + 3 else mp - 9)"
    "y = 400 * era + 100 * n100 + 4 * n4 + n1 + (if m \<le> 2 then 1 else 0)" "1 \<le> d" "d \<le> 31"
    "0 \<le> doy" "doy \<le> 365" "mp = (5 * doy + 2) div 153"
proof -
  define era where "era = (days + 719468) div 146097"
  define d400 where "d400 = (days + 719468) mod 146097"
  define n100 where "n100 = d400 div 36524 - d400 div 36524 div 4"
  define d100 where "d100 = d400 - 36524 * n100"
  define n4 where "n4 = d100 div 1461"
  define d4 where "d4 = d100 mod 1461"
  define n1 where "n1 = d4 div 365 - d4 div 365 div 4"
  define doy where "doy = d4 - 365 * n1"
  define mp where "mp = (5 * doy + 2) div 153"
  have "0 \<le> d400" "d400 \<le> 4 * 36524" unfolding d400_def by simp_all
  note c100 = leap_cycle [OF _ this, folded n100_def, folded d100_def, simplified]
  have n4: "0 \<le> n4" "n4 \<le> 24" using c100(3,4) unfolding n4_def by linarith+
  have "0 \<le> d4" "d4 \<le> 4 * 365" unfolding d4_def by simp_all
  note c1 = leap_cycle [OF _ this, folded n1_def, folded doy_def, simplified]
  have mp: "0 \<le> mp" "mp \<le> 11" using c1(3,4) unfolding mp_def by linarith+
  have "days + 719468 = 146097 * era + d400" unfolding era_def d400_def by simp
  moreover have "d400 = 36524 * n100 + d100" by (simp add: d100_def)
  moreover have "d100 = 1461 * n4 + d4" unfolding n4_def d4_def by simp
  moreover have "d4 = 365 * n1 + doy" by (simp add: doy_def)
  ultimately have days: "days + 719468 = 146097 * era + 36524 * n100 + 1461 * n4 + 365 * n1 + doy" by linarith
  have "civil_date days = (400 * era + 100 * n100 + 4 * n4 + n1 + (if (if mp < 10 then mp + 3 else mp - 9) \<le> 2 then 1 else 0),
      (if mp < 10 then mp + 3 else mp - 9), doy - (153 * mp + 2) div 5 + 1)"
    unfolding civil_date_def Let_def era_def [symmetric] d400_def [symmetric] n100_def [symmetric]
      d100_def [symmetric] n4_def [symmetric] d4_def [symmetric] n1_def [symmetric] doy_def [symmetric]
      mp_def [symmetric] by (rule refl)
  note parts = this [unfolded assms, simplified prod.inject]
  then have c: "d = doy - (153 * mp + 2) div 5 + 1" "m = (if mp < 10 then mp + 3 else mp - 9)"
    "y = 400 * era + 100 * n100 + 4 * n4 + n1 + (if m \<le> 2 then 1 else 0)"
    by simp_all
  define k where "k = (153 * mp + 2) div 5"
  have "153 * mp \<le> 5 * doy + 2" "5 * doy + 2 < 153 * mp + 153" unfolding mp_def by linarith+
  moreover have "5 * k \<le> 153 * mp + 2" "153 * mp + 2 < 5 * k + 5" unfolding k_def by linarith+
  ultimately have "k \<le> doy" "doy - 30 \<le> k" by linarith+
  then have "1 \<le> d" "d \<le> 31" using c(1) k_def by linarith+
  with that days c100(1,2) n4 c1 mp c mp_def show ?thesis by blast
qed

lemma digit_unique:
  fixes k u v a b :: int
  assumes "k * u + a = k * v + b" and "0 \<le> a" "a < k" "0 \<le> b" "b < k"
  shows "u = v \<and> a = b"
proof -
  have "(k * u + a) mod k = a" "(k * v + b) mod k = b" using assms(2-5) by simp_all
  with assms(1) have "a = b" by metis
  with assms show ?thesis by simp
qed

lemma civil_date_inj:
  assumes "civil_date a = civil_date b"
  shows "a = b"
proof -
  obtain y m d where a: "civil_date a = (y, m, d)" by (cases "civil_date a")
  with assms have b: "civil_date b = (y, m, d)" by simp
  from civil_parts [OF a] obtain era n100 n4 n1 doy mp where
    a1: "a + 719468 = 146097 * era + 36524 * n100 + 1461 * n4 + 365 * n1 + doy"
    "0 \<le> n100" "n100 \<le> 3" "0 \<le> n4" "n4 \<le> 24" "0 \<le> n1" "n1 \<le> 3" and
    a2: "0 \<le> mp" "mp \<le> 11" "d = doy - (153 * mp + 2) div 5 + 1" "m = (if mp < 10 then mp + 3 else mp - 9)"
    "y = 400 * era + 100 * n100 + 4 * n4 + n1 + (if m \<le> 2 then 1 else 0)" by metis
  from civil_parts [OF b] obtain era' n100' n4' n1' doy' mp' where
    b1: "b + 719468 = 146097 * era' + 36524 * n100' + 1461 * n4' + 365 * n1' + doy'"
    "0 \<le> n100'" "n100' \<le> 3" "0 \<le> n4'" "n4' \<le> 24" "0 \<le> n1'" "n1' \<le> 3" and
    b2: "0 \<le> mp'" "mp' \<le> 11" "d = doy' - (153 * mp' + 2) div 5 + 1" "m = (if mp' < 10 then mp' + 3 else mp' - 9)"
    "y = 400 * era' + 100 * n100' + 4 * n4' + n1' + (if m \<le> 2 then 1 else 0)" by metis
  have "mp = mp'" using a2(1,2,4) b2(1,2,4) by (simp split: if_splits)
  with a2(3) b2(3) have doy: "doy = doy'" by simp
  have "4 * (100 * era + 25 * n100 + n4) + n1 = 4 * (100 * era' + 25 * n100' + n4') + n1'"
    using a2(5) b2(5) by simp
  from digit_unique [OF this] have 1: "100 * era + 25 * n100 + n4 = 100 * era' + 25 * n100' + n4'" "n1 = n1'"
    using a1(6,7) b1(6,7) by simp_all
  from 1(1) have "25 * (4 * era + n100) + n4 = 25 * (4 * era' + n100') + n4'" by simp
  from digit_unique [OF this] have 2: "4 * era + n100 = 4 * era' + n100'" "n4 = n4'"
    using a1(4,5) b1(4,5) by simp_all
  from digit_unique [OF 2(1)] have "era = era'" "n100 = n100'" using a1(2,3) b1(2,3) by simp_all
  with 1 2 doy a1(1) b1(1) show ?thesis by simp
qed

section \<open>The text determines the instant\<close>

lemma dec_digits_length [simp]: "length (dec_digits k n) = k"
  by (induction k n rule: dec_digits.induct) auto

lemma dec_digits_inj:
  "dec_digits k a = dec_digits k b \<Longrightarrow> a < 10 ^ k \<Longrightarrow> b < 10 ^ k \<Longrightarrow> a = b"
proof (induction k a arbitrary: b rule: dec_digits.induct)
  case (2 k n)
  from 2(2) have d: "dec_digits k (n div 10) = dec_digits k (b div 10)"
    and c: "char_of (48 + n mod 10) = (char_of (48 + b mod 10) :: char)" by auto
  have "n div 10 = b div 10" using 2(1) [OF d] 2(3,4) by (simp add: less_mult_imp_div_less)
  moreover from arg_cong [OF c, of "of_char :: char \<Rightarrow> nat"] have "n mod 10 = b mod 10" by simp
  ultimately show ?case by (metis div_mult_mod_eq)
qed simp

lemma digits_int_inj:
  assumes "dec_digits k (nat a) = dec_digits k (nat b)" and "0 \<le> a" "a < 10 ^ k" "0 \<le> b" "b < 10 ^ k"
  shows "a = b"
  using dec_digits_inj [OF assms(1)] assms(2-5) by (simp add: nat_less_iff eq_nat_nat_iff)

lemma cut_zeros_inj:
  assumes "rev (dropWhile (\<lambda>c. c = z) (rev s)) = rev (dropWhile (\<lambda>c. c = z) (rev t))" and "length s = length t"
  shows "s = t"
proof -
  have cut: "s = rev (dropWhile (\<lambda>c. c = z) (rev s)) @ replicate (length s - length (dropWhile (\<lambda>c. c = z) (rev s))) z"
    for s :: "'a list"
  proof -
    have "rev s = takeWhile (\<lambda>c. c = z) (rev s) @ dropWhile (\<lambda>c. c = z) (rev s)" by simp
    moreover have "takeWhile (\<lambda>c. c = z) (rev s) = replicate (length (takeWhile (\<lambda>c. c = z) (rev s))) z"
      by (metis (mono_tags, lifting) replicate_eqI set_takeWhileD)
    moreover have "length (takeWhile (\<lambda>c. c = z) (rev s)) = length s - length (dropWhile (\<lambda>c. c = z) (rev s))"
      by (metis add_diff_cancel_right' length_append length_rev takeWhile_dropWhile_id)
    ultimately show ?thesis by (metis rev_append rev_replicate rev_rev_ident)
  qed
  from cut [of s] cut [of t] assms show ?thesis by (metis length_rev)
qed

lemma fraction_inj:
  assumes e: "fraction a = fraction b" and "a < 1000000000" "b < 1000000000"
  shows "a = b"
proof -
  show ?thesis
  proof (cases "a = 0 \<or> b = 0")
    case True
    with e show ?thesis by (auto simp: fraction_def split: if_splits)
  next
    case False
    with e have "rev (dropWhile (\<lambda>c. c = CHR ''0'') (rev (dec_digits 9 a)))
        = rev (dropWhile (\<lambda>c. c = CHR ''0'') (rev (dec_digits 9 b)))"
      by (simp add: fraction_def)
    from cut_zeros_inj [OF this] have "dec_digits 9 a = dec_digits 9 b" by simp
    from dec_digits_inj [OF this] assms(2,3) show ?thesis by simp
  qed
qed


lemma civil_bounds:
  assumes "civil_date days = (y, m, d)"
  shows "1 \<le> m" "m \<le> 12" "1 \<le> d" "d \<le> 31"
  using civil_parts [OF assms] by (smt (verit))+

lemma civil_year:
  assumes "civil_date days = (y, m, d)" and "- 719528 \<le> days" and "days \<le> 2932896"
  shows "0 \<le> y" "y < 10000"
proof -
  from civil_parts [OF assms(1)] obtain era n100 n4 n1 doy mp where
    z: "days + 719468 = 146097 * era + 36524 * n100 + 1461 * n4 + 365 * n1 + doy"
    and b: "0 \<le> n100" "n100 \<le> 3" "0 \<le> n4" "n4 \<le> 24" "0 \<le> n1" "n1 \<le> 3" "0 \<le> doy" "doy \<le> 365"
    and mp: "mp = (5 * doy + 2) div 153" and m: "m = (if mp < 10 then mp + 3 else mp - 9)"
    and mp': "0 \<le> mp" "mp \<le> 11"
    and y: "y = 400 * era + 100 * n100 + 4 * n4 + n1 + (if m \<le> 2 then 1 else 0)" by metis
  have early: "m \<le> 2 \<longleftrightarrow> 306 \<le> doy" using m mp mp' by (simp split: if_splits; linarith)
  show "0 \<le> y"
  proof (cases "0 \<le> era")
    case False
    with z b assms(2) have "era = -1 \<and> n100 = 3 \<and> n4 = 24 \<and> n1 = 3 \<and> 306 \<le> doy" by (smt (verit))
    with y early show ?thesis by simp
  qed (use y b in simp)
  have "era \<le> 24" using z b assms(3) by linarith
  show "y < 10000"
  proof (cases "306 \<le> doy")
    case True
    have "400 * era + 100 * n100 + 4 * n4 + n1 \<noteq> 9999"
    proof
      assume e: "400 * era + 100 * n100 + 4 * n4 + n1 = 9999"
      with b \<open>era \<le> 24\<close> have "era = 24" by linarith
      moreover from this e b have "n100 = 3" by linarith
      moreover from calculation e b have "n4 = 24" by linarith
      moreover from calculation e have "n1 = 3" by linarith
      ultimately show False using z True assms(3) by simp
    qed
    then show ?thesis using y b \<open>era \<le> 24\<close> early by (simp split: if_splits)
  qed (use y b \<open>era \<le> 24\<close> early in simp)
qed

lemma rfc3339_inj:
  assumes "year_ok s" and "year_ok t" and "rfc3339 s = rfc3339 t"
  shows "s = t"
proof -
  define days where "days = (\<lambda>t::int. t div 1000000000 div 86400)"
  define sod where "sod = (\<lambda>t::int. t div 1000000000 mod 86400)"
  obtain y m d where s: "civil_date (days s) = (y, m, d)" by (cases "civil_date (days s)")
  obtain y' m' d' where t: "civil_date (days t) = (y', m', d')" by (cases "civil_date (days t)")
  have r: "- 719528 \<le> days t \<and> days t \<le> 2932896" if "year_ok t" for t
    using that unfolding year_ok_def days_def by linarith
  note ys = civil_year [OF s] and yt = civil_year [OF t]
  have sod: "0 \<le> sod t \<and> sod t < 86400" for t unfolding sod_def by simp
  from assms(3) have "dec_digits 4 (nat y) @ ''-'' @ dec_digits 2 (nat m) @ ''-'' @ dec_digits 2 (nat d) @ ''T''
      @ dec_digits 2 (nat (sod s div 3600)) @ '':'' @ dec_digits 2 (nat (sod s div 60 mod 60)) @ '':''
      @ dec_digits 2 (nat (sod s mod 60)) @ fraction (nat (s mod 1000000000)) @ ''Z''
    = dec_digits 4 (nat y') @ ''-'' @ dec_digits 2 (nat m') @ ''-'' @ dec_digits 2 (nat d') @ ''T''
      @ dec_digits 2 (nat (sod t div 3600)) @ '':'' @ dec_digits 2 (nat (sod t div 60 mod 60)) @ '':''
      @ dec_digits 2 (nat (sod t mod 60)) @ fraction (nat (t mod 1000000000)) @ ''Z''"
    using s t unfolding rfc3339_def Let_def days_def sod_def by simp
  then have parts: "dec_digits 4 (nat y) = dec_digits 4 (nat y')" "dec_digits 2 (nat m) = dec_digits 2 (nat m')"
    "dec_digits 2 (nat d) = dec_digits 2 (nat d')"
    "dec_digits 2 (nat (sod s div 3600)) = dec_digits 2 (nat (sod t div 3600))"
    "dec_digits 2 (nat (sod s div 60 mod 60)) = dec_digits 2 (nat (sod t div 60 mod 60))"
    "dec_digits 2 (nat (sod s mod 60)) = dec_digits 2 (nat (sod t mod 60))"
    "fraction (nat (s mod 1000000000)) = fraction (nat (t mod 1000000000))"
    by simp_all
  have "y = y'" using digits_int_inj [OF parts(1)] ys yt r [OF assms(1)] r [OF assms(2)] by simp
  moreover have "m = m'" using digits_int_inj [OF parts(2)] civil_bounds [OF s] civil_bounds [OF t] by simp
  moreover have "d = d'" using digits_int_inj [OF parts(3)] civil_bounds [OF s] civil_bounds [OF t] by simp
  ultimately have days: "days s = days t" using s t by (intro civil_date_inj) simp
  have "sod x div 3600 < 100" "0 \<le> sod x div 3600" for x using sod [of x] by linarith+
  then have h: "sod s div 3600 = sod t div 3600" using digits_int_inj [OF parts(4)] by simp
  have m60: "0 \<le> x mod 60" "x mod 60 < 10 ^ 2" for x :: int
    using pos_mod_bound [of 60 x] pos_mod_sign [of 60 x] by simp_all
  have mi: "sod s div 60 mod 60 = sod t div 60 mod 60" by (rule digits_int_inj [OF parts(5) m60 m60])
  have se: "sod s mod 60 = sod t mod 60" by (rule digits_int_inj [OF parts(6) m60 m60])
  have "x = 3600 * (x div 3600) + 60 * (x div 60 mod 60) + x mod 60" for x :: int
  proof -
    have "x div 3600 = x div 60 div 60" using zdiv_zmult2_eq [of 60 x 60] by simp
    moreover note div_mult_mod_eq [of x 60] div_mult_mod_eq [of "x div 60" 60]
    ultimately show ?thesis by linarith
  qed
  with h mi se have "sod s = sod t" by metis
  with days have "s div 1000000000 = t div 1000000000"
    unfolding days_def sod_def by (metis div_mult_mod_eq)
  moreover have "s mod 1000000000 = t mod 1000000000" using fraction_inj [OF parts(7)]
    by (simp add: nat_less_iff eq_nat_nat_iff)
  ultimately show ?thesis by (metis div_mult_mod_eq)
qed

end
