(* ===== verification/Json.thy ===== *)
theory Json
  imports Instants "HOL-Library.List_Lexorder" "HOL-Library.Char_ord"
begin

text \<open>
  \<open>encoding/json\<close> at the level of values. A document is a \<open>json\<close> value (the text syntax, which
  the standard library scans, is not part of the model); a string that is the RFC 3339 form of an
  instant is the leaf \<open>JTime\<close>, every other string is \<open>JStr\<close>. Decoding into a struct follows the
  package: keys match field names exactly or under case folding, a later key overrides an earlier
  one, \<open>null\<close> leaves a field as it is, unknown keys are ignored and a value of the wrong type is an
  error. Strings are valid UTF-8: they come out of JSON documents or are made by the program.
\<close>

section \<open>Values\<close>

datatype json =
    JNull
  | JBool bool
  | JNum string
  | JStr string
  | JTime time
  | JArr "json list"
  | JObj "(string \<times> json) list"

definition json_error :: err where
  "json_error = ErrMsg ''json: cannot unmarshal''"

definition marshal_time :: "time \<Rightarrow> json res" where
  "marshal_time t = (if year_ok t then Inr (JTime t) else Inl (ErrMsg ''Time.MarshalJSON: year outside of range [0,9999]''))"

section \<open>Decoding into structs\<close>

text \<open>
  \<open>foldName\<close>: letters fold to upper case; among the non-ASCII runes, only the long s and the Kelvin
  sign fold to an ASCII letter.
\<close>

definition ascii_upper :: "char \<Rightarrow> char" where
  "ascii_upper c = (if 97 \<le> (of_char c :: nat) \<and> (of_char c :: nat) \<le> 122
                    then char_of ((of_char c :: nat) - 32) else c)"

fun fold_name :: "string \<Rightarrow> string" where
  "fold_name [] = []"
| "fold_name (a # s) =
     (if a = CHR 0xC5 \<and> HasPrefix s [CHR 0xBF] then CHR ''S'' # fold_name (drop 1 s)
      else if a = CHR 0xE2 \<and> HasPrefix s [CHR 0x84, CHR 0xAA] then CHR ''K'' # fold_name (drop 2 s)
      else ascii_upper a # fold_name s)"

fun assign_string :: "json \<Rightarrow> string \<Rightarrow> string res" where
  "assign_string JNull cur = Inr cur"
| "assign_string (JStr s) cur = Inr s"
| "assign_string (JTime t) cur = Inr (rfc3339 t)"
| "assign_string _ cur = Inl json_error"

fun assign_bool :: "json \<Rightarrow> bool \<Rightarrow> bool res" where
  "assign_bool JNull cur = Inr cur"
| "assign_bool (JBool b) cur = Inr b"
| "assign_bool _ cur = Inl json_error"

fun assign_time :: "json \<Rightarrow> time \<Rightarrow> time res" where
  "assign_time JNull cur = Inr cur"
| "assign_time (JTime t) cur = Inr t"
| "assign_time _ cur = Inl json_error"

fun decode_field ::
  "(json \<Rightarrow> 'a \<Rightarrow> 'a res) \<Rightarrow> string \<Rightarrow> (string \<times> json) list \<Rightarrow> 'a \<Rightarrow> 'a res" where
  "decode_field asg name [] cur = Inr cur"
| "decode_field asg name ((k, v) # kvs) cur =
     (if fold_name k = fold_name name
      then (case asg v cur of Inl e \<Rightarrow> Inl e | Inr x \<Rightarrow> decode_field asg name kvs x)
      else decode_field asg name kvs cur)"

fun json_object :: "json \<Rightarrow> (string \<times> json) list res" where
  "json_object (JObj kvs) = Inr kvs"
| "json_object JNull = Inr []"
| "json_object _ = Inl json_error"

abbreviation string_field :: "string \<Rightarrow> (string \<times> json) list \<Rightarrow> string res" where
  "string_field name kvs \<equiv> decode_field assign_string name kvs []"

abbreviation bool_field :: "string \<Rightarrow> (string \<times> json) list \<Rightarrow> bool res" where
  "bool_field name kvs \<equiv> decode_field assign_bool name kvs False"

abbreviation time_field :: "string \<Rightarrow> (string \<times> json) list \<Rightarrow> time res" where
  "time_field name kvs \<equiv> decode_field assign_time name kvs zero_time"

section \<open>Maps\<close>

text \<open>\<open>map[string]T\<close> is written with its keys sorted and read key by key.\<close>

fun encode_entries :: "('v \<Rightarrow> json res) \<Rightarrow> (string \<rightharpoonup> 'v) \<Rightarrow> string list \<Rightarrow> (string \<times> json) list res" where
  "encode_entries enc m [] = Inr []"
| "encode_entries enc m (k # ks) =
     (case m k of
        None \<Rightarrow> encode_entries enc m ks
      | Some v \<Rightarrow>
          res_bind (enc v) (\<lambda>j. res_bind (encode_entries enc m ks) (\<lambda>kvs. Inr ((k, j) # kvs))))"

definition encode_map :: "('v \<Rightarrow> json res) \<Rightarrow> (string \<rightharpoonup> 'v) \<Rightarrow> json res" where
  "encode_map enc m =
     res_bind (encode_entries enc m (sorted_list_of_set (dom m))) (\<lambda>kvs. Inr (JObj kvs))"

fun decode_entries ::
  "(json \<Rightarrow> 'v res) \<Rightarrow> (string \<times> json) list \<Rightarrow> (string \<rightharpoonup> 'v) \<Rightarrow> (string \<rightharpoonup> 'v) res" where
  "decode_entries dec [] m = Inr m"
| "decode_entries dec ((k, j) # kvs) m =
     (case dec j of Inl e \<Rightarrow> Inl e | Inr v \<Rightarrow> decode_entries dec kvs (m(k \<mapsto> v)))"

fun assign_map :: "(json \<Rightarrow> 'v res) \<Rightarrow> json \<Rightarrow> (string \<rightharpoonup> 'v) \<Rightarrow> (string \<rightharpoonup> 'v) res" where
  "assign_map dec (JObj kvs) m = decode_entries dec kvs m"
| "assign_map dec JNull m = Inr Map.empty"
| "assign_map dec _ m = Inl json_error"

lemma encode_entries_decode:
  assumes "\<And>v j. enc v = Inr j \<Longrightarrow> dec j = Inr v" and "encode_entries enc m ks = Inr kvs"
    and "set ks \<subseteq> dom m"
  shows "decode_entries dec kvs acc = Inr (acc ++ (m |` set ks))"
  using assms(2,3)
proof (induction ks arbitrary: kvs acc)
  case Nil
  then show ?case by simp
next
  case (Cons k ks)
  then obtain v j kvs' where v: "m k = Some v" and j: "enc v = Inr j"
    and kvs: "encode_entries enc m ks = Inr kvs'" "kvs = (k, j) # kvs'"
    by (auto simp: res_bind_Inr)
  have "acc(k \<mapsto> v) ++ (m |` set ks) = acc ++ (m |` set (k # ks))"
    using v by (auto simp: map_add_def restrict_map_def fun_eq_iff split: option.splits)
  with Cons.IH [OF kvs(1), of "acc(k \<mapsto> v)"] Cons.prems(2) kvs(2) assms(1) [OF j] show ?case
    by (simp del: fun_upd_apply)
qed

lemma map_roundtrip:
  assumes "\<And>v j. enc v = Inr j \<Longrightarrow> dec j = Inr v" and "finite (dom m)" and "encode_map enc m = Inr j"
  shows "assign_map dec j Map.empty = Inr m"
proof -
  from assms(3) obtain kvs where "encode_entries enc m (sorted_list_of_set (dom m)) = Inr kvs"
    and j: "j = JObj kvs" by (auto simp: encode_map_def res_bind_Inr)
  with encode_entries_decode [where dec = dec and acc = Map.empty, OF assms(1) this(1)] assms(2)
  show ?thesis
    by (simp add: restrict_map_def) (auto simp: fun_eq_iff domIff)
qed

end
