(* ===== verification/JsonText.thy ===== *)
theory JsonText
  imports Json
begin

text \<open>
  The text \<open>json.Marshal\<close> writes for strings and for flat structs of strings and instants, byte by
  byte, as far as the program signs it: quoting with the HTML escapes, the \<open>\u\<close> escapes of control
  characters, U+2028 and U+2029, and U+FFFD for a byte that is not UTF-8. The scanner of JSON strings undoes it.
\<close>

section \<open>UTF-8\<close>

definition in_range :: "nat \<Rightarrow> nat \<Rightarrow> char \<Rightarrow> bool" where
  "in_range a b c \<longleftrightarrow> a \<le> of_char c \<and> of_char c \<le> b"

abbreviation ascii :: "char \<Rightarrow> bool" where
  "ascii c \<equiv> of_char c < (128::nat)"

text \<open>What a leading byte announces: the size of its rune and the range of the next byte.\<close>

definition rune_lead :: "char \<Rightarrow> nat \<times> nat \<times> nat" where
  "rune_lead a =
     (if in_range 0xC2 0xDF a then (2, 0x80, 0xBF)
      else if in_range 0xE0 0xEF a
      then (3, if a = CHR 0xE0 then 0xA0 else 0x80, if a = CHR 0xED then 0x9F else 0xBF)
      else if in_range 0xF0 0xF4 a
      then (4, if a = CHR 0xF0 then 0x90 else 0x80, if a = CHR 0xF4 then 0x8F else 0xBF)
      else (0, 0, 0))"

text \<open>The size of the rune at the front of a string whose first byte is not ASCII; 0 for none.\<close>

fun rune_size :: "string \<Rightarrow> nat" where
  "rune_size (a # b # s) =
     (let (n, lo, hi) = rune_lead a in
      if n \<noteq> 0 \<and> in_range lo hi b \<and> n - 2 \<le> length s \<and> list_all (in_range 0x80 0xBF) (take (n - 2) s)
      then n else 0)"
| "rune_size _ = 0"

function valid_utf8 :: "string \<Rightarrow> bool" where
  "valid_utf8 [] = True"
| "valid_utf8 (c # cs) =
     (if ascii c then valid_utf8 cs
      else rune_size (c # cs) \<noteq> 0 \<and> valid_utf8 (drop (rune_size (c # cs) - 1) cs))"
  by pat_completeness auto
termination by (relation "measure length") auto

section \<open>Quoting\<close>

definition escape_ascii :: "char \<Rightarrow> string" where
  "escape_ascii c =
     (if c = CHR 0x22 \<or> c = CHR 0x5C then [CHR 0x5C, c]
      else if c = CHR 0x08 then [CHR 0x5C, CHR ''b'']
      else if c = CHR 0x0C then [CHR 0x5C, CHR ''f'']
      else if c = CHR 0x0A then [CHR 0x5C, CHR ''n'']
      else if c = CHR 0x0D then [CHR 0x5C, CHR ''r'']
      else if c = CHR 0x09 then [CHR 0x5C, CHR ''t'']
      else if of_char c < (32::nat) \<or> c = CHR ''<'' \<or> c = CHR ''>'' \<or> c = CHR ''&''
      then [CHR 0x5C, CHR ''u'', CHR ''0'', CHR ''0'',
            hex_digit (of_char c div 16), hex_digit (of_char c mod 16)]
      else [c])"

definition escape_rune :: "string \<Rightarrow> string" where
  "escape_rune r =
     (if r = [CHR 0xE2, CHR 0x80, CHR 0xA8] then CHR 0x5C # ''u2028''
      else if r = [CHR 0xE2, CHR 0x80, CHR 0xA9] then CHR 0x5C # ''u2029''
      else r)"

function escape_string :: "string \<Rightarrow> string" where
  "escape_string [] = []"
| "escape_string (c # cs) =
     (if ascii c then escape_ascii c @ escape_string cs
      else if rune_size (c # cs) = 0 then (CHR 0x5C # ''ufffd'') @ escape_string cs
      else escape_rune (take (rune_size (c # cs)) (c # cs))
           @ escape_string (drop (rune_size (c # cs) - 1) cs))"
  by pat_completeness auto
termination by (relation "measure length") auto

definition quote_json :: "string \<Rightarrow> string" where
  "quote_json s = CHR 0x22 # escape_string s @ [CHR 0x22]"

text \<open>A struct all of whose members are already texts, in declaration order.\<close>

fun join_comma :: "string list \<Rightarrow> string" where
  "join_comma [] = []"
| "join_comma [w] = w"
| "join_comma (w # ws) = w @ CHR '','' # join_comma ws"

definition object_text :: "(string \<times> string) list \<Rightarrow> string" where
  "object_text kvs =
     CHR 0x7B # join_comma (map (\<lambda>(k, v). quote_json k @ CHR '':'' # v) kvs) @ [CHR 0x7D]"

section \<open>Reading a string back\<close>

text \<open>
  The value of a string up to its closing quote, with the text that follows, as \<open>encoding/json\<close> reads
  it: control characters and unknown escapes are errors, a surrogate pair is one rune, a lone surrogate
  or a byte that is not UTF-8 becomes U+FFFD.
\<close>

definition utf8_encode :: "nat \<Rightarrow> string" where
  "utf8_encode n =
     (if n < 0x80 then [char_of n]
      else if n < 0x800 then [char_of (0xC0 + n div 64), char_of (0x80 + n mod 64)]
      else if n < 0x10000
      then [char_of (0xE0 + n div 4096), char_of (0x80 + n div 64 mod 64), char_of (0x80 + n mod 64)]
      else [char_of (0xF0 + n div 262144), char_of (0x80 + n div 4096 mod 64),
            char_of (0x80 + n div 64 mod 64), char_of (0x80 + n mod 64)])"

definition rune_error :: string where
  "rune_error = [CHR 0xEF, CHR 0xBF, CHR 0xBD]"

fun hex4 :: "string \<Rightarrow> nat option" where
  "hex4 (a # b # c # d # s) =
     (case (hex_value a, hex_value b, hex_value c, hex_value d) of
        (Some w, Some x, Some y, Some z) \<Rightarrow> Some (4096 * w + 256 * x + 16 * y + z)
      | _ \<Rightarrow> None)"
| "hex4 _ = None"

text \<open>The rune of a \<open>\u\<close> escape and the number of further bytes it uses up.\<close>

definition unescape_u :: "string \<Rightarrow> (string \<times> nat) option" where
  "unescape_u ds =
     (case hex4 ds of
        None \<Rightarrow> None
      | Some u \<Rightarrow>
          if u < 0xD800 \<or> 0xDFFF < u then Some (utf8_encode u, 4)
          else (case if take 2 (drop 4 ds) = [CHR 0x5C, CHR ''u''] then hex4 (drop 6 ds) else None of
                  Some v \<Rightarrow>
                    if u < 0xDC00 \<and> 0xDC00 \<le> v \<and> v \<le> 0xDFFF
                    then Some (utf8_encode (0x10000 + 1024 * (u - 0xD800) + (v - 0xDC00)), 10)
                    else Some (rune_error, 4)
                | None \<Rightarrow> Some (rune_error, 4)))"

definition unescape_letter :: "char \<Rightarrow> char option" where
  "unescape_letter x =
     (if x = CHR ''b'' then Some (CHR 0x08) else if x = CHR ''f'' then Some (CHR 0x0C)
      else if x = CHR ''n'' then Some (CHR 0x0A) else if x = CHR ''r'' then Some (CHR 0x0D)
      else if x = CHR ''t'' then Some (CHR 0x09)
      else if x = CHR 0x22 \<or> x = CHR 0x5C \<or> x = CHR ''/'' then Some x else None)"

function scan_string :: "string \<Rightarrow> (string \<times> string) option" where
  "scan_string [] = None"
| "scan_string (c # cs) =
     (if c = CHR 0x22 then Some ([], cs)
      else if c = CHR 0x5C then
        (case cs of
           [] \<Rightarrow> None
         | x # ds \<Rightarrow>
             if x = CHR ''u'' then
               (case unescape_u ds of
                  None \<Rightarrow> None
                | Some (w, n) \<Rightarrow> map_option (apfst ((@) w)) (scan_string (drop n ds)))
             else (case unescape_letter x of
                     None \<Rightarrow> None
                   | Some y \<Rightarrow> map_option (apfst (Cons y)) (scan_string ds)))
      else if of_char c < (32::nat) then None
      else if ascii c then map_option (apfst (Cons c)) (scan_string cs)
      else if rune_size (c # cs) = 0 then map_option (apfst ((@) rune_error)) (scan_string cs)
      else map_option (apfst ((@) (take (rune_size (c # cs)) (c # cs))))
             (scan_string (drop (rune_size (c # cs) - 1) cs)))"
  by pat_completeness auto
termination by (relation "measure length") (auto simp del: rune_size.simps)

lemma char_hex_parts: "char_of (16 * ((of_char c :: nat) div 16) + of_char c mod 16) = (c :: char)"
  by simp

lemma append_single: "(@) [c] = Cons c"
  by (rule ext) simp

section \<open>Quoting loses nothing\<close>

declare rune_size.simps [simp del]

lemma scan_u:
  assumes "hex4 ds = Some u" and "u < 0xD800"
  shows "scan_string (CHR 0x5C # CHR ''u'' # ds) = map_option (apfst ((@) (utf8_encode u))) (scan_string (drop 4 ds))"
  using assms by (simp add: unescape_u_def)

lemma encode_separators:
  "utf8_encode 0x2028 = [CHR 0xE2, CHR 0x80, CHR 0xA8]" "utf8_encode 0x2029 = [CHR 0xE2, CHR 0x80, CHR 0xA9]"
  by (simp_all add: utf8_encode_def char_of_def bit_Suc_0_iff)

lemma scan_ascii:
  assumes "ascii c"
  shows "scan_string (escape_ascii c @ r) = map_option (apfst (Cons c)) (scan_string r)"
proof -
  let ?n = "of_char c :: nat"
  have n: "?n div 16 < 16" "?n mod 16 < 16" by (simp_all add: less_mult_imp_div_less)
  let ?u = "CHR 0x5C # CHR ''u'' # CHR ''0'' # CHR ''0'' # hex_digit (?n div 16) # hex_digit (?n mod 16) # r"
  have "hex_value CHR ''0'' = Some 0" by (simp add: hex_value_def)
  then have "hex4 (CHR ''0'' # CHR ''0'' # hex_digit (?n div 16) # hex_digit (?n mod 16) # r) = Some ?n"
    using n by (simp add: hex_digit_value)
  from scan_u [OF this] have u: "scan_string ?u = map_option (apfst (Cons c)) (scan_string r)"
    using assms by (simp add: utf8_encode_def append_single)
  show ?thesis
  proof (cases "c \<in> {CHR 0x22, CHR 0x5C, CHR 0x08, CHR 0x0C, CHR 0x0A, CHR 0x0D, CHR 0x09}")
    case True
    then show ?thesis
      by (elim insertE emptyE; hypsubst) (simp_all add: escape_ascii_def unescape_letter_def)
  next
    case False
    show ?thesis
    proof (cases "?n < 32 \<or> c = CHR ''<'' \<or> c = CHR ''>'' \<or> c = CHR ''&''")
      case True
      with False have "escape_ascii c @ r = ?u" by (simp add: escape_ascii_def)
      then show ?thesis by (simp only: u)
    next
      case plain: False
      with False have e: "escape_ascii c = [c]" by (simp add: escape_ascii_def)
      show ?thesis using False plain assms by (simp add: e)
    qed
  qed
qed

lemma rune_lead_bounds:
  assumes "rune_lead a = (n, lo, hi)" and "n \<noteq> 0"
  shows "2 \<le> n" "128 \<le> lo" "\<not> ascii a"
  using assms by (auto simp: rune_lead_def in_range_def split: if_splits)

lemma rune_size_bounds:
  assumes "rune_size s \<noteq> 0"
  shows "2 \<le> rune_size s" "rune_size s \<le> length s" "\<forall>x \<in> set (take (rune_size s) s). \<not> ascii x"
proof -
  obtain a b s' where s: "s = a # b # s'" using assms by (cases s rule: rune_size.cases) (auto simp: rune_size.simps)
  obtain n lo hi where l: "rune_lead a = (n, lo, hi)" by (cases "rune_lead a")
  with assms s have n: "rune_size s = n" "n \<noteq> 0" and b: "in_range lo hi b" and le: "n - 2 \<le> length s'"
    and c: "list_all (in_range 0x80 0xBF) (take (n - 2) s')" by (auto simp: rune_size.simps split: if_splits)
  note bounds = rune_lead_bounds [OF l n(2)]
  from bounds(1) n s le show "2 \<le> rune_size s" "rune_size s \<le> length s" by auto
  have "take n s = a # b # take (n - 2) s'"
    using bounds(1) by (simp add: s take_Cons' numeral_2_eq_2)
  moreover have "\<not> ascii b" using b bounds(2) by (auto simp: in_range_def)
  ultimately show "\<forall>x \<in> set (take (rune_size s) s). \<not> ascii x"
    using bounds(3) c by (auto simp: n list_all_iff in_range_def)
qed

lemma rune_size_prefix:
  assumes "rune_size s \<noteq> 0"
  shows "rune_size (take (rune_size s) s @ r) = rune_size s"
proof -
  obtain a b s' where s: "s = a # b # s'" using assms by (cases s rule: rune_size.cases) (auto simp: rune_size.simps)
  obtain n lo hi where l: "rune_lead a = (n, lo, hi)" by (cases "rune_lead a")
  with assms s have n: "rune_size s = n" "n \<noteq> 0" and b: "in_range lo hi b" and le: "n - 2 \<le> length s'"
    and c: "list_all (in_range 0x80 0xBF) (take (n - 2) s')" by (auto simp: rune_size.simps split: if_splits)
  have "2 \<le> n" by (rule rune_lead_bounds [OF l n(2)])
  then have "take n s @ r = a # b # take (n - 2) s' @ r"
    by (simp add: s take_Cons' numeral_2_eq_2)
  with l n b le c show ?thesis by (simp add: rune_size.simps)
qed

lemma scan_rune:
  assumes "rune_size s \<noteq> 0" and "w = take (rune_size s) s"
  shows "scan_string (escape_rune w @ r) = map_option (apfst ((@) w)) (scan_string r)"
proof -
  note b = rune_size_bounds [OF assms(1)]
  consider "w = [CHR 0xE2, CHR 0x80, CHR 0xA8]" | "w = [CHR 0xE2, CHR 0x80, CHR 0xA9]" | "escape_rune w = w"
    unfolding escape_rune_def by argo
  then show ?thesis
  proof cases
    case 1
    have "hex4 (CHR ''2'' # CHR ''0'' # CHR ''2'' # CHR ''8'' # r) = Some 0x2028" by (simp add: hex_value_def)
    from scan_u [OF this] 1 show ?thesis by (simp add: escape_rune_def encode_separators)
  next
    case 2
    have "hex4 (CHR ''2'' # CHR ''0'' # CHR ''2'' # CHR ''9'' # r) = Some 0x2029" by (simp add: hex_value_def)
    from scan_u [OF this] 2 show ?thesis by (simp add: escape_rune_def encode_separators)
  next
    case 3
    have n: "rune_size (w @ r) = length w" "length w \<noteq> 0"
      using rune_size_prefix [OF assms(1)] b(1,2) assms(2) by auto
    then obtain c w' where w: "w = c # w'" by (cases w) auto
    have "c \<in> set (take (rune_size s) s)" using assms(2) w by (metis list.set_intros(1))
    then have "\<not> ascii c" using b(3) by blast
    moreover from this have "c \<noteq> CHR 0x22" "c \<noteq> CHR 0x5C" by auto
    moreover have "escape_rune (c # w') = c # w'" using 3 by (simp only: w)
    ultimately show ?thesis using n by (simp add: w)
  qed
qed

lemma scan_escaped: "valid_utf8 s \<Longrightarrow> scan_string (escape_string s @ CHR 0x22 # r) = Some (s, r)"
proof (induction s rule: escape_string.induct)
  case (2 c cs)
  show ?case
  proof (cases "ascii c")
    case True
    with 2 show ?thesis by (simp add: scan_ascii)
  next
    case False
    let ?n = "rune_size (c # cs)"
    from False 2(4) have n: "?n \<noteq> 0" by simp
    note b = rune_size_bounds [OF n]
    have e: "escape_string (c # cs)
        = escape_rune (take ?n (c # cs)) @ escape_string (drop (?n - 1) cs)"
      using False n by (simp only: escape_string.simps if_False)
    have v: "valid_utf8 (drop (?n - 1) cs)"
      using 2(4) False by (simp only: valid_utf8.simps if_False)
    have "take ?n (c # cs) @ drop (?n - 1) cs = c # cs"
      using b(1) by (simp only: take_Cons') simp
    then show ?thesis
      unfolding e append_assoc scan_rune [OF n refl] 2(3) [OF False n v]
      by (simp only: option.map apfst_conv)
  qed
qed simp

lemma quote_inj:
  assumes "valid_utf8 s" and "valid_utf8 t" and "quote_json s @ r = quote_json t @ r'"
  shows "s = t \<and> r = r'"
proof -
  have "escape_string s @ CHR 0x22 # r = escape_string t @ CHR 0x22 # r'"
    using assms(3) unfolding quote_json_def by simp
  with scan_escaped [OF assms(1), of r] have "scan_string (escape_string t @ CHR 0x22 # r') = Some (s, r)"
    by (simp only:)
  with scan_escaped [OF assms(2), of r'] show ?thesis by (simp only: option.inject prod.inject)
qed

end
