(* ===== verification/JsonParse.thy ===== *)
theory JsonParse
  imports JsonText
begin

text \<open>
  Reading JSON text, as \<open>encoding/json\<close> does: values with their nesting limit, and the members of an
  object with the very bytes each value was written in, which is what \<open>json.RawMessage\<close> keeps. A
  writer for the values the program sends and the theorem that reading undoes it.
\<close>

section \<open>Scanning\<close>

definition json_space :: "char \<Rightarrow> bool" where
  "json_space c \<longleftrightarrow> c = CHR '' '' \<or> c = CHR 0x09 \<or> c = CHR 0x0A \<or> c = CHR 0x0D"

abbreviation skip_space :: "string \<Rightarrow> string" where
  "skip_space \<equiv> dropWhile json_space"

definition digit :: "char \<Rightarrow> bool" where
  "digit c \<longleftrightarrow> in_range 48 57 c"

text \<open>An optional part of a number: a mark, and then at least one digit.\<close>

definition scan_digits :: "string \<Rightarrow> (string \<times> string) option" where
  "scan_digits s = (if takeWhile digit s = [] then None else Some (takeWhile digit s, dropWhile digit s))"

definition scan_fraction :: "string \<Rightarrow> (string \<times> string) option" where
  "scan_fraction s =
     (case s of
        [] \<Rightarrow> Some ([], [])
      | c # cs \<Rightarrow>
          if c = CHR ''.'' then map_option (apfst (Cons c)) (scan_digits cs) else Some ([], s))"

definition scan_exponent :: "string \<Rightarrow> (string \<times> string) option" where
  "scan_exponent s =
     (case s of
        [] \<Rightarrow> Some ([], [])
      | c # cs \<Rightarrow>
          if c = CHR ''e'' \<or> c = CHR ''E'' then
            (case cs of
               [] \<Rightarrow> None
             | x # xs \<Rightarrow>
                 if x = CHR ''+'' \<or> x = CHR ''-'' then map_option (apfst (\<lambda>w. c # x # w)) (scan_digits xs)
                 else map_option (apfst (Cons c)) (scan_digits cs))
          else Some ([], s))"

definition scan_integer :: "string \<Rightarrow> (string \<times> string) option" where
  "scan_integer s =
     (case s of
        [] \<Rightarrow> None
      | c # cs \<Rightarrow> if c = CHR ''0'' then Some ([c], cs) else scan_digits s)"

definition scan_number :: "string \<Rightarrow> (string \<times> string) option" where
  "scan_number s =
     (let (sign, s) = (if HasPrefix s ''-'' then (''-'', tl s) else ([], s)) in
      case scan_integer s of
        None \<Rightarrow> None
      | Some (i, s1) \<Rightarrow>
          (case scan_fraction s1 of
             None \<Rightarrow> None
           | Some (f, s2) \<Rightarrow>
               (case scan_exponent s2 of
                  None \<Rightarrow> None
                | Some (x, s3) \<Rightarrow> Some (sign @ i @ f @ x, s3))))"

definition scan_literal :: "string \<Rightarrow> (json \<times> string) option" where
  "scan_literal s =
     (if HasPrefix s ''null'' then Some (JNull, drop 4 s)
      else if HasPrefix s ''true'' then Some (JBool True, drop 4 s)
      else if HasPrefix s ''false'' then Some (JBool False, drop 5 s)
      else map_option (apfst JNum) (scan_number s))"

section \<open>Values\<close>

text \<open>
  A value and the text after it. \<open>d\<close> is how many more objects and arrays may be opened; \<open>n\<close> is fuel,
  of which every call uses one; every second call at least consumes a byte, so one more than twice the
  length of the text is enough. Members carry their key, their value and the bytes of the value.
\<close>

type_synonym member = "string \<times> json \<times> string"

definition member_pair :: "member \<Rightarrow> string \<times> json" where
  "member_pair m = (fst m, fst (snd m))"

fun json_value :: "nat \<Rightarrow> nat \<Rightarrow> string \<Rightarrow> (json \<times> string) option"
  and json_members :: "nat \<Rightarrow> nat \<Rightarrow> string \<Rightarrow> (member list \<times> string) option"
  and json_elements :: "nat \<Rightarrow> nat \<Rightarrow> string \<Rightarrow> (json list \<times> string) option" where
  "json_value 0 d s = None"
| "json_value (Suc n) d s =
     (case skip_space s of
        [] \<Rightarrow> None
      | c # cs \<Rightarrow>
          if c = CHR 0x22 then map_option (apfst JStr) (scan_string cs)
          else if c = CHR 0x7B then
            (if d = 0 then None
             else if HasPrefix (skip_space cs) [CHR 0x7D] then Some (JObj [], tl (skip_space cs))
             else map_option (apfst (\<lambda>ms. JObj (map member_pair ms))) (json_members n (d - 1) cs))
          else if c = CHR ''['' then
            (if d = 0 then None
             else if HasPrefix (skip_space cs) '']'' then Some (JArr [], tl (skip_space cs))
             else map_option (apfst JArr) (json_elements n (d - 1) cs))
          else scan_literal (c # cs))"
| "json_members 0 d s = None"
| "json_members (Suc n) d s =
     (if \<not> HasPrefix (skip_space s) [CHR 0x22] then None
      else (case scan_string (tl (skip_space s)) of
              None \<Rightarrow> None
            | Some (k, r) \<Rightarrow>
                if \<not> HasPrefix (skip_space r) '':'' then None
                else (let t = skip_space (tl (skip_space r)) in
                      case json_value n d t of
                        None \<Rightarrow> None
                      | Some (v, r') \<Rightarrow>
                          (let m = (k, v, take (length t - length r') t) in
                           case skip_space r' of
                             [] \<Rightarrow> None
                           | x # xs \<Rightarrow>
                               if x = CHR '','' then map_option (apfst (Cons m)) (json_members n d xs)
                               else if x = CHR 0x7D then Some ([m], xs) else None))))"
| "json_elements 0 d s = None"
| "json_elements (Suc n) d s =
     (case json_value n d s of
        None \<Rightarrow> None
      | Some (v, r) \<Rightarrow>
          (case skip_space r of
             [] \<Rightarrow> None
           | x # xs \<Rightarrow>
               if x = CHR '','' then map_option (apfst (Cons v)) (json_elements n d xs)
               else if x = CHR '']'' then Some ([v], xs) else None))"

definition max_depth :: nat where
  "max_depth = 10000"

definition json_syntax_error :: err where
  "json_syntax_error = ErrMsg ''invalid character''"

text \<open>\<open>NewDecoder(r).Decode\<close> reads one value and ignores what follows; \<open>Unmarshal\<close> wants nothing to.\<close>

definition decode_text :: "string \<Rightarrow> json res" where
  "decode_text s =
     (case json_value (Suc (2 * length s)) max_depth s of
        None \<Rightarrow> Inl json_syntax_error
      | Some (v, r) \<Rightarrow> Inr v)"

definition unmarshal_text :: "string \<Rightarrow> json res" where
  "unmarshal_text s =
     (case json_value (Suc (2 * length s)) max_depth s of
        None \<Rightarrow> Inl json_syntax_error
      | Some (v, r) \<Rightarrow> if skip_space r = [] then Inr v else Inl json_syntax_error)"

text \<open>The members of the object a text starts with, none for \<open>null\<close>.\<close>

definition decode_members :: "string \<Rightarrow> member list res" where
  "decode_members s =
     res_bind (decode_text s) (\<lambda>v.
       case v of
         JObj [] \<Rightarrow> Inr []
       | JObj _ \<Rightarrow>
           (case json_members (2 * length s) (max_depth - 1) (tl (skip_space s)) of
              None \<Rightarrow> Inl json_syntax_error
            | Some (ms, r) \<Rightarrow> Inr ms)
       | JNull \<Rightarrow> Inr []
       | _ \<Rightarrow> Inl json_error)"

section \<open>Writing\<close>

fun json_write :: "json \<Rightarrow> string" where
  "json_write JNull = ''null''"
| "json_write (JBool b) = (if b then ''true'' else ''false'')"
| "json_write (JNum w) = w"
| "json_write (JStr s) = quote_json s"
| "json_write (JTime t) = quote_json (rfc3339 t)"
| "json_write (JArr vs) = CHR ''['' # join_comma (map json_write vs) @ '']''"
| "json_write (JObj kvs) = object_text (map (\<lambda>kv. (fst kv, json_write (snd kv))) kvs)"

text \<open>The values that come back as they were written: numbers and instants apart, with UTF-8 strings.\<close>

fun readable :: "json \<Rightarrow> bool" where
  "readable JNull = True"
| "readable (JBool b) = True"
| "readable (JNum w) = False"
| "readable (JStr s) = valid_utf8 s"
| "readable (JTime t) = False"
| "readable (JArr vs) = list_all readable vs"
| "readable (JObj kvs) = list_all (\<lambda>kv. valid_utf8 (fst kv) \<and> readable (snd kv)) kvs"

fun json_depth :: "json \<Rightarrow> nat" where
  "json_depth (JArr vs) = Suc (fold max (map json_depth vs) 0)"
| "json_depth (JObj kvs) = Suc (fold max (map (\<lambda>kv. json_depth (snd kv)) kvs) 0)"
| "json_depth _ = 0"

section \<open>Reading undoes writing\<close>

lemma join_comma_Cons: "ws \<noteq> [] \<Longrightarrow> join_comma (w # ws) = w @ CHR '','' # join_comma ws"
  by (cases ws) auto

lemma quote_front: "quote_json s @ r = CHR 0x22 # escape_string s @ CHR 0x22 # r"
  by (simp add: quote_json_def)

lemma space_free [simp]:
  "\<not> json_space (CHR 0x22)" "\<not> json_space (CHR 0x7B)" "\<not> json_space (CHR 0x7D)" "\<not> json_space (CHR ''['')"
  "\<not> json_space (CHR '']'')" "\<not> json_space (CHR '','')" "\<not> json_space (CHR '':'')"
  by (simp_all add: json_space_def)

lemma skip_written: "readable v \<Longrightarrow> skip_space (json_write v @ r) = json_write v @ r"
  by (cases v) (auto simp: quote_front object_text_def json_space_def)

lemma written_value:
  assumes "json_value n d (json_write v @ x # xs) = Some (v, x # xs)" and "readable v" and "valid_utf8 k" and "\<not> json_space x"
  shows "json_members (Suc n) d (quote_json k @ CHR '':'' # json_write v @ x # xs)
     = (if x = CHR '','' then map_option (apfst (Cons (k, v, json_write v))) (json_members n d xs)
        else if x = CHR 0x7D then Some ([(k, v, json_write v)], xs) else None)"
  using assms(1,4) skip_written [OF assms(2), of "x # xs"]
  by (simp add: quote_front scan_escaped [OF assms(3)] Let_def)

lemma written_members:
  assumes "\<And>kv n r. kv \<in> set kvs \<Longrightarrow> 2 * length (json_write (snd kv) @ r) < n
             \<Longrightarrow> json_value n d (json_write (snd kv) @ r) = Some (snd kv, r)"
    and "\<forall>kv \<in> set kvs. valid_utf8 (fst kv) \<and> readable (snd kv)"
    and "kvs \<noteq> []" and "2 * length (join_comma (map (\<lambda>kv. quote_json (fst kv) @ CHR '':'' # json_write (snd kv)) kvs) @ CHR 0x7D # r) < n"
  shows "json_members n d (join_comma (map (\<lambda>kv. quote_json (fst kv) @ CHR '':'' # json_write (snd kv)) kvs) @ CHR 0x7D # r)
         = Some (map (\<lambda>kv. (fst kv, snd kv, json_write (snd kv))) kvs, r)"
  using assms
proof (induction kvs arbitrary: n)
  case (Cons kv kvs)
  let ?t = "\<lambda>kv. quote_json (fst kv) @ CHR '':'' # json_write (snd kv)"
  obtain m where n: "n = Suc m" using Cons.prems(4) by (cases n) auto
  have k: "valid_utf8 (fst kv)" "readable (snd kv)" using Cons.prems(2) by auto
  have v: "json_value m d (json_write (snd kv) @ w) = Some (snd kv, w)" if "2 * length (json_write (snd kv) @ w) < m" for w
    using Cons.prems(1) [of kv w m] that by simp
  show ?case
  proof (cases "kvs = []")
    case True
    have "json_value m d (json_write (snd kv) @ CHR 0x7D # r) = Some (snd kv, CHR 0x7D # r)"
      using Cons.prems(4) by (intro v) (simp add: True n quote_front)
    from written_value [OF this k(2,1)] show ?thesis by (simp add: True n)
  next
    case False
    let ?r = "join_comma (map ?t kvs) @ CHR 0x7D # r"
    have j: "join_comma (map ?t (kv # kvs)) @ CHR 0x7D # r = ?t kv @ CHR '','' # ?r"
      using False by (simp add: join_comma_Cons)
    note len = Cons.prems(4) [unfolded j]
    have "json_value m d (json_write (snd kv) @ CHR '','' # ?r) = Some (snd kv, CHR '','' # ?r)"
      using len by (intro v) (simp add: n quote_front)
    from written_value [OF this k(2,1)]
    have "json_members n d (?t kv @ CHR '','' # ?r)
        = map_option (apfst (Cons (fst kv, snd kv, json_write (snd kv)))) (json_members m d ?r)" by (simp add: n)
    moreover have "json_members m d ?r = Some (map (\<lambda>kv. (fst kv, snd kv, json_write (snd kv))) kvs, r)"
      by (rule Cons.IH) (use Cons.prems(1,2) False len n in \<open>auto simp: quote_front\<close>)
    ultimately show ?thesis unfolding j by simp
  qed
qed simp

lemma written_elements:
  assumes "\<And>v n r. v \<in> set vs \<Longrightarrow> 2 * length (json_write v @ r) < n
             \<Longrightarrow> json_value n d (json_write v @ r) = Some (v, r)"
    and "vs \<noteq> []" and "Suc (2 * length (join_comma (map json_write vs) @ CHR '']'' # r)) < n"
  shows "json_elements n d (join_comma (map json_write vs) @ CHR '']'' # r) = Some (vs, r)"
  using assms
proof (induction vs arbitrary: n)
  case (Cons v vs)
  obtain m where n: "n = Suc m" using Cons.prems(3) by (cases n) auto
  have v: "json_value m d (json_write v @ w) = Some (v, w)" if "2 * length (json_write v @ w) < m" for w
    using Cons.prems(1) [of v w m] that by simp
  show ?case
  proof (cases "vs = []")
    case True
    have "json_value m d (json_write v @ CHR '']'' # r) = Some (v, CHR '']'' # r)"
      using Cons.prems(3) by (intro v) (simp add: True n)
    then show ?thesis by (simp add: True n)
  next
    case False
    let ?r = "join_comma (map json_write vs) @ CHR '']'' # r"
    have j: "join_comma (map json_write (v # vs)) @ CHR '']'' # r = json_write v @ CHR '','' # ?r"
      using False by (simp add: join_comma_Cons)
    note len = Cons.prems(3) [unfolded j]
    have "json_value m d (json_write v @ CHR '','' # ?r) = Some (v, CHR '','' # ?r)"
      using len by (intro v) (simp add: n)
    moreover have "json_elements m d ?r = Some (vs, r)"
      by (rule Cons.IH) (use Cons.prems(1) False len n in auto)
    ultimately show ?thesis unfolding j by (simp add: n)
  qed
qed simp

lemma depth_member: "x \<in> set xs \<Longrightarrow> f x \<le> fold max (map f xs) (k :: nat)"
proof (induction xs arbitrary: k)
  case (Cons y ys)
  have "k \<le> fold max (map f ys) k" for k :: nat
  proof (induction ys arbitrary: k)
    case (Cons a ys)
    from Cons [of "max (f a) k"] show ?case by simp
  qed simp
  from this [of "max (f y) k"] Cons show ?case by auto
qed simp

lemma value_written:
  "readable v \<Longrightarrow> json_depth v \<le> d \<Longrightarrow> 2 * length (json_write v @ r) < n
   \<Longrightarrow> json_value n d (json_write v @ r) = Some (v, r)"
proof (induction v arbitrary: n d r)
  case JNull
  then show ?case by (cases n) (auto simp: scan_literal_def json_space_def)
next
  case (JBool b)
  then show ?case by (cases n) (auto simp: scan_literal_def json_space_def)
next
  case (JStr s)
  then show ?case by (cases n) (auto simp: quote_front scan_escaped)
next
  case (JArr vs)
  obtain m where n: "n = Suc m" using JArr.prems(3) by (cases n) auto
  obtain d' where d: "d = Suc d'" using JArr.prems(2) by (cases d) auto
  show ?case
  proof (cases "vs = []")
    case True
    then show ?thesis by (simp add: n d)
  next
    case False
    have "json_elements m d' (join_comma (map json_write vs) @ CHR '']'' # r) = Some (vs, r)"
    proof (rule written_elements [OF _ False])
      fix v n w
      assume v: "v \<in> set vs" and l: "2 * length (json_write v @ w) < n"
      have "json_depth v \<le> d'" using depth_member [OF v, of json_depth 0] JArr.prems(2) d by simp
      with JArr.IH [OF v _ _ l] JArr.prems(1) v show "json_value n d' (json_write v @ w) = Some (v, w)"
        by (simp add: list_all_iff)
    qed (use JArr.prems(3) n in simp)
    moreover have "\<not> HasPrefix (skip_space (join_comma (map json_write vs) @ w)) '']''" for w
    proof -
      obtain v vs' where vs: "vs = v # vs'" using False by (cases vs) auto
      then have "readable v" using JArr.prems(1) by simp
      then show ?thesis
        using skip_written [OF \<open>readable v\<close>] by (cases vs'; cases v) (auto simp: vs quote_front object_text_def)
    qed
    ultimately show ?thesis by (simp add: n d)
  qed
next
  case (JObj kvs)
  obtain m where n: "n = Suc m" using JObj.prems(3) by (cases n) auto
  obtain d' where d: "d = Suc d'" using JObj.prems(2) by (cases d) auto
  let ?t = "\<lambda>kv. quote_json (fst kv) @ CHR '':'' # json_write (snd kv)"
  have w: "json_write (JObj kvs) @ r = CHR 0x7B # join_comma (map ?t kvs) @ CHR 0x7D # r"
    by (simp add: object_text_def comp_def split_def)
  show ?case
  proof (cases "kvs = []")
    case True
    then show ?thesis unfolding w by (simp add: n d)
  next
    case False
    have "json_members m d' (join_comma (map ?t kvs) @ CHR 0x7D # r)
        = Some (map (\<lambda>kv. (fst kv, snd kv, json_write (snd kv))) kvs, r)"
    proof (rule written_members [OF _ _ False])
      fix kv n w
      assume kv: "kv \<in> set kvs" and l: "2 * length (json_write (snd kv) @ w) < n"
      have "json_depth (snd kv) \<le> d'"
        using depth_member [OF kv, of "\<lambda>kv. json_depth (snd kv)" 0] JObj.prems(2) d by simp
      moreover have "snd kv \<in> Basic_BNFs.snds kv" by (cases kv) simp
      moreover have "readable (snd kv)" using JObj.prems(1) kv by (simp add: list_all_iff)
      ultimately show "json_value n d' (json_write (snd kv) @ w) = Some (snd kv, w)"
        using l by (intro JObj.IH [OF kv]) simp_all
    qed (use JObj.prems n w in \<open>auto simp: list_all_iff\<close>)
    moreover have "\<not> HasPrefix (skip_space (join_comma (map ?t kvs) @ w)) [CHR 0x7D]" for w
      using False by (cases kvs; cases "tl kvs") (auto simp: quote_front)
    ultimately show ?thesis unfolding w
      by (simp add: n d comp_def member_pair_def)
  qed
qed simp_all

text \<open>The three readers on written text.\<close>

declare json_value.simps [simp del] json_members.simps [simp del] json_elements.simps [simp del]

lemma decode_written:
  "readable v \<Longrightarrow> json_depth v \<le> max_depth \<Longrightarrow> decode_text (json_write v @ r) = Inr v"
  by (simp add: decode_text_def value_written)

lemma unmarshal_written:
  "readable v \<Longrightarrow> json_depth v \<le> max_depth \<Longrightarrow> unmarshal_text (json_write v) = Inr v"
  using value_written [of v max_depth "[]"] by (simp add: unmarshal_text_def)

lemma decode_members_written:
  assumes "readable (JObj kvs)" and "json_depth (JObj kvs) \<le> max_depth"
  shows "decode_members (json_write (JObj kvs) @ r)
         = Inr (map (\<lambda>kv. (fst kv, snd kv, json_write (snd kv))) kvs)"
proof (cases "kvs = []")
  case True
  then show ?thesis using decode_written [OF assms] by (simp add: decode_members_def)
next
  case False
  let ?t = "\<lambda>kv. quote_json (fst kv) @ CHR '':'' # json_write (snd kv)"
  have w: "json_write (JObj kvs) @ r = CHR 0x7B # join_comma (map ?t kvs) @ CHR 0x7D # r"
    by (simp add: object_text_def comp_def split_def)
  have "json_members (2 * length (json_write (JObj kvs) @ r)) (max_depth - 1) (join_comma (map ?t kvs) @ CHR 0x7D # r)
        = Some (map (\<lambda>kv. (fst kv, snd kv, json_write (snd kv))) kvs, r)"
  proof (rule written_members [OF _ _ False])
    fix kv n w
    assume kv: "kv \<in> set kvs" and l: "2 * length (json_write (snd kv) @ w) < n"
    have "json_depth (snd kv) \<le> max_depth - 1"
      using depth_member [OF kv, of "\<lambda>kv. json_depth (snd kv)" 0] assms(2) by simp
    moreover have "readable (snd kv)" using assms(1) kv by (simp add: list_all_iff)
    ultimately show "json_value n (max_depth - 1) (json_write (snd kv) @ w) = Some (snd kv, w)"
      using l by (intro value_written) simp_all
  next
    show "2 * length (join_comma (map ?t kvs) @ CHR 0x7D # r) < 2 * length (json_write (JObj kvs) @ r)"
      unfolding w by simp
  qed (use assms in \<open>auto simp: list_all_iff\<close>)
  moreover have "skip_space (json_write (JObj kvs) @ r) = CHR 0x7B # join_comma (map ?t kvs) @ CHR 0x7D # r"
    unfolding w by simp
  moreover obtain kv kvs' where "kvs = kv # kvs'" using False by (cases kvs) auto
  ultimately show ?thesis
    using decode_written [OF assms, of r] by (simp add: decode_members_def del: json_write.simps)
qed

end
