(* ===== verification/AgentBase.thy ===== *)
theory AgentBase
  imports JsonParse
begin

text \<open>
  What the parts of the local agent share: its errors, the string and path functions it uses, and the
  file system with the outcomes of its calls.
\<close>

section \<open>Errors\<close>

text \<open>
  \<open>verify.VerificationError\<close> carries a code that \<open>errors.As\<close> finds; every other error is its text.
\<close>

datatype agent_error =
    Failure string
  | VerificationError (Code: string) (Err: string)

type_synonym 'a ares = "agent_error + 'a"

fun error_text :: "agent_error \<Rightarrow> string" where
  "error_text (Failure m) = m"
| "error_text (VerificationError code inner) = code @ '': '' @ inner"

text \<open>An error of the library functions shared with the control plane, by its message.\<close>

fun library_error :: "err \<Rightarrow> agent_error" where
  "library_error (ErrMsg m) = Failure m"
| "library_error ErrNotFound = Failure ''not found''"
| "library_error ErrInvalidTransition = Failure ''invalid transition''"
| "library_error ErrExpired = Failure ''expired''"

definition lift_res :: "'a res \<Rightarrow> 'a ares" where
  "lift_res r = (case r of Inl e \<Rightarrow> Inl (library_error e) | Inr x \<Rightarrow> Inr x)"

lemma lift_res_simps [simp]: "lift_res (Inl e) = Inl (library_error e)" "lift_res (Inr x) = Inr x"
  by (simp_all add: lift_res_def)

section \<open>Lower case\<close>

text \<open>
  \<open>strings.ToLower\<close>. \<open>lower\<close> is Unicode's mapping on the runes beyond ASCII; two of them, the Kelvin
  sign and the dotted capital I, have an ASCII letter as lower case.
\<close>

definition lower_rune :: "(string \<Rightarrow> string) \<Rightarrow> string \<Rightarrow> string" where
  "lower_rune lower w =
     (if w = [CHR 0xE2, CHR 0x84, CHR 0xAA] then ''k''
      else if w = [CHR 0xC4, CHR 0xB0] then ''i''
      else lower w)"

function ToLower :: "(string \<Rightarrow> string) \<Rightarrow> string \<Rightarrow> string" where
  "ToLower lower [] = []"
| "ToLower lower (c # cs) =
     (if ascii c then ascii_lower c # ToLower lower cs
      else if rune_size (c # cs) = 0 then rune_error @ ToLower lower cs
      else lower_rune lower (take (rune_size (c # cs)) (c # cs))
           @ ToLower lower (drop (rune_size (c # cs) - 1) cs))"
  by pat_completeness auto
termination by (relation "measure (\<lambda>(l, s). length s)") auto

lemma ToLower_ascii: "list_all ascii s \<Longrightarrow> ToLower lower s = map ascii_lower s"
  by (induction s) auto

section \<open>Paths\<close>

fun join_slash :: "string list \<Rightarrow> string" where
  "join_slash [] = []"
| "join_slash [w] = w"
| "join_slash (w # ws) = w @ CHR ''/'' # join_slash ws"

text \<open>\<open>filepath.Clean\<close> on Unix: the elements kept so far are on a stack.\<close>

fun clean_elems :: "bool \<Rightarrow> string list \<Rightarrow> string list \<Rightarrow> string list" where
  "clean_elems rooted st [] = rev st"
| "clean_elems rooted st (w # ws) =
     (if w = [] \<or> w = ''.'' then clean_elems rooted st ws
      else if w = ''..'' then
        (case st of
           [] \<Rightarrow> clean_elems rooted (if rooted then [] else [w]) ws
         | t # st' \<Rightarrow> clean_elems rooted (if t = ''..'' then w # st else st') ws)
      else clean_elems rooted (w # st) ws)"

definition Clean :: "string \<Rightarrow> string" where
  "Clean path =
     (let rooted = HasPrefix path ''/'';
          out = (if rooted then ''/'' else []) @ join_slash (clean_elems rooted [] (split_on CHR ''/'' path))
      in if out = [] then ''.'' else out)"

definition Join :: "string list \<Rightarrow> string" where
  "Join elems =
     (let es = dropWhile (\<lambda>e. e = []) elems in if es = [] then [] else Clean (join_slash es))"

text \<open>\<open>filepath.Base\<close>: the last element of a path, its trailing slashes apart.\<close>

definition Base :: "string \<Rightarrow> string" where
  "Base path =
     (if path = [] then ''.''
      else (let p = rev (dropWhile (\<lambda>c. c = CHR ''/'') (rev path)) in
            if p = [] then ''/'' else last (split_on CHR ''/'' p)))"

definition Dir :: "string \<Rightarrow> string" where
  "Dir path = Clean (rev (dropWhile (\<lambda>c. c \<noteq> CHR ''/'') (rev path)))"

text \<open>A plain element, and rooted paths made of such elements.\<close>

definition plain_elem :: "string \<Rightarrow> bool" where
  "plain_elem w \<longleftrightarrow> w \<noteq> [] \<and> CHR ''/'' \<notin> set w \<and> w \<noteq> ''.'' \<and> w \<noteq> ''..''"

definition rooted_path :: "string list \<Rightarrow> string" where
  "rooted_path ws = CHR ''/'' # join_slash ws"

definition elems :: "string \<Rightarrow> string list" where
  "elems path = clean_elems True [] (split_on CHR ''/'' path)"

lemma split_on_append: "split_on c (a @ c # b) = split_on c a @ split_on c b"
  by (induction a) (auto split: list.splits)

lemma split_on_free: "c \<notin> set w \<Longrightarrow> split_on c w = [w]"
  by (induction w) auto

lemma split_join: "ws \<noteq> [] \<Longrightarrow> list_all plain_elem ws \<Longrightarrow> split_on CHR ''/'' (join_slash ws) = ws"
  by (induction ws rule: join_slash.induct) (auto simp: plain_elem_def split_on_append split_on_free)

lemma clean_plain: "list_all plain_elem st \<Longrightarrow> list_all plain_elem (clean_elems True st ws) \<or> \<not> list_all (\<lambda>w. CHR ''/'' \<notin> set w) ws"
  by (induction True st ws rule: clean_elems.induct) (auto simp: plain_elem_def split: list.splits if_splits)

lemma elems_plain: "list_all plain_elem (elems path)"
  using clean_plain [of "[]" "split_on CHR ''/'' path"] by (auto simp: elems_def list_all_iff dest: split_on_parts)

lemma clean_snoc: "plain_elem u \<Longrightarrow> clean_elems r st (ws @ [u]) = clean_elems r st ws @ [u]"
  by (induction r st ws rule: clean_elems.induct) (auto simp: plain_elem_def split: list.splits)

lemma clean_keep: "list_all plain_elem ws \<Longrightarrow> clean_elems True st ws = rev st @ ws"
  by (induction ws arbitrary: st) (auto simp: plain_elem_def)

lemma elems_rooted: "list_all plain_elem ws \<Longrightarrow> elems (rooted_path ws) = ws"
proof (cases ws)
  case (Cons w ws')
  moreover assume "list_all plain_elem ws"
  ultimately show ?thesis by (simp add: elems_def rooted_path_def split_join clean_keep) (simp add: plain_elem_def)
qed (simp add: elems_def rooted_path_def)

lemma Join_rooted:
  assumes "HasPrefix base ''/''" and "plain_elem u"
  shows "Join [base, u] = rooted_path (elems base @ [u])"
proof -
  have "base \<noteq> []" using assms(1) by auto
  then have "Join [base, u] = Clean (base @ CHR ''/'' # u)" by (simp add: Join_def)
  moreover have "HasPrefix (base @ CHR ''/'' # u) ''/''" using assms(1) by (auto simp: HasPrefix_iff)
  moreover have "split_on CHR ''/'' (base @ CHR ''/'' # u) = split_on CHR ''/'' base @ [u]"
    using assms(2) by (simp add: split_on_append split_on_free plain_elem_def)
  ultimately show ?thesis
    using clean_snoc [OF assms(2)] by (simp add: Clean_def rooted_path_def elems_def)
qed

lemma rooted_path_inj:
  assumes "rooted_path ws = rooted_path ws'" and "list_all plain_elem ws" and "list_all plain_elem ws'"
  shows "ws = ws'"
  using assms by (metis elems_rooted)

lemma rooted_prefix [simp]: "HasPrefix (rooted_path ws) ''/''"
  by (simp add: rooted_path_def)

section \<open>HTTP requests\<close>

text \<open>
  A request as the agent's clients build it, and a response: the status and the bytes of the body.
  Sending one, from making the request to reading the body, is an operation on the state of the world.
\<close>

record client_request =
  cq_Method :: string
  cq_URL :: string
  cq_Authorization :: string
  cq_ContentType :: string
  cq_Body :: string

record client_response =
  cp_StatusCode :: nat
  cp_Body :: string

type_synonym 'w transport = "client_request \<Rightarrow> 'w \<Rightarrow> client_response ares \<times> 'w"

function itoa :: "nat \<Rightarrow> string" where
  "itoa n = (if n < 10 then [char_of (48 + n)] else itoa (n div 10) @ [char_of (48 + n mod 10)])"
  by pat_completeness auto
termination by (relation "measure (\<lambda>n. n)") auto

declare itoa.simps [simp del]

section \<open>The file system\<close>

text \<open>
  The files of the device by path, and how the calls to come will end: each call takes the next entry,
  and succeeds when there is none.
\<close>

datatype sys_outcome = Done | Fault string | Partly string string

record agent_fs =
  af_files :: "string \<rightharpoonup> string"
  af_outcomes :: "sys_outcome list"

definition next_outcome :: "agent_fs \<Rightarrow> sys_outcome \<times> agent_fs" where
  "next_outcome fs =
     (case af_outcomes fs of
        [] \<Rightarrow> (Done, fs)
      | x # xs \<Rightarrow> (x, fs\<lparr>af_outcomes := xs\<rparr>))"

lemma next_outcome_files [simp]: "next_outcome fs = (x, fs') \<Longrightarrow> af_files fs' = af_files fs"
  by (auto simp: next_outcome_def split: list.splits)

definition MkdirAll :: "string \<Rightarrow> agent_fs \<Rightarrow> agent_error option \<times> agent_fs" where
  "MkdirAll path fs =
     (case next_outcome fs of
        (Done, fs') \<Rightarrow> (None, fs')
      | (Fault m, fs') \<Rightarrow> (Some (Failure m), fs')
      | (Partly m w, fs') \<Rightarrow> (Some (Failure m), fs'))"

text \<open>A write that fails may have left some bytes in the file, or not have opened it at all.\<close>

definition WriteFile :: "string \<Rightarrow> string \<Rightarrow> agent_fs \<Rightarrow> agent_error option \<times> agent_fs" where
  "WriteFile path data fs =
     (case next_outcome fs of
        (Done, fs') \<Rightarrow> (None, fs'\<lparr>af_files := (af_files fs')(path \<mapsto> data)\<rparr>)
      | (Fault m, fs') \<Rightarrow> (Some (Failure m), fs')
      | (Partly m w, fs') \<Rightarrow> (Some (Failure m), fs'\<lparr>af_files := (af_files fs')(path \<mapsto> w)\<rparr>))"

definition Rename :: "string \<Rightarrow> string \<Rightarrow> agent_fs \<Rightarrow> agent_error option \<times> agent_fs" where
  "Rename old new fs =
     (case next_outcome fs of
        (Done, fs') \<Rightarrow>
          (case af_files fs' old of
             None \<Rightarrow> (Some (Failure ''no such file or directory''), fs')
           | Some v \<Rightarrow> (None, fs'\<lparr>af_files := (af_files fs')(old := None, new \<mapsto> v)\<rparr>))
      | (Fault m, fs') \<Rightarrow> (Some (Failure m), fs')
      | (Partly m w, fs') \<Rightarrow> (Some (Failure m), fs'))"

text \<open>Calls in order until one fails.\<close>

definition and_then ::
  "(agent_error option \<times> 'w) \<Rightarrow> ('w \<Rightarrow> agent_error option \<times> 'w) \<Rightarrow> agent_error option \<times> 'w" where
  "and_then x f = (case x of (Some e, w) \<Rightarrow> (Some e, w) | (None, w) \<Rightarrow> f w)"

lemma and_then_simps [simp]: "and_then (Some e, w) f = (Some e, w)" "and_then (None, w) f = f w"
  by (simp_all add: and_then_def)

end
