(* ===== verification/Approval.thy ===== *)
theory Approval
  imports AgentBase
begin

text \<open>
  \<open>internal/approval\<close>: asking the device's owner. The native dialogs run a program, whose outcome is an
  input; the fallback reads a line of standard input. A decision source maps a summary and the state of
  the world to an answer and a new state.
\<close>

record RequestSummary =
  rq_ID :: string
  rq_ConnectorID :: string

type_synonym 'w DecisionSource = "RequestSummary \<Rightarrow> 'w \<Rightarrow> bool ares \<times> 'w"

definition ErrNoPromptAvailable :: agent_error where
  "ErrNoPromptAvailable = Failure ''no prompt source available''"

section \<open>Native dialog, then command line\<close>

record 'w Prompter =
  pr_native :: "'w DecisionSource option"
  pr_cli :: "'w DecisionSource option"

definition NewPrompter :: "'w DecisionSource option \<Rightarrow> 'w DecisionSource option \<Rightarrow> 'w Prompter" where
  "NewPrompter native cli = \<lparr>pr_native = native, pr_cli = cli\<rparr>"

definition Prompter_Confirm :: "'w Prompter \<Rightarrow> 'w DecisionSource" where
  "Prompter_Confirm p req w =
     (let ask_cli = (\<lambda>w. case pr_cli p of
                       None \<Rightarrow> (Inl ErrNoPromptAvailable, w)
                     | Some cli \<Rightarrow> cli req w)
      in case pr_native p of
           None \<Rightarrow> ask_cli w
         | Some native \<Rightarrow>
             (case native req w of
                (Inr ok, w') \<Rightarrow> (Inr ok, w')
              | (Inl _, w') \<Rightarrow> ask_cli w'))"

section \<open>The command line\<close>

text \<open>
  Standard input is what the reads to come will return, and whether it then ends or fails; \<open>st_out\<close> is
  what was printed.
\<close>

record stdio =
  st_in :: "string list"
  st_end :: "string option"
  st_out :: string

text \<open>
  \<open>bufio.NewReader(in).ReadString\<close>: it reads until a newline has come, returns the text up to it, and
  the rest of the last read stays in the reader's buffer, which is thrown away with the reader.
\<close>

fun read_line :: "string list \<Rightarrow> string \<times> bool \<times> string list" where
  "read_line [] = ([], False, [])"
| "read_line (c # cs) =
     (case split_first (CHR 0x0A) c of
        Some (a, _) \<Rightarrow> (a @ [CHR 0x0A], True, cs)
      | None \<Rightarrow> (let (l, found, cs') = read_line cs in (c @ l, found, cs')))"

definition prompt_text :: "RequestSummary \<Rightarrow> string" where
  "prompt_text req = ''Approve connector request '' @ rq_ID req @ '' for '' @ rq_ConnectorID req @ ''? [y/N]: ''"

definition CLI_Confirm :: "(string \<Rightarrow> string) \<Rightarrow> stdio DecisionSource" where
  "CLI_Confirm lower req io =
     (let (line, found, rest) = read_line (st_in io);
          io' = io\<lparr>st_in := rest, st_out := st_out io @ prompt_text req\<rparr>
      in case (if found then None else st_end io) of
           Some m \<Rightarrow> (Inl (Failure m), io')
         | None \<Rightarrow>
             (let line = TrimSpace (ToLower lower line)
              in (Inr (line = ''y'' \<or> line = ''yes''), io')))"

section \<open>Native dialogs\<close>

text \<open>
  How running a program ends: with exit status 0, with an \<open>exec.Error\<close> because there is no such
  program, or with any other error, as a non-zero status.
\<close>

datatype run_outcome = RunOK | RunExecError string | RunFailed string

definition dialog_text :: "RequestSummary \<Rightarrow> string" where
  "dialog_text req = ''Approve request '' @ rq_ID req @ '' for connector '' @ rq_ConnectorID req @ ''?''"

definition zenity_args :: "RequestSummary \<Rightarrow> string list" where
  "zenity_args req = [''--question'', ''--text'', dialog_text req, ''--title'', ''Connector Access Request'']"

definition Linux_Confirm :: "(string list \<Rightarrow> run_outcome) \<Rightarrow> 'w DecisionSource" where
  "Linux_Confirm zenity req w =
     (case zenity (zenity_args req) of
        RunOK \<Rightarrow> (Inr True, w)
      | RunExecError m \<Rightarrow> (Inl (Failure m), w)
      | RunFailed m \<Rightarrow> (Inr False, w))"

definition dialog_script :: "RequestSummary \<Rightarrow> string" where
  "dialog_script req =
     (let q = [CHR 0x22] in
      ''display dialog '' @ q @ dialog_text req @ q @ '' with title '' @ q @ ''Connector Access Request'' @ q
      @ '' buttons {'' @ q @ ''Deny'' @ q @ '', '' @ q @ ''Approve'' @ q @ ''} default button '' @ q @ ''Deny'' @ q)"

definition Darwin_Confirm :: "(string list \<Rightarrow> string \<times> run_outcome) \<Rightarrow> 'w DecisionSource" where
  "Darwin_Confirm osascript req w =
     (case osascript [''-e'', dialog_script req] of
        (out, RunOK) \<Rightarrow> (Inr (out \<noteq> []), w)
      | (out, RunExecError m) \<Rightarrow> (Inl (Failure m), w)
      | (out, RunFailed m) \<Rightarrow> (Inl (Failure m), w))"

section \<open>Properties\<close>

lemma read_line_text:
  "read_line cs = (line, found, rest) \<Longrightarrow>
     (if found then \<exists>a b. concat cs = line @ b \<and> line = a @ [CHR 0x0A] \<and> CHR 0x0A \<notin> set a
      else line = concat cs \<and> CHR 0x0A \<notin> set line \<and> rest = [])"
proof (induction cs arbitrary: line)
  case (Cons c cs)
  show ?case
  proof (cases "split_first (CHR 0x0A) c")
    case None
    then have "CHR 0x0A \<notin> set c" by (simp add: split_first_None)
    moreover obtain l where "read_line cs = (l, found, rest)" "line = c @ l"
      using Cons.prems None by (auto split: prod.splits)
    ultimately show ?thesis using Cons.IH [of l] by (auto split: if_splits)
  next
    case (Some ab)
    moreover obtain a b where ab: "ab = (a, b)" by (cases ab)
    ultimately have "line = a @ [CHR 0x0A]" "found" using Cons.prems by simp_all
    moreover have "c = a @ CHR 0x0A # b" "CHR 0x0A \<notin> set a"
      using Some ab by (simp_all add: split_first_Some)
    ultimately show ?thesis by simp
  qed
qed simp

text \<open>
  C31. On Linux only the owner approves. The agent's prompter answers yes exactly when the dialog was
  shown and confirmed, or when there is no dialog program and the next line of standard input, white
  space and case aside, is \<open>y\<close> or \<open>yes\<close>; a line that never came, because the input ended, is no
  approval.
\<close>

theorem linux_approval_exact:
  "fst (Prompter_Confirm (NewPrompter (Some (Linux_Confirm zenity)) (Some (CLI_Confirm lower))) req io) = Inr True
   \<longleftrightarrow> zenity (zenity_args req) = RunOK
       \<or> (\<exists>m. zenity (zenity_args req) = RunExecError m)
         \<and> (\<exists>line found rest. read_line (st_in io) = (line, found, rest) \<and> (found \<or> st_end io = None)
              \<and> (TrimSpace (ToLower lower line) = ''y'' \<or> TrimSpace (ToLower lower line) = ''yes''))"
  by (auto simp: Prompter_Confirm_def NewPrompter_def Linux_Confirm_def CLI_Confirm_def Let_def
      split: run_outcome.splits prod.splits option.splits if_splits)

text \<open>
  C32. On macOS every button approves. \<open>osascript\<close> exits with 0 and prints the button pressed, and the
  agent takes any output for a yes: pressing \<open>Deny\<close> approves the request, without asking further.
\<close>

theorem darwin_deny_approves:
  assumes "osascript [''-e'', dialog_script req] = (''button returned:'' @ button @ [CHR 0x0A], RunOK)"
  shows "Prompter_Confirm (NewPrompter (Some (Darwin_Confirm osascript)) cli) req w = (Inr True, w)"
  using assms by (simp add: Prompter_Confirm_def NewPrompter_def Darwin_Confirm_def)

theorem darwin_deny_approves_witness:
  "Prompter_Confirm (NewPrompter (Some (Darwin_Confirm (\<lambda>args. (''button returned:Deny'' @ [CHR 0x0A], RunOK)))) None)
     \<lparr>rq_ID = ''r1'', rq_ConnectorID = ''conn_1''\<rparr> () = (Inr True, ())"
  by (rule darwin_deny_approves [where button = "''Deny''"]) simp

text \<open>
  An answer typed ahead is lost. When one read brings two lines, the first prompt takes the first
  and drops the second; the next prompt then sees the end of the input and denies.
\<close>

lemma typed_ahead_answer_lost:
  assumes "st_in io = [a @ CHR 0x0A # b]" and "CHR 0x0A \<notin> set a" and "st_end io = None"
  shows "fst (CLI_Confirm lower req' (snd (CLI_Confirm lower req io))) = Inr False"
proof -
  have "split_first (CHR 0x0A) (a @ CHR 0x0A # b) = Some (a, b)" using assms(2) by (simp add: split_first_Some)
  moreover have "TrimSpace [] = []" by code_simp
  ultimately show ?thesis using assms by (simp add: CLI_Confirm_def Let_def)
qed

lemma typed_ahead_answer_lost_witness:
  "fst (CLI_Confirm (\<lambda>w. w) \<lparr>rq_ID = ''r2'', rq_ConnectorID = ''conn_1''\<rparr>
     (snd (CLI_Confirm (\<lambda>w. w) \<lparr>rq_ID = ''r1'', rq_ConnectorID = ''conn_1''\<rparr>
     \<lparr>st_in = [''n'' @ CHR 0x0A # ''y'' @ [CHR 0x0A]], st_end = None, st_out = []\<rparr>))) = Inr False"
  by (rule typed_ahead_answer_lost [where a = "''n''" and b = "''y'' @ [CHR 0x0A]"]) simp_all

end
