(* ===== verification/SshKeys.thy ===== *)
theory SshKeys
  imports AgentBase
begin

text \<open>
  \<open>internal/sshkeys\<close>: the manager that writes a user's \<open>authorized_keys\<close>, through a temporary file and
  a rename, below its base directory.
\<close>

record Manager =
  mg_baseDir :: string

definition NewManager :: "string \<Rightarrow> Manager" where
  "NewManager baseDir = \<lparr>mg_baseDir = baseDir\<rparr>"

definition newline :: string where
  "newline = [CHR 0x0A]"

definition Manager_Install ::
  "Manager \<Rightarrow> string \<Rightarrow> string \<Rightarrow> agent_fs \<Rightarrow> agent_error option \<times> agent_fs" where
  "Manager_Install m username pubKey fs =
     (let pubKey = TrimSpace pubKey in
      if username = [] \<or> pubKey = [] then (Some (Failure ''username and public key are required''), fs)
      else
        (let userDir = Join [mg_baseDir m, username];
             finalPath = Join [userDir, ''authorized_keys''];
             tmpPath = finalPath @ ''.tmp''
         in and_then (MkdirAll userDir fs) (\<lambda>fs.
            and_then (WriteFile tmpPath (pubKey @ newline) fs) (\<lambda>fs.
            Rename tmpPath finalPath fs))))"

definition keys_path :: "Manager \<Rightarrow> string \<Rightarrow> string" where
  "keys_path m username = Join [Join [mg_baseDir m, username], ''authorized_keys'']"

lemma install_cases:
  assumes "Manager_Install m user key fs = (err, fs')"
  obtains "err = None" "TrimSpace key \<noteq> []" "user \<noteq> []"
      "af_files fs' = (af_files fs)(keys_path m user @ ''.tmp'' := None, keys_path m user \<mapsto> TrimSpace key @ newline)"
  | "err \<noteq> None" "af_files fs' = af_files fs"
  | w where "err \<noteq> None" "af_files fs' = (af_files fs)(keys_path m user @ ''.tmp'' \<mapsto> w)"
  using assms that
  by (auto simp: Manager_Install_def keys_path_def [symmetric] and_then_def MkdirAll_def WriteFile_def Rename_def Let_def
      split: if_splits prod.splits option.splits sys_outcome.splits)

text \<open>
  C30. Installing a key is all or nothing. Whatever the file system calls do, a reported success means
  that the user's key file holds exactly the trimmed key and a newline and no temporary file is left,
  and every other file is as it was; a reported error means that every file except the temporary one
  is as it was, the old key file included.
\<close>

theorem install_all_or_nothing:
  "let (err, fs') = Manager_Install m user key fs; final = keys_path m user; tmp = final @ ''.tmp''
   in if err = None
      then af_files fs' = (af_files fs)(tmp := None, final \<mapsto> TrimSpace key @ newline)
      else (af_files fs')(tmp := None) = (af_files fs)(tmp := None)"
proof (cases "Manager_Install m user key fs")
  case (Pair err fs')
  then show ?thesis by (rule install_cases) (auto simp: Pair Let_def)
qed

section \<open>One directory per user\<close>

lemma keys_path_rooted:
  assumes "HasPrefix (mg_baseDir m) ''/''" and "plain_elem user"
  shows "keys_path m user = rooted_path (elems (mg_baseDir m) @ [user, ''authorized_keys''])"
proof -
  have f: "plain_elem ''authorized_keys''" by (simp add: plain_elem_def)
  have "list_all plain_elem (elems (mg_baseDir m) @ [user])"
    using elems_plain assms(2) by simp
  then have "elems (rooted_path (elems (mg_baseDir m) @ [user])) = elems (mg_baseDir m) @ [user]"
    by (rule elems_rooted)
  with Join_rooted [OF assms] Join_rooted [OF rooted_prefix f] show ?thesis
    by (simp add: keys_path_def)
qed

lemma join_slash_snoc: "join_slash (ws @ [a]) @ t = join_slash (ws @ [a @ t])"
  by (induction ws rule: join_slash.induct) auto

lemma tmp_path_rooted:
  assumes "HasPrefix (mg_baseDir m) ''/''" and "plain_elem user"
  shows "keys_path m user @ ''.tmp'' = rooted_path (elems (mg_baseDir m) @ [user, ''authorized_keys.tmp''])"
  using join_slash_snoc [of "elems (mg_baseDir m) @ [user]" "''authorized_keys''" "''.tmp''"]
  by (simp add: keys_path_rooted [OF assms] rooted_path_def)

text \<open>
  Users do not share key files. Below a rooted base directory, the key file of a user whose name is
  a plain path element lies in that user's own directory, and two such users never share a file, nor is
  one's key file the other's temporary file.
\<close>

lemma users_have_own_files:
  assumes "HasPrefix (mg_baseDir m) ''/''" and "plain_elem u" and "plain_elem v" and "u \<noteq> v"
  shows "keys_path m u = rooted_path (elems (mg_baseDir m) @ [u, ''authorized_keys''])
         \<and> keys_path m u \<noteq> keys_path m v \<and> keys_path m u \<noteq> keys_path m v @ ''.tmp''
         \<and> keys_path m u \<noteq> keys_path m u @ ''.tmp''"
proof -
  let ?b = "elems (mg_baseDir m)"
  have p: "list_all plain_elem (?b @ [w, f])" if "plain_elem w" "f \<in> {''authorized_keys'', ''authorized_keys.tmp''}" for w f
    using that elems_plain [of "mg_baseDir m"] by (auto simp: plain_elem_def)
  have "rooted_path (?b @ [u, ''authorized_keys'']) \<noteq> rooted_path (?b @ [v, ''authorized_keys''])"
    using rooted_path_inj [OF _ p [OF assms(2)] p [OF assms(3)]] assms(4) by fastforce
  moreover have "rooted_path (?b @ [u, ''authorized_keys'']) \<noteq> rooted_path (?b @ [v, ''authorized_keys.tmp''])"
    using rooted_path_inj [OF _ p [OF assms(2)] p [OF assms(3)]] assms(4) by fastforce
  moreover have "rooted_path (?b @ [u, ''authorized_keys'']) \<noteq> rooted_path (?b @ [u, ''authorized_keys.tmp''])"
    using rooted_path_inj [OF _ p [OF assms(2)] p [OF assms(2)]] by fastforce
  ultimately show ?thesis
    unfolding tmp_path_rooted [OF assms(1,2)] tmp_path_rooted [OF assms(1,3)]
    unfolding keys_path_rooted [OF assms(1,2)] keys_path_rooted [OF assms(1,3)] by simp
qed

lemma users_have_own_files_witness:
  "keys_path (NewManager ''/var/lib/connector-agent/keys'') ''alice'' \<noteq> keys_path (NewManager ''/var/lib/connector-agent/keys'') ''bob''"
  by (rule users_have_own_files [THEN conjunct2, THEN conjunct1]) (simp_all add: NewManager_def plain_elem_def)

end
