(* ===== verification/Sha256.thy ===== *)
theory Sha256
  imports GoStrings
begin

text \<open>
  SHA-256 (FIPS 180-4), which the program reaches through \<open>crypto/sha256.Sum256\<close>: install
  tokens are stored by digest, and a connector's SSH key is bound to its quote by digest. The
  words are 32 bits wide and \<open>+\<close> wraps.
\<close>

unbundle bit_operations_syntax

definition rotr :: "nat \<Rightarrow> 32 word \<Rightarrow> 32 word" where
  "rotr n x = (drop_bit n x) OR (push_bit (32 - n) x)"

definition sha_Ch :: "32 word \<Rightarrow> 32 word \<Rightarrow> 32 word \<Rightarrow> 32 word" where
  "sha_Ch x y z = (x AND y) XOR (NOT x AND z)"

definition sha_Maj :: "32 word \<Rightarrow> 32 word \<Rightarrow> 32 word \<Rightarrow> 32 word" where
  "sha_Maj x y z = (x AND y) XOR (x AND z) XOR (y AND z)"

definition big_sigma0 :: "32 word \<Rightarrow> 32 word" where
  "big_sigma0 x = rotr 2 x XOR rotr 13 x XOR rotr 22 x"

definition big_sigma1 :: "32 word \<Rightarrow> 32 word" where
  "big_sigma1 x = rotr 6 x XOR rotr 11 x XOR rotr 25 x"

definition small_sigma0 :: "32 word \<Rightarrow> 32 word" where
  "small_sigma0 x = rotr 7 x XOR rotr 18 x XOR drop_bit 3 x"

definition small_sigma1 :: "32 word \<Rightarrow> 32 word" where
  "small_sigma1 x = rotr 17 x XOR rotr 19 x XOR drop_bit 10 x"

text \<open>
  The round constants and the initial hash are the first 32 bits after the binary point of the cube
  roots of the first 64 primes and of the square roots of the first 8. \<open>root_digits\<close> finds the
  integer part of a \<open>k\<close>-th root bit by bit, and the conversion to a word drops the bits before the
  point.
\<close>

fun root_digits :: "nat \<Rightarrow> nat \<Rightarrow> int \<Rightarrow> int \<Rightarrow> int" where
  "root_digits k 0 x r = r"
| "root_digits k (Suc b) x r =
     root_digits k b x (if (r + 2 ^ b) ^ k \<le> x then r + 2 ^ b else r)"

definition root_fraction :: "nat \<Rightarrow> int \<Rightarrow> 32 word" where
  "root_fraction k p = word_of_int (root_digits k 36 (p * 2 ^ (32 * k)) 0)"

definition primes_to :: "int \<Rightarrow> int list" where
  "primes_to n = filter (\<lambda>p. \<forall>d \<in> set [2..p - 1]. p mod d \<noteq> 0) [2..n]"

definition sha_K :: "32 word list" where
  "sha_K = map (root_fraction 3) (primes_to 311)"

definition sha_H0 :: "32 word list" where
  "sha_H0 = map (root_fraction 2) (primes_to 19)"

lemma root_digits_floor:
  "r ^ k \<le> x \<Longrightarrow> x < (r + 2 ^ b) ^ k \<Longrightarrow>
   root_digits k b x r ^ k \<le> x \<and> x < (root_digits k b x r + 1) ^ k"
proof (induction k b x r rule: root_digits.induct)
  case (2 k b x r)
  have "r + 2 ^ Suc b = (r + 2 ^ b) + 2 ^ b" by simp
  with 2 show ?case by (cases "(r + 2 ^ b) ^ k \<le> x") (simp_all add: ac_simps)
qed simp

section \<open>Padding and parsing\<close>

fun be_bytes :: "nat \<Rightarrow> nat \<Rightarrow> string" where
  "be_bytes 0 n = []"
| "be_bytes (Suc k) n = be_bytes k (n div 256) @ [char_of (n mod 256)]"

lemma length_be_bytes [simp]: "length (be_bytes k n) = k"
  by (induction k arbitrary: n) auto

definition sha_pad :: "string \<Rightarrow> string" where
  "sha_pad m = m @ CHR 0x80 # replicate ((119 - length m mod 64) mod 64) (CHR 0x00)
                @ be_bytes 8 (8 * length m)"

lemma length_sha_pad: "length (sha_pad m) mod 64 = 0"
proof -
  have "(l + (9 + (119 - l mod 64) mod 64)) mod 64 = 0" for l :: nat
  proof -
    have "(a + (9 + b mod 64)) mod 64 = (a mod 64 + (9 + b)) mod 64" for a b :: nat
      by (metis add.assoc mod_add_left_eq mod_add_right_eq)
    then have "(l + (9 + (119 - l mod 64) mod 64)) mod 64 = (l mod 64 + (9 + (119 - l mod 64))) mod 64"
      by blast
    also have "l mod 64 + (9 + (119 - l mod 64)) = 128"
      using mod_less_divisor [of 64 l] by linarith
    finally show ?thesis by simp
  qed
  then show ?thesis by (simp add: sha_pad_def ac_simps)
qed

fun be_word :: "string \<Rightarrow> 32 word" where
  "be_word s = fold (\<lambda>c w. 256 * w + word_of_nat (of_char c)) s 0"

function chunks :: "nat \<Rightarrow> string \<Rightarrow> string list" where
  "chunks k s = (if s = [] \<or> k = 0 then [] else take k s # chunks k (drop k s))"
  by pat_completeness auto
termination
  by (relation "measure (\<lambda>(k, s). length s)") auto

declare chunks.simps [simp del]

section \<open>The compression function\<close>

fun sha_schedule :: "nat \<Rightarrow> 32 word list \<Rightarrow> 32 word list" where
  "sha_schedule 0 ws = ws"
| "sha_schedule (Suc n) ws =
     (let t = length ws in
      sha_schedule n (ws @ [small_sigma1 (ws ! (t - 2)) + ws ! (t - 7)
                            + small_sigma0 (ws ! (t - 15)) + ws ! (t - 16)]))"

record sha_vars =
  va :: "32 word"
  vb :: "32 word"
  vc :: "32 word"
  vd :: "32 word"
  ve :: "32 word"
  vf :: "32 word"
  vg :: "32 word"
  vh :: "32 word"

fun sha_round :: "32 word \<times> 32 word \<Rightarrow> sha_vars \<Rightarrow> sha_vars" where
  "sha_round (k, w) v =
     (let t1 = vh v + big_sigma1 (ve v) + sha_Ch (ve v) (vf v) (vg v) + k + w;
          t2 = big_sigma0 (va v) + sha_Maj (va v) (vb v) (vc v)
      in \<lparr>va = t1 + t2, vb = va v, vc = vb v, vd = vc v,
          ve = vd v + t1, vf = ve v, vg = vf v, vh = vg v\<rparr>)"

definition sha_block :: "string \<Rightarrow> sha_vars \<Rightarrow> sha_vars" where
  "sha_block block v =
     (let ws = sha_schedule 48 (map be_word (chunks 4 block));
          u = fold sha_round (zip sha_K ws) v
      in \<lparr>va = va v + va u, vb = vb v + vb u, vc = vc v + vc u, vd = vd v + vd u,
          ve = ve v + ve u, vf = vf v + vf u, vg = vg v + vg u, vh = vh v + vh u\<rparr>)"

definition sha_init :: sha_vars where
  "sha_init = \<lparr>va = sha_H0 ! 0, vb = sha_H0 ! 1, vc = sha_H0 ! 2, vd = sha_H0 ! 3,
               ve = sha_H0 ! 4, vf = sha_H0 ! 5, vg = sha_H0 ! 6, vh = sha_H0 ! 7\<rparr>"

definition word_bytes :: "32 word \<Rightarrow> string" where
  "word_bytes w = be_bytes 4 (unat w)"

definition Sum256 :: "string \<Rightarrow> string" where
  "Sum256 m =
     (let v = fold sha_block (chunks 64 (sha_pad m)) sha_init
      in concat (map word_bytes [va v, vb v, vc v, vd v, ve v, vf v, vg v, vh v]))"

lemma length_Sum256 [simp]: "length (Sum256 m) = 32"
  by (simp add: Sum256_def word_bytes_def Let_def)

end
