(* ===== verification/RequestModel.thy ===== *)
theory RequestModel
  imports Sha256
begin

text \<open>
  The data of \<open>internal/requests\<close>: connection requests and install sessions with their
  statuses (\<open>model.go\<close>), and the identifiers drawn from the random source (\<open>id.go\<close>).
  A status is a string, as in the code: a caller may hand in any text, and only the named
  constants are accepted where the code compares against them. Field names carry the prefix
  \<open>req_\<close> or \<open>sess_\<close>, because the two structs share theirs.
\<close>

section \<open>Connection requests\<close>

type_synonym Status = string

definition StatusPendingLocalConfirm :: Status where
  "StatusPendingLocalConfirm = ''pending_local_confirm''"

definition StatusDeniedLocal :: Status where
  "StatusDeniedLocal = ''denied_local''"

definition StatusApproved :: Status where
  "StatusApproved = ''approved''"

definition StatusExpired :: Status where
  "StatusExpired = ''expired''"

definition StatusVerificationFailed :: Status where
  "StatusVerificationFailed = ''verification_failed''"

definition StatusConnected :: Status where
  "StatusConnected = ''connected''"

lemmas status_defs =
  StatusPendingLocalConfirm_def StatusDeniedLocal_def StatusApproved_def
  StatusExpired_def StatusVerificationFailed_def StatusConnected_def

lemma status_distinct:
  "distinct [StatusPendingLocalConfirm, StatusDeniedLocal, StatusApproved,
             StatusExpired, StatusVerificationFailed, StatusConnected]"
  "distinct [StatusConnected, StatusVerificationFailed, StatusExpired,
             StatusApproved, StatusDeniedLocal, StatusPendingLocalConfirm]"
  by (simp_all add: status_defs)

lemmas status_neqs [simp] = status_distinct [simplified]

record ConnectionRequest =
  req_ID :: string
  req_OpenClawUserID :: string
  req_DeviceID :: string
  req_ConnectorID :: string
  req_SourceChannel :: string
  req_Status :: Status
  req_CreatedAt :: time
  req_ExpiresAt :: time
  req_Nonce :: string
  req_ReasonCode :: string

record CreateInput =
  ci_OpenClawUserID :: string
  ci_DeviceID :: string
  ci_ConnectorID :: string
  ci_SourceChannel :: string
  ci_TTL :: duration

section \<open>Install sessions\<close>

type_synonym InstallStatus = string

definition InstallStatusRequested :: InstallStatus where
  "InstallStatusRequested = ''requested''"

definition InstallStatusApproved :: InstallStatus where
  "InstallStatusApproved = ''approved''"

definition InstallStatusInstalled :: InstallStatus where
  "InstallStatusInstalled = ''installed''"

definition InstallStatusFailed :: InstallStatus where
  "InstallStatusFailed = ''failed''"

lemmas install_status_defs =
  InstallStatusRequested_def InstallStatusApproved_def
  InstallStatusInstalled_def InstallStatusFailed_def

lemma install_status_distinct:
  "distinct [InstallStatusRequested, InstallStatusApproved,
             InstallStatusInstalled, InstallStatusFailed]"
  "distinct [InstallStatusFailed, InstallStatusInstalled,
             InstallStatusApproved, InstallStatusRequested]"
  by (simp_all add: install_status_defs)

lemmas install_status_neqs [simp] = install_status_distinct [simplified]

record InstallSession =
  sess_ID :: string
  sess_OpenClawUserID :: string
  sess_DeviceID :: string
  sess_ConnectorID :: string
  sess_SourceChannel :: string
  sess_Status :: InstallStatus
  sess_CreatedAt :: time
  sess_ExpiresAt :: time
  sess_ReasonCode :: string

record CreateInstallInput =
  cii_OpenClawUserID :: string
  cii_DeviceID :: string
  cii_ConnectorID :: string
  cii_SourceChannel :: string
  cii_TTL :: duration

section \<open>Identifiers\<close>

text \<open>
  \<open>rand.Read\<close> fills 16 bytes or fails: the outcome of one read is a \<open>string option\<close>.
\<close>

definition randomID :: "string option \<Rightarrow> string" where
  "randomID rnd =
     (case rnd of
        None \<Rightarrow> ''00000000000000000000000000000000''
      | Some buf \<Rightarrow> hex_encode buf)"

definition digestInstallToken :: "string \<Rightarrow> string" where
  "digestInstallToken token = hex_encode (Sum256 (TrimSpace token))"

lemma randomID_graph: "c \<in> set (randomID rnd) \<Longrightarrow> graph_char c"
  by (cases rnd) (auto simp: randomID_def graph_char_def dest!: hex_encode_graph)

lemma digest_randomID_trim [simp]: "TrimSpace (randomID rnd) = randomID rnd"
  by (rule TrimSpace_graph) (rule randomID_graph)

end
