(* ===== verification/Store.thy ===== *)
theory Store
  imports RequestModel
begin

text \<open>
  \<open>InMemoryStore\<close> of \<open>internal/requests/store.go\<close>. Each operation runs under one mutex, so
  an operation is one step from a store to a store. What it reads from outside is the record
  \<open>store_env\<close>: the clock, the random source, and the order in which a \<open>range\<close> loop visits
  the request map together with the clock reading taken at each visit.

  An operation that fails with \<open>ErrExpired\<close> also hands back the expired session in the Go
  code; both callers (\<open>FileStore\<close> and, through it, the handlers) discard that value, so an
  error result carries the error alone.
\<close>

section \<open>State and inputs\<close>

record InMemoryStore =
  items :: "string \<rightharpoonup> ConnectionRequest"
  installSessions :: "string \<rightharpoonup> InstallSession"
  installTokens :: "string \<rightharpoonup> string"

record store_env =
  now :: time
  rand1 :: "string option"
  rand2 :: "string option"
  visits :: "(string \<times> time) list"

definition NewInMemoryStore :: InMemoryStore where
  "NewInMemoryStore =
     \<lparr>items = Map.empty, installSessions = Map.empty, installTokens = Map.empty\<rparr>"

section \<open>Connection requests\<close>

definition expireIfNeeded :: "time \<Rightarrow> ConnectionRequest \<Rightarrow> ConnectionRequest" where
  "expireIfNeeded t req =
     (if t > req_ExpiresAt req
         \<and> req_Status req \<noteq> StatusExpired
         \<and> req_Status req \<noteq> StatusConnected
         \<and> req_Status req \<noteq> StatusDeniedLocal
         \<and> req_Status req \<noteq> StatusVerificationFailed
      then req\<lparr>req_Status := StatusExpired\<rparr>
      else req)"

definition Create ::
  "'e store_env_scheme \<Rightarrow> CreateInput \<Rightarrow> InMemoryStore \<Rightarrow> ConnectionRequest res \<times> InMemoryStore" where
  "Create e inp s =
     (if ci_OpenClawUserID inp = [] \<or> ci_DeviceID inp = [] \<or> ci_ConnectorID inp = []
      then (Inl (ErrMsg ''missing required fields''), s)
      else if ci_TTL inp \<le> 0 then (Inl (ErrMsg ''ttl must be positive''), s)
      else
        (let req = \<lparr>req_ID = randomID (rand1 e),
                    req_OpenClawUserID = ci_OpenClawUserID inp,
                    req_DeviceID = ci_DeviceID inp,
                    req_ConnectorID = ci_ConnectorID inp,
                    req_SourceChannel = ci_SourceChannel inp,
                    req_Status = StatusPendingLocalConfirm,
                    req_CreatedAt = now e,
                    req_ExpiresAt = now e + ci_TTL inp,
                    req_Nonce = randomID (rand2 e),
                    req_ReasonCode = []\<rparr>
         in (Inr req, s\<lparr>items := (items s)(req_ID req \<mapsto> req)\<rparr>)))"

definition Get ::
  "'e store_env_scheme \<Rightarrow> string \<Rightarrow> InMemoryStore \<Rightarrow> ConnectionRequest res \<times> InMemoryStore" where
  "Get e rid s =
     (case items s rid of
        None \<Rightarrow> (Inl ErrNotFound, s)
      | Some req \<Rightarrow>
          (let req' = expireIfNeeded (now e) req
           in (Inr req', s\<lparr>items := (items s)(rid \<mapsto> req')\<rparr>)))"

fun list_pending_loop ::
  "string \<Rightarrow> (string \<times> time) list \<Rightarrow> ConnectionRequest list \<Rightarrow> InMemoryStore
   \<Rightarrow> ConnectionRequest list \<times> InMemoryStore" where
  "list_pending_loop deviceID [] out s = (out, s)"
| "list_pending_loop deviceID ((rid, t) # ord) out s =
     (case items s rid of
        None \<Rightarrow> list_pending_loop deviceID ord out s
      | Some req \<Rightarrow>
          (let req' = expireIfNeeded t req
           in list_pending_loop deviceID ord
                (if req_DeviceID req' = deviceID \<and> req_Status req' = StatusPendingLocalConfirm
                 then out @ [req'] else out)
                (s\<lparr>items := (items s)(rid \<mapsto> req')\<rparr>)))"

definition ListPendingForDevice ::
  "'e store_env_scheme \<Rightarrow> string \<Rightarrow> InMemoryStore \<Rightarrow> ConnectionRequest list \<times> InMemoryStore" where
  "ListPendingForDevice e deviceID s = list_pending_loop deviceID (visits e) [] s"

definition SetLocalDecision ::
  "'e store_env_scheme \<Rightarrow> string \<Rightarrow> bool \<Rightarrow> InMemoryStore
   \<Rightarrow> ConnectionRequest res \<times> InMemoryStore" where
  "SetLocalDecision e rid approved s =
     (case items s rid of
        None \<Rightarrow> (Inl ErrNotFound, s)
      | Some r \<Rightarrow>
          (let req = expireIfNeeded (now e) r in
           if req_Status req = StatusExpired
           then (Inl ErrExpired, s\<lparr>items := (items s)(rid \<mapsto> req)\<rparr>)
           else if req_Status req \<noteq> StatusPendingLocalConfirm
           then (Inl ErrInvalidTransition, s)
           else
             (let req' = req\<lparr>req_Status := (if approved then StatusApproved else StatusDeniedLocal)\<rparr>
              in (Inr req', s\<lparr>items := (items s)(rid \<mapsto> req')\<rparr>))))"

definition SetResult ::
  "'e store_env_scheme \<Rightarrow> string \<Rightarrow> Status \<Rightarrow> string \<Rightarrow> InMemoryStore
   \<Rightarrow> ConnectionRequest res \<times> InMemoryStore" where
  "SetResult e rid status reasonCode s =
     (case items s rid of
        None \<Rightarrow> (Inl ErrNotFound, s)
      | Some r \<Rightarrow>
          (let req = expireIfNeeded (now e) r in
           if req_Status req = StatusExpired
           then (Inl ErrExpired, s\<lparr>items := (items s)(rid \<mapsto> req)\<rparr>)
           else if req_Status req \<noteq> StatusApproved
           then (Inl ErrInvalidTransition, s)
           else if status \<noteq> StatusConnected \<and> status \<noteq> StatusVerificationFailed
           then (Inl ErrInvalidTransition, s)
           else
             (let req' = req\<lparr>req_Status := status, req_ReasonCode := reasonCode\<rparr>
              in (Inr req', s\<lparr>items := (items s)(rid \<mapsto> req')\<rparr>))))"

section \<open>Install sessions\<close>

definition expireInstallIfNeeded :: "time \<Rightarrow> InstallSession \<Rightarrow> InstallSession \<times> bool" where
  "expireInstallIfNeeded t session =
     (if t > sess_ExpiresAt session
         \<and> sess_Status session \<noteq> InstallStatusInstalled
         \<and> sess_Status session \<noteq> InstallStatusFailed
      then (session\<lparr>sess_Status := InstallStatusFailed,
                    sess_ReasonCode := (if sess_ReasonCode session = [] then ''Expired''
                                        else sess_ReasonCode session)\<rparr>, True)
      else (session, False))"

definition deleteInstallTokensForSession :: "string \<Rightarrow> InMemoryStore \<Rightarrow> InMemoryStore" where
  "deleteInstallTokensForSession sid s =
     s\<lparr>installTokens := map_drop_value (installTokens s) sid\<rparr>"

definition put_session :: "string \<Rightarrow> InstallSession \<Rightarrow> InMemoryStore \<Rightarrow> InMemoryStore" where
  "put_session sid session s = s\<lparr>installSessions := (installSessions s)(sid \<mapsto> session)\<rparr>"

definition CreateInstallSession ::
  "'e store_env_scheme \<Rightarrow> CreateInstallInput \<Rightarrow> InMemoryStore
   \<Rightarrow> (InstallSession \<times> string) res \<times> InMemoryStore" where
  "CreateInstallSession e inp s =
     (if cii_OpenClawUserID inp = [] then (Inl (ErrMsg ''missing required fields''), s)
      else if cii_TTL inp \<le> 0 then (Inl (ErrMsg ''ttl must be positive''), s)
      else
        (let session = \<lparr>sess_ID = randomID (rand1 e),
                        sess_OpenClawUserID = cii_OpenClawUserID inp,
                        sess_DeviceID = cii_DeviceID inp,
                        sess_ConnectorID = cii_ConnectorID inp,
                        sess_SourceChannel = cii_SourceChannel inp,
                        sess_Status = InstallStatusRequested,
                        sess_CreatedAt = now e,
                        sess_ExpiresAt = now e + cii_TTL inp,
                        sess_ReasonCode = []\<rparr>;
             token = randomID (rand2 e);
             tokenDigest = digestInstallToken token;
             s1 = put_session (sess_ID session) session s
         in (Inr (session, token),
             s1\<lparr>installTokens := (installTokens s1)(tokenDigest \<mapsto> sess_ID session)\<rparr>)))"

definition GetInstallSession ::
  "'e store_env_scheme \<Rightarrow> string \<Rightarrow> InMemoryStore \<Rightarrow> InstallSession res \<times> InMemoryStore" where
  "GetInstallSession e sid s =
     (case installSessions s sid of
        None \<Rightarrow> (Inl ErrNotFound, s)
      | Some r \<Rightarrow>
          (let (session, expired) = expireInstallIfNeeded (now e) r;
               s1 = (if expired then deleteInstallTokensForSession (sess_ID session) s else s)
           in (Inr session, put_session sid session s1)))"

definition SetInstallIdentity ::
  "'e store_env_scheme \<Rightarrow> string \<Rightarrow> string \<Rightarrow> string \<Rightarrow> InMemoryStore
   \<Rightarrow> InstallSession res \<times> InMemoryStore" where
  "SetInstallIdentity e sid connectorID deviceID s =
     (if blank connectorID \<or> blank deviceID
      then (Inl (ErrMsg ''missing required fields''), s)
      else
        (case installSessions s sid of
           None \<Rightarrow> (Inl ErrNotFound, s)
         | Some r \<Rightarrow>
             (let (session, expired) = expireInstallIfNeeded (now e) r in
              if expired
              then (Inl ErrExpired,
                    put_session sid session (deleteInstallTokensForSession (sess_ID session) s))
              else if sess_Status session \<noteq> InstallStatusRequested
                    \<and> sess_Status session \<noteq> InstallStatusApproved
              then (Inl ErrInvalidTransition, s)
              else
                (let session' = session\<lparr>sess_ConnectorID := TrimSpace connectorID,
                                        sess_DeviceID := TrimSpace deviceID\<rparr>
                 in (Inr session', put_session sid session' s)))))"

definition SetInstallApproval ::
  "'e store_env_scheme \<Rightarrow> string \<Rightarrow> bool \<Rightarrow> InMemoryStore
   \<Rightarrow> InstallSession res \<times> InMemoryStore" where
  "SetInstallApproval e sid approved s =
     (case installSessions s sid of
        None \<Rightarrow> (Inl ErrNotFound, s)
      | Some r \<Rightarrow>
          (let (session, expired) = expireInstallIfNeeded (now e) r in
           if expired
           then (Inl ErrExpired,
                 put_session sid session (deleteInstallTokensForSession (sess_ID session) s))
           else if sess_Status session \<noteq> InstallStatusRequested
           then (Inl ErrInvalidTransition, s)
           else if approved
           then (let session' = session\<lparr>sess_Status := InstallStatusApproved\<rparr>
                 in (Inr session', put_session sid session' s))
           else (let session' = session\<lparr>sess_Status := InstallStatusFailed,
                                        sess_ReasonCode := ''Denied''\<rparr>
                 in (Inr session',
                     put_session sid session'
                       (deleteInstallTokensForSession (sess_ID session') s)))))"

definition SetInstallResult ::
  "'e store_env_scheme \<Rightarrow> string \<Rightarrow> InstallStatus \<Rightarrow> string \<Rightarrow> InMemoryStore
   \<Rightarrow> InstallSession res \<times> InMemoryStore" where
  "SetInstallResult e sid status reasonCode s =
     (case installSessions s sid of
        None \<Rightarrow> (Inl ErrNotFound, s)
      | Some r \<Rightarrow>
          (let (session, expired) = expireInstallIfNeeded (now e) r in
           if expired
           then (Inl ErrExpired,
                 put_session sid session (deleteInstallTokensForSession (sess_ID session) s))
           else if sess_Status session \<noteq> InstallStatusApproved
           then (Inl ErrInvalidTransition, s)
           else if status \<noteq> InstallStatusInstalled \<and> status \<noteq> InstallStatusFailed
           then (Inl ErrInvalidTransition, s)
           else if status = InstallStatusInstalled
                 \<and> (blank (sess_ConnectorID session) \<or> blank (sess_DeviceID session))
           then (Inl ErrInvalidTransition, s)
           else
             (let session' = session\<lparr>sess_Status := status, sess_ReasonCode := reasonCode\<rparr>
              in (Inr session',
                  deleteInstallTokensForSession (sess_ID session') (put_session sid session' s)))))"

definition RedeemInstallToken ::
  "'e store_env_scheme \<Rightarrow> string \<Rightarrow> InMemoryStore \<Rightarrow> InstallSession res \<times> InMemoryStore" where
  "RedeemInstallToken e token s =
     (case installTokens s (digestInstallToken token) of
        None \<Rightarrow> (Inl ErrNotFound, s)
      | Some sessionID \<Rightarrow>
          (case installSessions s sessionID of
             None \<Rightarrow> (Inl ErrNotFound, s)
           | Some r \<Rightarrow>
               (let (session, expired) = expireInstallIfNeeded (now e) r in
                if expired
                then (Inl ErrExpired,
                      put_session sessionID session
                        (deleteInstallTokensForSession (sess_ID session) s))
                else if sess_Status session \<noteq> InstallStatusApproved
                then (Inl ErrInvalidTransition, s)
                else (Inr session, deleteInstallTokensForSession (sess_ID session) s))))"

lemmas store_ops_defs [op_defs] =
  Create_def Get_def ListPendingForDevice_def SetLocalDecision_def SetResult_def
  CreateInstallSession_def GetInstallSession_def SetInstallIdentity_def
  SetInstallApproval_def SetInstallResult_def RedeemInstallToken_def
  put_session_def deleteInstallTokensForSession_def

end
