(* ===== verification/StoreInv.thy ===== *)
theory StoreInv
  imports Store
begin

text \<open>
  The invariant of \<open>InMemoryStore\<close> and its preservation by every operation: entries are filed
  under their own ID and carry the fields \<open>Create\<close> demands, statuses are the named constants,
  an installed session has an identity, and an install token leads to a session that is still
  open (requested or approved).
\<close>

named_theorems store_inv "preservation of the invariant, one fact per operation"

section \<open>The invariant\<close>

definition req_ok :: "string \<Rightarrow> ConnectionRequest \<Rightarrow> bool" where
  "req_ok rid r \<longleftrightarrow>
     req_ID r = rid \<and> req_OpenClawUserID r \<noteq> [] \<and> req_DeviceID r \<noteq> [] \<and> req_ConnectorID r \<noteq> []
     \<and> req_CreatedAt r < req_ExpiresAt r
     \<and> req_Status r \<in> {StatusPendingLocalConfirm, StatusDeniedLocal, StatusApproved,
                       StatusExpired, StatusVerificationFailed, StatusConnected}
     \<and> (req_ReasonCode r = [] \<or> req_Status r \<in> {StatusConnected, StatusVerificationFailed})"

definition requests_ok :: "(string \<rightharpoonup> ConnectionRequest) \<Rightarrow> bool" where
  "requests_ok m \<longleftrightarrow> finite (dom m) \<and> (\<forall>rid r. m rid = Some r \<longrightarrow> req_ok rid r)"

definition open_session :: "InstallSession \<Rightarrow> bool" where
  "open_session r \<longleftrightarrow> sess_Status r = InstallStatusRequested \<or> sess_Status r = InstallStatusApproved"

definition sess_ok :: "string \<Rightarrow> InstallSession \<Rightarrow> bool" where
  "sess_ok sid r \<longleftrightarrow>
     sess_ID r = sid \<and> sess_OpenClawUserID r \<noteq> [] \<and> sess_CreatedAt r < sess_ExpiresAt r
     \<and> (open_session r \<and> sess_ReasonCode r = []
        \<or> sess_Status r = InstallStatusFailed
        \<or> sess_Status r = InstallStatusInstalled
           \<and> \<not> blank (sess_ConnectorID r) \<and> \<not> blank (sess_DeviceID r))"

definition installs_ok :: "(string \<rightharpoonup> InstallSession) \<Rightarrow> (string \<rightharpoonup> string) \<Rightarrow> bool" where
  "installs_ok sm tm \<longleftrightarrow>
     finite (dom sm) \<and> finite (dom tm)
     \<and> (\<forall>sid r. sm sid = Some r \<longrightarrow> sess_ok sid r)
     \<and> (\<forall>d sid. tm d = Some sid \<longrightarrow> (\<exists>r. sm sid = Some r \<and> open_session r))"

definition store_ok :: "InMemoryStore \<Rightarrow> bool" where
  "store_ok s \<longleftrightarrow> requests_ok (items s) \<and> installs_ok (installSessions s) (installTokens s)"

lemma store_ok_new: "store_ok NewInMemoryStore"
  by (simp add: store_ok_def NewInMemoryStore_def requests_ok_def installs_ok_def)

lemma store_okD:
  assumes "store_ok s"
  shows "items s rid = Some r \<Longrightarrow> req_ok rid r"
    and "installSessions s sid = Some q \<Longrightarrow> sess_ok sid q"
    and "installTokens s d = Some sid \<Longrightarrow> \<exists>q. installSessions s sid = Some q \<and> open_session q"
  using assms by (auto simp: store_ok_def requests_ok_def installs_ok_def)

section \<open>Expiry keeps an entry well-formed\<close>

lemma req_ok_expire: "req_ok rid r \<Longrightarrow> req_ok rid (expireIfNeeded t r)"
  by (auto simp: req_ok_def expireIfNeeded_def)

lemma expireIfNeeded_idem [simp]: "expireIfNeeded t (expireIfNeeded t r) = expireIfNeeded t r"
  by (simp add: expireIfNeeded_def)

lemma expireIfNeeded_frame [simp]:
  "req_ID (expireIfNeeded t r) = req_ID r"
  "req_OpenClawUserID (expireIfNeeded t r) = req_OpenClawUserID r"
  "req_DeviceID (expireIfNeeded t r) = req_DeviceID r"
  "req_ConnectorID (expireIfNeeded t r) = req_ConnectorID r"
  "req_SourceChannel (expireIfNeeded t r) = req_SourceChannel r"
  "req_CreatedAt (expireIfNeeded t r) = req_CreatedAt r"
  "req_ExpiresAt (expireIfNeeded t r) = req_ExpiresAt r"
  "req_Nonce (expireIfNeeded t r) = req_Nonce r"
  "req_ReasonCode (expireIfNeeded t r) = req_ReasonCode r"
  by (simp_all add: expireIfNeeded_def)

lemma expireInstall_cases:
  obtains (fresh) "expireInstallIfNeeded t q = (q, False)"
            "\<not> (t > sess_ExpiresAt q \<and> sess_Status q \<noteq> InstallStatusInstalled
                \<and> sess_Status q \<noteq> InstallStatusFailed)"
        | (lapsed) q' where "expireInstallIfNeeded t q = (q', True)"
            "t > sess_ExpiresAt q" "sess_Status q' = InstallStatusFailed"
            "sess_Status q \<noteq> InstallStatusInstalled" "sess_Status q \<noteq> InstallStatusFailed"
            "sess_ID q' = sess_ID q"
            "q' = q\<lparr>sess_Status := InstallStatusFailed, sess_ReasonCode := sess_ReasonCode q'\<rparr>"
  by (auto simp: expireInstallIfNeeded_def)

lemma sess_ok_expired:
  assumes "sess_ok sid q" and "expireInstallIfNeeded t q = (q', True)"
  shows "sess_ok sid q'"
  using assms by (auto simp: sess_ok_def expireInstallIfNeeded_def split: if_splits)

section \<open>Map-level preservation\<close>

lemma requests_ok_put: "requests_ok m \<Longrightarrow> req_ok rid r \<Longrightarrow> requests_ok (m(rid \<mapsto> r))"
  by (auto simp: requests_ok_def)

lemma requests_okD: "requests_ok m \<Longrightarrow> m rid = Some r \<Longrightarrow> req_ok rid r"
  by (simp add: requests_ok_def)

lemma installs_okD:
  "installs_ok sm tm \<Longrightarrow> sm sid = Some q \<Longrightarrow> sess_ok sid q"
  "installs_ok sm tm \<Longrightarrow> tm d = Some sid \<Longrightarrow> \<exists>q. sm sid = Some q \<and> open_session q"
  by (simp_all add: installs_ok_def)

lemma installs_ok_put:
  assumes "installs_ok sm tm" and "sess_ok sid q" and "open_session q \<or> sid \<notin> ran tm"
  shows "installs_ok (sm(sid \<mapsto> q)) tm"
  using assms unfolding installs_ok_def by (auto simp: ran_def)

lemma installs_ok_drop: "installs_ok sm tm \<Longrightarrow> installs_ok sm (map_drop_value tm sid)"
  unfolding installs_ok_def by auto

lemma installs_ok_close:
  assumes "installs_ok sm tm" and "sess_ok sid q"
  shows "installs_ok (sm(sid \<mapsto> q)) (map_drop_value tm sid)"
  by (rule installs_ok_put [OF installs_ok_drop [OF assms(1)] assms(2)])
     (simp add: map_drop_value_ran)

lemma installs_ok_token:
  assumes "installs_ok sm tm" and "sm sid = Some q" and "open_session q"
  shows "installs_ok sm (tm(d \<mapsto> sid))"
  using assms unfolding installs_ok_def by auto

section \<open>Every operation preserves the invariant\<close>

lemma Create_ok [store_inv]: "store_ok s \<Longrightarrow> store_ok (snd (Create e inp s))"
  by (auto simp: store_ok_def Create_def Let_def req_ok_def intro!: requests_ok_put)

lemma Get_ok [store_inv]: "store_ok s \<Longrightarrow> store_ok (snd (Get e rid s))"
  by (auto simp: store_ok_def Get_def Let_def split: option.splits
           intro!: requests_ok_put req_ok_expire dest: requests_okD)

lemma list_pending_loop_ok:
  "store_ok s \<Longrightarrow> store_ok (snd (list_pending_loop dev ord out s))"
proof (induction dev ord out s rule: list_pending_loop.induct)
  case (2 dev rid t ord out s)
  show ?case
  proof (cases "items s rid")
    case None
    with 2 show ?thesis by simp
  next
    case (Some r)
    with "2.prems" have "store_ok (s\<lparr>items := (items s)(rid \<mapsto> expireIfNeeded t r)\<rparr>)"
      by (auto simp: store_ok_def intro!: requests_ok_put req_ok_expire dest: requests_okD)
    with Some "2.IH"(2) show ?thesis by (simp add: Let_def)
  qed
qed simp

lemma ListPending_ok [store_inv]: "store_ok s \<Longrightarrow> store_ok (snd (ListPendingForDevice e dev s))"
  by (simp add: ListPendingForDevice_def list_pending_loop_ok)

lemma SetLocalDecision_ok [store_inv]:
  assumes "store_ok s" shows "store_ok (snd (SetLocalDecision e rid approved s))"
proof (cases "items s rid")
  case None
  with assms show ?thesis by (simp add: SetLocalDecision_def)
next
  case (Some r)
  let ?q = "expireIfNeeded (now e) r"
  have q: "req_ok rid ?q" using store_okD(1) [OF assms Some] by (rule req_ok_expire)
  moreover have "req_Status ?q = StatusPendingLocalConfirm
      \<Longrightarrow> req_ok rid (?q\<lparr>req_Status := if approved then StatusApproved else StatusDeniedLocal\<rparr>)"
    using q by (auto simp: req_ok_def)
  ultimately show ?thesis
    using assms Some
    by (auto simp: SetLocalDecision_def Let_def store_ok_def intro!: requests_ok_put)
qed

lemma SetResult_ok [store_inv]:
  assumes "store_ok s" shows "store_ok (snd (SetResult e rid status reason s))"
proof (cases "items s rid")
  case None
  with assms show ?thesis by (simp add: SetResult_def)
next
  case (Some r)
  let ?q = "expireIfNeeded (now e) r"
  have q: "req_ok rid ?q" using store_okD(1) [OF assms Some] by (rule req_ok_expire)
  moreover have "status = StatusConnected \<or> status = StatusVerificationFailed
      \<Longrightarrow> req_ok rid (?q\<lparr>req_Status := status, req_ReasonCode := reason\<rparr>)"
    using q by (auto simp: req_ok_def)
  ultimately show ?thesis
    using assms Some
    by (auto simp: SetResult_def Let_def store_ok_def intro!: requests_ok_put)
qed

lemma installs_ok_create:
  assumes "installs_ok sm tm" and "sess_ok sid q" and "open_session q"
  shows "installs_ok (sm(sid \<mapsto> q)) (tm(d \<mapsto> sid))"
  using assms by (intro installs_ok_token [of _ _ sid q] installs_ok_put) auto

lemma CreateInstallSession_ok [store_inv]:
  "store_ok s \<Longrightarrow> store_ok (snd (CreateInstallSession e inp s))"
  by (auto simp: CreateInstallSession_def Let_def store_ok_def put_session_def sess_ok_def
                 open_session_def intro!: installs_ok_create)

text \<open>
  The session operations share their shape: look the session up, let it lapse, then either
  close it (dropping its tokens) or update it.
\<close>

lemma lapse_ok:
  assumes "store_ok s" and "installSessions s sid = Some q"
    and "expireInstallIfNeeded t q = (q', True)"
  shows "store_ok (put_session sid q' (deleteInstallTokensForSession (sess_ID q) s))"
proof -
  have "sess_ok sid q'" using sess_ok_expired store_okD(2) assms by blast
  moreover have "sess_ID q = sid" using store_okD(2) assms by (auto simp: sess_ok_def)
  ultimately show ?thesis
    using assms(1)
    by (auto simp: store_ok_def put_session_def deleteInstallTokensForSession_def
             intro!: installs_ok_close)
qed

lemma put_open_ok:
  assumes "store_ok s" and "sess_ok sid q" and "open_session q"
  shows "store_ok (put_session sid q s)"
  using assms by (auto simp: store_ok_def put_session_def intro!: installs_ok_put)

lemma put_closed_ok:
  assumes "store_ok s" and "sess_ok sid q" and "sess_ID q = i"
  shows "store_ok (put_session sid q (deleteInstallTokensForSession i s))"
  using assms by (auto simp: store_ok_def put_session_def deleteInstallTokensForSession_def sess_ok_def
                   intro!: installs_ok_close)

lemma put_same_ok:
  assumes "store_ok s" and "installSessions s sid = Some q"
  shows "store_ok (put_session sid q s)"
proof -
  from assms(2) have "(installSessions s)(sid \<mapsto> q) = installSessions s" by (rule map_upd_triv)
  with assms(1) show ?thesis by (simp add: put_session_def)
qed

lemma delete_tokens_ok: "store_ok s \<Longrightarrow> store_ok (deleteInstallTokensForSession i s)"
  by (auto simp: store_ok_def deleteInstallTokensForSession_def intro!: installs_ok_drop)

lemma put_delete_commute:
  "deleteInstallTokensForSession i (put_session sid q s)
   = put_session sid q (deleteInstallTokensForSession i s)"
  by (simp add: deleteInstallTokensForSession_def put_session_def)

lemma GetInstallSession_ok [store_inv]:
  assumes "store_ok s" shows "store_ok (snd (GetInstallSession e sid s))"
proof (cases "installSessions s sid")
  case (Some q)
  show ?thesis
  proof (cases rule: expireInstall_cases [of "now e" q])
    case fresh
    with Some assms show ?thesis by (simp add: GetInstallSession_def put_same_ok)
  next
    case (lapsed q')
    with Some assms show ?thesis by (simp add: GetInstallSession_def lapse_ok)
  qed
qed (use assms in \<open>simp add: GetInstallSession_def\<close>)

lemma SetInstallIdentity_ok [store_inv]:
  assumes "store_ok s" shows "store_ok (snd (SetInstallIdentity e sid connectorID deviceID s))"
proof (cases "installSessions s sid")
  case (Some q)
  show ?thesis
  proof (cases rule: expireInstall_cases [of "now e" q])
    case fresh
    let ?q = "q\<lparr>sess_ConnectorID := TrimSpace connectorID, sess_DeviceID := TrimSpace deviceID\<rparr>"
    have "open_session q \<Longrightarrow> sess_ok sid ?q \<and> open_session ?q"
      using store_okD(2) [OF assms Some] by (auto simp: sess_ok_def open_session_def)
    with fresh Some assms show ?thesis
      by (auto simp: SetInstallIdentity_def Let_def open_session_def intro!: put_open_ok)
  next
    case (lapsed q')
    with Some assms show ?thesis by (simp add: SetInstallIdentity_def lapse_ok)
  qed
qed (use assms in \<open>simp add: SetInstallIdentity_def\<close>)

lemma SetInstallApproval_ok [store_inv]:
  assumes "store_ok s" shows "store_ok (snd (SetInstallApproval e sid approved s))"
proof (cases "installSessions s sid")
  case (Some q)
  show ?thesis
  proof (cases rule: expireInstall_cases [of "now e" q])
    case fresh
    have "sess_Status q = InstallStatusRequested \<Longrightarrow>
        sess_ok sid (q\<lparr>sess_Status := InstallStatusApproved\<rparr>)
        \<and> open_session (q\<lparr>sess_Status := InstallStatusApproved\<rparr>)
        \<and> sess_ok sid (q\<lparr>sess_Status := InstallStatusFailed, sess_ReasonCode := ''Denied''\<rparr>)"
      using store_okD(2) [OF assms Some] by (auto simp: sess_ok_def open_session_def)
    with fresh Some assms show ?thesis
      by (auto simp: SetInstallApproval_def Let_def intro!: put_open_ok put_closed_ok)
  next
    case (lapsed q')
    with Some assms show ?thesis by (simp add: SetInstallApproval_def lapse_ok)
  qed
qed (use assms in \<open>simp add: SetInstallApproval_def\<close>)

lemma SetInstallResult_ok [store_inv]:
  assumes "store_ok s" shows "store_ok (snd (SetInstallResult e sid status reason s))"
proof (cases "installSessions s sid")
  case (Some q)
  show ?thesis
  proof (cases rule: expireInstall_cases [of "now e" q])
    case fresh
    let ?q = "q\<lparr>sess_Status := status, sess_ReasonCode := reason\<rparr>"
    have "status = InstallStatusFailed
        \<or> status = InstallStatusInstalled \<and> \<not> blank (sess_ConnectorID q) \<and> \<not> blank (sess_DeviceID q)
        \<Longrightarrow> sess_ok sid ?q"
      using store_okD(2) [OF assms Some] by (auto simp: sess_ok_def)
    with fresh Some assms show ?thesis
      by (auto simp: SetInstallResult_def Let_def put_delete_commute intro!: put_closed_ok)
  next
    case (lapsed q')
    with Some assms show ?thesis by (simp add: SetInstallResult_def lapse_ok)
  qed
qed (use assms in \<open>simp add: SetInstallResult_def\<close>)

lemma RedeemInstallToken_ok [store_inv]:
  assumes "store_ok s" shows "store_ok (snd (RedeemInstallToken e token s))"
proof (cases "installTokens s (digestInstallToken token)")
  case (Some sid)
  then obtain q where q: "installSessions s sid = Some q" using store_okD(3) [OF assms] by blast
  show ?thesis
  proof (cases rule: expireInstall_cases [of "now e" q])
    case fresh
    with Some q assms show ?thesis by (simp add: RedeemInstallToken_def delete_tokens_ok)
  next
    case (lapsed q')
    with Some q assms show ?thesis by (simp add: RedeemInstallToken_def lapse_ok)
  qed
qed (use assms in \<open>simp add: RedeemInstallToken_def\<close>)

end
