(* ===== verification/RequestStore.thy ===== *)
theory RequestStore
  imports StoreInv
begin

text \<open>
  The interface \<open>RequestStore\<close> of \<open>internal/http/handler.go\<close> as a record of operations over a
  state (a Go interface value is its method table), the operations as data so that a history of
  calls is a list, and the contract every provider keeps: its state has a view as an
  \<open>InMemoryStore\<close>, each call moves that view exactly as the in-memory operation does, and an
  answer that is not an error is the in-memory answer.
\<close>

section \<open>The interface\<close>

record ('e, 's) RequestStore =
  rs_Create :: "'e \<Rightarrow> CreateInput \<Rightarrow> 's \<Rightarrow> ConnectionRequest res \<times> 's"
  rs_Get :: "'e \<Rightarrow> string \<Rightarrow> 's \<Rightarrow> ConnectionRequest res \<times> 's"
  rs_SetLocalDecision :: "'e \<Rightarrow> string \<Rightarrow> bool \<Rightarrow> 's \<Rightarrow> ConnectionRequest res \<times> 's"
  rs_SetResult :: "'e \<Rightarrow> string \<Rightarrow> Status \<Rightarrow> string \<Rightarrow> 's \<Rightarrow> ConnectionRequest res \<times> 's"
  rs_ListPendingForDevice :: "'e \<Rightarrow> string \<Rightarrow> 's \<Rightarrow> ConnectionRequest list \<times> 's"
  rs_CreateInstallSession ::
    "'e \<Rightarrow> CreateInstallInput \<Rightarrow> 's \<Rightarrow> (InstallSession \<times> string) res \<times> 's"
  rs_GetInstallSession :: "'e \<Rightarrow> string \<Rightarrow> 's \<Rightarrow> InstallSession res \<times> 's"
  rs_SetInstallApproval :: "'e \<Rightarrow> string \<Rightarrow> bool \<Rightarrow> 's \<Rightarrow> InstallSession res \<times> 's"
  rs_SetInstallIdentity ::
    "'e \<Rightarrow> string \<Rightarrow> string \<Rightarrow> string \<Rightarrow> 's \<Rightarrow> InstallSession res \<times> 's"
  rs_SetInstallResult ::
    "'e \<Rightarrow> string \<Rightarrow> InstallStatus \<Rightarrow> string \<Rightarrow> 's \<Rightarrow> InstallSession res \<times> 's"
  rs_RedeemInstallToken :: "'e \<Rightarrow> string \<Rightarrow> 's \<Rightarrow> InstallSession res \<times> 's"

definition mem_store :: "('x store_env_scheme, InMemoryStore) RequestStore" where
  "mem_store =
     \<lparr>rs_Create = Create,
      rs_Get = Get,
      rs_SetLocalDecision = SetLocalDecision,
      rs_SetResult = SetResult,
      rs_ListPendingForDevice = ListPendingForDevice,
      rs_CreateInstallSession = CreateInstallSession,
      rs_GetInstallSession = GetInstallSession,
      rs_SetInstallApproval = SetInstallApproval,
      rs_SetInstallIdentity = SetInstallIdentity,
      rs_SetInstallResult = SetInstallResult,
      rs_RedeemInstallToken = RedeemInstallToken\<rparr>"

section \<open>Calls as data\<close>

datatype store_op =
    OpCreate CreateInput
  | OpGet string
  | OpSetLocalDecision string bool
  | OpSetResult string Status string
  | OpListPending string
  | OpCreateInstall CreateInstallInput
  | OpGetInstall string
  | OpSetApproval string bool
  | OpSetIdentity string string string
  | OpSetInstallResult string InstallStatus string
  | OpRedeem string

datatype outcome =
    RequestOut "ConnectionRequest res"
  | RequestsOut "ConnectionRequest list"
  | SessionOut "InstallSession res"
  | TokenOut "(InstallSession \<times> string) res"

fun perform :: "('e, 's) RequestStore \<Rightarrow> 'e \<Rightarrow> store_op \<Rightarrow> 's \<Rightarrow> outcome \<times> 's" where
  "perform st e (OpCreate inp) s = apfst RequestOut (rs_Create st e inp s)"
| "perform st e (OpGet rid) s = apfst RequestOut (rs_Get st e rid s)"
| "perform st e (OpSetLocalDecision rid a) s = apfst RequestOut (rs_SetLocalDecision st e rid a s)"
| "perform st e (OpSetResult rid x rc) s = apfst RequestOut (rs_SetResult st e rid x rc s)"
| "perform st e (OpListPending dev) s = apfst RequestsOut (rs_ListPendingForDevice st e dev s)"
| "perform st e (OpCreateInstall inp) s = apfst TokenOut (rs_CreateInstallSession st e inp s)"
| "perform st e (OpGetInstall sid) s = apfst SessionOut (rs_GetInstallSession st e sid s)"
| "perform st e (OpSetApproval sid a) s = apfst SessionOut (rs_SetInstallApproval st e sid a s)"
| "perform st e (OpSetIdentity sid c d) s = apfst SessionOut (rs_SetInstallIdentity st e sid c d s)"
| "perform st e (OpSetInstallResult sid x rc) s =
     apfst SessionOut (rs_SetInstallResult st e sid x rc s)"
| "perform st e (OpRedeem tok) s = apfst SessionOut (rs_RedeemInstallToken st e tok s)"

fun op_ok :: "outcome \<Rightarrow> bool" where
  "op_ok (RequestOut r) = succeeds r"
| "op_ok (RequestsOut rs) = True"
| "op_ok (SessionOut r) = succeeds r"
| "op_ok (TokenOut r) = succeeds r"

fun run :: "('e, 's) RequestStore \<Rightarrow> ('e \<times> store_op) list \<Rightarrow> 's \<Rightarrow> 's" where
  "run st [] s = s"
| "run st ((e, c) # evs) s = run st evs (snd (perform st e c s))"

lemma run_append: "run st (xs @ ys) s = run st ys (run st xs s)"
  by (induction xs arbitrary: s) auto

lemma run_snoc: "run st (xs @ [(e, c)]) s = snd (perform st e c (run st xs s))"
  by (simp add: run_append)

lemma mem_store_sel [simp]:
  "rs_Create mem_store = Create" "rs_Get mem_store = Get"
  "rs_SetLocalDecision mem_store = SetLocalDecision" "rs_SetResult mem_store = SetResult"
  "rs_ListPendingForDevice mem_store = ListPendingForDevice"
  "rs_CreateInstallSession mem_store = CreateInstallSession"
  "rs_GetInstallSession mem_store = GetInstallSession"
  "rs_SetInstallApproval mem_store = SetInstallApproval"
  "rs_SetInstallIdentity mem_store = SetInstallIdentity"
  "rs_SetInstallResult mem_store = SetInstallResult"
  "rs_RedeemInstallToken mem_store = RedeemInstallToken"
  by (simp_all add: mem_store_def)

lemma mem_perform_ok: "store_ok s \<Longrightarrow> store_ok (snd (perform mem_store e c s))"
  by (cases c) (simp_all add: store_inv)

lemma mem_run_ok: "store_ok s \<Longrightarrow> store_ok (run mem_store evs s)"
  by (induction evs arbitrary: s) (auto simp: mem_perform_ok)

section \<open>The contract\<close>

locale request_store =
  fixes st :: "('x store_env_scheme, 's) RequestStore"
    and view :: "'s \<Rightarrow> InMemoryStore"
  assumes view_step: "view (snd (perform st e c s)) = snd (perform mem_store e c (view s))"
    and answer: "op_ok (fst (perform st e c s))
                 \<Longrightarrow> fst (perform st e c s) = fst (perform mem_store e c (view s))"
begin

lemma run_view: "view (run st evs s) = run mem_store evs (view s)"
  by (induction evs arbitrary: s) (auto simp: view_step)

lemma perform_ok: "store_ok (view s) \<Longrightarrow> store_ok (view (snd (perform st e c s)))"
  by (simp add: view_step mem_perform_ok)

lemma run_ok: "store_ok (view s) \<Longrightarrow> store_ok (view (run st evs s))"
  by (simp add: run_view mem_run_ok)

lemma answer_ok: "op_ok (fst (perform st e c s)) \<Longrightarrow> op_ok (fst (perform mem_store e c (view s)))"
  using answer by metis

end

interpretation mem: request_store mem_store "\<lambda>s. s"
  by unfold_locales auto

end
