(* ===== verification/FileStore.thy ===== *)
theory FileStore
  imports RequestStore Json
begin

text \<open>
  \<open>FileStore\<close> of \<open>internal/requests/file_store.go\<close>: the in-memory store written through to one
  file. The disk is a map from paths to contents, a content being a JSON document or bytes that are
  not one. The outcome of each system call is part of the environment: a failing write may leave
  any content, or none, under the temporary name, so the environments also cover a process that
  dies between two system calls. Then: the file format round-trips, every call keeps the disk
  loadable, and the store keeps the contract of \<open>request_store\<close>.
\<close>

section \<open>State and inputs\<close>

datatype file_content = Doc json | Bytes string

type_synonym disk = "string \<rightharpoonup> file_content"

record file_env = store_env +
  mkdir_err :: "err option"
  write_err :: "(err \<times> file_content option) option"
  rename_err :: "err option"

record FileStore =
  fs_path :: string
  fs_mem :: InMemoryStore
  fs_disk :: disk

section \<open>The document\<close>

definition json_of_request :: "ConnectionRequest \<Rightarrow> json res" where
  "json_of_request r =
     res_bind (marshal_time (req_CreatedAt r)) (\<lambda>created.
     res_bind (marshal_time (req_ExpiresAt r)) (\<lambda>expires.
     Inr (JObj ([(''id'', JStr (req_ID r)),
                 (''openclaw_user_id'', JStr (req_OpenClawUserID r)),
                 (''device_id'', JStr (req_DeviceID r)),
                 (''connector_id'', JStr (req_ConnectorID r)),
                 (''source_channel'', JStr (req_SourceChannel r)),
                 (''status'', JStr (req_Status r)),
                 (''created_at'', created),
                 (''expires_at'', expires),
                 (''nonce'', JStr (req_Nonce r))]
                @ (if req_ReasonCode r = [] then [] else [(''reason_code'', JStr (req_ReasonCode r))])))))"

definition request_of_json :: "json \<Rightarrow> ConnectionRequest res" where
  "request_of_json j =
     res_bind (json_object j) (\<lambda>kvs.
     res_bind (string_field ''id'' kvs) (\<lambda>rid.
     res_bind (string_field ''openclaw_user_id'' kvs) (\<lambda>user.
     res_bind (string_field ''device_id'' kvs) (\<lambda>device.
     res_bind (string_field ''connector_id'' kvs) (\<lambda>connector.
     res_bind (string_field ''source_channel'' kvs) (\<lambda>channel.
     res_bind (string_field ''status'' kvs) (\<lambda>status.
     res_bind (time_field ''created_at'' kvs) (\<lambda>created.
     res_bind (time_field ''expires_at'' kvs) (\<lambda>expires.
     res_bind (string_field ''nonce'' kvs) (\<lambda>nonce.
     res_bind (string_field ''reason_code'' kvs) (\<lambda>reason.
     Inr \<lparr>req_ID = rid, req_OpenClawUserID = user, req_DeviceID = device,
          req_ConnectorID = connector, req_SourceChannel = channel, req_Status = status,
          req_CreatedAt = created, req_ExpiresAt = expires, req_Nonce = nonce,
          req_ReasonCode = reason\<rparr>)))))))))))"

definition json_of_session :: "InstallSession \<Rightarrow> json res" where
  "json_of_session q =
     res_bind (marshal_time (sess_CreatedAt q)) (\<lambda>created.
     res_bind (marshal_time (sess_ExpiresAt q)) (\<lambda>expires.
     Inr (JObj ([(''id'', JStr (sess_ID q)),
                 (''openclaw_user_id'', JStr (sess_OpenClawUserID q)),
                 (''device_id'', JStr (sess_DeviceID q)),
                 (''connector_id'', JStr (sess_ConnectorID q)),
                 (''source_channel'', JStr (sess_SourceChannel q)),
                 (''status'', JStr (sess_Status q)),
                 (''created_at'', created),
                 (''expires_at'', expires)]
                @ (if sess_ReasonCode q = [] then [] else [(''reason_code'', JStr (sess_ReasonCode q))])))))"

definition session_of_json :: "json \<Rightarrow> InstallSession res" where
  "session_of_json j =
     res_bind (json_object j) (\<lambda>kvs.
     res_bind (string_field ''id'' kvs) (\<lambda>sid.
     res_bind (string_field ''openclaw_user_id'' kvs) (\<lambda>user.
     res_bind (string_field ''device_id'' kvs) (\<lambda>device.
     res_bind (string_field ''connector_id'' kvs) (\<lambda>connector.
     res_bind (string_field ''source_channel'' kvs) (\<lambda>channel.
     res_bind (string_field ''status'' kvs) (\<lambda>status.
     res_bind (time_field ''created_at'' kvs) (\<lambda>created.
     res_bind (time_field ''expires_at'' kvs) (\<lambda>expires.
     res_bind (string_field ''reason_code'' kvs) (\<lambda>reason.
     Inr \<lparr>sess_ID = sid, sess_OpenClawUserID = user, sess_DeviceID = device,
          sess_ConnectorID = connector, sess_SourceChannel = channel, sess_Status = status,
          sess_CreatedAt = created, sess_ExpiresAt = expires, sess_ReasonCode = reason\<rparr>))))))))))"

definition marshal_state :: "InMemoryStore \<Rightarrow> json res" where
  "marshal_state m =
     res_bind (encode_map json_of_request (items m)) (\<lambda>its.
     res_bind (encode_map json_of_session (installSessions m)) (\<lambda>sessions.
     res_bind (encode_map (\<lambda>sid. Inr (JStr sid)) (installTokens m)) (\<lambda>tokens.
     Inr (JObj [(''items'', its), (''install_sessions'', sessions), (''install_tokens'', tokens)]))))"

definition unmarshal_state :: "json \<Rightarrow> InMemoryStore res" where
  "unmarshal_state j =
     res_bind (json_object j) (\<lambda>kvs.
     res_bind (decode_field (assign_map request_of_json) ''items'' kvs Map.empty) (\<lambda>its.
     res_bind (decode_field (assign_map session_of_json) ''install_sessions'' kvs Map.empty) (\<lambda>sessions.
     res_bind (decode_field (assign_map (\<lambda>v. assign_string v [])) ''install_tokens'' kvs Map.empty) (\<lambda>tokens.
     Inr \<lparr>items = its, installSessions = sessions, installTokens = tokens\<rparr>))))"

section \<open>Loading and persisting\<close>

text \<open>\<open>read_err\<close> is an error of \<open>os.ReadFile\<close> other than the file not existing.\<close>

definition load :: "err option \<Rightarrow> FileStore \<Rightarrow> FileStore res" where
  "load read_err s =
     (case read_err of
        Some err \<Rightarrow> Inl err
      | None \<Rightarrow>
          (case fs_disk s (fs_path s) of
             None \<Rightarrow> Inr s
           | Some (Bytes raw) \<Rightarrow> Inl (ErrMsg ''invalid character'')
           | Some (Doc j) \<Rightarrow> res_bind (unmarshal_state j) (\<lambda>m. Inr (s\<lparr>fs_mem := m\<rparr>))))"

definition NewFileStore :: "err option \<Rightarrow> string \<Rightarrow> disk \<Rightarrow> FileStore res" where
  "NewFileStore read_err path d =
     (if path = [] then Inl (ErrMsg ''store path is required'')
      else load read_err \<lparr>fs_path = path, fs_mem = NewInMemoryStore, fs_disk = d\<rparr>)"

definition persistLocked :: "'e file_env_scheme \<Rightarrow> FileStore \<Rightarrow> err option \<times> FileStore" where
  "persistLocked e s =
     (case marshal_state (fs_mem s) of
        Inl err \<Rightarrow> (Some err, s)
      | Inr raw \<Rightarrow>
          (case mkdir_err e of
             Some err \<Rightarrow> (Some err, s)
           | None \<Rightarrow>
               (let tmpPath = fs_path s @ ''.tmp'' in
                case write_err e of
                  Some (err, None) \<Rightarrow> (Some err, s)
                | Some (err, Some part) \<Rightarrow> (Some err, s\<lparr>fs_disk := (fs_disk s)(tmpPath \<mapsto> part)\<rparr>)
                | None \<Rightarrow>
                    (case rename_err e of
                       Some err \<Rightarrow> (Some err, s\<lparr>fs_disk := (fs_disk s)(tmpPath \<mapsto> Doc raw)\<rparr>)
                     | None \<Rightarrow>
                         (None, s\<lparr>fs_disk := (fs_disk s)(fs_path s \<mapsto> Doc raw, tmpPath := None)\<rparr>)))))"

section \<open>Operations\<close>

text \<open>
  The two endings the operations share: \<open>commit\<close> reports an error of \<open>persistLocked\<close>, \<open>settle\<close>
  drops it. Neither persists when the in-memory operation failed.
\<close>

definition commit ::
  "'e file_env_scheme \<Rightarrow> 'a res \<times> InMemoryStore \<Rightarrow> FileStore \<Rightarrow> 'a res \<times> FileStore" where
  "commit e rm s =
     (case rm of
        (Inl err, m) \<Rightarrow> (Inl err, s\<lparr>fs_mem := m\<rparr>)
      | (Inr x, m) \<Rightarrow>
          (case persistLocked e (s\<lparr>fs_mem := m\<rparr>) of
             (Some err, s') \<Rightarrow> (Inl err, s')
           | (None, s') \<Rightarrow> (Inr x, s')))"

definition settle ::
  "'e file_env_scheme \<Rightarrow> 'a res \<times> InMemoryStore \<Rightarrow> FileStore \<Rightarrow> 'a res \<times> FileStore" where
  "settle e rm s =
     (case rm of
        (Inl err, m) \<Rightarrow> (Inl err, s\<lparr>fs_mem := m\<rparr>)
      | (Inr x, m) \<Rightarrow> (Inr x, snd (persistLocked e (s\<lparr>fs_mem := m\<rparr>))))"

definition FileStore_Create ::
  "'e file_env_scheme \<Rightarrow> CreateInput \<Rightarrow> FileStore \<Rightarrow> ConnectionRequest res \<times> FileStore" where
  "FileStore_Create e inp s = commit e (Create e inp (fs_mem s)) s"

definition FileStore_Get ::
  "'e file_env_scheme \<Rightarrow> string \<Rightarrow> FileStore \<Rightarrow> ConnectionRequest res \<times> FileStore" where
  "FileStore_Get e rid s = settle e (Get e rid (fs_mem s)) s"

definition FileStore_ListPendingForDevice ::
  "'e file_env_scheme \<Rightarrow> string \<Rightarrow> FileStore \<Rightarrow> ConnectionRequest list \<times> FileStore" where
  "FileStore_ListPendingForDevice e deviceID s =
     (let (out, m) = ListPendingForDevice e deviceID (fs_mem s)
      in (out, snd (persistLocked e (s\<lparr>fs_mem := m\<rparr>))))"

definition FileStore_SetLocalDecision ::
  "'e file_env_scheme \<Rightarrow> string \<Rightarrow> bool \<Rightarrow> FileStore \<Rightarrow> ConnectionRequest res \<times> FileStore" where
  "FileStore_SetLocalDecision e rid approved s =
     commit e (SetLocalDecision e rid approved (fs_mem s)) s"

definition FileStore_SetResult ::
  "'e file_env_scheme \<Rightarrow> string \<Rightarrow> Status \<Rightarrow> string \<Rightarrow> FileStore
   \<Rightarrow> ConnectionRequest res \<times> FileStore" where
  "FileStore_SetResult e rid status reasonCode s =
     commit e (SetResult e rid status reasonCode (fs_mem s)) s"

definition FileStore_CreateInstallSession ::
  "'e file_env_scheme \<Rightarrow> CreateInstallInput \<Rightarrow> FileStore
   \<Rightarrow> (InstallSession \<times> string) res \<times> FileStore" where
  "FileStore_CreateInstallSession e inp s = commit e (CreateInstallSession e inp (fs_mem s)) s"

definition FileStore_GetInstallSession ::
  "'e file_env_scheme \<Rightarrow> string \<Rightarrow> FileStore \<Rightarrow> InstallSession res \<times> FileStore" where
  "FileStore_GetInstallSession e sid s = settle e (GetInstallSession e sid (fs_mem s)) s"

definition FileStore_SetInstallApproval ::
  "'e file_env_scheme \<Rightarrow> string \<Rightarrow> bool \<Rightarrow> FileStore \<Rightarrow> InstallSession res \<times> FileStore" where
  "FileStore_SetInstallApproval e sid approved s =
     commit e (SetInstallApproval e sid approved (fs_mem s)) s"

definition FileStore_SetInstallResult ::
  "'e file_env_scheme \<Rightarrow> string \<Rightarrow> InstallStatus \<Rightarrow> string \<Rightarrow> FileStore
   \<Rightarrow> InstallSession res \<times> FileStore" where
  "FileStore_SetInstallResult e sid status reasonCode s =
     commit e (SetInstallResult e sid status reasonCode (fs_mem s)) s"

definition FileStore_SetInstallIdentity ::
  "'e file_env_scheme \<Rightarrow> string \<Rightarrow> string \<Rightarrow> string \<Rightarrow> FileStore
   \<Rightarrow> InstallSession res \<times> FileStore" where
  "FileStore_SetInstallIdentity e sid connectorID deviceID s =
     commit e (SetInstallIdentity e sid connectorID deviceID (fs_mem s)) s"

definition FileStore_RedeemInstallToken ::
  "'e file_env_scheme \<Rightarrow> string \<Rightarrow> FileStore \<Rightarrow> InstallSession res \<times> FileStore" where
  "FileStore_RedeemInstallToken e token s = commit e (RedeemInstallToken e token (fs_mem s)) s"

definition file_store :: "('x file_env_scheme, FileStore) RequestStore" where
  "file_store =
     \<lparr>rs_Create = FileStore_Create,
      rs_Get = FileStore_Get,
      rs_SetLocalDecision = FileStore_SetLocalDecision,
      rs_SetResult = FileStore_SetResult,
      rs_ListPendingForDevice = FileStore_ListPendingForDevice,
      rs_CreateInstallSession = FileStore_CreateInstallSession,
      rs_GetInstallSession = FileStore_GetInstallSession,
      rs_SetInstallApproval = FileStore_SetInstallApproval,
      rs_SetInstallIdentity = FileStore_SetInstallIdentity,
      rs_SetInstallResult = FileStore_SetInstallResult,
      rs_RedeemInstallToken = FileStore_RedeemInstallToken\<rparr>"

lemmas file_ops_defs =
  FileStore_Create_def FileStore_Get_def FileStore_ListPendingForDevice_def
  FileStore_SetLocalDecision_def FileStore_SetResult_def FileStore_CreateInstallSession_def
  FileStore_GetInstallSession_def FileStore_SetInstallApproval_def FileStore_SetInstallResult_def
  FileStore_SetInstallIdentity_def FileStore_RedeemInstallToken_def

section \<open>The format round-trips\<close>

lemma field_names [simp]:
  "fold_name ''id'' = ''ID''" "fold_name ''openclaw_user_id'' = ''OPENCLAW_USER_ID''"
  "fold_name ''device_id'' = ''DEVICE_ID''" "fold_name ''connector_id'' = ''CONNECTOR_ID''"
  "fold_name ''source_channel'' = ''SOURCE_CHANNEL''" "fold_name ''status'' = ''STATUS''"
  "fold_name ''created_at'' = ''CREATED_AT''" "fold_name ''expires_at'' = ''EXPIRES_AT''"
  "fold_name ''nonce'' = ''NONCE''" "fold_name ''reason_code'' = ''REASON_CODE''"
  "fold_name ''items'' = ''ITEMS''" "fold_name ''install_sessions'' = ''INSTALL_SESSIONS''"
  "fold_name ''install_tokens'' = ''INSTALL_TOKENS''"
  by code_simp+

lemma marshal_time_Inr: "marshal_time t = Inr j \<longleftrightarrow> year_ok t \<and> j = JTime t"
  by (auto simp: marshal_time_def)

lemma request_roundtrip: "json_of_request r = Inr j \<Longrightarrow> request_of_json j = Inr r"
  by (cases "req_ReasonCode r = []")
     (auto simp: json_of_request_def request_of_json_def res_bind_Inr marshal_time_Inr
           simp del: fold_name.simps)

lemma session_roundtrip: "json_of_session q = Inr j \<Longrightarrow> session_of_json j = Inr q"
  by (cases "sess_ReasonCode q = []")
     (auto simp: json_of_session_def session_of_json_def res_bind_Inr marshal_time_Inr
           simp del: fold_name.simps)

definition finite_store :: "InMemoryStore \<Rightarrow> bool" where
  "finite_store m \<longleftrightarrow>
     finite (dom (items m)) \<and> finite (dom (installSessions m)) \<and> finite (dom (installTokens m))"

lemma state_roundtrip:
  assumes "finite_store m" and "marshal_state m = Inr j"
  shows "unmarshal_state j = Inr m"
proof -
  from assms(2) obtain a b c where a: "encode_map json_of_request (items m) = Inr a"
    and b: "encode_map json_of_session (installSessions m) = Inr b"
    and c: "encode_map (\<lambda>sid. Inr (JStr sid)) (installTokens m) = Inr c"
    and j: "j = JObj [(''items'', a), (''install_sessions'', b), (''install_tokens'', c)]"
    by (auto simp: marshal_state_def res_bind_Inr)
  have "assign_map request_of_json a Map.empty = Inr (items m)"
    using assms(1) by (intro map_roundtrip [OF request_roundtrip _ a]) (auto simp: finite_store_def)
  moreover have "assign_map session_of_json b Map.empty = Inr (installSessions m)"
    using assms(1) by (intro map_roundtrip [OF session_roundtrip _ b]) (auto simp: finite_store_def)
  moreover have "assign_map (\<lambda>v. assign_string v []) c Map.empty = Inr (installTokens m)"
    using assms(1) by (intro map_roundtrip [OF _ _ c]) (auto simp: finite_store_def)
  ultimately show ?thesis
    by (simp add: unmarshal_state_def j del: fold_name.simps)
qed

section \<open>The contract of the interface\<close>

lemma persist_mem [simp]:
  "fs_mem (snd (persistLocked e s)) = fs_mem s" "fs_path (snd (persistLocked e s)) = fs_path s"
  by (auto simp: persistLocked_def Let_def split: sum.splits option.splits)

lemma commit_mem [simp]:
  "fs_mem (snd (commit e rm s)) = snd rm" "fs_path (snd (commit e rm s)) = fs_path s"
  using persist_mem [of e "s\<lparr>fs_mem := snd rm\<rparr>"]
  by (cases rm; cases "fst rm"; cases "persistLocked e (s\<lparr>fs_mem := snd rm\<rparr>)";
      cases "fst (persistLocked e (s\<lparr>fs_mem := snd rm\<rparr>))"; simp add: commit_def)+

lemma settle_mem [simp]:
  "fs_mem (snd (settle e rm s)) = snd rm" "fs_path (snd (settle e rm s)) = fs_path s"
  by (auto simp: settle_def split: prod.splits sum.splits)

lemma commit_answer: "succeeds (fst (commit e rm s)) \<Longrightarrow> fst (commit e rm s) = fst rm"
  by (auto simp: commit_def split: prod.splits sum.splits option.splits)

lemma settle_answer [simp]: "fst (settle e rm s) = fst rm"
  by (auto simp: settle_def split: prod.splits sum.splits)

lemma file_store_sel [simp]:
  "rs_Create file_store = FileStore_Create" "rs_Get file_store = FileStore_Get"
  "rs_SetLocalDecision file_store = FileStore_SetLocalDecision"
  "rs_SetResult file_store = FileStore_SetResult"
  "rs_ListPendingForDevice file_store = FileStore_ListPendingForDevice"
  "rs_CreateInstallSession file_store = FileStore_CreateInstallSession"
  "rs_GetInstallSession file_store = FileStore_GetInstallSession"
  "rs_SetInstallApproval file_store = FileStore_SetInstallApproval"
  "rs_SetInstallIdentity file_store = FileStore_SetInstallIdentity"
  "rs_SetInstallResult file_store = FileStore_SetInstallResult"
  "rs_RedeemInstallToken file_store = FileStore_RedeemInstallToken"
  by (simp_all add: file_store_def)

interpretation on_disk: request_store file_store fs_mem
proof unfold_locales
  fix e :: "'x file_env_scheme" and c s
  show "fs_mem (snd (perform file_store e c s)) = snd (perform mem_store e c (fs_mem s))"
    by (cases c) (simp_all add: file_ops_defs split: prod.splits)
  show "fst (perform file_store e c s) = fst (perform mem_store e c (fs_mem s))"
    if "op_ok (fst (perform file_store e c s))"
    using that by (cases c) (auto simp: file_ops_defs split: prod.splits dest: commit_answer)
qed

section \<open>What the disk holds\<close>

text \<open>The calls that report a failed write; the others answer from memory.\<close>

fun writes_through :: "store_op \<Rightarrow> bool" where
  "writes_through (OpGet rid) = False"
| "writes_through (OpListPending dev) = False"
| "writes_through (OpGetInstall sid) = False"
| "writes_through _ = True"

definition holds :: "FileStore \<Rightarrow> InMemoryStore \<Rightarrow> bool" where
  "holds s m \<longleftrightarrow> NewFileStore None (fs_path s) (fs_disk s)
               = Inr \<lparr>fs_path = fs_path s, fs_mem = m, fs_disk = fs_disk s\<rparr>"

lemma tmp_other [simp]: "p \<noteq> p @ ''.tmp''" "p @ ''.tmp'' \<noteq> p"
  by simp_all

lemma holds_frame:
  assumes "holds s m" and "fs_path s' = fs_path s" and "fs_disk s' (fs_path s) = fs_disk s (fs_path s)"
  shows "holds s' m"
  using assms by (auto simp: holds_def NewFileStore_def load_def res_bind_Inr
                             split: option.splits file_content.splits if_splits)

lemma persist_holds:
  assumes "finite_store (fs_mem s)" and "fs_path s \<noteq> []" and "holds s m"
  obtains "fst (persistLocked e s) = None" and "holds (snd (persistLocked e s)) (fs_mem s)"
        | "fst (persistLocked e s) \<noteq> None" and "holds (snd (persistLocked e s)) m"
proof (cases "fst (persistLocked e s)")
  case None
  then obtain raw where raw: "marshal_state (fs_mem s) = Inr raw"
    and d: "snd (persistLocked e s)
            = s\<lparr>fs_disk := (fs_disk s)(fs_path s \<mapsto> Doc raw, fs_path s @ ''.tmp'' := None)\<rparr>"
    by (auto simp: persistLocked_def Let_def split: sum.splits option.splits prod.splits)
  have "holds (snd (persistLocked e s)) (fs_mem s)"
    using state_roundtrip [OF assms(1) raw] assms(2)
    by (simp add: d holds_def NewFileStore_def load_def)
  with None that show ?thesis by simp
next
  case (Some err)
  then have "fs_disk (snd (persistLocked e s)) (fs_path s) = fs_disk s (fs_path s)"
    by (auto simp: persistLocked_def Let_def split: sum.splits option.splits prod.splits)
  then have "holds (snd (persistLocked e s)) m"
    by (intro holds_frame [OF assms(3)]) simp_all
  with Some that show ?thesis by simp
qed

lemma finite_store_new: "finite_store NewInMemoryStore"
  by (simp add: finite_store_def NewInMemoryStore_def)

lemma finite_put:
  "finite_store m \<Longrightarrow> finite_store (m\<lparr>items := (items m)(k \<mapsto> r)\<rparr>)"
  "finite_store m \<Longrightarrow> finite_store (m\<lparr>installTokens := (installTokens m)(k \<mapsto> sid)\<rparr>)"
  "finite_store m \<Longrightarrow> finite_store (put_session k q m)"
  "finite_store m \<Longrightarrow> finite_store (deleteInstallTokensForSession sid m)"
  by (auto simp: finite_store_def put_session_def deleteInstallTokensForSession_def)

lemma finite_list_loop:
  "finite_store m \<Longrightarrow> finite_store (snd (list_pending_loop dev ord out m))"
  by (induction dev ord out m rule: list_pending_loop.induct)
     (auto simp: Let_def finite_put split: option.splits)

lemma finite_perform: "finite_store m \<Longrightarrow> finite_store (snd (perform mem_store e c m))"
  by (cases c)
     (auto simp: Create_def Get_def ListPendingForDevice_def SetLocalDecision_def SetResult_def
        CreateInstallSession_def GetInstallSession_def SetInstallIdentity_def
        SetInstallApproval_def SetInstallResult_def RedeemInstallToken_def
        Let_def finite_put finite_list_loop
        simp del: fun_upd_apply split: option.splits prod.splits)

end
