(* ===== verification/Base64.thy ===== *)
theory Base64
  imports GoStrings
begin

text \<open>
  \<open>base64.StdEncoding\<close>: seeds, public keys and signatures travel in this form. Decoding
  skips carriage returns and line feeds anywhere, demands full padding at the end and, as Go's
  non-strict decoder, ignores the unused low bits of the last digit.
\<close>

definition b64_digit :: "nat \<Rightarrow> char" where
  "b64_digit n =
     (if n < 26 then char_of (65 + n)
      else if n < 52 then char_of (71 + n)
      else if n < 62 then char_of (n - 4)
      else if n = 62 then CHR 0x2B else CHR 0x2F)"

definition b64_value :: "char \<Rightarrow> nat option" where
  "b64_value c = (let n = of_char c in
     if 65 \<le> n \<and> n \<le> 90 then Some (n - 65)
     else if 97 \<le> n \<and> n \<le> 122 then Some (n - 71)
     else if 48 \<le> n \<and> n \<le> 57 then Some (n + 4)
     else if n = 43 then Some 62
     else if n = 47 then Some 63
     else None)"

abbreviation b64_pad :: char where
  "b64_pad \<equiv> CHR 0x3D"

fun b64_encode :: "string \<Rightarrow> string" where
  "b64_encode [] = []"
| "b64_encode [a] =
     [b64_digit (of_char a div 4), b64_digit (16 * (of_char a mod 4)), b64_pad, b64_pad]"
| "b64_encode [a, b] =
     [b64_digit (of_char a div 4), b64_digit (16 * (of_char a mod 4) + of_char b div 16),
      b64_digit (4 * (of_char b mod 16)), b64_pad]"
| "b64_encode (a # b # c # s) =
     b64_digit (of_char a div 4) # b64_digit (16 * (of_char a mod 4) + of_char b div 16)
     # b64_digit (4 * (of_char b mod 16) + of_char c div 64) # b64_digit (of_char c mod 64)
     # b64_encode s"

definition b64_error :: err where
  "b64_error = ErrMsg ''illegal base64 data''"

definition b64_tail :: "nat \<Rightarrow> nat \<Rightarrow> char \<Rightarrow> char \<Rightarrow> string res" where
  \<comment> \<open>the last quantum, which may end in padding: its first two digits and its last two bytes\<close>
  "b64_tail x y c d =
     (if d \<noteq> b64_pad then Inl b64_error
      else if c = b64_pad then Inr [char_of (4 * x + y div 16)]
      else (case b64_value c of
              None \<Rightarrow> Inl b64_error
            | Some z \<Rightarrow> Inr [char_of (4 * x + y div 16), char_of (16 * (y mod 16) + z div 4)]))"

fun b64_quanta :: "string \<Rightarrow> string res" where
  "b64_quanta [] = Inr []"
| "b64_quanta (a # b # c # d # s) =
     (case (b64_value a, b64_value b) of
        (Some x, Some y) \<Rightarrow>
          (case (b64_value c, b64_value d) of
             (Some z, Some w) \<Rightarrow>
               (case b64_quanta s of
                  Inl e \<Rightarrow> Inl e
                | Inr r \<Rightarrow> Inr (char_of (4 * x + y div 16) # char_of (16 * (y mod 16) + z div 4)
                                # char_of (64 * (z mod 4) + w) # r))
           | _ \<Rightarrow> if s = [] then b64_tail x y c d else Inl b64_error)
      | _ \<Rightarrow> Inl b64_error)"
| "b64_quanta _ = Inl b64_error"

definition b64_decode :: "string \<Rightarrow> string res" where
  "b64_decode s = b64_quanta (filter (\<lambda>c. c \<noteq> CHR 0x0A \<and> c \<noteq> CHR 0x0D) s)"

section \<open>Round trip\<close>

lemma b64_digit_value: "n < 64 \<Longrightarrow> b64_value (b64_digit n) = Some n"
  by (auto simp: b64_value_def b64_digit_def Let_def)

lemma b64_pad_value [simp]: "b64_value b64_pad = None"
  by (simp add: b64_value_def)

lemma b64_digit_graph: "n < 64 \<Longrightarrow> graph_char (b64_digit n)"
  by (auto simp: b64_digit_def graph_char_def)

lemma b64_digit_pad: "n < 64 \<Longrightarrow> b64_digit n \<noteq> b64_pad"
  using b64_digit_value b64_pad_value by (metis option.distinct(1))

lemma char_split4: "char_of (4 * (of_char a div 4) + (16 * (of_char a mod 4) + k) div 16) = a"
  if "k < 16" for a :: char and k :: nat
proof -
  have "(16 * m + k) div 16 = m" for m :: nat using that by simp
  then show ?thesis by simp
qed

lemma b64_ranges [simp]:
  "(of_char (a::char) :: nat) div 4 < 64" "(of_char a :: nat) div 16 < 16" "(of_char a :: nat) div 64 < 4"
  using of_char_less [of a] by (simp_all add: less_mult_imp_div_less)

lemma b64_ranges2 [simp]:
  "16 * ((n::nat) mod 4) < 64" "4 * (n mod 16) < 64" "n mod 64 < 64"
  "m < 16 \<Longrightarrow> 16 * (n mod 4) + m < 64" "k < 4 \<Longrightarrow> 4 * (n mod 16) + k < 64"
proof -
  show "16 * (n mod 4) < 64" "4 * (n mod 16) < 64" "n mod 64 < 64" by simp_all
  show "m < 16 \<Longrightarrow> 16 * (n mod 4) + m < 64" using mod_less_divisor [of 4 n] by linarith
  show "k < 4 \<Longrightarrow> 4 * (n mod 16) + k < 64" using mod_less_divisor [of 16 n] by linarith
qed

lemma b64_middle: "m < 16 \<Longrightarrow> (16 * k + m) mod 16 = (m::nat)"
  "m < 4 \<Longrightarrow> (4 * k + m) mod 4 = (m::nat)" "m < 4 \<Longrightarrow> (4 * k + m) div 4 = k"
  by simp_all

lemma b64_join:
  "16 * ((n::nat) div 16) + n mod 16 = n" "64 * (n div 64) + n mod 64 = n" "4 * (n div 4) + n mod 4 = n"
  by simp_all

lemma b64_quanta_encode: "b64_quanta (b64_encode s) = Inr s"
proof (induction s rule: b64_encode.induct)
  case 1
  show ?case by simp
next
  case (2 a)
  show ?case by (simp add: b64_digit_value b64_tail_def)
next
  case (3 a b)
  show ?case
    by (simp add: b64_digit_value b64_tail_def b64_digit_pad b64_middle)
next
  case (4 a b c s)
  then show ?case
    by (simp add: b64_digit_value b64_middle)
qed

lemma b64_encode_graph: "c \<in> set (b64_encode s) \<Longrightarrow> graph_char c"
proof (induction s rule: b64_encode.induct)
  case (4 a b c' s)
  then show ?case by (auto simp: b64_digit_graph)
qed (auto simp: b64_digit_graph graph_char_def [of b64_pad])

lemma b64_roundtrip: "b64_decode (b64_encode s) = Inr s"
proof -
  have "filter (\<lambda>c. c \<noteq> CHR 0x0A \<and> c \<noteq> CHR 0x0D) (b64_encode s) = b64_encode s"
    by (rule filter_True) (auto dest!: b64_encode_graph simp: graph_char_def)
  then show ?thesis by (simp add: b64_decode_def b64_quanta_encode)
qed

lemma TrimSpace_b64 [simp]: "TrimSpace (b64_encode s) = b64_encode s"
  by (rule TrimSpace_graph) (rule b64_encode_graph)

lemma b64_encode_eq_Nil [simp]: "b64_encode s = [] \<longleftrightarrow> s = []"
  by (cases s rule: b64_encode.cases) auto

end
