(* ===== verification/Signing.thy ===== *)
theory Signing
  imports JsonText Sha256 Base64
begin

text \<open>
  \<open>internal/signing\<close> of the control plane: the bundle payload and its canonical bytes, signers made
  from base64 seeds, the set of signers with its active key, and the published keyset. Ed25519
  itself is a parameter, a record of the four functions of \<open>crypto/ed25519\<close> the code calls, with
  the documented laws as the predicate \<open>ed_laws\<close>. A Go map that is ranged over is given as the list
  of its entries in the order visited.
\<close>

section \<open>Ed25519\<close>

record ed25519 =
  ed_NewKeyFromSeed :: "string \<Rightarrow> string"
  ed_Public :: "string \<Rightarrow> string"
  ed_Sign :: "string \<Rightarrow> string \<Rightarrow> string"
  ed_Verify :: "string \<Rightarrow> string \<Rightarrow> string \<Rightarrow> bool"

text \<open>
  Public keys have 32 bytes, signatures 64, and a signature made with the private key of a seed
  verifies under its public key.
\<close>

definition ed_laws :: "ed25519 \<Rightarrow> bool" where
  "ed_laws ed \<longleftrightarrow>
     (\<forall>seed. length seed = 32 \<longrightarrow>
        length (ed_Public ed (ed_NewKeyFromSeed ed seed)) = 32
        \<and> (\<forall>m. length (ed_Sign ed (ed_NewKeyFromSeed ed seed) m) = 64
               \<and> ed_Verify ed (ed_Public ed (ed_NewKeyFromSeed ed seed)) m
                   (ed_Sign ed (ed_NewKeyFromSeed ed seed) m)))"

section \<open>Payload and bundle\<close>

record BundlePayload =
  bp_RequestID :: string
  bp_ConnectorID :: string
  bp_SSHPublicKey :: string
  bp_QuoteHex :: string
  bp_EventLog :: string
  bp_MRTD :: string
  bp_RTMR0 :: string
  bp_RTMR1 :: string
  bp_RTMR2 :: string
  bp_RTMR3 :: string
  bp_ReportDataExpectedSHA256 :: string
  bp_PolicyVersion :: string
  bp_IssuedAt :: time
  bp_ExpiresAt :: time
  bp_Nonce :: string

record SignedBundle =
  sb_Payload :: BundlePayload
  sb_Signature :: string
  sb_Alg :: string
  sb_KID :: string

record PublicKeyInfo =
  pk_KID :: string
  pk_Alg :: string
  pk_PublicKeyB64 :: string

record SigningKeyset =
  ks_ActiveKID :: string
  ks_Keys :: "PublicKeyInfo list"

text \<open>The members of the payload in declaration order, each with its string value.\<close>

definition payload_fields :: "BundlePayload \<Rightarrow> (string \<times> string) list" where
  "payload_fields p =
     [(''request_id'', bp_RequestID p),
      (''connector_id'', bp_ConnectorID p),
      (''ssh_public_key'', bp_SSHPublicKey p),
      (''quote_hex'', bp_QuoteHex p),
      (''event_log'', bp_EventLog p),
      (''mrtd'', bp_MRTD p),
      (''rtmr0'', bp_RTMR0 p),
      (''rtmr1'', bp_RTMR1 p),
      (''rtmr2'', bp_RTMR2 p),
      (''rtmr3'', bp_RTMR3 p),
      (''report_data_expected_sha256'', bp_ReportDataExpectedSHA256 p),
      (''policy_version'', bp_PolicyVersion p),
      (''issued_at'', rfc3339 (bp_IssuedAt p)),
      (''expires_at'', rfc3339 (bp_ExpiresAt p)),
      (''nonce'', bp_Nonce p)]"

definition marshalCanonical :: "BundlePayload \<Rightarrow> string res" where
  "marshalCanonical p =
     (if \<not> year_ok (bp_IssuedAt p) \<or> \<not> year_ok (bp_ExpiresAt p)
      then Inl (ErrMsg ''Time.MarshalJSON: year outside of range [0,9999]'')
      else Inr (object_text (map (apsnd quote_json) (payload_fields p))))"

definition ReportDataHashFromSSHPublicKey :: "string \<Rightarrow> string" where
  "ReportDataHashFromSSHPublicKey sshPublicKey = hex_encode (Sum256 sshPublicKey)"

section \<open>Signers\<close>

definition DefaultSigningKID :: string where
  "DefaultSigningKID = ''v1''"

record Ed25519Signer =
  sg_privateKey :: string
  sg_publicKey :: string
  sg_kid :: string

definition NewEd25519SignerWithKIDFromSeedB64 :: "ed25519 \<Rightarrow> string \<Rightarrow> string \<Rightarrow> Ed25519Signer res" where
  "NewEd25519SignerWithKIDFromSeedB64 ed seedB64 kid =
     (case b64_decode seedB64 of
        Inl err \<Rightarrow> Inl (ErrMsg ''decode signing seed'')
      | Inr seed \<Rightarrow>
          if length seed \<noteq> 32 then Inl (ErrMsg ''signing seed must be 32 bytes'')
          else
            (let privateKey = ed_NewKeyFromSeed ed seed;
                 publicKey = ed_Public ed privateKey;
                 kid = TrimSpace kid;
                 kid = (if kid = [] then DefaultSigningKID else kid)
             in Inr \<lparr>sg_privateKey = privateKey, sg_publicKey = publicKey, sg_kid = kid\<rparr>))"

definition NewEd25519SignerFromSeedB64 :: "ed25519 \<Rightarrow> string \<Rightarrow> Ed25519Signer res" where
  "NewEd25519SignerFromSeedB64 ed seedB64 =
     NewEd25519SignerWithKIDFromSeedB64 ed seedB64 DefaultSigningKID"

definition Ed25519Signer_SignBundle ::
  "ed25519 \<Rightarrow> Ed25519Signer \<Rightarrow> BundlePayload \<Rightarrow> SignedBundle res" where
  "Ed25519Signer_SignBundle ed s payload =
     res_bind (marshalCanonical payload) (\<lambda>raw.
       (let sig = ed_Sign ed (sg_privateKey s) raw
        in Inr \<lparr>sb_Payload = payload, sb_Signature = b64_encode sig,
                sb_Alg = ''ed25519'', sb_KID = sg_kid s\<rparr>))"

definition Ed25519Signer_PublicKeyB64 :: "Ed25519Signer \<Rightarrow> string" where
  "Ed25519Signer_PublicKeyB64 s = b64_encode (sg_publicKey s)"

definition public_key_info :: "Ed25519Signer \<Rightarrow> PublicKeyInfo" where
  "public_key_info s =
     \<lparr>pk_KID = sg_kid s, pk_Alg = ''ed25519'', pk_PublicKeyB64 = Ed25519Signer_PublicKeyB64 s\<rparr>"

definition Ed25519Signer_Keyset :: "Ed25519Signer \<Rightarrow> SigningKeyset" where
  "Ed25519Signer_Keyset s = \<lparr>ks_ActiveKID = sg_kid s, ks_Keys = [public_key_info s]\<rparr>"

section \<open>The set of signers\<close>

record SignerSet =
  ss_activeKID :: string
  ss_signers :: "string \<rightharpoonup> Ed25519Signer"

fun signer_loop ::
  "ed25519 \<Rightarrow> (string \<times> string) list \<Rightarrow> (string \<rightharpoonup> Ed25519Signer) \<Rightarrow> (string \<rightharpoonup> Ed25519Signer) res" where
  "signer_loop ed [] signers = Inr signers"
| "signer_loop ed ((kid, seedB64) # rest) signers =
     (let kid = TrimSpace kid in
      if kid = [] then Inl (ErrMsg ''signing key kid cannot be empty'')
      else (case NewEd25519SignerWithKIDFromSeedB64 ed seedB64 kid of
              Inl err \<Rightarrow> Inl (ErrMsg ''invalid signing key'')
            | Inr signer \<Rightarrow> signer_loop ed rest (signers(kid \<mapsto> signer))))"

definition NewSignerSetFromSeedMap ::
  "ed25519 \<Rightarrow> (string \<times> string) list \<Rightarrow> string \<Rightarrow> SignerSet res" where
  "NewSignerSetFromSeedMap ed seedByKID activeKID =
     (if length seedByKID = 0 then Inl (ErrMsg ''no signing keys configured'')
      else
        (let activeKID = TrimSpace activeKID;
             activeKID = (if activeKID = [] then DefaultSigningKID else activeKID)
         in res_bind (signer_loop ed seedByKID Map.empty) (\<lambda>signers.
              case signers activeKID of
                None \<Rightarrow> Inl (ErrMsg ''active signing kid not found'')
              | Some _ \<Rightarrow> Inr \<lparr>ss_activeKID = activeKID, ss_signers = signers\<rparr>)))"

text \<open>A missing map entry is a nil signer, and calling its method dereferences nil.\<close>

definition SignerSet_SignBundle :: "ed25519 \<Rightarrow> SignerSet \<Rightarrow> BundlePayload \<Rightarrow> SignedBundle res" where
  "SignerSet_SignBundle ed s payload =
     (case ss_signers s (ss_activeKID s) of
        None \<Rightarrow> Inl (ErrMsg ''panic: nil pointer dereference'')
      | Some signer \<Rightarrow> Ed25519Signer_SignBundle ed signer payload)"

text \<open>\<open>vs\<close> is the order in which the range loop visits the signers.\<close>

definition SignerSet_Keyset :: "string list \<Rightarrow> SignerSet \<Rightarrow> SigningKeyset" where
  "SignerSet_Keyset vs s =
     (let keys = filter_map (\<lambda>kid. map_option public_key_info (ss_signers s kid)) vs
      in \<lparr>ks_ActiveKID = ss_activeKID s, ks_Keys = sort_key pk_KID keys\<rparr>)"

definition VerifyBundle :: "ed25519 \<Rightarrow> BundlePayload \<Rightarrow> string \<Rightarrow> string \<Rightarrow> bool res" where
  "VerifyBundle ed payload signatureB64 publicKeyB64 =
     res_bind (marshalCanonical payload) (\<lambda>raw.
       (case b64_decode publicKeyB64 of
          Inl err \<Rightarrow> Inl (ErrMsg ''decode pubkey'')
        | Inr pub \<Rightarrow>
            if length pub \<noteq> 32 then Inl (ErrMsg ''invalid ed25519 public key length'')
            else (case b64_decode signatureB64 of
                    Inl err \<Rightarrow> Inl (ErrMsg ''decode signature'')
                  | Inr sig \<Rightarrow> Inr (ed_Verify ed pub raw sig))))"

section \<open>Signer sets\<close>

definition signer_ok :: "ed25519 \<Rightarrow> string \<Rightarrow> Ed25519Signer \<Rightarrow> bool" where
  "signer_ok ed kid s \<longleftrightarrow>
     sg_kid s = kid \<and> kid \<noteq> [] \<and> TrimSpace kid = kid
     \<and> (\<exists>seed. length seed = 32 \<and> sg_privateKey s = ed_NewKeyFromSeed ed seed
               \<and> sg_publicKey s = ed_Public ed (ed_NewKeyFromSeed ed seed))"

definition signer_set_ok :: "ed25519 \<Rightarrow> SignerSet \<Rightarrow> bool" where
  "signer_set_ok ed s \<longleftrightarrow>
     finite (dom (ss_signers s)) \<and> ss_signers s (ss_activeKID s) \<noteq> None
     \<and> (\<forall>kid sg. ss_signers s kid = Some sg \<longrightarrow> signer_ok ed kid sg)"

lemma new_signer_ok:
  assumes "NewEd25519SignerWithKIDFromSeedB64 ed b kid = Inr s" and "TrimSpace kid \<noteq> []"
  shows "signer_ok ed (TrimSpace kid) s"
  using assms
  by (auto simp: NewEd25519SignerWithKIDFromSeedB64_def signer_ok_def Let_def
      split: sum.splits if_splits)

lemma signer_loop_ok:
  assumes "signer_loop ed ents m = Inr m'" and "finite (dom m)"
    and "\<And>kid s. m kid = Some s \<Longrightarrow> signer_ok ed kid s"
  shows "finite (dom m') \<and> (\<forall>kid s. m' kid = Some s \<longrightarrow> signer_ok ed kid s)"
  using assms
proof (induction ed ents m arbitrary: m' rule: signer_loop.induct)
  case (2 ed kid b rest m)
  then obtain s where s: "NewEd25519SignerWithKIDFromSeedB64 ed b (TrimSpace kid) = Inr s"
    and k: "TrimSpace kid \<noteq> []" and rest: "signer_loop ed rest (m(TrimSpace kid \<mapsto> s)) = Inr m'"
    by (auto simp: Let_def split: if_splits sum.splits)
  have "signer_ok ed (TrimSpace kid) s" using new_signer_ok [OF s] k by simp
  show ?case
  proof (rule "2.IH" [OF refl k s rest])
    show "finite (dom (m(TrimSpace kid \<mapsto> s)))" using "2.prems"(2) by simp
    fix k' s' assume "(m(TrimSpace kid \<mapsto> s)) k' = Some s'"
    with "2.prems"(3) \<open>signer_ok ed (TrimSpace kid) s\<close> show "signer_ok ed k' s'" by (auto split: if_splits)
  qed
qed auto

lemma new_signer_set_ok:
  assumes "NewSignerSetFromSeedMap ed seeds active = Inr s"
  shows "signer_set_ok ed s"
  using assms signer_loop_ok [of ed seeds Map.empty]
  by (auto simp: NewSignerSetFromSeedMap_def signer_set_ok_def Let_def res_bind_Inr
      split: if_splits option.splits)

lemma signed_verifies:
  assumes "ed_laws ed" and "signer_ok ed kid s" and "Ed25519Signer_SignBundle ed s p = Inr sb"
  shows "\<exists>raw sig. marshalCanonical p = Inr raw \<and> sb_Payload sb = p \<and> sb_KID sb = kid \<and> sb_Alg sb = ''ed25519''
           \<and> b64_decode (sb_Signature sb) = Inr sig \<and> length sig = 64 \<and> length (sg_publicKey s) = 32
           \<and> TrimSpace (sb_Signature sb) = sb_Signature sb
           \<and> ed_Verify ed (sg_publicKey s) raw sig"
  using assms
  by (auto simp: Ed25519Signer_SignBundle_def res_bind_Inr Let_def signer_ok_def ed_laws_def b64_roundtrip)

text \<open>The published keys: one per signer, in strictly increasing order of their IDs.\<close>

lemma sorted_keys_unique:
  assumes "sorted_wrt (\<lambda>a b. pk_KID a < pk_KID b) ks" and "sorted_wrt (\<lambda>a b. pk_KID a < pk_KID b) ks'"
    and "set ks = set ks'"
  shows "ks = ks'"
proof -
  have s: "sorted_wrt (<) (map pk_KID ks)" "sorted_wrt (<) (map pk_KID ks')"
    using assms(1,2) by (simp_all add: sorted_wrt_map)
  have "map pk_KID ks = map pk_KID ks'"
    by (rule strict_sorted_equal [OF s(2,1)]) (simp add: assms(3))
  moreover have "inj_on pk_KID (set ks \<union> set ks')"
    using s(1) assms(3) by (simp add: strict_sorted_iff distinct_map)
  ultimately show ?thesis by (rule map_inj_on)
qed

lemma keyset_keys:
  assumes "signer_set_ok ed s" and "distinct vs" and "set vs = dom (ss_signers s)"
  shows "set (ks_Keys (SignerSet_Keyset vs s)) = public_key_info ` ran (ss_signers s)"
    and "sorted_wrt (\<lambda>a b. pk_KID a < pk_KID b) (ks_Keys (SignerSet_Keyset vs s))"
proof -
  let ?f = "\<lambda>kid. map_option public_key_info (ss_signers s kid)"
  show "set (ks_Keys (SignerSet_Keyset vs s)) = public_key_info ` ran (ss_signers s)"
  proof -
    have "{y. \<exists>x \<in> dom m. map_option f (m x) = Some y} = f ` ran m" for m :: "'k \<rightharpoonup> 'a" and f :: "'a \<Rightarrow> 'b"
      by (auto simp: ran_def)
    then show ?thesis using assms(3) by (simp add: SignerSet_Keyset_def set_filter_map)
  qed
  have kid: "pk_KID k = kid" if "?f kid = Some k" for kid k
    using that assms(1) by (auto simp: signer_set_ok_def signer_ok_def public_key_info_def)
  have "distinct (map pk_KID (filter_map ?f vs))"
  proof (rule distinct_filter_map [where g = "\<lambda>x. x"])
    show "distinct (map (\<lambda>x. x) vs)" by (simp add: assms(2))
  qed (rule kid)
  then have "distinct (map pk_KID (sort_key pk_KID (filter_map ?f vs)))"
    by (simp add: distinct_map)
  then have "sorted_wrt (<) (map pk_KID (sort_key pk_KID (filter_map ?f vs)))"
    by (simp add: strict_sorted_iff)
  then show "sorted_wrt (\<lambda>a b. pk_KID a < pk_KID b) (ks_Keys (SignerSet_Keyset vs s))"
    by (simp add: SignerSet_Keyset_def sorted_wrt_map)
qed

section \<open>Canonical bytes\<close>

lemma valid_ascii: "(\<And>c. c \<in> set s \<Longrightarrow> ascii c) \<Longrightarrow> valid_utf8 s"
  by (induction s) auto

lemma dec_digits_ascii: "c \<in> set (dec_digits k n) \<Longrightarrow> ascii c"
  by (induction k n rule: dec_digits.induct) (auto simp: of_char_of)

lemma fraction_ascii: "c \<in> set (fraction n) \<Longrightarrow> ascii c"
  by (auto simp: fraction_def dest!: set_dropWhileD dec_digits_ascii split: if_splits)

lemma rfc3339_utf8: "valid_utf8 (rfc3339 t)"
  by (rule valid_ascii)
     (auto simp: rfc3339_def Let_def split: prod.splits dest: dec_digits_ascii fraction_ascii)

lemma join_fields_inj:
  assumes "map fst f = map fst g" and "\<forall>x \<in> set f \<union> set g. valid_utf8 (snd x)"
    and "join_comma (map (\<lambda>(k, v). quote_json k @ CHR '':'' # quote_json v) f) @ [CHR 0x7D]
         = join_comma (map (\<lambda>(k, v). quote_json k @ CHR '':'' # quote_json v) g) @ [CHR 0x7D]"
  shows "f = g"
  using assms
proof (induction f arbitrary: g)
  case Nil
  then show ?case by simp
next
  case (Cons x f)
  obtain k v where x: "x = (k, v)" by (cases x)
  with Cons.prems(1) obtain w g' where g: "g = (k, w) # g'" and names: "map fst f = map fst g'" by auto
  let ?j = "\<lambda>f. join_comma (map (\<lambda>(k, v). quote_json k @ CHR '':'' # quote_json v) f)"
  let ?r = "\<lambda>f. (if f = [] then [] else CHR '','' # ?j f) @ [CHR 0x7D]"
  have j: "?j ((k, v) # f) @ [CHR 0x7D] = quote_json k @ CHR '':'' # quote_json v @ ?r f" for v f
    by (cases f) auto
  have "quote_json v @ ?r f = quote_json w @ ?r g'"
    using Cons.prems(3) unfolding x g j by simp
  then have "v = w \<and> ?r f = ?r g'"
    by (rule quote_inj [rotated 2]) (use Cons.prems(2) x g in auto)
  moreover have "f = [] \<longleftrightarrow> g' = []" using names by auto
  ultimately show ?case
    using Cons.IH [OF names] Cons.prems(2) x g by (cases "f = []") auto
qed

definition payload_utf8 :: "BundlePayload \<Rightarrow> bool" where
  "payload_utf8 p \<longleftrightarrow> list_all (\<lambda>x. valid_utf8 (snd x)) (payload_fields p)"

lemma payload_fields_inj:
  assumes "payload_fields p = payload_fields q" and "year_ok (bp_IssuedAt p)" "year_ok (bp_ExpiresAt p)"
    and "year_ok (bp_IssuedAt q)" "year_ok (bp_ExpiresAt q)"
  shows "p = q"
  using assms by (auto simp: payload_fields_def intro!: BundlePayload.equality dest: rfc3339_inj)

section \<open>Visiting order\<close>

lemma signer_loop_Inr:
  assumes "signer_loop ed ents m = Inr m'" and "distinct (map (TrimSpace \<circ> fst) ents)"
  shows "m' k = Some s \<longleftrightarrow>
           (\<exists>kid b. (kid, b) \<in> set ents \<and> TrimSpace kid = k
                    \<and> NewEd25519SignerWithKIDFromSeedB64 ed b k = Inr s)
           \<or> k \<notin> (TrimSpace \<circ> fst) ` set ents \<and> m k = Some s"
  using assms
proof (induction ed ents m arbitrary: m' rule: signer_loop.induct)
  case (2 ed kid b rest m)
  then obtain q where q: "NewEd25519SignerWithKIDFromSeedB64 ed b (TrimSpace kid) = Inr q"
    and k: "TrimSpace kid \<noteq> []" and rest: "signer_loop ed rest (m(TrimSpace kid \<mapsto> q)) = Inr m'"
    by (auto simp: Let_def split: if_splits sum.splits)
  have new: "TrimSpace kid \<notin> (TrimSpace \<circ> fst) ` set rest" using "2.prems"(2) by auto
  have IH: "m' k = Some s \<longleftrightarrow>
      (\<exists>kid b. (kid, b) \<in> set rest \<and> TrimSpace kid = k \<and> NewEd25519SignerWithKIDFromSeedB64 ed b k = Inr s)
      \<or> k \<notin> (TrimSpace \<circ> fst) ` set rest \<and> (m(TrimSpace kid \<mapsto> q)) k = Some s"
    by (rule "2.IH" [OF refl k q rest]) (use "2.prems"(2) in simp)
  show ?case
  proof (cases "k = TrimSpace kid")
    case True
    with IH new q show ?thesis by (fastforce simp: image_iff)
  next
    case False
    with IH show ?thesis by auto
  qed
qed simp

lemma signer_loop_succeeds:
  "succeeds (signer_loop ed ents m)
   \<longleftrightarrow> (\<forall>(kid, b) \<in> set ents. TrimSpace kid \<noteq> []
          \<and> succeeds (NewEd25519SignerWithKIDFromSeedB64 ed b (TrimSpace kid)))"
  by (induction ed ents m rule: signer_loop.induct)
     (auto simp: Let_def simp del: fun_upd_apply split: sum.splits)

lemma signer_loop_order:
  assumes "signer_loop ed ents Map.empty = Inr m" and "distinct (map (TrimSpace \<circ> fst) ents)"
    and "distinct (map (TrimSpace \<circ> fst) ents')" and "set ents' = set ents"
  shows "signer_loop ed ents' Map.empty = Inr m"
proof -
  have "succeeds (signer_loop ed ents' Map.empty)"
    using assms(1,4) signer_loop_succeeds [of ed ents Map.empty] by (simp add: signer_loop_succeeds)
  then obtain m' where m': "signer_loop ed ents' Map.empty = Inr m'" by (auto simp: succeeds_iff)
  have "m' k = Some s \<longleftrightarrow> m k = Some s" for k s
    using signer_loop_Inr [OF m' assms(3)] signer_loop_Inr [OF assms(1,2)] assms(4) by auto
  then have "m' = m" by (intro ext) (metis not_None_eq)
  with m' show ?thesis by simp
qed

section \<open>Properties\<close>

text \<open>A stand-in for Ed25519 that keeps the laws, for the witnesses.\<close>

definition toy_sign :: "string \<Rightarrow> string \<Rightarrow> string" where
  "toy_sign key m = take 64 (key @ m @ replicate 64 (CHR ''.''))"

definition toy_ed :: ed25519 where
  "toy_ed = \<lparr>ed_NewKeyFromSeed = (\<lambda>seed. seed), ed_Public = (\<lambda>key. key), ed_Sign = toy_sign,
             ed_Verify = (\<lambda>pub m sig. sig = toy_sign pub m)\<rparr>"

lemma toy_ed_laws: "ed_laws toy_ed"
  by (auto simp: ed_laws_def toy_ed_def toy_sign_def min_def)

definition demo_seed :: string where
  "demo_seed = replicate 32 (CHR ''s'')"

definition demo_payload :: BundlePayload where
  "demo_payload =
     \<lparr>bp_RequestID = ''r1'', bp_ConnectorID = ''conn_1'', bp_SSHPublicKey = ''ssh-ed25519 AAAA'',
      bp_QuoteHex = ''00'', bp_EventLog = ''[]'', bp_MRTD = ''m'', bp_RTMR0 = ''a'', bp_RTMR1 = ''b'',
      bp_RTMR2 = ''c'', bp_RTMR3 = ''d'', bp_ReportDataExpectedSHA256 = ''e'', bp_PolicyVersion = ''v1'',
      bp_IssuedAt = 0, bp_ExpiresAt = 1, bp_Nonce = ''n1''\<rparr>"

lemma demo_kid_trim: "TrimSpace '' v1'' = ''v1''" "TrimSpace ''v1'' = ''v1''"
  by code_simp+

lemma demo_signer_set:
  "\<exists>s. NewSignerSetFromSeedMap toy_ed [(''v1'', b64_encode demo_seed)] ''v1'' = Inr s
       \<and> dom (ss_signers s) = {''v1''}"
  by (simp add: NewSignerSetFromSeedMap_def NewEd25519SignerWithKIDFromSeedB64_def b64_roundtrip Let_def
      demo_kid_trim demo_seed_def)

text \<open>
  C13. The signed bytes determine the payload. Two payloads of valid UTF-8 strings with the same
  canonical bytes are equal, instants included: a signature made for one bundle is never a signature
  for another bundle's content.
\<close>

theorem canonical_bytes_injective:
  assumes "marshalCanonical p = Inr raw" and "marshalCanonical q = Inr raw"
    and "payload_utf8 p" and "payload_utf8 q"
  shows "p = q"
proof -
  have raw: "raw = object_text (map (apsnd quote_json) (payload_fields p))"
    "raw = object_text (map (apsnd quote_json) (payload_fields q))"
    and y: "year_ok (bp_IssuedAt p)" "year_ok (bp_ExpiresAt p)" "year_ok (bp_IssuedAt q)" "year_ok (bp_ExpiresAt q)"
    using assms(1,2) by (auto simp: marshalCanonical_def split: if_splits)
  have comp: "(\<lambda>(k, v). quote_json k @ CHR '':'' # v) \<circ> apsnd quote_json
      = (\<lambda>(k, v). quote_json k @ CHR '':'' # quote_json v)" by auto
  have "payload_fields p = payload_fields q"
  proof (rule join_fields_inj)
    show "map fst (payload_fields p) = map fst (payload_fields q)" by (simp add: payload_fields_def)
    show "\<forall>x \<in> set (payload_fields p) \<union> set (payload_fields q). valid_utf8 (snd x)"
      using assms(3,4) by (auto simp: payload_utf8_def list_all_iff)
  qed (use raw in \<open>simp add: object_text_def comp\<close>)
  then show ?thesis by (rule payload_fields_inj) (fact y)+
qed

theorem canonical_bytes_injective_witness:
  "marshalCanonical (demo_payload\<lparr>bp_Nonce := ''n2''\<rparr>) \<noteq> marshalCanonical demo_payload"
proof
  assume e: "marshalCanonical (demo_payload\<lparr>bp_Nonce := ''n2''\<rparr>) = marshalCanonical demo_payload"
  obtain raw where raw: "marshalCanonical demo_payload = Inr raw"
    by (simp add: marshalCanonical_def demo_payload_def year_ok_def)
  have "demo_payload\<lparr>bp_Nonce := ''n2''\<rparr> = demo_payload"
    by (rule canonical_bytes_injective [OF trans [OF e raw] raw])
       (simp_all add: payload_utf8_def payload_fields_def demo_payload_def rfc3339_utf8)
  then show False by (simp add: demo_payload_def)
qed

text \<open>
  C14. A configured control plane can sign, and its published keyset verifies what it signs. If a
  signer set was built, then signing a payload whose instants JSON can write never dereferences a nil
  signer; the bundle names the active key, that key is in the published keyset, and \<open>VerifyBundle\<close>
  accepts the signature under it.
\<close>

theorem signer_set_signs:
  assumes "ed_laws ed" and "NewSignerSetFromSeedMap ed seeds active = Inr s"
    and "year_ok (bp_IssuedAt p)" and "year_ok (bp_ExpiresAt p)"
    and "distinct vs" and "set vs = dom (ss_signers s)"
  shows "\<exists>sb k. SignerSet_SignBundle ed s p = Inr sb \<and> sb_Payload sb = p \<and> sb_KID sb = ss_activeKID s
           \<and> k \<in> set (ks_Keys (SignerSet_Keyset vs s)) \<and> pk_KID k = sb_KID sb
           \<and> ks_ActiveKID (SignerSet_Keyset vs s) = sb_KID sb
           \<and> VerifyBundle ed p (sb_Signature sb) (pk_PublicKeyB64 k) = Inr True"
proof -
  note ok = new_signer_set_ok [OF assms(2)]
  then obtain sg where sg: "ss_signers s (ss_activeKID s) = Some sg" "signer_ok ed (ss_activeKID s) sg"
    by (auto simp: signer_set_ok_def)
  have "\<exists>raw. marshalCanonical p = Inr raw" using assms(3,4) by (simp add: marshalCanonical_def)
  then obtain sb where sb: "Ed25519Signer_SignBundle ed sg p = Inr sb"
    by (auto simp: Ed25519Signer_SignBundle_def Let_def)
  from signed_verifies [OF assms(1) sg(2) sb] have v:
    "VerifyBundle ed p (sb_Signature sb) (Ed25519Signer_PublicKeyB64 sg) = Inr True"
    "sb_KID sb = ss_activeKID s" "sb_Payload sb = p"
    by (auto simp: VerifyBundle_def Ed25519Signer_PublicKeyB64_def b64_roundtrip)
  have "public_key_info sg \<in> set (ks_Keys (SignerSet_Keyset vs s))"
    using keyset_keys(1) [OF ok assms(5,6)] sg(1) by (auto simp: ran_def)
  moreover have "pk_KID (public_key_info sg) = ss_activeKID s"
    using sg(2) by (simp add: public_key_info_def signer_ok_def)
  ultimately show ?thesis
    using sg(1) sb v by (intro exI [of _ sb] exI [of _ "public_key_info sg"])
      (auto simp: SignerSet_SignBundle_def SignerSet_Keyset_def public_key_info_def Let_def)
qed

text \<open>
  C27. The configuration and the keyset do not depend on map iteration order. When the trimmed key IDs
  are distinct, every order of the configured seeds builds the same signer set, and every order of
  the signers publishes the same keyset, sorted by key ID without duplicates.
\<close>

theorem keyset_independent_of_order:
  assumes "NewSignerSetFromSeedMap ed seeds active = Inr s"
    and "distinct (map (TrimSpace \<circ> fst) seeds)" and "distinct (map (TrimSpace \<circ> fst) seeds')"
    and "set seeds' = set seeds"
    and "distinct vs" "set vs = dom (ss_signers s)" and "distinct vs'" "set vs' = dom (ss_signers s)"
  shows "NewSignerSetFromSeedMap ed seeds' active = Inr s
         \<and> SignerSet_Keyset vs s = SignerSet_Keyset vs' s
         \<and> sorted_wrt (<) (map pk_KID (ks_Keys (SignerSet_Keyset vs s)))"
proof -
  note ok = new_signer_set_ok [OF assms(1)]
  have "length seeds' = 0 \<longleftrightarrow> length seeds = 0" using assms(4) by auto
  with assms(1) have "NewSignerSetFromSeedMap ed seeds' active = Inr s"
    using signer_loop_order [OF _ assms(2,3,4)]
    by (auto simp: NewSignerSetFromSeedMap_def Let_def res_bind_Inr split: if_splits)
  moreover have "ks_Keys (SignerSet_Keyset vs s) = ks_Keys (SignerSet_Keyset vs' s)"
    using keyset_keys [OF ok assms(5,6)] keyset_keys [OF ok assms(7,8)]
    by (intro sorted_keys_unique) simp_all
  moreover note keyset_keys(2) [OF ok assms(5,6)]
  ultimately show ?thesis by (simp add: SignerSet_Keyset_def Let_def sorted_wrt_map)
qed

text \<open>
  Key IDs that differ only in surrounding white space collide. Configured with two different
  seeds under such IDs, the control plane starts without an error, and which of the two keys it signs
  with is decided by the iteration order of the Go map.
\<close>

lemma colliding_kids_depend_on_order:
  assumes "length a = 32" and "length b = 32"
    and "ed_Public ed (ed_NewKeyFromSeed ed a) \<noteq> ed_Public ed (ed_NewKeyFromSeed ed b)"
    and "TrimSpace k = TrimSpace k'" and "TrimSpace k \<noteq> []"
  shows "\<exists>s s'. NewSignerSetFromSeedMap ed [(k, b64_encode a), (k', b64_encode b)] k = Inr s
           \<and> NewSignerSetFromSeedMap ed [(k', b64_encode b), (k, b64_encode a)] k = Inr s'
           \<and> SignerSet_Keyset [TrimSpace k] s \<noteq> SignerSet_Keyset [TrimSpace k] s'"
  using assms
  by (auto simp: NewSignerSetFromSeedMap_def NewEd25519SignerWithKIDFromSeedB64_def b64_roundtrip Let_def
      SignerSet_Keyset_def public_key_info_def Ed25519Signer_PublicKeyB64_def dest: arg_cong [of _ _ b64_decode])

lemma colliding_kids_depend_on_order_witness:
  "\<exists>s s'. NewSignerSetFromSeedMap toy_ed [('' v1'', b64_encode demo_seed), (''v1'', b64_encode (replicate 32 CHR ''t''))] '' v1'' = Inr s
     \<and> NewSignerSetFromSeedMap toy_ed [(''v1'', b64_encode (replicate 32 CHR ''t'')), ('' v1'', b64_encode demo_seed)] '' v1'' = Inr s'
     \<and> SignerSet_Keyset [TrimSpace '' v1''] s \<noteq> SignerSet_Keyset [TrimSpace '' v1''] s'"
proof (rule colliding_kids_depend_on_order)
  show "length demo_seed = 32" "length (replicate 32 CHR ''t'') = 32" by (simp_all add: demo_seed_def)
  show "ed_Public toy_ed (ed_NewKeyFromSeed toy_ed demo_seed)
        \<noteq> ed_Public toy_ed (ed_NewKeyFromSeed toy_ed (replicate 32 CHR ''t''))"
    by (simp add: toy_ed_def demo_seed_def)
  show "TrimSpace '' v1'' = TrimSpace ''v1''" "TrimSpace '' v1'' \<noteq> []" by (simp_all only: demo_kid_trim) simp
qed

theorem signer_set_signs_witness:
  "\<exists>s sb k. NewSignerSetFromSeedMap toy_ed [(''v1'', b64_encode demo_seed)] ''v1'' = Inr s
     \<and> SignerSet_SignBundle toy_ed s demo_payload = Inr sb
     \<and> k \<in> set (ks_Keys (SignerSet_Keyset [''v1''] s))
     \<and> VerifyBundle toy_ed demo_payload (sb_Signature sb) (pk_PublicKeyB64 k) = Inr True"
proof -
  obtain s where s: "NewSignerSetFromSeedMap toy_ed [(''v1'', b64_encode demo_seed)] ''v1'' = Inr s"
    and d: "dom (ss_signers s) = {''v1''}" using demo_signer_set by blast
  have y: "year_ok (bp_IssuedAt demo_payload)" "year_ok (bp_ExpiresAt demo_payload)"
    by (simp_all add: demo_payload_def year_ok_def)
  have vs: "distinct [''v1'']" "set [''v1''] = dom (ss_signers s)" by (simp_all add: d)
  from signer_set_signs [OF toy_ed_laws s y vs] s show ?thesis by blast
qed

theorem keyset_independent_of_order_witness:
  "\<exists>s. NewSignerSetFromSeedMap toy_ed [(''v1'', b64_encode demo_seed)] ''v1'' = Inr s
     \<and> sorted_wrt (<) (map pk_KID (ks_Keys (SignerSet_Keyset [''v1''] s)))"
proof -
  obtain s where s: "NewSignerSetFromSeedMap toy_ed [(''v1'', b64_encode demo_seed)] ''v1'' = Inr s"
    and d: "dom (ss_signers s) = {''v1''}" using demo_signer_set by blast
  have vs: "distinct [''v1'']" "set [''v1''] = dom (ss_signers s)" by (simp_all add: d)
  have seeds: "distinct (map (TrimSpace \<circ> fst) [(''v1'', b64_encode demo_seed)])" by simp
  from keyset_independent_of_order [OF s seeds seeds refl vs vs] s show ?thesis by blast
qed

end
