(* ===== verification/Http.thy ===== *)
theory Http
  imports FileStore Signing
begin

text \<open>
  What the control plane sees and sends over HTTP: requests and responses as values, the two path
  helpers of \<open>net/url\<close>, the routing of \<open>http.ServeMux\<close> for patterns that are literal or end in a
  slash, and \<open>internal/http/auth.go\<close>. A response body is the Go value that is encoded into it.
\<close>

section \<open>Requests and responses\<close>

text \<open>
  \<open>hr_EscapedPath\<close> is \<open>r.URL.EscapedPath()\<close>, \<open>hr_header\<close> is \<open>r.Header.Get\<close> (an absent header is
  empty), \<open>hr_query\<close> is \<open>r.URL.Query().Get\<close>, \<open>hr_body\<close> the outcome of decoding the body as JSON.
\<close>

record http_request =
  hr_Method :: string
  hr_EscapedPath :: string
  hr_query :: "string \<Rightarrow> string"
  hr_header :: "string \<Rightarrow> string"
  hr_Host :: string
  hr_TLS :: bool
  hr_body :: "json res"

record InstallCommandTemplates =
  ict_Darwin :: string
  ict_Linux :: string

record InstallRequestResponse =
  irr_InstallSessionID :: string
  irr_InstallToken :: string
  irr_InstallURL :: string
  irr_Status :: InstallStatus
  irr_ExpiresAt :: time
  irr_InstallCommands :: InstallCommandTemplates

datatype http_body =
    BText string
  | BRequest ConnectionRequest
  | BRequests "ConnectionRequest list"
  | BSession InstallSession
  | BSessionToken InstallSession string
  | BBundle SignedBundle
  | BKeyset SigningKeyset
  | BInstall InstallRequestResponse
  | BHtml string

record http_response =
  hs_Status :: nat
  hs_Body :: http_body

definition http_error :: "string \<Rightarrow> nat \<Rightarrow> http_response" where
  "http_error msg code = \<lparr>hs_Status = code, hs_Body = BText msg\<rparr>"

definition writeJSON :: "nat \<Rightarrow> http_body \<Rightarrow> http_response" where
  "writeJSON code v = \<lparr>hs_Status = code, hs_Body = v\<rparr>"

lemma response_sel [simp]:
  "hs_Status (http_error msg code) = code" "hs_Body (http_error msg code) = BText msg"
  "hs_Status (writeJSON code v) = code" "hs_Body (writeJSON code v) = v"
  by (simp_all add: http_error_def writeJSON_def)

type_synonym ('e, 's) HandlerFunc = "'e \<Rightarrow> http_request \<Rightarrow> 's \<Rightarrow> http_response \<times> 's"

section \<open>Paths\<close>

text \<open>Percent-decoding; the server refuses a request whose escapes are malformed.\<close>

fun path_unescape :: "string \<Rightarrow> string" where
  "path_unescape [] = []"
| "path_unescape (c # s) =
     (case s of
        a # b # s' \<Rightarrow>
          (if c = CHR ''%'' then
             (case (hex_value a, hex_value b) of
                (Some h, Some l) \<Rightarrow> char_of (16 * h + l) # path_unescape s'
              | _ \<Rightarrow> c # path_unescape s)
           else c # path_unescape s)
      | _ \<Rightarrow> c # path_unescape s)"

declare path_unescape.simps(2) [simp del]

lemma unescape_cons: "c \<noteq> CHR ''%'' \<Longrightarrow> path_unescape (c # s) = c # path_unescape s"
  by (subst path_unescape.simps) (simp split: list.split)

lemma unescape_plain: "CHR ''%'' \<notin> set p \<Longrightarrow> path_unescape p = p"
  by (induction p) (auto simp: unescape_cons)

definition hr_Path :: "http_request \<Rightarrow> string" where
  "hr_Path r = path_unescape (hr_EscapedPath r)"

definition is_letter_or_digit :: "char \<Rightarrow> bool" where
  "is_letter_or_digit c \<longleftrightarrow>
     in_range 48 57 c \<or> in_range 65 90 c \<or> in_range 97 122 c"

definition hex_upper :: "nat \<Rightarrow> char" where
  "hex_upper n = (if n < 10 then char_of (48 + n) else char_of (55 + n))"

definition percent :: "char \<Rightarrow> string" where
  "percent c = [CHR ''%'', hex_upper (of_char c div 16), hex_upper (of_char c mod 16)]"

definition QueryEscape :: "string \<Rightarrow> string" where
  "QueryEscape s =
     concat (map (\<lambda>c. if is_letter_or_digit c \<or> c \<in> set ''-_.~'' then [c]
                      else if c = CHR '' '' then ''+'' else percent c) s)"

definition PathEscape :: "string \<Rightarrow> string" where
  "PathEscape s =
     concat (map (\<lambda>c. if is_letter_or_digit c \<or> c \<in> set ''-_.~$&+:=@'' then [c] else percent c) s)"

definition parseIDFromPath :: "string \<Rightarrow> string \<Rightarrow> string \<Rightarrow> string res" where
  "parseIDFromPath path prefix suffix =
     (if \<not> HasPrefix path prefix \<or> \<not> HasSuffix path suffix then Inl (ErrMsg ''invalid path'')
      else
        (let s = TrimPrefix path prefix;
             s = TrimSuffix s suffix
         in if s = [] \<or> CHR ''/'' \<in> set s then Inl (ErrMsg ''invalid id'') else Inr s))"

text \<open>
  For the prefixes and suffixes in use (a prefix ending in a slash, a suffix starting with one) the
  only overlap is that slash, and then the whole suffix without it is taken for an ID.
\<close>

lemma parseID_iff:
  assumes "prefix = p @ ''/''" and "CHR ''/'' \<notin> set w"
  shows "parseIDFromPath path prefix (CHR ''/'' # w) = Inr i \<longleftrightarrow>
           CHR ''/'' \<notin> set i \<and> i \<noteq> [] \<and>
           (path = prefix @ i @ CHR ''/'' # w \<or> path = prefix @ i \<and> i = w)"
proof
  assume "parseIDFromPath path prefix (CHR ''/'' # w) = Inr i"
  then have pre: "HasPrefix path prefix" and suf: "HasSuffix path (CHR ''/'' # w)"
    and i: "TrimSuffix (TrimPrefix path prefix) (CHR ''/'' # w) = i" "i \<noteq> []" "CHR ''/'' \<notin> set i"
    by (auto simp: parseIDFromPath_def Let_def split: if_splits)
  from pre obtain t where t: "path = prefix @ t" by (auto simp: HasPrefix_iff)
  show "CHR ''/'' \<notin> set i \<and> i \<noteq> [] \<and>
        (path = prefix @ i @ CHR ''/'' # w \<or> path = prefix @ i \<and> i = w)"
  proof (cases "HasSuffix t (CHR ''/'' # w)")
    case True
    with t i show ?thesis by (auto simp: HasSuffix_iff)
  next
    case False
    then have it: "i = t" using i(1) t by (simp add: TrimSuffix_def)
    from suf t assms(1) obtain u where u: "p @ CHR ''/'' # t = u @ CHR ''/'' # w" by (auto simp: HasSuffix_iff)
    have "t = w"
    proof -
      from u consider us where "p = u @ us" "us @ CHR ''/'' # t = CHR ''/'' # w"
        | us where "u = p @ us" "CHR ''/'' # t = us @ CHR ''/'' # w"
        by (auto simp: append_eq_append_conv2)
      then show ?thesis
      proof cases
        case 1
        then show ?thesis
        proof (cases us)
          case (Cons a us')
          with 1 have "w = us' @ CHR ''/'' # t" by simp
          with assms(2) show ?thesis by simp
        qed simp
      next
        case 2
        then show ?thesis
        proof (cases us)
          case (Cons a us')
          with 2 have "t = us' @ CHR ''/'' # w" by simp
          with False show ?thesis by (simp add: HasSuffix_iff)
        qed simp
      qed
    qed
    with it t i show ?thesis by simp
  qed
next
  assume a: "CHR ''/'' \<notin> set i \<and> i \<noteq> [] \<and> (path = prefix @ i @ CHR ''/'' # w \<or> path = prefix @ i \<and> i = w)"
  have "HasSuffix (prefix @ i) (CHR ''/'' # i)" "\<not> HasSuffix i (CHR ''/'' # i)"
    by (auto simp: assms(1) HasSuffix_iff)
  moreover have "HasSuffix (prefix @ i @ CHR ''/'' # w) (CHR ''/'' # w)"
    using HasSuffix_append [of "prefix @ i"] by simp
  ultimately show "parseIDFromPath path prefix (CHR ''/'' # w) = Inr i"
    using a by (auto simp: parseIDFromPath_def TrimSuffix_def)
qed

lemma parseID_plain:
  "parseIDFromPath path prefix [] = Inr i \<longleftrightarrow> path = prefix @ i \<and> i \<noteq> [] \<and> CHR ''/'' \<notin> set i"
  by (auto simp: parseIDFromPath_def HasPrefix_iff TrimSuffix_def split: if_splits)

section \<open>Authentication\<close>

definition parseBearerToken :: "string \<Rightarrow> string" where
  "parseBearerToken raw =
     (let raw = TrimSpace raw in
      if raw = [] then []
      else (case split_first CHR '' '' raw of
              None \<Rightarrow> []
            | Some (scheme, rest) \<Rightarrow> if \<not> EqualFold scheme ''Bearer'' then [] else TrimSpace rest))"

definition secureTokenEqual :: "string \<Rightarrow> string \<Rightarrow> bool" where
  "secureTokenEqual a b \<longleftrightarrow>
     (if a = [] \<or> b = [] then False
      else if length a \<noteq> length b then False
      else a = b)"

definition RequireBearerToken :: "string \<Rightarrow> ('e, 's) HandlerFunc \<Rightarrow> ('e, 's) HandlerFunc" where
  "RequireBearerToken expectedToken next e r s =
     (let got = parseBearerToken (hr_header r ''Authorization'') in
      if \<not> secureTokenEqual expectedToken got then (http_error ''unauthorized'' 401, s)
      else next e r s)"

definition authorized :: "string \<Rightarrow> http_request \<Rightarrow> bool" where
  "authorized tok r \<longleftrightarrow> tok \<noteq> [] \<and> parseBearerToken (hr_header r ''Authorization'') = tok"

lemma RequireBearerToken_cases:
  "RequireBearerToken tok next e r s
   = (if authorized tok r then next e r s else (http_error ''unauthorized'' 401, s))"
  by (auto simp: RequireBearerToken_def secureTokenEqual_def authorized_def Let_def)

text \<open>
  A header is accepted exactly when it is \<open>Bearer\<close>, in any case, a space and the token, up to white
  space around the whole and around the token. A token with white space at its ends is never
  accepted.
\<close>

lemma authorized_iff:
  "authorized tok r \<longleftrightarrow>
     tok \<noteq> [] \<and> (\<exists>scheme rest. TrimSpace (hr_header r ''Authorization'') = scheme @ CHR '' '' # rest
                     \<and> EqualFold scheme ''Bearer'' \<and> CHR '' '' \<notin> set scheme \<and> TrimSpace rest = tok)"
proof -
  let ?h = "TrimSpace (hr_header r ''Authorization'')"
  show ?thesis
  proof (cases "split_first CHR '' '' ?h")
    case None
    then have "CHR '' '' \<notin> set ?h" by (simp add: split_first_None)
    with None show ?thesis by (auto simp: authorized_def parseBearerToken_def Let_def)
  next
    case (Some ab)
    obtain a b where ab: "ab = (a, b)" by (cases ab)
    from Some ab have h: "?h = a @ CHR '' '' # b" "CHR '' '' \<notin> set a" by (simp_all add: split_first_Some)
    have uniq: "?h = x @ CHR '' '' # y \<and> CHR '' '' \<notin> set x \<longleftrightarrow> x = a \<and> y = b" for x y
      using Some ab split_first_Some [of "CHR '' ''" ?h x y] by auto
    have "parseBearerToken (hr_header r ''Authorization'')
        = (if EqualFold a ''Bearer'' then TrimSpace b else [])"
      using Some ab h(1) by (simp add: parseBearerToken_def)
    then have "authorized tok r \<longleftrightarrow> tok \<noteq> [] \<and> EqualFold a ''Bearer'' \<and> TrimSpace b = tok"
      by (auto simp: authorized_def)
    moreover have "(\<exists>scheme rest. ?h = scheme @ CHR '' '' # rest \<and> EqualFold scheme ''Bearer''
        \<and> CHR '' '' \<notin> set scheme \<and> TrimSpace rest = tok) \<longleftrightarrow> EqualFold a ''Bearer'' \<and> TrimSpace b = tok"
      using uniq by metis
    ultimately show ?thesis by simp
  qed
qed

section \<open>Routing\<close>

text \<open>
  A registered pattern is a list of literal segments, matched exactly or, when it ends in a slash, as
  a proper prefix. \<open>path_clean\<close> says that \<open>cleanPath\<close> changes nothing.
\<close>

definition path_clean :: "string \<Rightarrow> bool" where
  "path_clean p \<longleftrightarrow>
     (case split_on CHR ''/'' p of
        w # w' # ws \<Rightarrow> w = [] \<and> [] \<notin> set (butlast (w' # ws)) \<and> ''.'' \<notin> set (w' # ws) \<and> ''..'' \<notin> set (w' # ws)
      | _ \<Rightarrow> False)"

definition path_segments :: "string \<Rightarrow> string list" where
  "path_segments p = map path_unescape (drop 1 (split_on CHR ''/'' p))"

datatype pattern = Exact "string list" | Subtree "string list"

fun matches_pattern :: "string list \<Rightarrow> pattern \<Rightarrow> bool" where
  "matches_pattern segs (Exact ws) \<longleftrightarrow> segs = ws"
| "matches_pattern segs (Subtree ws) \<longleftrightarrow> length ws < length segs \<and> take (length ws) segs = ws"

text \<open>The most specific pattern: an exact one before a subtree, a longer subtree before a shorter.\<close>

definition pattern_weight :: "pattern \<Rightarrow> nat" where
  "pattern_weight p = (case p of Exact ws \<Rightarrow> 2 * length ws | Subtree ws \<Rightarrow> 2 * length ws + 1)"

fun best_match :: "string list \<Rightarrow> (pattern \<times> 'h) list \<Rightarrow> (pattern \<times> 'h) option" where
  "best_match segs [] = None"
| "best_match segs ((p, h) # ps) =
     (case best_match segs ps of
        None \<Rightarrow> if matches_pattern segs p then Some (p, h) else None
      | Some (q, g) \<Rightarrow>
          if matches_pattern segs p \<and> pattern_weight q \<le> pattern_weight p then Some (p, h) else Some (q, g))"

definition redirects :: "(pattern \<times> 'h) list \<Rightarrow> http_request \<Rightarrow> bool" where
  "redirects ps r \<longleftrightarrow>
     hr_Method r \<noteq> ''CONNECT'' \<and> \<not> path_clean (hr_EscapedPath r)
     \<or> (let segs = path_segments (hr_EscapedPath r) in
        last segs \<noteq> [] \<and> (\<forall>p h. (p, h) \<in> set ps \<longrightarrow> p \<noteq> Exact segs) \<and> (\<exists>p h. (p, h) \<in> set ps \<and> p = Subtree segs))"

definition serve_mux :: "(pattern \<times> ('e, 's) HandlerFunc) list \<Rightarrow> ('e, 's) HandlerFunc" where
  "serve_mux ps e r s =
     (if redirects ps r then (\<lparr>hs_Status = 301, hs_Body = BHtml ''Moved Permanently''\<rparr>, s)
      else (case best_match (path_segments (hr_EscapedPath r)) ps of
              None \<Rightarrow> (http_error ''404 page not found'' 404, s)
            | Some (_, h) \<Rightarrow> h e r s))"

end
