(* ===== verification/ApiClient.thy ===== *)
theory ApiClient
  imports AgentBase Http
begin

text \<open>
  \<open>internal/api\<close>: the agent's client of the control plane. Each method builds one request, sends it
  over the transport, checks the status and decodes the body.
\<close>

section \<open>Data\<close>

record Request =
  ar_ID :: string
  ar_ConnectorID :: string
  ar_DeviceID :: string
  ar_OpenClawUserID :: string

record api_Bundle =
  cb_Payload :: "string \<rightharpoonup> json"
  cb_PayloadRaw :: string
  cb_Signature :: string
  cb_Alg :: string
  cb_KID :: string

record SigningKeyInfo =
  ki_KID :: string
  ki_Alg :: string
  ki_PublicKeyB64 :: string

record api_SigningKeyset =
  ak_ActiveKID :: string
  ak_Keys :: "SigningKeyInfo list"

record api_InstallSession =
  ais_ID :: string
  ais_OpenClawUserID :: string
  ais_DeviceID :: string
  ais_ConnectorID :: string
  ais_SourceChannel :: string
  ais_Status :: string
  ais_ReasonCode :: string

record Client =
  cl_baseURL :: string
  cl_token :: string

definition stringsTrimRightSlash :: "string \<Rightarrow> string" where
  "stringsTrimRightSlash v = rev (dropWhile (\<lambda>c. c = CHR ''/'') (rev v))"

definition NewClient :: "string \<Rightarrow> string \<Rightarrow> Client" where
  "NewClient baseURL token = \<lparr>cl_baseURL = stringsTrimRightSlash baseURL, cl_token = token\<rparr>"

section \<open>Requests\<close>

definition addHeaders :: "Client \<Rightarrow> client_request \<Rightarrow> client_request" where
  "addHeaders c r =
     (if cl_token c \<noteq> [] then r\<lparr>cq_Authorization := ''Bearer '' @ cl_token c\<rparr> else r)"

definition get_request :: "Client \<Rightarrow> string \<Rightarrow> client_request" where
  "get_request c path =
     addHeaders c \<lparr>cq_Method = ''GET'', cq_URL = cl_baseURL c @ path, cq_Authorization = [],
                    cq_ContentType = [], cq_Body = []\<rparr>"

definition post_request :: "Client \<Rightarrow> string \<Rightarrow> json \<Rightarrow> client_request" where
  "post_request c path body =
     (addHeaders c \<lparr>cq_Method = ''POST'', cq_URL = cl_baseURL c @ path, cq_Authorization = [],
                     cq_ContentType = [], cq_Body = json_write body\<rparr>)\<lparr>cq_ContentType := ''application/json''\<rparr>"

text \<open>Sending a request whose answer must have status 200, and decoding its body.\<close>

definition fetch ::
  "'w transport \<Rightarrow> string \<Rightarrow> (string \<Rightarrow> 'a res) \<Rightarrow> client_request \<Rightarrow> 'w \<Rightarrow> 'a ares \<times> 'w" where
  "fetch send what dec r w =
     (case send r w of
        (Inl err, w') \<Rightarrow> (Inl err, w')
      | (Inr res, w') \<Rightarrow>
          if cp_StatusCode res \<noteq> 200
          then (Inl (Failure (what @ '' failed with status '' @ itoa (cp_StatusCode res))), w')
          else (lift_res (dec (cp_Body res)), w'))"

definition postJSON :: "'w transport \<Rightarrow> Client \<Rightarrow> string \<Rightarrow> json \<Rightarrow> 'w \<Rightarrow> agent_error option \<times> 'w" where
  "postJSON send c path body w =
     (case send (post_request c path body) w of
        (Inl err, w') \<Rightarrow> (Some err, w')
      | (Inr res, w') \<Rightarrow>
          if cp_StatusCode res \<noteq> 200 \<and> cp_StatusCode res \<noteq> 201
          then (Some (Failure (''request failed with status '' @ itoa (cp_StatusCode res))), w')
          else (None, w'))"

section \<open>Decoding\<close>

definition request_of :: "json \<Rightarrow> Request res" where
  "request_of j =
     res_bind (json_object j) (\<lambda>kvs.
     res_bind (string_field ''id'' kvs) (\<lambda>rid.
     res_bind (string_field ''connector_id'' kvs) (\<lambda>connector.
     res_bind (string_field ''device_id'' kvs) (\<lambda>device.
     res_bind (string_field ''openclaw_user_id'' kvs) (\<lambda>user.
     Inr \<lparr>ar_ID = rid, ar_ConnectorID = connector, ar_DeviceID = device, ar_OpenClawUserID = user\<rparr>)))))"

fun list_of :: "(json \<Rightarrow> 'a res) \<Rightarrow> json list \<Rightarrow> 'a list res" where
  "list_of dec [] = Inr []"
| "list_of dec (j # js) = res_bind (dec j) (\<lambda>x. res_bind (list_of dec js) (\<lambda>xs. Inr (x # xs)))"

fun slice_of :: "(json \<Rightarrow> 'a res) \<Rightarrow> json \<Rightarrow> 'a list res" where
  "slice_of dec (JArr js) = list_of dec js"
| "slice_of dec JNull = Inr []"
| "slice_of dec _ = Inl json_error"

definition key_info_of :: "json \<Rightarrow> SigningKeyInfo res" where
  "key_info_of j =
     res_bind (json_object j) (\<lambda>kvs.
     res_bind (string_field ''kid'' kvs) (\<lambda>kid.
     res_bind (string_field ''alg'' kvs) (\<lambda>alg.
     res_bind (string_field ''public_key_b64'' kvs) (\<lambda>pub.
     Inr \<lparr>ki_KID = kid, ki_Alg = alg, ki_PublicKeyB64 = pub\<rparr>))))"

definition keyset_of :: "json \<Rightarrow> api_SigningKeyset res" where
  "keyset_of j =
     res_bind (json_object j) (\<lambda>kvs.
     res_bind (string_field ''active_kid'' kvs) (\<lambda>active.
     res_bind (decode_field (\<lambda>v cur. slice_of key_info_of v) ''keys'' kvs []) (\<lambda>keys.
     Inr \<lparr>ak_ActiveKID = active, ak_Keys = keys\<rparr>)))"

definition session_of :: "json \<Rightarrow> api_InstallSession res" where
  "session_of j =
     res_bind (json_object j) (\<lambda>kvs.
     res_bind (string_field ''id'' kvs) (\<lambda>sid.
     res_bind (string_field ''openclaw_user_id'' kvs) (\<lambda>user.
     res_bind (string_field ''device_id'' kvs) (\<lambda>device.
     res_bind (string_field ''connector_id'' kvs) (\<lambda>connector.
     res_bind (string_field ''source_channel'' kvs) (\<lambda>channel.
     res_bind (string_field ''status'' kvs) (\<lambda>status.
     res_bind (string_field ''reason_code'' kvs) (\<lambda>reason.
     Inr \<lparr>ais_ID = sid, ais_OpenClawUserID = user, ais_DeviceID = device, ais_ConnectorID = connector,
          ais_SourceChannel = channel, ais_Status = status, ais_ReasonCode = reason\<rparr>))))))))"

text \<open>The bytes of the last member named \<open>payload\<close>, and the value they hold.\<close>

definition raw_member :: "string \<Rightarrow> member list \<Rightarrow> string" where
  "raw_member name ms =
     fold (\<lambda>m raw. if fold_name (fst m) = fold_name name then snd (snd m) else raw) ms []"

definition any_map :: "json \<Rightarrow> (string \<rightharpoonup> json) res" where
  "any_map j = assign_map Inr j Map.empty"

definition bundle_of :: "string \<Rightarrow> api_Bundle res" where
  "bundle_of body =
     res_bind (decode_members body) (\<lambda>ms.
       (let kvs = map member_pair ms; raw = raw_member ''payload'' ms in
        res_bind (string_field ''signature'' kvs) (\<lambda>signature.
        res_bind (string_field ''alg'' kvs) (\<lambda>alg.
        res_bind (string_field ''kid'' kvs) (\<lambda>kid.
        res_bind (unmarshal_text raw) (\<lambda>j.
        res_bind (any_map j) (\<lambda>payload.
        Inr \<lparr>cb_Payload = payload, cb_PayloadRaw = raw, cb_Signature = signature, cb_Alg = alg, cb_KID = kid\<rparr>)))))))"

lemma bundle_names [simp]:
  "fold_name ''payload'' = ''PAYLOAD''" "fold_name ''signature'' = ''SIGNATURE''"
  "fold_name ''alg'' = ''ALG''" "fold_name ''kid'' = ''KID''"
  by code_simp+

text \<open>A bundle read from text as \<open>json.Marshal\<close> writes it: the raw payload is the text of the payload.\<close>

lemma bundle_of_written:
  assumes "readable (JObj ps)" and "valid_utf8 sig" and "valid_utf8 alg" and "valid_utf8 kid"
    and "json_depth (JObj ps) < max_depth"
  shows "bundle_of (json_write (JObj [(''payload'', JObj ps), (''signature'', JStr sig), (''alg'', JStr alg), (''kid'', JStr kid)]) @ r)
         = res_bind (decode_entries Inr ps Map.empty) (\<lambda>m.
             Inr \<lparr>cb_Payload = m, cb_PayloadRaw = json_write (JObj ps), cb_Signature = sig, cb_Alg = alg, cb_KID = kid\<rparr>)"
proof -
  let ?kvs = "[(''payload'', JObj ps), (''signature'', JStr sig), (''alg'', JStr alg), (''kid'', JStr kid)]"
  have u: "unmarshal_text (json_write (JObj ps)) = Inr (JObj ps)"
    by (rule unmarshal_written) (use assms in simp_all)
  have "decode_members (json_write (JObj ?kvs) @ r) = Inr (map (\<lambda>kv. (fst kv, snd kv, json_write (snd kv))) ?kvs)"
    by (rule decode_members_written) (use assms in simp_all)
  then show ?thesis
    by (simp add: bundle_of_def member_pair_def raw_member_def any_map_def u Let_def del: json_write.simps fold_name.simps)
qed

section \<open>The methods\<close>

definition PollPending :: "'w transport \<Rightarrow> Client \<Rightarrow> string \<Rightarrow> 'w \<Rightarrow> Request list ares \<times> 'w" where
  "PollPending send c deviceID w =
     fetch send ''poll'' (\<lambda>body. res_bind (decode_text body) (slice_of request_of))
       (get_request c (''/v1/devices/'' @ PathEscape deviceID @ ''/pending-requests'')) w"

definition PostLocalDecision :: "'w transport \<Rightarrow> Client \<Rightarrow> string \<Rightarrow> bool \<Rightarrow> 'w \<Rightarrow> agent_error option \<times> 'w" where
  "PostLocalDecision send c requestID approved w =
     postJSON send c (''/v1/connection-requests/'' @ PathEscape requestID @ ''/local-decision'')
       (JObj [(''approved'', JBool approved)]) w"

definition GetAttestationBundle :: "'w transport \<Rightarrow> Client \<Rightarrow> string \<Rightarrow> 'w \<Rightarrow> api_Bundle ares \<times> 'w" where
  "GetAttestationBundle send c requestID w =
     fetch send ''bundle fetch'' bundle_of
       (get_request c (''/v1/connection-requests/'' @ PathEscape requestID @ ''/attestation-bundle'')) w"

definition GetSigningKeyset :: "'w transport \<Rightarrow> Client \<Rightarrow> 'w \<Rightarrow> api_SigningKeyset ares \<times> 'w" where
  "GetSigningKeyset send c w =
     fetch send ''signing keys fetch'' (\<lambda>body. res_bind (decode_text body) keyset_of)
       (get_request c ''/v1/signing-keys'') w"

definition PostResult :: "'w transport \<Rightarrow> Client \<Rightarrow> string \<Rightarrow> string \<Rightarrow> string \<Rightarrow> 'w \<Rightarrow> agent_error option \<times> 'w" where
  "PostResult send c requestID status reasonCode w =
     postJSON send c (''/v1/connection-requests/'' @ PathEscape requestID @ ''/result'')
       (JObj [(''reason_code'', JStr reasonCode), (''status'', JStr status)]) w"

definition Client_RedeemInstallToken :: "'w transport \<Rightarrow> Client \<Rightarrow> string \<Rightarrow> 'w \<Rightarrow> api_InstallSession ares \<times> 'w" where
  "Client_RedeemInstallToken send c token w =
     fetch send ''install token redeem'' (\<lambda>body. res_bind (decode_text body) session_of)
       (post_request c ''/v1/install-sessions/redeem'' (JObj [(''token'', JStr token)])) w"

definition PostInstallResult :: "'w transport \<Rightarrow> Client \<Rightarrow> string \<Rightarrow> string \<Rightarrow> string \<Rightarrow> 'w \<Rightarrow> agent_error option \<times> 'w" where
  "PostInstallResult send c sessionID status reasonCode w =
     postJSON send c (''/v1/install-sessions/'' @ PathEscape sessionID @ ''/result'')
       (JObj [(''reason_code'', JStr reasonCode), (''status'', JStr status)]) w"

definition RegisterInstallIdentity :: "'w transport \<Rightarrow> Client \<Rightarrow> string \<Rightarrow> string \<Rightarrow> string \<Rightarrow> 'w \<Rightarrow> agent_error option \<times> 'w" where
  "RegisterInstallIdentity send c sessionID connectorID deviceID w =
     postJSON send c (''/v1/install-sessions/'' @ PathEscape sessionID @ ''/registration'')
       (JObj [(''connector_id'', JStr connectorID), (''device_id'', JStr deviceID)]) w"

end
