(* ===== verification/Verify.thy ===== *)
theory Verify
  imports AgentBase Signing
begin

text \<open>
  \<open>internal/verify\<close>: the signature of a bundle against the trusted keys, the call to the DCAP verifier
  and the reading of its answer, the measurement policy, and the strict verifier that combines them.
\<close>

section \<open>Types\<close>

definition ReasonAttestationDependencyFailure :: string where
  "ReasonAttestationDependencyFailure = ''AttestationDependencyFailure''"

definition ReasonBundleInvalid :: string where
  "ReasonBundleInvalid = ''BundleInvalid''"

definition ReasonQuoteInvalid :: string where
  "ReasonQuoteInvalid = ''QuoteInvalid''"

definition ReasonMeasurementMismatch :: string where
  "ReasonMeasurementMismatch = ''MeasurementMismatch''"

definition ReasonReportDataMismatch :: string where
  "ReasonReportDataMismatch = ''ReportDataMismatch''"

record Bundle =
  ab_ConnectorID :: string
  ab_SSHPublicKey :: string
  ab_QuoteHex :: string
  ab_MRTD :: string
  ab_RTMR0 :: string
  ab_RTMR1 :: string
  ab_RTMR2 :: string
  ab_RTMR3 :: string
  ab_ReportDataExpectedSHA256 :: string
  ab_PolicyVersion :: string

record Decision =
  dn_Trusted :: bool
  dn_ReasonCode :: string

text \<open>\<open>dr_ReportData\<close> stands for a \<open>[64]byte\<close>.\<close>

record DCAPResult =
  dr_QuoteValid :: bool
  dr_QEIdentityValid :: bool
  dr_TCBValid :: bool
  dr_ReportData :: string

section \<open>The control plane's signature\<close>

definition decodePublicKey :: "string \<Rightarrow> string ares" where
  "decodePublicKey publicKeyB64 =
     (case b64_decode (TrimSpace publicKeyB64) of
        Inl _ \<Rightarrow> Inl (Failure ''decode control-plane public key'')
      | Inr raw \<Rightarrow>
          if length raw \<noteq> 32 then Inl (Failure ''control-plane public key must be 32 bytes'') else Inr raw)"

definition decodeSignature :: "string \<Rightarrow> string ares" where
  "decodeSignature signatureB64 =
     (case b64_decode (TrimSpace signatureB64) of
        Inl _ \<Rightarrow> Inl (Failure ''decode bundle signature'')
      | Inr raw \<Rightarrow>
          if length raw \<noteq> 64 then Inl (Failure ''bundle signature must be 64 bytes'') else Inr raw)"

definition VerifySignedBundle ::
  "ed25519 \<Rightarrow> string \<Rightarrow> string \<Rightarrow> string \<Rightarrow> string \<Rightarrow> agent_error option" where
  "VerifySignedBundle ed payloadRaw signatureB64 alg publicKeyB64 =
     (let invalid = (\<lambda>m. Some (VerificationError ReasonBundleInvalid m)) in
      if TrimSpace alg \<noteq> ''ed25519'' then invalid ''unsupported bundle signature algorithm''
      else if length payloadRaw = 0 then invalid ''missing bundle payload''
      else
        (case decodePublicKey publicKeyB64 of
           Inl err \<Rightarrow> invalid (error_text err)
         | Inr publicKey \<Rightarrow>
             (case decodeSignature signatureB64 of
                Inl err \<Rightarrow> invalid (error_text err)
              | Inr signature \<Rightarrow>
                  if \<not> ed_Verify ed publicKey payloadRaw signature then invalid ''invalid bundle signature''
                  else None)))"

definition VerifySignedBundleWithKeyset ::
  "ed25519 \<Rightarrow> string \<Rightarrow> string \<Rightarrow> string \<Rightarrow> string \<Rightarrow> (string \<rightharpoonup> string) \<Rightarrow> agent_error option" where
  "VerifySignedBundleWithKeyset ed payloadRaw signatureB64 alg kid trustedKeys =
     (let kid = TrimSpace kid in
      if kid = [] then Some (VerificationError ReasonBundleInvalid ''missing bundle kid'')
      else
        (case trustedKeys kid of
           None \<Rightarrow> Some (VerificationError ReasonBundleInvalid ''unknown bundle kid'')
         | Some publicKeyB64 \<Rightarrow> VerifySignedBundle ed payloadRaw signatureB64 alg publicKeyB64))"

section \<open>The DCAP verifier\<close>

text \<open>
  The answer of the verifier service. It may be wrapped: when there is a \<open>result\<close>, only that is used.
  A member that comes again is decoded over the earlier one.
\<close>

datatype dcapVerifyResponse =
  DcapResponse (QuoteValid: bool) (QEIdentityValid: bool) (TCBValid: bool)
    (ReportDataHex: string) (ReportData: string) (NestedResult: "dcapVerifyResponse option")

definition zero_response :: dcapVerifyResponse where
  "zero_response = DcapResponse False False False [] [] None"

fun decode_response :: "json \<Rightarrow> dcapVerifyResponse \<Rightarrow> dcapVerifyResponse res"
  and decode_response_members :: "(string \<times> json) list \<Rightarrow> dcapVerifyResponse \<Rightarrow> dcapVerifyResponse res" where
  "decode_response (JObj kvs) r = decode_response_members kvs r"
| "decode_response JNull r = Inr r"
| "decode_response _ r = Inl json_error"
| "decode_response_members [] r = Inr r"
| "decode_response_members (kv # kvs) (DcapResponse qv qe tcb hex data nested) =
     (let k = fold_name (fst kv); v = snd kv in
      res_bind
        (if k = ''QUOTE_VALID'' then res_bind (assign_bool v qv) (\<lambda>x. Inr (DcapResponse x qe tcb hex data nested))
         else if k = ''QE_IDENTITY_VALID'' then res_bind (assign_bool v qe) (\<lambda>x. Inr (DcapResponse qv x tcb hex data nested))
         else if k = ''TCB_VALID'' then res_bind (assign_bool v tcb) (\<lambda>x. Inr (DcapResponse qv qe x hex data nested))
         else if k = ''REPORT_DATA_HEX'' then res_bind (assign_string v hex) (\<lambda>x. Inr (DcapResponse qv qe tcb x data nested))
         else if k = ''REPORT_DATA'' then res_bind (assign_string v data) (\<lambda>x. Inr (DcapResponse qv qe tcb hex x nested))
         else if k = ''RESULT'' then
           (if v = JNull then Inr (DcapResponse qv qe tcb hex data None)
            else res_bind (decode_response (snd kv) (case nested of None \<Rightarrow> zero_response | Some q \<Rightarrow> q))
                   (\<lambda>x. Inr (DcapResponse qv qe tcb hex data (Some x))))
         else Inr (DcapResponse qv qe tcb hex data nested))
        (\<lambda>r. decode_response_members kvs r))"

definition parseReportDataHex :: "string \<Rightarrow> string ares" where
  "parseReportDataHex raw =
     (let raw = TrimSpace raw;
          raw = TrimPrefix raw ''0x'';
          raw = TrimPrefix raw ''0X''
      in if raw = [] then Inl (Failure ''missing report_data_hex'')
         else
           (case hex_decode raw of
              Inl _ \<Rightarrow> Inl (Failure ''decode report_data_hex'')
            | Inr decoded \<Rightarrow>
                if length decoded = 32 then Inr (decoded @ replicate 32 (CHR 0x00))
                else if length decoded = 64 then Inr decoded
                else Inl (Failure ''report_data length must be 32 or 64 bytes'')))"

record HTTPDCAPVerifier =
  hv_endpoint :: string
  hv_token :: string
  hv_timeout :: duration

definition NewHTTPDCAPVerifier :: "string \<Rightarrow> string \<Rightarrow> duration \<Rightarrow> HTTPDCAPVerifier ares" where
  "NewHTTPDCAPVerifier endpoint token timeout =
     (let endpoint = TrimSpace endpoint in
      if endpoint = [] then Inl (Failure ''missing DCAP verifier endpoint'')
      else Inr \<lparr>hv_endpoint = endpoint, hv_token = TrimSpace token,
                hv_timeout = (if timeout \<le> 0 then 10 * Second else timeout)\<rparr>)"

definition dcap_request :: "HTTPDCAPVerifier \<Rightarrow> string \<Rightarrow> client_request" where
  "dcap_request v quoteHex =
     \<lparr>cq_Method = ''POST'', cq_URL = hv_endpoint v,
      cq_Authorization = (if hv_token v \<noteq> [] then ''Bearer '' @ hv_token v else []),
      cq_ContentType = ''application/json'',
      cq_Body = json_write (JObj [(''quote_hex'', JStr quoteHex)])\<rparr>"

definition maxErrorBodyBytes :: nat where
  "maxErrorBodyBytes = 4096"

definition read_dcap_response :: "string \<Rightarrow> DCAPResult ares" where
  "read_dcap_response body =
     res_bind (lift_res (res_bind (decode_text body) (\<lambda>j. decode_response j zero_response))) (\<lambda>decoded.
       (let src = (case NestedResult decoded of None \<Rightarrow> decoded | Some q \<Rightarrow> q);
            reportDataHex = (if blank (ReportDataHex src) then ReportData src else ReportDataHex src)
        in res_bind (parseReportDataHex reportDataHex) (\<lambda>reportData.
             Inr \<lparr>dr_QuoteValid = QuoteValid src, dr_QEIdentityValid = QEIdentityValid src,
                  dr_TCBValid = TCBValid src, dr_ReportData = reportData\<rparr>)))"

definition HTTPDCAPVerifier_Verify ::
  "'w transport \<Rightarrow> HTTPDCAPVerifier \<Rightarrow> string \<Rightarrow> 'w \<Rightarrow> DCAPResult ares \<times> 'w" where
  "HTTPDCAPVerifier_Verify send v quoteHex w =
     (if blank quoteHex then (Inl (Failure ''missing quote_hex''), w)
      else
        (case send (dcap_request v quoteHex) w of
           (Inl err, w') \<Rightarrow> (Inl err, w')
         | (Inr res, w') \<Rightarrow>
             if cp_StatusCode res \<noteq> 200
             then (Inl (Failure (''dcap verifier returned status '' @ itoa (cp_StatusCode res) @ '': ''
                                 @ TrimSpace (take maxErrorBodyBytes (cp_Body res)))), w')
             else (read_dcap_response (cp_Body res), w')))"

section \<open>Policy and verdict\<close>

record StaticPolicy =
  sp_allowedMRTD :: "string set"
  sp_allowedRTMR3 :: "string set"

definition NewStaticPolicy :: "string list \<Rightarrow> string list \<Rightarrow> StaticPolicy" where
  "NewStaticPolicy allowedMRTD allowedRTMR3 =
     \<lparr>sp_allowedMRTD = set allowedMRTD, sp_allowedRTMR3 = set allowedRTMR3\<rparr>"

definition CheckMeasurements :: "StaticPolicy \<Rightarrow> Bundle \<Rightarrow> agent_error option" where
  "CheckMeasurements p b =
     (if sp_allowedMRTD p \<noteq> {} \<and> ab_MRTD b \<notin> sp_allowedMRTD p
      then Some (VerificationError ReasonMeasurementMismatch ''mrtd not allowed'')
      else if sp_allowedRTMR3 p \<noteq> {} \<and> ab_RTMR3 b \<notin> sp_allowedRTMR3 p
      then Some (VerificationError ReasonMeasurementMismatch ''rtmr3 not allowed'')
      else if ab_RTMR0 b = [] \<or> ab_RTMR1 b = [] \<or> ab_RTMR2 b = []
      then Some (VerificationError ReasonMeasurementMismatch ''missing runtime measurements'')
      else None)"

definition ComputeExpectedReportData :: "string \<Rightarrow> string" where
  "ComputeExpectedReportData sshPublicKey = Sum256 sshPublicKey @ replicate 32 (CHR 0x00)"

record 'w StrictVerifier =
  sv_dcap :: "string \<Rightarrow> 'w \<Rightarrow> DCAPResult ares \<times> 'w"
  sv_policy :: "Bundle \<Rightarrow> agent_error option"

definition StrictVerifier_Verify :: "'w StrictVerifier \<Rightarrow> Bundle \<Rightarrow> 'w \<Rightarrow> Decision ares \<times> 'w" where
  "StrictVerifier_Verify v b w =
     (case sv_dcap v (ab_QuoteHex b) w of
        (Inl err, w') \<Rightarrow> (Inl (VerificationError ReasonAttestationDependencyFailure (error_text err)), w')
      | (Inr result, w') \<Rightarrow>
          (if \<not> dr_QuoteValid result \<or> \<not> dr_QEIdentityValid result \<or> \<not> dr_TCBValid result
           then (Inl (VerificationError ReasonQuoteInvalid ''strict quote checks failed''), w')
           else
             (case sv_policy v b of
                Some err \<Rightarrow> (Inl err, w')
              | None \<Rightarrow>
                  if dr_ReportData result \<noteq> ComputeExpectedReportData (ab_SSHPublicKey b)
                  then (Inl (VerificationError ReasonReportDataMismatch ''report data mismatch''), w')
                  else (Inr \<lparr>dn_Trusted = True, dn_ReasonCode = []\<rparr>, w'))))"

section \<open>What is accepted\<close>

lemma signature_accepted:
  "VerifySignedBundleWithKeyset ed raw sig alg kid trusted = None \<longleftrightarrow>
     TrimSpace kid \<noteq> [] \<and> TrimSpace alg = ''ed25519'' \<and> raw \<noteq> []
     \<and> (\<exists>key pk s. trusted (TrimSpace kid) = Some key
          \<and> b64_decode (TrimSpace key) = Inr pk \<and> length pk = 32
          \<and> b64_decode (TrimSpace sig) = Inr s \<and> length s = 64 \<and> ed_Verify ed pk raw s)"
  by (auto simp: VerifySignedBundleWithKeyset_def VerifySignedBundle_def decodePublicKey_def decodeSignature_def Let_def
      split: option.splits sum.splits if_splits)

lemma verify_trusted:
  "fst (StrictVerifier_Verify v b w) = Inr d \<longleftrightarrow>
     d = \<lparr>dn_Trusted = True, dn_ReasonCode = []\<rparr>
     \<and> (\<exists>r. fst (sv_dcap v (ab_QuoteHex b) w) = Inr r \<and> dr_QuoteValid r \<and> dr_QEIdentityValid r \<and> dr_TCBValid r
            \<and> dr_ReportData r = Sum256 (ab_SSHPublicKey b) @ replicate 32 (CHR 0x00))
     \<and> sv_policy v b = None"
  by (auto simp: StrictVerifier_Verify_def ComputeExpectedReportData_def
      split: prod.splits sum.splits option.splits if_splits)

lemma policy_exact:
  "CheckMeasurements (NewStaticPolicy mrtds rtmr3s) b = None \<longleftrightarrow>
     (mrtds = [] \<or> ab_MRTD b \<in> set mrtds) \<and> (rtmr3s = [] \<or> ab_RTMR3 b \<in> set rtmr3s)
     \<and> ab_RTMR0 b \<noteq> [] \<and> ab_RTMR1 b \<noteq> [] \<and> ab_RTMR2 b \<noteq> []"
  by (auto simp: CheckMeasurements_def NewStaticPolicy_def)

lemma dcap_exact:
  "fst (HTTPDCAPVerifier_Verify send v quote w) = Inr r \<longleftrightarrow>
     \<not> blank quote
     \<and> (\<exists>res. fst (send (dcap_request v quote) w) = Inr res \<and> cp_StatusCode res = 200
             \<and> read_dcap_response (cp_Body res) = Inr r)"
proof -
  obtain a w' where "send (dcap_request v quote) w = (a, w')" by (cases "send (dcap_request v quote) w")
  then show ?thesis
    by (cases a) (auto simp: HTTPDCAPVerifier_Verify_def)
qed

text \<open>
  C15. Exactly these bundles are trusted. The agent's verifier answers \<open>Trusted\<close> if and only if the DCAP
  service answered 200 with all three checks passed, the quote's report data is the SHA-256 of the
  bundle's SSH key followed by zeros, the claimed MRTD and RTMR3 are on the lists where there are lists,
  and RTMR0 to RTMR2 are given; in every other case the answer is an error, never a distrusting decision.
\<close>

theorem trusted_exactly:
  "fst (StrictVerifier_Verify \<lparr>sv_dcap = HTTPDCAPVerifier_Verify send v,
                               sv_policy = CheckMeasurements (NewStaticPolicy mrtds rtmr3s)\<rparr> b w) = Inr d \<longleftrightarrow>
     d = \<lparr>dn_Trusted = True, dn_ReasonCode = []\<rparr>
     \<and> \<not> blank (ab_QuoteHex b)
     \<and> (\<exists>res r. fst (send (dcap_request v (ab_QuoteHex b)) w) = Inr res \<and> cp_StatusCode res = 200
          \<and> read_dcap_response (cp_Body res) = Inr r \<and> dr_QuoteValid r \<and> dr_QEIdentityValid r \<and> dr_TCBValid r
          \<and> dr_ReportData r = Sum256 (ab_SSHPublicKey b) @ replicate 32 (CHR 0x00))
     \<and> (mrtds = [] \<or> ab_MRTD b \<in> set mrtds) \<and> (rtmr3s = [] \<or> ab_RTMR3 b \<in> set rtmr3s)
     \<and> ab_RTMR0 b \<noteq> [] \<and> ab_RTMR1 b \<noteq> [] \<and> ab_RTMR2 b \<noteq> []"
  unfolding verify_trusted StrictVerifier.select_convs policy_exact dcap_exact by blast

text \<open>
  C33. The measurements that are checked are claims. Two bundles with the same quote and SSH key whose
  claimed MRTD and RTMRs differ get the same verdict from the quote; only the claims are held against
  the lists, so a bundle passes for any quote when its payload names an allowed MRTD and RTMR3.
\<close>

theorem measurements_are_not_from_the_quote:
  assumes "fst (StrictVerifier_Verify v b w) = Inr d"
    and "sv_policy v = CheckMeasurements (NewStaticPolicy mrtds rtmr3s)"
    and "m \<in> set mrtds" and "t \<in> set rtmr3s"
  shows "fst (StrictVerifier_Verify v (b\<lparr>ab_MRTD := m, ab_RTMR3 := t\<rparr>) w) = Inr d"
  using assms unfolding verify_trusted assms(2) policy_exact by auto

section \<open>Report data\<close>

lemma hex_not_x: "hex_value (CHR ''x'') = None" "hex_value (CHR ''X'') = None"
  by (simp_all add: hex_value_def)

lemma hex_encode_values: "c \<in> set (hex_encode h) \<Longrightarrow> hex_value c \<noteq> None"
proof -
  have "(of_char x :: nat) div 16 < 16" for x :: char
    by (simp add: less_mult_imp_div_less)
  then show "c \<in> set (hex_encode h) \<Longrightarrow> hex_value c \<noteq> None"
    by (auto simp: hex_encode_def hex_digit_value)
qed

lemma hex_no_prefix:
  "\<not> HasPrefix (hex_encode h) ''0x''" "\<not> HasPrefix (hex_encode h) ''0X''"
  using hex_encode_values [of "CHR ''x''" h] hex_encode_values [of "CHR ''X''" h] hex_not_x
  by (auto simp: HasPrefix_iff)

lemma report_data_length: "parseReportDataHex raw = Inr out \<Longrightarrow> length out = 64"
  by (auto simp: parseReportDataHex_def Let_def split: if_splits sum.splits)

lemma report_data_read:
  assumes "TrimSpace raw = pre @ hex_encode h" and "pre \<in> {[], ''0x'', ''0X''}" and "length h \<in> {32, 64}"
  shows "parseReportDataHex raw = Inr (h @ replicate (64 - length h) (CHR 0x00))"
proof -
  have pre: "TrimPrefix (TrimPrefix (pre @ hex_encode h) ''0x'') ''0X'' = hex_encode h"
    using assms(2) hex_no_prefix [of h] by (auto simp: TrimPrefix_def)
  have "hex_encode h \<noteq> []" using assms(3) by (metis hex_roundtrip hex_decode.simps(1) insertE singletonD length_0_conv sum.inject(2) zero_neq_numeral)
  then show ?thesis
    using assms(3) by (auto simp: parseReportDataHex_def assms(1) pre hex_roundtrip Let_def)
qed

text \<open>
  Report data is read in each of its forms. Hexadecimal of 64 bytes, or of the first 32 with the
  rest taken as zeros, with or without \<open>0x\<close> or \<open>0X\<close> and white space around it, is read back; and
  whatever is read has 64 bytes.
\<close>

lemma report_data_forms:
  assumes "TrimSpace raw = pre @ hex_encode h" and "pre \<in> {[], ''0x'', ''0X''}" and "length h \<in> {32, 64}"
  shows "parseReportDataHex raw = Inr (h @ replicate (64 - length h) (CHR 0x00))
         \<and> (\<forall>raw' out. parseReportDataHex raw' = Inr out \<longrightarrow> length out = 64)"
  using report_data_read [OF assms] report_data_length by blast

lemma report_data_forms_witness:
  "parseReportDataHex (''0x'' @ hex_encode (replicate 32 (CHR ''a'')))
   = Inr (replicate 32 (CHR ''a'') @ replicate 32 (CHR 0x00))"
proof -
  let ?h = "replicate 32 (CHR ''a'')"
  have "TrimSpace (''0x'' @ hex_encode ?h) = ''0x'' @ hex_encode ?h"
  proof (rule TrimSpace_graph)
    fix c assume "c \<in> set (''0x'' @ hex_encode ?h)"
    then show "graph_char c" using hex_encode_graph [of c ?h] by (auto simp: graph_char_def)
  qed
  from report_data_forms [OF this] show ?thesis by simp
qed

definition demo_trusting :: "unit StrictVerifier" where
  "demo_trusting =
     \<lparr>sv_dcap = (\<lambda>q w. (Inr \<lparr>dr_QuoteValid = True, dr_QEIdentityValid = True, dr_TCBValid = True,
                              dr_ReportData = ComputeExpectedReportData ''k''\<rparr>, w)),
      sv_policy = CheckMeasurements (NewStaticPolicy [''m1'', ''m2''] [''t1'', ''t2''])\<rparr>"

definition demo_claims :: Bundle where
  "demo_claims =
     \<lparr>ab_ConnectorID = ''conn_1'', ab_SSHPublicKey = ''k'', ab_QuoteHex = ''q'', ab_MRTD = ''m1'', ab_RTMR0 = ''a'',
      ab_RTMR1 = ''b'', ab_RTMR2 = ''c'', ab_RTMR3 = ''t1'', ab_ReportDataExpectedSHA256 = [], ab_PolicyVersion = ''v1''\<rparr>"

theorem measurements_are_not_from_the_quote_witness:
  "fst (StrictVerifier_Verify demo_trusting (demo_claims\<lparr>ab_MRTD := ''m2'', ab_RTMR3 := ''t2''\<rparr>) ())
   = Inr \<lparr>dn_Trusted = True, dn_ReasonCode = []\<rparr>"
proof (rule measurements_are_not_from_the_quote)
  show "fst (StrictVerifier_Verify demo_trusting demo_claims ()) = Inr \<lparr>dn_Trusted = True, dn_ReasonCode = []\<rparr>"
    by (simp add: StrictVerifier_Verify_def demo_trusting_def demo_claims_def CheckMeasurements_def NewStaticPolicy_def)
  show "sv_policy demo_trusting = CheckMeasurements (NewStaticPolicy [''m1'', ''m2''] [''t1'', ''t2''])"
    by (simp add: demo_trusting_def)
qed simp_all

end
