(* ===== verification/Trust.thy ===== *)
theory Trust
  imports ApiClient Verify
begin

text \<open>
  \<open>internal/trust\<close>: where the agent takes the control plane's public keys from. Keys given at start-up
  are trusted for one time to live; after that, and when none were given, the keyset the control plane
  publishes replaces them.
\<close>

section \<open>Key maps\<close>

text \<open>
  Copying trims IDs and keys and leaves out what is empty then. \<open>vs\<close> is the order in which the range
  loop visits the map: IDs that differ only in white space overwrite each other in that order.
\<close>

fun copy_loop :: "(string \<rightharpoonup> string) \<Rightarrow> string list \<Rightarrow> (string \<rightharpoonup> string) \<Rightarrow> (string \<rightharpoonup> string)" where
  "copy_loop m [] out = out"
| "copy_loop m (k # vs) out =
     (case m k of
        None \<Rightarrow> copy_loop m vs out
      | Some v \<Rightarrow>
          (let kid = TrimSpace k; key = TrimSpace v in
           copy_loop m vs (if kid = [] \<or> key = [] then out else out(kid \<mapsto> key))))"

definition copyTrustedKeyMap :: "string list \<Rightarrow> (string \<rightharpoonup> string) \<Rightarrow> (string \<rightharpoonup> string)" where
  "copyTrustedKeyMap vs m = copy_loop m vs Map.empty"

fun trusted_loop :: "SigningKeyInfo list \<Rightarrow> (string \<rightharpoonup> string) \<Rightarrow> (string \<rightharpoonup> string) ares" where
  "trusted_loop [] out = Inr out"
| "trusted_loop (key # keys) out =
     (let kid = TrimSpace (ki_KID key); alg = TrimSpace (ki_Alg key); pub = TrimSpace (ki_PublicKeyB64 key) in
      if kid = [] \<or> pub = [] then Inl (Failure ''keyset contains empty kid or public key'')
      else if alg \<noteq> ''ed25519'' then Inl (Failure ''unsupported signing key algorithm'')
      else trusted_loop keys (out(kid \<mapsto> pub)))"

definition trustedMapFromKeyset :: "api_SigningKeyset \<Rightarrow> (string \<rightharpoonup> string) ares" where
  "trustedMapFromKeyset keyset =
     (if length (ak_Keys keyset) = 0 then Inl (Failure ''keyset is empty'')
      else
        res_bind (trusted_loop (ak_Keys keyset) Map.empty) (\<lambda>out.
          (let active = TrimSpace (ak_ActiveKID keyset) in
           if active \<noteq> [] \<and> out active = None then Inl (Failure ''active kid missing from keyset'')
           else Inr out)))"

section \<open>The source\<close>

definition DefaultKeysetCacheTTL :: duration where
  "DefaultKeysetCacheTTL = 5 * Minute"

record KeysetSource =
  src_ttl :: duration
  src_trusted :: "string \<rightharpoonup> string"
  src_expiresAt :: time

text \<open>\<open>order\<close> gives the order of each range loop over a map, and \<open>t\<close> is the clock's reading.\<close>

definition newKeysetSource ::
  "((string \<rightharpoonup> string) \<Rightarrow> string list) \<Rightarrow> (string \<rightharpoonup> string) \<Rightarrow> duration \<Rightarrow> time \<Rightarrow> KeysetSource" where
  "newKeysetSource order bootstrap ttl t =
     (let ttl = (if ttl \<le> 0 then DefaultKeysetCacheTTL else ttl);
          source = \<lparr>src_ttl = ttl, src_trusted = Map.empty, src_expiresAt = zero_time\<rparr>;
          cached = copyTrustedKeyMap (order bootstrap) bootstrap
      in if cached \<noteq> Map.empty then source\<lparr>src_trusted := cached, src_expiresAt := t + ttl\<rparr> else source)"

definition cachedIfFresh ::
  "((string \<rightharpoonup> string) \<Rightarrow> string list) \<Rightarrow> KeysetSource \<Rightarrow> time \<Rightarrow> (string \<rightharpoonup> string) option" where
  "cachedIfFresh order s t =
     (if src_trusted s = Map.empty \<or> \<not> t < src_expiresAt s then None
      else Some (copyTrustedKeyMap (order (src_trusted s)) (src_trusted s)))"

text \<open>\<open>fetcher\<close> is the call for the published keyset, if one is configured.\<close>

definition TrustedKeys ::
  "((string \<rightharpoonup> string) \<Rightarrow> string list) \<Rightarrow> ('w \<Rightarrow> api_SigningKeyset ares \<times> 'w) option \<Rightarrow> time
   \<Rightarrow> KeysetSource \<Rightarrow> 'w \<Rightarrow> (string \<rightharpoonup> string) ares \<times> KeysetSource \<times> 'w" where
  "TrustedKeys order fetcher t s w =
     (case cachedIfFresh order s t of
        Some cached \<Rightarrow> (Inr cached, s, w)
      | None \<Rightarrow>
          (case fetcher of
             None \<Rightarrow> (Inl (Failure ''refresh signing keyset: no fetcher configured''), s, w)
           | Some get \<Rightarrow>
               (case get w of
                  (Inl err, w') \<Rightarrow> (Inl (Failure (''refresh signing keyset: '' @ error_text err)), s, w')
                | (Inr keyset, w') \<Rightarrow>
                    (case trustedMapFromKeyset keyset of
                       Inl err \<Rightarrow> (Inl (Failure (''refresh signing keyset: '' @ error_text err)), s, w')
                     | Inr trusted \<Rightarrow>
                         (Inr (copyTrustedKeyMap (order trusted) trusted),
                          s\<lparr>src_trusted := trusted, src_expiresAt := t + src_ttl s\<rparr>, w')))))"

section \<open>Clean maps are copied unchanged\<close>

definition clean_map :: "(string \<rightharpoonup> string) \<Rightarrow> bool" where
  "clean_map m \<longleftrightarrow> (\<forall>k v. m k = Some v \<longrightarrow> k \<noteq> [] \<and> v \<noteq> [] \<and> TrimSpace k = k \<and> TrimSpace v = v)"

lemma clean_update [intro]:
  "clean_map m \<Longrightarrow> TrimSpace k \<noteq> [] \<Longrightarrow> TrimSpace v \<noteq> [] \<Longrightarrow> clean_map (m(TrimSpace k \<mapsto> TrimSpace v))"
  by (auto simp: clean_map_def)

lemma copy_loop_clean: "clean_map out \<Longrightarrow> clean_map (copy_loop m vs out)"
proof (induction vs arbitrary: out)
  case (Cons k vs)
  then show ?case using clean_update [OF Cons.prems] by (auto simp: Let_def split: option.split)
qed simp

lemma copy_clean: "clean_map (copyTrustedKeyMap vs m)"
  unfolding copyTrustedKeyMap_def by (rule copy_loop_clean) (simp add: clean_map_def)

lemma copy_loop_same: "clean_map m \<Longrightarrow> copy_loop m vs out = out ++ (m |` set vs)"
proof (induction vs arbitrary: out)
  case (Cons k vs)
  show ?case
  proof (cases "m k")
    case None
    then have "m |` insert k (set vs) = m |` set vs" by (auto simp: restrict_map_def fun_eq_iff)
    with None Cons show ?thesis by simp
  next
    case (Some v)
    with Cons.prems have c: "TrimSpace k = k" "TrimSpace v = v" "k \<noteq> []" "v \<noteq> []" by (auto simp: clean_map_def)
    have "out(k \<mapsto> v) ++ (m |` set vs) = out ++ (m |` insert k (set vs))"
      by (rule ext) (simp add: Some restrict_map_def map_add_def split: option.split)
    with Some c Cons show ?thesis by simp
  qed
qed simp

text \<open>What is asked of the order of a range loop: it visits every entry.\<close>

definition covers :: "((string \<rightharpoonup> string) \<Rightarrow> string list) \<Rightarrow> bool" where
  "covers order \<longleftrightarrow> (\<forall>m. finite (dom m) \<longrightarrow> set (order m) = dom m)"

lemma copy_same:
  assumes "covers order" and "clean_map m" and "finite (dom m)"
  shows "copyTrustedKeyMap (order m) m = m"
proof -
  have "m |` dom m = m" by (rule ext) (metis domIff restrict_in restrict_out)
  with assms show ?thesis by (simp add: copyTrustedKeyMap_def copy_loop_same covers_def)
qed

lemma trusted_loop_clean:
  "trusted_loop keys out = Inr m \<Longrightarrow> clean_map out \<and> finite (dom out) \<Longrightarrow> clean_map m \<and> finite (dom m)"
  by (induction keys out rule: trusted_loop.induct) (auto simp: Let_def split: if_splits)

lemma trusted_loop_keys:
  "trusted_loop keys out = Inr m \<Longrightarrow>
   dom m = dom out \<union> (TrimSpace \<circ> ki_KID) ` set keys
   \<and> (\<forall>k v. m k = Some v \<longrightarrow> out k = Some v
        \<or> (\<exists>key \<in> set keys. TrimSpace (ki_KID key) = k \<and> TrimSpace (ki_PublicKeyB64 key) = v))"
proof (induction keys out rule: trusted_loop.induct)
  case (2 key keys out)
  then have "trusted_loop keys (out(TrimSpace (ki_KID key) \<mapsto> TrimSpace (ki_PublicKeyB64 key))) = Inr m"
    by (auto simp: Let_def split: if_splits)
  moreover note 2(1) [OF refl refl refl _ _ this]
  ultimately have "dom m = insert (TrimSpace (ki_KID key)) (dom out) \<union> (TrimSpace \<circ> ki_KID) ` set keys
    \<and> (\<forall>k v. m k = Some v \<longrightarrow> (out(TrimSpace (ki_KID key) \<mapsto> TrimSpace (ki_PublicKeyB64 key))) k = Some v
        \<or> (\<exists>key \<in> set keys. TrimSpace (ki_KID key) = k \<and> TrimSpace (ki_PublicKeyB64 key) = v))"
    using 2(2) by (auto simp: Let_def split: if_splits)
  then show ?case by (auto split: if_splits)
qed simp

section \<open>Trusted keys are fresh or just fetched\<close>

definition source_ok :: "KeysetSource \<Rightarrow> bool" where
  "source_ok s \<longleftrightarrow> 0 < src_ttl s \<and> clean_map (src_trusted s) \<and> finite (dom (src_trusted s))"

lemma copy_finite: "finite (dom (copyTrustedKeyMap vs m))"
proof -
  have "finite (dom out) \<Longrightarrow> finite (dom (copy_loop m vs out))" for out
    by (induction vs arbitrary: out) (auto simp: Let_def split: option.split)
  then show ?thesis by (simp add: copyTrustedKeyMap_def)
qed

lemma new_source_ok: "source_ok (newKeysetSource order bootstrap ttl t)"
  using copy_clean copy_finite
  by (auto simp: newKeysetSource_def source_ok_def Let_def DefaultKeysetCacheTTL_def clean_map_def)

lemma trusted_map_ok:
  assumes "trustedMapFromKeyset keyset = Inr m"
  shows "clean_map m \<and> finite (dom m) \<and> m \<noteq> Map.empty"
proof -
  from assms have l: "trusted_loop (ak_Keys keyset) Map.empty = Inr m" and k: "ak_Keys keyset \<noteq> []"
    by (auto simp: trustedMapFromKeyset_def res_bind_Inr Let_def split: if_splits)
  from k obtain key keys where "ak_Keys keyset = key # keys" by (cases "ak_Keys keyset") auto
  then have "m \<noteq> Map.empty" using trusted_loop_keys [OF l] by auto
  moreover have "clean_map m \<and> finite (dom m)"
    by (rule trusted_loop_clean [OF l]) (simp add: clean_map_def)
  ultimately show ?thesis by simp
qed

lemma trusted_keys_cases:
  assumes "covers order" and "source_ok s" and "TrustedKeys order fetcher t s w = (Inr keys, s', w')"
  shows "(src_trusted s = keys \<and> t < src_expiresAt s \<and> s' = s \<and> w' = w
          \<or> (\<exists>get keyset. fetcher = Some get \<and> get w = (Inr keyset, w') \<and> trustedMapFromKeyset keyset = Inr keys
                \<and> s' = s\<lparr>src_trusted := keys, src_expiresAt := t + src_ttl s\<rparr>))
         \<and> keys \<noteq> Map.empty \<and> clean_map keys \<and> source_ok s'"
proof (cases "cachedIfFresh order s t")
  case (Some cached)
  with assms show ?thesis
    by (auto simp: TrustedKeys_def cachedIfFresh_def source_ok_def copy_same split: if_splits)
next
  case None
  with assms(3) obtain get keyset m where g: "fetcher = Some get" "get w = (Inr keyset, w')"
    and m: "trustedMapFromKeyset keyset = Inr m" and k: "keys = copyTrustedKeyMap (order m) m"
    and s': "s' = s\<lparr>src_trusted := m, src_expiresAt := t + src_ttl s\<rparr>"
    by (auto simp: TrustedKeys_def split: option.splits prod.splits sum.splits)
  note ok = trusted_map_ok [OF m]
  with k have "keys = m" using copy_same [OF assms(1)] by simp
  with g m s' ok assms(2) show ?thesis by (auto simp: source_ok_def intro!: exI [of _ get])
qed

text \<open>
  C34. Stale keys are never used. Whatever keys a source answers with are non-empty and trimmed, and
  either they are its cached keys, before their expiry and with nothing fetched, or they are those of a
  keyset fetched just now, which replace the cache for one time to live. A failed fetch is an error,
  never an answer from the expired cache.
\<close>

theorem trusted_keys_fresh_or_fetched:
  assumes "covers order" and "source_ok s" and "TrustedKeys order fetcher t s w = (Inr keys, s', w')"
  shows "(src_trusted s = keys \<and> t < src_expiresAt s \<and> s' = s \<and> w' = w
          \<or> (\<exists>get keyset. fetcher = Some get \<and> get w = (Inr keyset, w') \<and> trustedMapFromKeyset keyset = Inr keys
                \<and> s' = s\<lparr>src_trusted := keys, src_expiresAt := t + src_ttl s\<rparr>))
         \<and> keys \<noteq> Map.empty \<and> clean_map keys \<and> source_ok s'"
  using assms by (rule trusted_keys_cases)

definition demo_order :: "(string \<rightharpoonup> string) \<Rightarrow> string list" where
  "demo_order m = sorted_list_of_set (dom m)"

lemma demo_covers: "covers demo_order"
  by (simp add: covers_def demo_order_def)

definition demo_keyset :: api_SigningKeyset where
  "demo_keyset = \<lparr>ak_ActiveKID = ''v1'', ak_Keys = [\<lparr>ki_KID = ''v1'', ki_Alg = ''ed25519'', ki_PublicKeyB64 = ''AA''\<rparr>]\<rparr>"

lemma demo_trims: "TrimSpace ''v1'' = ''v1''" "TrimSpace ''AA'' = ''AA''" "TrimSpace ''ed25519'' = ''ed25519''"
  "TrimSpace ''BB'' = ''BB''"
  by code_simp+

lemma demo_trusted: "trustedMapFromKeyset demo_keyset = Inr [''v1'' \<mapsto> ''AA'']"
  by (simp add: trustedMapFromKeyset_def demo_keyset_def demo_trims Let_def)

theorem trusted_keys_fresh_or_fetched_witness:
  "\<exists>keys s' w'. TrustedKeys demo_order (Some (\<lambda>w. (Inr demo_keyset, Suc w))) 7
       (newKeysetSource demo_order Map.empty 0 0) (0 :: nat) = (Inr keys, s', w')
     \<and> keys \<noteq> Map.empty \<and> source_ok s'"
proof -
  have "copyTrustedKeyMap (demo_order m) Map.empty = Map.empty" for m
    by (simp add: copyTrustedKeyMap_def copy_loop_same clean_map_def)
  then have "\<exists>keys s' w'. TrustedKeys demo_order (Some (\<lambda>w. (Inr demo_keyset, Suc w))) 7
       (newKeysetSource demo_order Map.empty 0 0) (0 :: nat) = (Inr keys, s', w')"
    by (simp add: TrustedKeys_def newKeysetSource_def cachedIfFresh_def demo_trusted Let_def)
  with trusted_keys_fresh_or_fetched [OF demo_covers new_source_ok] show ?thesis by metis
qed

text \<open>
  C35. Keys given to the agent are not pinned. Once one time to live has passed since start-up, the keys
  the agent was configured with play no part: it trusts exactly the keyset the control plane publishes,
  whether or not they are in it.
\<close>

theorem configured_keys_expire:
  assumes "covers order" and "0 < ttl" and "t0 + ttl \<le> t"
    and "get w = (Inr keyset, w')" and "trustedMapFromKeyset keyset = Inr keys"
  shows "fst (TrustedKeys order (Some get) t (newKeysetSource order bootstrap ttl t0) w) = Inr keys"
proof -
  have "cachedIfFresh order (newKeysetSource order bootstrap ttl t0) t = None"
    using assms(2,3) by (simp add: cachedIfFresh_def newKeysetSource_def Let_def)
  moreover have "copyTrustedKeyMap (order keys) keys = keys"
    using trusted_map_ok [OF assms(5)] copy_same [OF assms(1)] by simp
  ultimately show ?thesis using assms(4,5) by (simp add: TrustedKeys_def)
qed

theorem configured_keys_expire_witness:
  "fst (TrustedKeys demo_order (Some (\<lambda>w. (Inr demo_keyset, w))) 60
          (newKeysetSource demo_order [''v1'' \<mapsto> ''BB''] 60 0) ()) = Inr [''v1'' \<mapsto> ''AA'']"
proof (rule configured_keys_expire)
  show "(\<lambda>w. (Inr demo_keyset, w)) () = (Inr demo_keyset, ())" by simp
  show "trustedMapFromKeyset demo_keyset = Inr [''v1'' \<mapsto> ''AA'']" by (rule demo_trusted)
qed (simp_all add: demo_covers)

end
