(* ===== verification/Flow.thy ===== *)
theory Flow
  imports Approval SshKeys Trust
begin

text \<open>
  \<open>internal/flow\<close>: what the agent does with one pending request, over the interfaces the Go code names:
  ask the owner, report the decision, fetch the bundle, check its signature and the attestation, install
  the key, report the result. The operations act on a state of the world of any type.
\<close>

section \<open>The runner\<close>

definition ErrUserDenied :: agent_error where
  "ErrUserDenied = Failure ''user denied local approval''"

record flow_Request =
  fr_ID :: string
  fr_ConnectorID :: string
  fr_LocalUser :: string

record 'w Runner =
  rn_PostLocalDecision :: "string \<Rightarrow> bool \<Rightarrow> 'w \<Rightarrow> agent_error option \<times> 'w"
  rn_GetAttestationBundle :: "string \<Rightarrow> 'w \<Rightarrow> api_Bundle ares \<times> 'w"
  rn_PostResult :: "string \<Rightarrow> string \<Rightarrow> string \<Rightarrow> 'w \<Rightarrow> agent_error option \<times> 'w"
  rn_Confirm :: "'w DecisionSource"
  rn_Verify :: "Bundle \<Rightarrow> 'w \<Rightarrow> Decision ares \<times> 'w"
  rn_Install :: "string \<Rightarrow> string \<Rightarrow> 'w \<Rightarrow> agent_error option \<times> 'w"
  rn_TrustedKeys :: "('w \<Rightarrow> (string \<rightharpoonup> string) ares \<times> 'w) option"

definition stringField :: "(string \<rightharpoonup> json) \<Rightarrow> string \<Rightarrow> string" where
  "stringField m key = (case m key of Some (JStr s) \<Rightarrow> s | _ \<Rightarrow> [])"

definition parseBundlePayload :: "(string \<rightharpoonup> json) \<Rightarrow> Bundle ares" where
  "parseBundlePayload payload =
     (let out = \<lparr>ab_ConnectorID = stringField payload ''connector_id'',
                 ab_SSHPublicKey = stringField payload ''ssh_public_key'',
                 ab_QuoteHex = stringField payload ''quote_hex'',
                 ab_MRTD = stringField payload ''mrtd'',
                 ab_RTMR0 = stringField payload ''rtmr0'',
                 ab_RTMR1 = stringField payload ''rtmr1'',
                 ab_RTMR2 = stringField payload ''rtmr2'',
                 ab_RTMR3 = stringField payload ''rtmr3'',
                 ab_ReportDataExpectedSHA256 = stringField payload ''report_data_expected_sha256'',
                 ab_PolicyVersion = stringField payload ''policy_version''\<rparr>
      in if ab_SSHPublicKey out = [] \<or> ab_QuoteHex out = []
         then Inl (Failure ''bundle payload missing required fields'') else Inr out)"

text \<open>Reporting a failed verification, whatever becomes of the report.\<close>

definition report_failure ::
  "'w Runner \<Rightarrow> string \<Rightarrow> string \<Rightarrow> agent_error \<Rightarrow> 'w \<Rightarrow> agent_error option \<times> 'w" where
  "report_failure r rid reason err w = (Some err, snd (rn_PostResult r rid ''verification_failed'' reason w))"

fun reason_of :: "agent_error \<Rightarrow> string" where
  "reason_of (VerificationError code inner) = code"
| "reason_of (Failure m) = ReasonQuoteInvalid"

definition finish_install ::
  "'w Runner \<Rightarrow> flow_Request \<Rightarrow> Bundle \<Rightarrow> 'w \<Rightarrow> agent_error option \<times> 'w" where
  "finish_install r req b w =
     (case rn_Install r (fr_LocalUser req) (ab_SSHPublicKey b) w of
        (Some err, w') \<Rightarrow> report_failure r (fr_ID req) ''TransportFailure'' err w'
      | (None, w') \<Rightarrow> rn_PostResult r (fr_ID req) ''connected'' [] w')"

definition check_bundle ::
  "ed25519 \<Rightarrow> 'w Runner \<Rightarrow> flow_Request \<Rightarrow> api_Bundle \<Rightarrow> (string \<rightharpoonup> string) \<Rightarrow> 'w \<Rightarrow> agent_error option \<times> 'w" where
  "check_bundle ed r req sb trustedKeys w =
     (case VerifySignedBundleWithKeyset ed (cb_PayloadRaw sb) (cb_Signature sb) (cb_Alg sb) (cb_KID sb) trustedKeys of
        Some err \<Rightarrow> report_failure r (fr_ID req) ReasonBundleInvalid err w
      | None \<Rightarrow>
          (case parseBundlePayload (cb_Payload sb) of
             Inl err \<Rightarrow> report_failure r (fr_ID req) ReasonBundleInvalid err w
           | Inr b \<Rightarrow>
               (case rn_Verify r b w of
                  (Inl err, w') \<Rightarrow> report_failure r (fr_ID req) (reason_of err) err w'
                | (Inr decision, w') \<Rightarrow>
                    if \<not> dn_Trusted decision
                    then report_failure r (fr_ID req) (dn_ReasonCode decision)
                           (Failure (''untrusted decision: '' @ dn_ReasonCode decision)) w'
                    else finish_install r req b w')))"

definition Process :: "ed25519 \<Rightarrow> 'w Runner \<Rightarrow> flow_Request \<Rightarrow> 'w \<Rightarrow> agent_error option \<times> 'w" where
  "Process ed r req w =
     (case rn_Confirm r \<lparr>rq_ID = fr_ID req, rq_ConnectorID = fr_ConnectorID req\<rparr> w of
        (Inl err, w) \<Rightarrow> (Some err, w)
      | (Inr approved, w) \<Rightarrow>
          (case rn_PostLocalDecision r (fr_ID req) approved w of
             (Some err, w) \<Rightarrow> (Some err, w)
           | (None, w) \<Rightarrow>
               if \<not> approved then (Some ErrUserDenied, w)
               else
                 (case rn_GetAttestationBundle r (fr_ID req) w of
                    (Inl err, w) \<Rightarrow> (Some err, w)
                  | (Inr sb, w) \<Rightarrow>
                      (case rn_TrustedKeys r of
                         None \<Rightarrow> report_failure r (fr_ID req) ReasonBundleInvalid
                                   (Failure ''trusted signing key source is not configured'') w
                       | Some keys \<Rightarrow>
                           (case keys w of
                              (Inl err, w) \<Rightarrow> report_failure r (fr_ID req) ReasonBundleInvalid err w
                            | (Inr trustedKeys, w) \<Rightarrow> check_bundle ed r req sb trustedKeys w)))))"

section \<open>What a run that trusts its bundle went through\<close>

definition bundle_ok :: "ed25519 \<Rightarrow> api_Bundle \<Rightarrow> (string \<rightharpoonup> string) \<Rightarrow> Bundle \<Rightarrow> bool" where
  "bundle_ok ed sb trusted b \<longleftrightarrow>
     VerifySignedBundleWithKeyset ed (cb_PayloadRaw sb) (cb_Signature sb) (cb_Alg sb) (cb_KID sb) trusted = None
     \<and> parseBundlePayload (cb_Payload sb) = Inr b"

definition fetched ::
  "'w Runner \<Rightarrow> flow_Request \<Rightarrow> 'w \<Rightarrow> api_Bundle \<Rightarrow> 'w \<Rightarrow> bool" where
  "fetched r req w sb w' \<longleftrightarrow>
     (\<exists>w1 w2. rn_Confirm r \<lparr>rq_ID = fr_ID req, rq_ConnectorID = fr_ConnectorID req\<rparr> w = (Inr True, w1)
        \<and> rn_PostLocalDecision r (fr_ID req) True w1 = (None, w2)
        \<and> rn_GetAttestationBundle r (fr_ID req) w2 = (Inr sb, w'))"

definition trusted_run ::
  "ed25519 \<Rightarrow> 'w Runner \<Rightarrow> flow_Request \<Rightarrow> 'w \<Rightarrow> Bundle \<Rightarrow> 'w \<Rightarrow> bool" where
  "trusted_run ed r req w b w' \<longleftrightarrow>
     (\<exists>sb w3 keys trusted w4 d. fetched r req w sb w3
        \<and> rn_TrustedKeys r = Some keys \<and> keys w3 = (Inr trusted, w4) \<and> bundle_ok ed sb trusted b
        \<and> rn_Verify r b w4 = (Inr d, w') \<and> dn_Trusted d)"

text \<open>Everything up to installing and reporting only asks: \<open>asked r w w'\<close> is a sequence of such calls.\<close>

inductive asked :: "'w Runner \<Rightarrow> 'w \<Rightarrow> 'w \<Rightarrow> bool" for r where
  nothing: "asked r w w"
| confirm: "asked r w w1 \<Longrightarrow> rn_Confirm r q w1 = (x, w') \<Longrightarrow> asked r w w'"
| decision: "asked r w w1 \<Longrightarrow> rn_PostLocalDecision r i a w1 = (y, w') \<Longrightarrow> asked r w w'"
| get_bundle: "asked r w w1 \<Longrightarrow> rn_GetAttestationBundle r i w1 = (z, w') \<Longrightarrow> asked r w w'"
| trusted: "asked r w w1 \<Longrightarrow> rn_TrustedKeys r = Some get \<Longrightarrow> get w1 = (k, w') \<Longrightarrow> asked r w w'"
| verify: "asked r w w1 \<Longrightarrow> rn_Verify r b w1 = (d, w') \<Longrightarrow> asked r w w'"

lemma fetched_unique: "fetched r req w sb w' \<Longrightarrow> fetched r req w sb' w'' \<Longrightarrow> sb' = sb \<and> w'' = w'"
  by (auto simp: fetched_def)

lemma trusted_run_unique: "trusted_run ed r req w b w' \<Longrightarrow> trusted_run ed r req w b' w'' \<Longrightarrow> b' = b \<and> w'' = w'"
  by (auto simp: trusted_run_def bundle_ok_def dest: fetched_unique)

lemma fetched_asked: "fetched r req w sb w' \<Longrightarrow> asked r w w'"
  unfolding fetched_def
  by (elim exE conjE) (rule asked.get_bundle [OF asked.decision [OF asked.confirm [OF asked.nothing]]])

lemma trusted_run_asked: "trusted_run ed r req w b w' \<Longrightarrow> asked r w w'"
  unfolding trusted_run_def by (elim exE conjE) (rule asked.verify [OF asked.trusted [OF fetched_asked]])

lemma unfetched_process:
  assumes "\<nexists>sb w3. fetched r req w sb w3"
  shows "\<exists>e w'. Process ed r req w = (Some e, w') \<and> asked r w w'"
proof -
  obtain x w1 where c: "rn_Confirm r \<lparr>rq_ID = fr_ID req, rq_ConnectorID = fr_ConnectorID req\<rparr> w = (x, w1)"
    by fastforce
  note a1 = asked.confirm [OF asked.nothing c]
  show ?thesis
  proof (cases x)
    case Inl
    with c a1 show ?thesis by (simp add: Process_def)
  next
    case (Inr a)
    obtain y w2 where d: "rn_PostLocalDecision r (fr_ID req) a w1 = (y, w2)" by fastforce
    note a2 = asked.decision [OF a1 d]
    obtain z w3 where g: "rn_GetAttestationBundle r (fr_ID req) w2 = (z, w3)" by fastforce
    note a3 = asked.get_bundle [OF a2 g]
    have "\<exists>e. z = Inl e" if "y = None" "a"
      using assms c d g Inr that by (cases z) (auto simp: fetched_def)
    with c d g Inr a2 a3 show ?thesis by (cases y; cases a) (auto simp: Process_def)
  qed
qed

lemma fetched_process:
  assumes "fetched r req w sb w3"
  shows "(\<exists>reason e w4. Process ed r req w = report_failure r (fr_ID req) reason e w4 \<and> asked r w w4
            \<and> (\<nexists>b w'. trusted_run ed r req w b w'))
         \<or> (\<exists>b w'. Process ed r req w = finish_install r req b w' \<and> trusted_run ed r req w b w')"
proof -
  note a3 = fetched_asked [OF assms]
  have p: "Process ed r req w =
      (case rn_TrustedKeys r of
         None \<Rightarrow> report_failure r (fr_ID req) ReasonBundleInvalid
                   (Failure ''trusted signing key source is not configured'') w3
       | Some keys \<Rightarrow> (case keys w3 of
            (Inl err, w) \<Rightarrow> report_failure r (fr_ID req) ReasonBundleInvalid err w
          | (Inr trustedKeys, w) \<Rightarrow> check_bundle ed r req sb trustedKeys w))"
    using assms by (auto simp: Process_def fetched_def)
  have t: "trusted_run ed r req w b w' \<longleftrightarrow>
     (\<exists>keys trusted w4 d. rn_TrustedKeys r = Some keys \<and> keys w3 = (Inr trusted, w4) \<and> bundle_ok ed sb trusted b
        \<and> rn_Verify r b w4 = (Inr d, w') \<and> dn_Trusted d)" for b w'
    unfolding trusted_run_def using assms fetched_unique [OF assms] by blast
  show ?thesis
  proof (cases "rn_TrustedKeys r")
    case None
    with a3 show ?thesis by (auto simp: p t)
  next
    case (Some keys)
    obtain k w4 where k: "keys w3 = (k, w4)" by fastforce
    note a4 = asked.trusted [OF a3 Some k]
    show ?thesis
    proof (cases k)
      case Inl
      with Some k a4 show ?thesis by (auto simp: p t)
    next
      case (Inr trusted)
      show ?thesis
      proof (cases "\<exists>b. bundle_ok ed sb trusted b")
        case False
        then have "\<exists>reason e. check_bundle ed r req sb trusted w4 = report_failure r (fr_ID req) reason e w4"
          by (cases "VerifySignedBundleWithKeyset ed (cb_PayloadRaw sb) (cb_Signature sb) (cb_Alg sb) (cb_KID sb) trusted";
              cases "parseBundlePayload (cb_Payload sb)")
             (auto simp: check_bundle_def bundle_ok_def)
        moreover have "\<nexists>b w'. trusted_run ed r req w b w'" using False Some k Inr by (simp add: t)
        ultimately show ?thesis using Some k Inr a4 unfolding p by auto
      next
        case True
        then obtain b where b: "bundle_ok ed sb trusted b" by blast
        obtain d w5 where v: "rn_Verify r b w4 = (d, w5)" by fastforce
        note a5 = asked.verify [OF a4 v]
        show ?thesis
          using Some k Inr b v a5
          by (cases d) (auto simp: p t check_bundle_def bundle_ok_def)
      qed
    qed
  qed
qed

lemma process_cases:
  obtains (unfetched) e w' where "Process ed r req w = (Some e, w')" "asked r w w'" "\<nexists>sb w3. fetched r req w sb w3"
  | (rejected) sb w3 e w4 reason where "fetched r req w sb w3" "asked r w w4"
      "Process ed r req w = report_failure r (fr_ID req) reason e w4" "\<nexists>b w'. trusted_run ed r req w b w'"
  | (trusted) b w' where "trusted_run ed r req w b w'" "asked r w w'" "Process ed r req w = finish_install r req b w'"
proof (cases "\<exists>sb w3. fetched r req w sb w3")
  case True
  then obtain sb w3 where f: "fetched r req w sb w3" by blast
  from fetched_process [OF f, of ed] show ?thesis
  proof (elim disjE exE conjE)
    fix reason e w4
    assume "Process ed r req w = report_failure r (fr_ID req) reason e w4" "asked r w w4"
      "\<nexists>b w'. trusted_run ed r req w b w'"
    then show ?thesis by (intro rejected [OF f])
  next
    fix b w' assume "Process ed r req w = finish_install r req b w'" and t: "trusted_run ed r req w b w'"
    then show ?thesis by (intro trusted [OF t trusted_run_asked [OF t]])
  qed
next
  case False
  with unfetched_process [OF this, of ed] unfetched show ?thesis by (elim exE conjE)
qed

section \<open>Who touches the keys\<close>

text \<open>
  The contract of the runner's interfaces: asking changes nothing of what \<open>view\<close> observes of the world.
\<close>

locale unobserved =
  fixes r :: "'w Runner" and view :: "'w \<Rightarrow> 'k"
  assumes confirm_keeps: "rn_Confirm r q w = (x, w') \<Longrightarrow> view w' = view w"
    and decision_keeps: "rn_PostLocalDecision r i a w = (y, w') \<Longrightarrow> view w' = view w"
    and bundle_keeps: "rn_GetAttestationBundle r i w = (z, w') \<Longrightarrow> view w' = view w"
    and trusted_keeps: "rn_TrustedKeys r = Some get \<Longrightarrow> get w = (k, w') \<Longrightarrow> view w' = view w"
    and verify_keeps: "rn_Verify r b w = (d, w') \<Longrightarrow> view w' = view w"
begin

lemma asked_keeps: "asked r w w' \<Longrightarrow> view w' = view w"
  by (induction rule: asked.induct)
     (auto dest: confirm_keeps decision_keeps bundle_keeps trusted_keeps verify_keeps)

end

text \<open>When reports do not touch the view either, as with the installed keys, only \<open>Install\<close> can.\<close>

locale key_custody = unobserved +
  assumes result_keeps: "rn_PostResult r i s c w = (y, w') \<Longrightarrow> view w' = view w"
begin

lemma report_keeps: "view (snd (report_failure r i c e w)) = view w"
  unfolding report_failure_def snd_conv by (rule result_keeps) (rule prod.collapse [symmetric])

lemma finish_keeps:
  "view (snd (finish_install r req b w)) = view (snd (rn_Install r (fr_LocalUser req) (ab_SSHPublicKey b) w))"
proof (cases "rn_Install r (fr_LocalUser req) (ab_SSHPublicKey b) w")
  case (Pair x w')
  have "view (snd (rn_PostResult r (fr_ID req) ''connected'' [] w')) = view w'"
    by (rule result_keeps) (rule prod.collapse [symmetric])
  with Pair report_keeps show ?thesis by (cases x) (simp_all add: finish_install_def)
qed

lemma view_change:
  assumes "view (snd (Process ed r req w)) \<noteq> view w"
  shows "\<exists>b w'. trusted_run ed r req w b w' \<and> view w' = view w
           \<and> view (snd (Process ed r req w)) = view (snd (rn_Install r (fr_LocalUser req) (ab_SSHPublicKey b) w'))"
proof (cases rule: process_cases [of ed r req w])
  case (trusted b w')
  have "view (snd (Process ed r req w)) = view (snd (rn_Install r (fr_LocalUser req) (ab_SSHPublicKey b) w'))"
    by (simp add: trusted(3) finish_keeps)
  with trusted(1) asked_keeps [OF trusted(2)] show ?thesis by blast
qed (use assms in \<open>simp_all add: asked_keeps report_keeps\<close>)

end

text \<open>
  When the view is a log of the reports, \<open>ev\<close> being the entry of a report, it grows by exactly those.
\<close>

locale reporting = unobserved r log for r :: "'w Runner" and log :: "'w \<Rightarrow> 'l list" +
  fixes ev :: "string \<Rightarrow> string \<Rightarrow> string \<Rightarrow> 'l"
  assumes install_quiet: "rn_Install r u s w = (y, w') \<Longrightarrow> log w' = log w"
    and result_logged: "log (snd (rn_PostResult r i s c w)) = log w @ [ev i s c]"
    and entries_differ: "ev i ''verification_failed'' c \<noteq> ev i ''connected'' []"
begin

lemma report_logs: "log (snd (report_failure r i c e w)) = log w @ [ev i ''verification_failed'' c]"
  by (simp add: report_failure_def result_logged)

lemma finish_logs:
  "log (snd (finish_install r req b w)) =
     log w @ [if fst (rn_Install r (fr_LocalUser req) (ab_SSHPublicKey b) w) = None
              then ev (fr_ID req) ''connected'' [] else ev (fr_ID req) ''verification_failed'' ''TransportFailure'']"
proof (cases "rn_Install r (fr_LocalUser req) (ab_SSHPublicKey b) w")
  case (Pair x w')
  with install_quiet [OF Pair] show ?thesis
    by (cases x) (auto simp: finish_install_def report_logs result_logged)
qed

lemma one_report:
  "\<exists>l. log (snd (Process ed r req w)) = log w @ l \<and> length l \<le> 1
     \<and> (l = [] \<longleftrightarrow> \<not> (\<exists>sb w3. fetched r req w sb w3))
     \<and> (\<forall>x \<in> set l. x = ev (fr_ID req) ''connected'' [] \<or> (\<exists>c. x = ev (fr_ID req) ''verification_failed'' c))
     \<and> (ev (fr_ID req) ''connected'' [] \<in> set l \<longleftrightarrow>
          (\<exists>b w'. trusted_run ed r req w b w' \<and> fst (rn_Install r (fr_LocalUser req) (ab_SSHPublicKey b) w') = None))"
proof (cases rule: process_cases [of ed r req w])
  case unfetched
  then show ?thesis by (intro exI [of _ "[]"]) (auto simp: asked_keeps trusted_run_def)
next
  case (rejected sb w3 e w4 reason)
  then show ?thesis
    by (intro exI [of _ "[ev (fr_ID req) ''verification_failed'' reason]"])
       (auto simp: asked_keeps report_logs entries_differ [symmetric])
next
  case (trusted b w')
  let ?x = "if fst (rn_Install r (fr_LocalUser req) (ab_SSHPublicKey b) w') = None
            then ev (fr_ID req) ''connected'' [] else ev (fr_ID req) ''verification_failed'' ''TransportFailure''"
  have "log (snd (Process ed r req w)) = log w @ [?x]"
    using trusted by (simp add: asked_keeps finish_logs)
  moreover have "\<exists>sb w3. fetched r req w sb w3" using trusted(1) unfolding trusted_run_def by blast
  moreover have "(\<exists>b w'. trusted_run ed r req w b w' \<and> fst (rn_Install r (fr_LocalUser req) (ab_SSHPublicKey b) w') = None)
      \<longleftrightarrow> fst (rn_Install r (fr_LocalUser req) (ab_SSHPublicKey b) w') = None"
    using trusted(1) trusted_run_unique [OF trusted(1)] by metis
  ultimately show ?thesis
    by (intro exI [of _ "[?x]"]) (auto simp: entries_differ [symmetric] split: if_splits)
qed

end

end
