(* ===== verification/AgentConfig.thy ===== *)
theory AgentConfig
  imports Trust "HOL-Library.Signed_Division"
begin

text \<open>
  How the agent reads its environment (\<open>cmd/agent/main.go\<close>): lists separated by commas, the trusted
  keys, and durations, where the arithmetic is that of 64-bit integers.
\<close>

section \<open>Lists and keys\<close>

definition splitCSV :: "string \<Rightarrow> string list" where
  "splitCSV v =
     (if blank v then []
      else filter (\<lambda>p. p \<noteq> []) (map TrimSpace (split_on CHR '','' v)))"

text \<open>A map that comes out of JSON; no map at all when nothing is configured.\<close>

definition key_map :: "json \<Rightarrow> (string \<rightharpoonup> string) res" where
  "key_map j = assign_map (\<lambda>v. assign_string v []) j Map.empty"

definition loadTrustedControlPlaneSigningKeysFromEnv ::
  "(string \<Rightarrow> string) \<Rightarrow> (string \<rightharpoonup> string) ares" where
  "loadTrustedControlPlaneSigningKeysFromEnv getenv =
     (let rawJSON = TrimSpace (getenv ''CONTROL_PLANE_SIGNING_KEYS_JSON'') in
      if rawJSON \<noteq> [] then
        (case res_bind (unmarshal_text rawJSON) key_map of
           Inl _ \<Rightarrow> Inl (Failure ''invalid CONTROL_PLANE_SIGNING_KEYS_JSON'')
         | Inr out \<Rightarrow>
             if dom out = {} then Inl (Failure ''CONTROL_PLANE_SIGNING_KEYS_JSON must contain at least one key'')
             else if \<exists>kid \<in> dom out. blank kid \<or> blank (the (out kid))
             then Inl (Failure ''CONTROL_PLANE_SIGNING_KEYS_JSON contains empty kid or key'')
             else Inr out)
      else
        (let pub = TrimSpace (getenv ''CONTROL_PLANE_SIGNING_PUBKEY_B64'') in
         if pub = [] then Inr Map.empty
         else
           (let kid = TrimSpace (getenv ''CONTROL_PLANE_SIGNING_KID'');
                kid = (if kid = [] then ''v1'' else kid)
            in Inr [kid \<mapsto> pub])))"

section \<open>Durations\<close>

definition max_int64 :: int where
  "max_int64 = 2 ^ 63 - 1"

text \<open>The value of a 64-bit integer operation: the result modulo \<open>2^64\<close>, read as signed.\<close>

definition int64 :: "int \<Rightarrow> int" where
  "int64 n = sint (word_of_int n :: 64 word)"

definition digit_value :: "char \<Rightarrow> int" where
  "digit_value c = int (of_char c) - 48"

definition decimal :: "string \<Rightarrow> int" where
  "decimal s = fold (\<lambda>c n. 10 * n + digit_value c) s 0"

text \<open>\<open>strconv.Atoi\<close>: an optional sign and decimal digits, within 64 bits.\<close>

definition Atoi :: "string \<Rightarrow> int option" where
  "Atoi s =
     (let (neg, ds) = (case s of
                         [] \<Rightarrow> (False, [])
                       | c # cs \<Rightarrow> if c = CHR ''-'' then (True, cs) else if c = CHR ''+'' then (False, cs) else (False, s));
          n = (if neg then - decimal ds else decimal ds)
      in if ds = [] \<or> \<not> list_all digit ds then None
         else if n < - (2 ^ 63) \<or> max_int64 < n then None
         else Some n)"

text \<open>
  \<open>time.ParseDuration\<close>. Magnitudes are unsigned 64-bit values of at most \<open>2^63\<close>; \<open>scale\<close> is how the
  float arithmetic of a fraction \<open>f / 10^k\<close> of a unit comes out, in nanoseconds.
\<close>

definition unit_ns :: "string \<Rightarrow> int option" where
  "unit_ns u =
     (if u = ''ns'' then Some 1
      else if u \<in> {''us'', [CHR 0xC2, CHR 0xB5, CHR ''s''], [CHR 0xCE, CHR 0xBC, CHR ''s'']} then Some 1000
      else if u = ''ms'' then Some 1000000
      else if u = ''s'' then Some Second
      else if u = ''m'' then Some Minute
      else if u = ''h'' then Some (60 * Minute)
      else None)"

definition unit_char :: "char \<Rightarrow> bool" where
  "unit_char c \<longleftrightarrow> c \<noteq> CHR ''.'' \<and> \<not> digit c"

text \<open>
  The digits of a fraction that still fit: \<open>leadingFraction\<close> stops adding once the value would overflow.
\<close>

fun leading_fraction :: "string \<Rightarrow> int \<Rightarrow> nat \<Rightarrow> int \<times> nat" where
  "leading_fraction [] f k = (f, k)"
| "leading_fraction (c # cs) f k =
     (let y = 10 * f + digit_value c in
      if max_int64 div 10 < f \<or> 2 ^ 63 < y then (f, k) else leading_fraction cs y (Suc k))"

text \<open>One number with its unit: the nanoseconds it stands for and the rest of the text.\<close>

definition duration_part :: "(int \<Rightarrow> nat \<Rightarrow> int \<Rightarrow> int) \<Rightarrow> string \<Rightarrow> (int \<times> string) option" where
  "duration_part scale s =
     (let pre = takeWhile digit s; s1 = dropWhile digit s;
          point = HasPrefix s1 ''.'';
          post = (if point then takeWhile digit (tl s1) else []);
          s2 = (if point then dropWhile digit (tl s1) else s1);
          u = takeWhile unit_char s2; rest = dropWhile unit_char s2;
          v = decimal pre; (f, k) = leading_fraction post 0 0
      in if pre = [] \<and> post = [] \<or> 2 ^ 63 < v then None
         else (case unit_ns u of
                 None \<Rightarrow> None
               | Some ns \<Rightarrow>
                   if 2 ^ 63 div ns < v then None
                   else (let total = v * ns + (if 0 < f then scale f k ns else 0)
                         in if 2 ^ 63 < total then None else Some (total, rest))))"

function duration_parts :: "(int \<Rightarrow> nat \<Rightarrow> int \<Rightarrow> int) \<Rightarrow> int \<Rightarrow> string \<Rightarrow> int option" where
  "duration_parts scale d s =
     (if s = [] then Some d
      else (case duration_part scale s of
              None \<Rightarrow> None
            | Some (n, rest) \<Rightarrow>
                if length s \<le> length rest \<or> 2 ^ 63 < d + n then None
                else duration_parts scale (d + n) rest))"
  by pat_completeness auto
termination by (relation "measure (\<lambda>(c, d, s). length s)") auto

declare duration_parts.simps [simp del]

definition ParseDuration :: "(int \<Rightarrow> nat \<Rightarrow> int \<Rightarrow> int) \<Rightarrow> string \<Rightarrow> duration option" where
  "ParseDuration scale s =
     (let (neg, s) = (case s of
                        [] \<Rightarrow> (False, [])
                      | c # cs \<Rightarrow> if c = CHR ''-'' then (True, cs) else if c = CHR ''+'' then (False, cs) else (False, s))
      in if s = ''0'' then Some 0
         else if s = [] then None
         else (case duration_parts scale 0 s of
                 None \<Rightarrow> None
               | Some d \<Rightarrow> if neg then Some (int64 (- d)) else if max_int64 < d then None else Some d))"

definition parseDurationOrDefault :: "(int \<Rightarrow> nat \<Rightarrow> int \<Rightarrow> int) \<Rightarrow> string \<Rightarrow> duration \<Rightarrow> duration" where
  "parseDurationOrDefault scale raw fallback =
     (let raw = TrimSpace raw in
      if raw = [] then fallback
      else
        (case Atoi raw of
           Some seconds \<Rightarrow>
             if 0 < seconds then int64 (int64 seconds * Second)
             else (case ParseDuration scale raw of
                     None \<Rightarrow> fallback
                   | Some dur \<Rightarrow> if dur \<le> 0 then fallback else dur)
         | None \<Rightarrow>
             (case ParseDuration scale raw of
                None \<Rightarrow> fallback
              | Some dur \<Rightarrow> if dur \<le> 0 then fallback else dur)))"

section \<open>Properties\<close>

lemma int64_id: "- (2 ^ 63) \<le> n \<Longrightarrow> n \<le> max_int64 \<Longrightarrow> int64 n = n"
  by (simp add: int64_def max_int64_def sint_sbintrunc' signed_take_bit_int_eq_self)

lemma int64_bounds: "- (2 ^ 63) \<le> int64 n \<and> int64 n \<le> max_int64"
  using sint_greater_eq [of "word_of_int n :: 64 word"] sint_less [of "word_of_int n :: 64 word"]
  by (simp add: int64_def max_int64_def)

lemma Atoi_range: "Atoi s = Some n \<Longrightarrow> - (2 ^ 63) \<le> n \<and> n \<le> max_int64"
  by (auto simp: Atoi_def Let_def split: if_splits prod.splits)

text \<open>
  C36. Whole seconds are exact only up to 292 years. A positive number of seconds is taken at its value
  if and only if its nanoseconds fit in 64 bits, that is up to 9223372036; beyond, the product wraps, so
  that 18446744074 seconds are less than a third of a second.
\<close>

theorem seconds_exact:
  assumes "Atoi (TrimSpace raw) = Some s" and "0 < s"
  shows "(parseDurationOrDefault scale raw fallback = s * Second \<longleftrightarrow> s \<le> 9223372036)
         \<and> (s = 18446744074 \<longrightarrow> parseDurationOrDefault scale raw fallback = 290448384)"
proof -
  have "TrimSpace raw \<noteq> []" using assms(1) by (auto simp: Atoi_def)
  then have p: "parseDurationOrDefault scale raw fallback = int64 (int64 s * Second)"
    using assms by (simp add: parseDurationOrDefault_def)
  have s: "int64 s = s" using Atoi_range [OF assms(1)] by (simp add: int64_id)
  have "int64 (s * Second) = s * Second \<longleftrightarrow> s \<le> 9223372036"
    using int64_bounds [of "s * Second"] int64_id [of "s * Second"] assms(2) by (auto simp: max_int64_def)
  moreover have "int64 (18446744074 * Second) = 290448384" by (simp add: int64_def)
  ultimately show ?thesis unfolding p s by (auto simp del: mult.commute)
qed

theorem seconds_exact_witness:
  "parseDurationOrDefault (\<lambda>f k ns. 0) ''10'' 7 = 10 * Second"
proof -
  have "TrimSpace ''10'' = ''10''" by code_simp
  then have "Atoi (TrimSpace ''10'') = Some 10"
    by (simp add: Atoi_def decimal_def digit_value_def digit_def in_range_def max_int64_def)
  from seconds_exact [OF this, of "\<lambda>f k ns. 0" 7] show ?thesis by simp
qed

lemma TrimSpace_part: "\<exists>a b. s = a @ TrimSpace s @ b"
proof -
  obtain t where t: "s = t @ strip_front go_spaces s" using strip_front_suffix by blast
  obtain u where "rev (strip_front go_spaces s) = u @ strip_front (map rev go_spaces) (rev (strip_front go_spaces s))"
    using strip_front_suffix by blast
  then have "strip_front go_spaces s = TrimSpace s @ rev u"
    by (metis TrimSpace_def rev_append rev_rev_ident)
  with t show ?thesis by metis
qed

lemma TrimSpace_free: "c \<notin> set s \<Longrightarrow> c \<notin> set (TrimSpace s)"
  using TrimSpace_part [of s] by (metis Un_iff set_append)

fun join_with :: "char \<Rightarrow> string list \<Rightarrow> string" where
  "join_with c [] = []"
| "join_with c [w] = w"
| "join_with c (w # ws) = w @ c # join_with c ws"

lemma split_join_with: "ws \<noteq> [] \<Longrightarrow> \<forall>w \<in> set ws. c \<notin> set w \<Longrightarrow> split_on c (join_with c ws) = ws"
  by (induction c ws rule: join_with.induct) (auto simp: split_on_append split_on_free)

lemma strip_front_keeps: "\<forall>p \<in> set ps. c \<notin> set p \<Longrightarrow> c \<in> set s \<Longrightarrow> c \<in> set (strip_front ps s)"
proof (induction ps s rule: strip_front.induct)
  case (1 ps s)
  show ?case
  proof (cases "front_match ps s")
    case None
    with 1 show ?thesis by (simp add: strip_front_id)
  next
    case (Some p)
    then obtain t where p: "p \<in> set ps" "s = p @ t" by (auto dest!: front_match_Some simp: HasPrefix_iff)
    with 1(2,3) have "c \<in> set (drop (length p) s)" by auto
    with 1(1) [OF Some 1(2)] Some show ?thesis by (simp add: strip_front.simps [of ps s])
  qed
qed

lemma comma_kept: "CHR '','' \<in> set s \<Longrightarrow> CHR '','' \<in> set (TrimSpace s)"
  unfolding TrimSpace_def set_rev
  by (intro strip_front_keeps) (simp_all add: strip_front_keeps go_spaces_def)

lemma splitCSV_elems: "w \<in> set (splitCSV v) \<Longrightarrow> w \<noteq> [] \<and> TrimSpace w = w \<and> CHR '','' \<notin> set w"
  by (auto simp: splitCSV_def TrimSpace_free dest!: split_on_parts split: if_splits)

lemma splitCSV_join:
  assumes "\<forall>w \<in> set ws. w \<noteq> [] \<and> TrimSpace w = w \<and> CHR '','' \<notin> set w"
  shows "splitCSV (join_with CHR '','' ws) = ws"
proof (cases "ws = []")
  case False
  have "\<not> blank (join_with CHR '','' ws)"
  proof (cases "\<exists>w. ws = [w]")
    case True
    with assms show ?thesis by auto
  next
    case False
    with \<open>ws \<noteq> []\<close> have "CHR '','' \<in> set (join_with CHR '','' ws)"
      by (cases "(CHR '','', ws)" rule: join_with.cases) auto
    from comma_kept [OF this] show ?thesis by auto
  qed
  moreover have "filter (\<lambda>p. p \<noteq> []) (map TrimSpace ws) = ws"
    using assms by (induction ws) auto
  ultimately show ?thesis using False assms by (simp add: splitCSV_def split_join_with)
qed (simp add: splitCSV_def)

text \<open>
  The list parser keeps exactly the entries. Every entry it returns is trimmed, non-empty and free
  of commas, and a list of such entries, written with commas, is read back in order. A value that is
  not empty may still have no entry, as a lone comma, and is then the same as none.
\<close>

lemma csv_entries:
  "list_all (\<lambda>w. w \<noteq> [] \<and> TrimSpace w = w \<and> CHR '','' \<notin> set w) (splitCSV v)
   \<and> splitCSV (join_with CHR '','' (splitCSV v)) = splitCSV v \<and> splitCSV '','' = []"
proof (intro conjI)
  show "list_all (\<lambda>w. w \<noteq> [] \<and> TrimSpace w = w \<and> CHR '','' \<notin> set w) (splitCSV v)"
    using splitCSV_elems by (auto simp: list_all_iff)
  show "splitCSV (join_with CHR '','' (splitCSV v)) = splitCSV v"
    by (rule splitCSV_join) (use splitCSV_elems in blast)
  show "splitCSV '','' = []" by (simp add: splitCSV_def)
qed

end
