(* ===== verification/Agent.thy ===== *)
theory Agent
  imports Flow AgentConfig
begin

text \<open>
  The agent process (\<open>cmd/agent/main.go\<close>): its state, the runner it builds from its environment, and
  its loop, a sequence of ticks each of which polls the control plane and processes what is pending.
\<close>

section \<open>State and configuration\<close>

text \<open>
  \<open>ag_net\<close> is the state of everything behind the network, \<open>ag_clock\<close> the readings of the clock to come,
  and \<open>ag_sent\<close> the requests sent to the control plane so far.
\<close>

record 'n agent_state =
  ag_net :: 'n
  ag_io :: stdio
  ag_fs :: agent_fs
  ag_keys :: KeysetSource
  ag_clock :: "time list"
  ag_sent :: "client_request list"

record 'n agent =
  at_ed :: ed25519
  at_send :: "'n transport"
  at_client :: Client
  at_prompter :: "stdio Prompter"
  at_policy :: StaticPolicy
  at_dcap :: HTTPDCAPVerifier
  at_manager :: Manager
  at_order :: "(string \<rightharpoonup> string) \<Rightarrow> string list"
  at_deviceID :: string
  at_localUser :: string

text \<open>Operations on a part of the state.\<close>

definition over_net :: "('n \<Rightarrow> 'a \<times> 'n) \<Rightarrow> 'n agent_state \<Rightarrow> 'a \<times> 'n agent_state" where
  "over_net f st = (let (x, n) = f (ag_net st) in (x, st\<lparr>ag_net := n\<rparr>))"

definition over_io :: "(stdio \<Rightarrow> 'a \<times> stdio) \<Rightarrow> 'n agent_state \<Rightarrow> 'a \<times> 'n agent_state" where
  "over_io f st = (let (x, io) = f (ag_io st) in (x, st\<lparr>ag_io := io\<rparr>))"

definition over_fs :: "(agent_fs \<Rightarrow> 'a \<times> agent_fs) \<Rightarrow> 'n agent_state \<Rightarrow> 'a \<times> 'n agent_state" where
  "over_fs f st = (let (x, fs) = f (ag_fs st) in (x, st\<lparr>ag_fs := fs\<rparr>))"

definition client_send :: "'n agent \<Rightarrow> 'n agent_state transport" where
  "client_send ag cr st =
     (let (x, st') = over_net (at_send ag cr) st in (x, st'\<lparr>ag_sent := ag_sent st @ [cr]\<rparr>))"

definition dcap_send :: "'n agent \<Rightarrow> 'n agent_state transport" where
  "dcap_send ag cr = over_net (at_send ag cr)"

definition read_clock :: "'n agent_state \<Rightarrow> time \<times> 'n agent_state" where
  "read_clock st =
     (case ag_clock st of
        [] \<Rightarrow> (zero_time, st)
      | t # ts \<Rightarrow> (t, st\<lparr>ag_clock := ts\<rparr>))"

definition agent_keys :: "'n agent \<Rightarrow> 'n agent_state \<Rightarrow> (string \<rightharpoonup> string) ares \<times> 'n agent_state" where
  "agent_keys ag st =
     (let (t, st) = read_clock st;
          (res, src, st) = TrustedKeys (at_order ag) (Some (GetSigningKeyset (client_send ag) (at_client ag))) t
                             (ag_keys st) st
      in (res, st\<lparr>ag_keys := src\<rparr>))"

section \<open>The runner\<close>

definition agent_runner :: "'n agent \<Rightarrow> 'n agent_state Runner" where
  "agent_runner ag =
     \<lparr>rn_PostLocalDecision = PostLocalDecision (client_send ag) (at_client ag),
      rn_GetAttestationBundle = GetAttestationBundle (client_send ag) (at_client ag),
      rn_PostResult = PostResult (client_send ag) (at_client ag),
      rn_Confirm = (\<lambda>q. over_io (Prompter_Confirm (at_prompter ag) q)),
      rn_Verify = StrictVerifier_Verify
                    \<lparr>sv_dcap = HTTPDCAPVerifier_Verify (dcap_send ag) (at_dcap ag),
                     sv_policy = CheckMeasurements (at_policy ag)\<rparr>,
      rn_Install = (\<lambda>user key. over_fs (Manager_Install (at_manager ag) user key)),
      rn_TrustedKeys = Some (agent_keys ag)\<rparr>"

section \<open>The loop\<close>

definition local_request :: "'n agent \<Rightarrow> Request \<Rightarrow> flow_Request" where
  "local_request ag r =
     \<lparr>fr_ID = ar_ID r, fr_ConnectorID = ar_ConnectorID r, fr_LocalUser = at_localUser ag\<rparr>"

text \<open>An error of \<open>Process\<close> is logged, and the next request is taken.\<close>

fun process_pending :: "'n agent \<Rightarrow> Request list \<Rightarrow> 'n agent_state \<Rightarrow> 'n agent_state" where
  "process_pending ag [] st = st"
| "process_pending ag (r # rs) st =
     process_pending ag rs (snd (Process (at_ed ag) (agent_runner ag) (local_request ag r) st))"

definition agent_tick :: "'n agent \<Rightarrow> 'n agent_state \<Rightarrow> 'n agent_state" where
  "agent_tick ag st =
     (case PollPending (client_send ag) (at_client ag) (at_deviceID ag) st of
        (Inl _, st') \<Rightarrow> st'
      | (Inr pending, st') \<Rightarrow> process_pending ag pending st')"

section \<open>Start-up\<close>

definition mustEnv :: "(string \<Rightarrow> string) \<Rightarrow> string \<Rightarrow> string ares" where
  "mustEnv getenv name =
     (if getenv name = [] then Inl (Failure (''missing required env var '' @ name)) else Inr (getenv name))"

text \<open>
  \<open>t\<close> is the clock's reading when the keyset source is made; the native dialog and the conversion to
  lower case are those of the platform.
\<close>

definition agent_main ::
  "ed25519 \<Rightarrow> 'n transport \<Rightarrow> stdio DecisionSource \<Rightarrow> (string \<Rightarrow> string) \<Rightarrow> ((string \<rightharpoonup> string) \<Rightarrow> string list)
   \<Rightarrow> (int \<Rightarrow> nat \<Rightarrow> int \<Rightarrow> int) \<Rightarrow> (string \<Rightarrow> string) \<Rightarrow> time \<Rightarrow> ('n agent \<times> KeysetSource) ares" where
  "agent_main ed send native lower order scale getenv t =
     res_bind (mustEnv getenv ''CONTROL_PLANE_URL'') (\<lambda>controlPlaneURL.
     res_bind (mustEnv getenv ''DEVICE_ID'') (\<lambda>deviceID.
     res_bind (mustEnv getenv ''LOCAL_USERNAME'') (\<lambda>localUser.
     res_bind (loadTrustedControlPlaneSigningKeysFromEnv getenv) (\<lambda>keys.
       (let keysDir = getenv ''MANAGED_KEYS_DIR'';
            keysDir = (if keysDir = [] then ''/var/lib/connector-agent/keys'' else keysDir)
        in res_bind (mustEnv getenv ''DCAP_VERIFIER_URL'') (\<lambda>url.
           res_bind (NewHTTPDCAPVerifier url (getenv ''DCAP_VERIFIER_TOKEN'')
                       (parseDurationOrDefault scale (getenv ''DCAP_VERIFIER_TIMEOUT'') (10 * Second))) (\<lambda>dcap.
             Inr (\<lparr>at_ed = ed, at_send = send, at_client = NewClient controlPlaneURL (getenv ''AGENT_TOKEN''),
                   at_prompter = NewPrompter (Some native) (Some (CLI_Confirm lower)),
                   at_policy = NewStaticPolicy (splitCSV (getenv ''ALLOW_MRTD'')) (splitCSV (getenv ''ALLOW_RTMR3'')),
                   at_dcap = dcap, at_manager = NewManager keysDir, at_order = order,
                   at_deviceID = deviceID, at_localUser = localUser\<rparr>,
                  newKeysetSource order keys
                    (parseDurationOrDefault scale (getenv ''SIGNING_KEYSET_CACHE_TTL'') DefaultKeysetCacheTTL) t))))))))"

section \<open>The interfaces as the agent provides them\<close>

lemma over_parts:
  "over_net f st = (x, st') \<Longrightarrow> ag_fs st' = ag_fs st" "over_net f st = (x, st') \<Longrightarrow> ag_sent st' = ag_sent st"
  "over_io g st = (y, st') \<Longrightarrow> ag_fs st' = ag_fs st" "over_io g st = (y, st') \<Longrightarrow> ag_sent st' = ag_sent st"
  "over_fs h st = (z, st') \<Longrightarrow> ag_sent st' = ag_sent st" "over_fs h st = (z, st') \<Longrightarrow> h (ag_fs st) = (z, ag_fs st')"
  "client_send ag cr st = (w, st') \<Longrightarrow> ag_fs st' = ag_fs st"
  "client_send ag cr st = (w, st') \<Longrightarrow> ag_sent st' = ag_sent st @ [cr]"
  "read_clock st = (t, st') \<Longrightarrow> ag_fs st' = ag_fs st" "read_clock st = (t, st') \<Longrightarrow> ag_sent st' = ag_sent st"
  by (auto simp: over_net_def over_io_def over_fs_def client_send_def read_clock_def split: prod.splits list.splits)

lemma fetch_sent:
  "fetch (client_send ag) what dec r st = (x, st') \<Longrightarrow> ag_fs st' = ag_fs st \<and> ag_sent st' = ag_sent st @ [r]"
  by (auto simp: fetch_def over_parts split: prod.splits sum.splits if_splits)

lemma post_sent:
  "postJSON (client_send ag) c path body st = (x, st') \<Longrightarrow>
   ag_fs st' = ag_fs st \<and> ag_sent st' = ag_sent st @ [post_request c path body]"
  by (auto simp: postJSON_def over_parts split: prod.splits sum.splits if_splits)

lemma keys_sent:
  "agent_keys ag st = (x, st') \<Longrightarrow>
   ag_fs st' = ag_fs st \<and> (ag_sent st' = ag_sent st \<or> ag_sent st' = ag_sent st @ [get_request (at_client ag) ''/v1/signing-keys''])"
  by (auto simp: agent_keys_def over_parts TrustedKeys_def GetSigningKeyset_def Let_def
      split: prod.splits option.splits sum.splits dest!: fetch_sent)

lemma dcap_sent:
  "HTTPDCAPVerifier_Verify (dcap_send ag) v q st = (x, st') \<Longrightarrow> ag_fs st' = ag_fs st \<and> ag_sent st' = ag_sent st"
  by (auto simp: HTTPDCAPVerifier_Verify_def dcap_send_def over_parts split: prod.splits sum.splits if_splits)

lemma verify_sent:
  "StrictVerifier_Verify \<lparr>sv_dcap = HTTPDCAPVerifier_Verify (dcap_send ag) v, sv_policy = p\<rparr> b st = (x, st')
   \<Longrightarrow> ag_fs st' = ag_fs st \<and> ag_sent st' = ag_sent st"
  by (auto simp: StrictVerifier_Verify_def split: prod.splits sum.splits option.splits if_splits dest!: dcap_sent)

interpretation custody: key_custody "agent_runner ag" "\<lambda>st. af_files (ag_fs st)" for ag
  by unfold_locales
     (auto simp: agent_runner_def PostLocalDecision_def GetAttestationBundle_def PostResult_def
      over_parts dest: fetch_sent post_sent keys_sent verify_sent)

text \<open>The posts to a \<open>result\<close> path, among the requests sent.\<close>

definition result_posts :: "'n agent_state \<Rightarrow> client_request list" where
  "result_posts st = filter (\<lambda>cr. cq_Method cr = ''POST'' \<and> HasSuffix (cq_URL cr) ''/result'') (ag_sent st)"

definition result_post :: "Client \<Rightarrow> string \<Rightarrow> string \<Rightarrow> string \<Rightarrow> client_request" where
  "result_post c rid status reason =
     post_request c (''/v1/connection-requests/'' @ PathEscape rid @ ''/result'')
       (JObj [(''reason_code'', JStr reason), (''status'', JStr status)])"

lemma result_url:
  "result_post c rid status reason = result_post c rid status' reason' \<Longrightarrow>
   object_text [(''reason_code'', quote_json reason), (''status'', quote_json status)]
   = object_text [(''reason_code'', quote_json reason'), (''status'', quote_json status')]"
  by (simp add: result_post_def post_request_def addHeaders_def split: if_splits)

lemma results_differ: "result_post c rid ''verification_failed'' reason \<noteq> result_post c rid ''connected'' []"
proof
  assume "result_post c rid ''verification_failed'' reason = result_post c rid ''connected'' []"
  from arg_cong [OF result_url [OF this], of "\<lambda>s. take 5 (rev s)"] show False
    by (simp add: object_text_def quote_json_def escape_string.simps escape_ascii_def)
qed

lemma request_parts [simp]:
  "cq_Method (get_request c path) = ''GET''" "cq_Method (post_request c path body) = ''POST''"
  "cq_URL (post_request c path body) = cl_baseURL c @ path"
  by (simp_all add: get_request_def post_request_def addHeaders_def)

lemma decision_url: "\<not> HasSuffix (url @ ''/local-decision'') ''/result''"
  by (simp add: HasSuffix_def)

lemma result_post_parts:
  "cq_Method (result_post c rid status reason) = ''POST''"
  "HasSuffix (cq_URL (result_post c rid status reason)) ''/result''"
  unfolding HasSuffix_iff
  by (auto simp: result_post_def intro: exI [of _ "cl_baseURL c @ ''/v1/connection-requests/'' @ PathEscape rid"])

lemma result_sent:
  "ag_sent (snd (PostResult (client_send ag) c rid status reason st)) = ag_sent st @ [result_post c rid status reason]"
  unfolding PostResult_def result_post_def by (rule conjunct2 [OF post_sent]) (rule prod.collapse [symmetric])

interpretation reports: reporting "agent_runner ag" result_posts "result_post (at_client ag)" for ag
proof unfold_locales
  fix i s c w
  show "result_posts (snd (rn_PostResult (agent_runner ag) i s c w)) = result_posts w @ [result_post (at_client ag) i s c]"
    by (simp add: agent_runner_def result_posts_def result_sent result_post_parts)
next
  fix i a w y w'
  assume "rn_PostLocalDecision (agent_runner ag) i a w = (y, w')"
  then show "result_posts w' = result_posts w"
    using decision_url [of "cl_baseURL (at_client ag) @ ''/v1/connection-requests/'' @ PathEscape i"]
    by (auto simp: agent_runner_def PostLocalDecision_def result_posts_def dest!: post_sent)
next
  fix get w k w'
  assume "rn_TrustedKeys (agent_runner ag) = Some get" "get w = (k, w')"
  then show "result_posts w' = result_posts w"
    by (auto simp: agent_runner_def result_posts_def dest!: keys_sent)
qed (auto simp: agent_runner_def GetAttestationBundle_def result_posts_def results_differ
      over_parts dest: fetch_sent verify_sent)

end
