(* ===== verification/AgentRuns.thy ===== *)
theory AgentRuns
  imports Agent
begin

text \<open>
  Runs of the agent over any number of ticks: which keys can reach the device, and what the control
  plane is told. Both rest on the contracts of the runner's interfaces, interpreted on the agent's own
  runner.
\<close>

section \<open>Runs of the agent\<close>

text \<open>The requests a run processes, each with the state it is processed in.\<close>

fun pending_trace :: "'n agent \<Rightarrow> Request list \<Rightarrow> 'n agent_state \<Rightarrow> (flow_Request \<times> 'n agent_state) list" where
  "pending_trace ag [] st = []"
| "pending_trace ag (r # rs) st =
     (local_request ag r, st)
     # pending_trace ag rs (snd (Process (at_ed ag) (agent_runner ag) (local_request ag r) st))"

definition tick_trace :: "'n agent \<Rightarrow> 'n agent_state \<Rightarrow> (flow_Request \<times> 'n agent_state) list" where
  "tick_trace ag st =
     (case PollPending (client_send ag) (at_client ag) (at_deviceID ag) st of
        (Inl _, st') \<Rightarrow> []
      | (Inr pending, st') \<Rightarrow> pending_trace ag pending st')"

fun agent_run :: "'n agent \<Rightarrow> nat \<Rightarrow> 'n agent_state \<Rightarrow> 'n agent_state" where
  "agent_run ag 0 st = st"
| "agent_run ag (Suc n) st = agent_run ag n (agent_tick ag st)"

fun run_trace :: "'n agent \<Rightarrow> nat \<Rightarrow> 'n agent_state \<Rightarrow> (flow_Request \<times> 'n agent_state) list" where
  "run_trace ag 0 st = []"
| "run_trace ag (Suc n) st = tick_trace ag st @ run_trace ag n (agent_tick ag st)"

section \<open>Keys come from vouched bundles\<close>

text \<open>
  Everything that stands behind bundle \<open>b\<close> when it is installed for a request processed in state \<open>st\<close>: the
  owner's answer to the prompt and its report, a fetched bundle whose bytes an Ed25519 key of the trusted
  set signed, the verifier's answer for its quote, and the measurement lists.
\<close>

definition vouched :: "'n agent \<Rightarrow> flow_Request \<Rightarrow> 'n agent_state \<Rightarrow> Bundle \<Rightarrow> bool" where
  "vouched ag req st b \<longleftrightarrow>
     (\<exists>io1 st2 sb st3 trusted st4 pk sig answer r.
        Prompter_Confirm (at_prompter ag) \<lparr>rq_ID = fr_ID req, rq_ConnectorID = fr_ConnectorID req\<rparr> (ag_io st) = (Inr True, io1)
      \<and> PostLocalDecision (client_send ag) (at_client ag) (fr_ID req) True (st\<lparr>ag_io := io1\<rparr>) = (None, st2)
      \<and> GetAttestationBundle (client_send ag) (at_client ag) (fr_ID req) st2 = (Inr sb, st3)
      \<and> agent_keys ag st3 = (Inr trusted, st4)
      \<and> b64_decode (TrimSpace (the (trusted (TrimSpace (cb_KID sb))))) = Inr pk \<and> trusted (TrimSpace (cb_KID sb)) \<noteq> None
      \<and> b64_decode (TrimSpace (cb_Signature sb)) = Inr sig \<and> ed_Verify (at_ed ag) pk (cb_PayloadRaw sb) sig
      \<and> parseBundlePayload (cb_Payload sb) = Inr b
      \<and> fst (dcap_send ag (dcap_request (at_dcap ag) (ab_QuoteHex b)) st4) = Inr answer \<and> cp_StatusCode answer = 200
      \<and> read_dcap_response (cp_Body answer) = Inr r
      \<and> dr_QuoteValid r \<and> dr_QEIdentityValid r \<and> dr_TCBValid r
      \<and> dr_ReportData r = Sum256 (ab_SSHPublicKey b) @ replicate 32 (CHR 0x00)
      \<and> CheckMeasurements (at_policy ag) b = None)"

lemma over_io_result: "over_io f st = (x, st') \<longleftrightarrow> (\<exists>io. f (ag_io st) = (x, io) \<and> st' = st\<lparr>ag_io := io\<rparr>)"
  by (auto simp: over_io_def split: prod.split)

lemma runner_fetched:
  "fetched (agent_runner ag) req st sb st3 \<Longrightarrow>
   (\<exists>io1 st2. Prompter_Confirm (at_prompter ag) \<lparr>rq_ID = fr_ID req, rq_ConnectorID = fr_ConnectorID req\<rparr> (ag_io st) = (Inr True, io1)
      \<and> PostLocalDecision (client_send ag) (at_client ag) (fr_ID req) True (st\<lparr>ag_io := io1\<rparr>) = (None, st2)
      \<and> GetAttestationBundle (client_send ag) (at_client ag) (fr_ID req) st2 = (Inr sb, st3))"
  by (auto simp: fetched_def agent_runner_def over_io_result)

lemma runner_verified:
  assumes "rn_Verify (agent_runner ag) b st4 = (Inr d, st5)"
  shows "\<exists>answer r. fst (dcap_send ag (dcap_request (at_dcap ag) (ab_QuoteHex b)) st4) = Inr answer \<and> cp_StatusCode answer = 200
      \<and> read_dcap_response (cp_Body answer) = Inr r \<and> dr_QuoteValid r \<and> dr_QEIdentityValid r \<and> dr_TCBValid r
      \<and> dr_ReportData r = Sum256 (ab_SSHPublicKey b) @ replicate 32 (CHR 0x00)
      \<and> CheckMeasurements (at_policy ag) b = None"
proof -
  have "fst (StrictVerifier_Verify \<lparr>sv_dcap = HTTPDCAPVerifier_Verify (dcap_send ag) (at_dcap ag),
                                   sv_policy = CheckMeasurements (at_policy ag)\<rparr> b st4) = Inr d"
    using assms by (simp add: agent_runner_def)
  then show ?thesis unfolding verify_trusted StrictVerifier.select_convs dcap_exact by blast
qed

lemma trusted_vouched:
  assumes "trusted_run (at_ed ag) (agent_runner ag) req st b st'"
  shows "vouched ag req st b"
proof -
  from assms obtain sb st3 keys trusted st4 d where
    f: "fetched (agent_runner ag) req st sb st3" and k: "rn_TrustedKeys (agent_runner ag) = Some keys" "keys st3 = (Inr trusted, st4)"
    and ok: "bundle_ok (at_ed ag) sb trusted b" and v: "rn_Verify (agent_runner ag) b st4 = (Inr d, st')"
    unfolding trusted_run_def by blast
  have "agent_keys ag st3 = (Inr trusted, st4)" using k by (simp add: agent_runner_def)
  moreover have "\<exists>pk sig. b64_decode (TrimSpace (the (trusted (TrimSpace (cb_KID sb))))) = Inr pk \<and> trusted (TrimSpace (cb_KID sb)) \<noteq> None
      \<and> b64_decode (TrimSpace (cb_Signature sb)) = Inr sig \<and> ed_Verify (at_ed ag) pk (cb_PayloadRaw sb) sig
      \<and> parseBundlePayload (cb_Payload sb) = Inr b"
    using ok by (auto simp: bundle_ok_def signature_accepted)
  ultimately show ?thesis
    unfolding vouched_def using runner_fetched [OF f] runner_verified [OF v] by blast
qed

definition explained :: "'n agent \<Rightarrow> string \<Rightarrow> string option \<Rightarrow> flow_Request \<times> 'n agent_state \<Rightarrow> bool" where
  "explained ag p v x \<longleftrightarrow>
     (\<exists>b. vouched ag (fst x) (snd x) b
        \<and> (p = keys_path (at_manager ag) (at_localUser ag) \<and> v = Some (TrimSpace (ab_SSHPublicKey b) @ newline)
           \<or> p = keys_path (at_manager ag) (at_localUser ag) @ ''.tmp''))"

abbreviation file_of :: "string \<Rightarrow> 'n agent_state \<Rightarrow> string option" where
  "file_of p st \<equiv> af_files (ag_fs st) p"

lemma process_explained:
  fixes ag :: "'n agent" and st :: "'n agent_state"
  assumes "st' = snd (Process (at_ed ag) (agent_runner ag) (local_request ag req) st)" and "file_of p st' \<noteq> file_of p st"
  shows "explained ag p (file_of p st') (local_request ag req, st)"
proof -
  let ?r = "local_request ag req"
  from assms(2) have "af_files (ag_fs st') \<noteq> af_files (ag_fs st)" by metis
  from custody.view_change [OF this [unfolded assms(1)], folded assms(1)] obtain b w' where
    t: "trusted_run (at_ed ag) (agent_runner ag) ?r st b w'" and same: "af_files (ag_fs w') = af_files (ag_fs st)"
    and i: "af_files (ag_fs st') = af_files (ag_fs (snd (rn_Install (agent_runner ag) (fr_LocalUser ?r) (ab_SSHPublicKey b) w')))"
    by blast
  obtain e fs' where m: "Manager_Install (at_manager ag) (at_localUser ag) (ab_SSHPublicKey b) (ag_fs w') = (e, fs')" by fastforce
  have "af_files (ag_fs st') = af_files fs'"
    using i m by (simp add: agent_runner_def over_fs_def local_request_def)
  then have v: "file_of p st' = af_files fs' p" by simp
  let ?k = "keys_path (at_manager ag) (at_localUser ag)"
  have "p = ?k \<and> file_of p st' = Some (TrimSpace (ab_SSHPublicKey b) @ newline) \<or> p = ?k @ ''.tmp''"
    using m
  proof (cases rule: install_cases)
    case 1
    show ?thesis by (rule ccontr) (use v assms(2) in \<open>simp add: 1 same split: if_splits\<close>)
  next
    case 2
    with v assms(2) show ?thesis by (simp add: same)
  next
    case (3 w)
    show ?thesis by (rule ccontr) (use v assms(2) in \<open>simp add: 3 same split: if_splits\<close>)
  qed
  then show ?thesis unfolding explained_def using trusted_vouched [OF t] by auto
qed

lemma pending_explained:
  "file_of p (process_pending ag rs st) \<noteq> file_of p st \<Longrightarrow>
   \<exists>x \<in> set (pending_trace ag rs st). explained ag p (file_of p (process_pending ag rs st)) x"
proof (induction rs arbitrary: st)
  case (Cons r rs)
  let ?st = "snd (Process (at_ed ag) (agent_runner ag) (local_request ag r) st)"
  show ?case
  proof (cases "file_of p (process_pending ag rs ?st) = file_of p ?st")
    case True
    with Cons.prems process_explained [OF refl, where p = p and ag = ag and req = r and st = st] show ?thesis
      by auto
  qed (use Cons.IH [of ?st] in simp)
qed simp

lemma poll_files: "PollPending (client_send ag) c d st = (x, st') \<Longrightarrow> ag_fs st' = ag_fs st"
  by (auto simp: PollPending_def dest: fetch_sent)

lemma tick_explained:
  assumes "file_of p (agent_tick ag st) \<noteq> file_of p st"
  shows "\<exists>x \<in> set (tick_trace ag st). explained ag p (file_of p (agent_tick ag st)) x"
proof (cases "PollPending (client_send ag) (at_client ag) (at_deviceID ag) st")
  case (Pair x st')
  note f = poll_files [OF Pair]
  show ?thesis
  proof (cases x)
    case (Inr rs)
    with Pair f assms pending_explained [where p = p and ag = ag and rs = rs and st = st'] show ?thesis
      by (simp add: agent_tick_def tick_trace_def)
  qed (use Pair f assms in \<open>simp add: agent_tick_def\<close>)
qed

lemma run_explained:
  "file_of p (agent_run ag n st) \<noteq> file_of p st \<Longrightarrow>
   \<exists>x \<in> set (run_trace ag n st). explained ag p (file_of p (agent_run ag n st)) x"
proof (induction n arbitrary: st)
  case (Suc n)
  show ?case
  proof (cases "file_of p (agent_run ag n (agent_tick ag st)) = file_of p (agent_tick ag st)")
    case True
    with Suc.prems tick_explained [where p = p and ag = ag and st = st] show ?thesis by auto
  qed (use Suc.IH [of "agent_tick ag st"] in auto)
qed simp

text \<open>
  C4. Only vouched keys reach the device. Whatever the network, the owner, the file system and the clock
  do in any number of ticks, a file that differs at the end from the start is the user's key file or its
  temporary file, and the key file then holds the key of a bundle that was vouched for: in some processed
  request the owner's prompt was answered with yes and the answer posted, a trusted Ed25519 key signed the
  bundle's bytes, the verifier confirmed the quote with the key's hash as report data, and the policy passed.
\<close>

theorem only_vouched_keys_installed:
  assumes "af_files (ag_fs (agent_run ag n st)) p \<noteq> af_files (ag_fs st) p"
  shows "\<exists>req s b. (req, s) \<in> set (run_trace ag n st) \<and> vouched ag req s b
           \<and> (p = keys_path (at_manager ag) (at_localUser ag)
                \<and> af_files (ag_fs (agent_run ag n st)) p = Some (TrimSpace (ab_SSHPublicKey b) @ newline)
              \<or> p = keys_path (at_manager ag) (at_localUser ag) @ ''.tmp'')"
  using run_explained [OF assms] by (auto simp: explained_def Bex_def)

section \<open>One report per bundle\<close>

text \<open>What a processed request adds to the reports.\<close>

definition reported :: "'n agent \<Rightarrow> flow_Request \<times> 'n agent_state \<Rightarrow> client_request list \<Rightarrow> bool" where
  "reported ag x l \<longleftrightarrow>
     (let (req, s) = x; ev = result_post (at_client ag) (fr_ID req) in
      length l \<le> 1
      \<and> (l = [] \<longleftrightarrow> \<not> (\<exists>sb s'. fetched (agent_runner ag) req s sb s'))
      \<and> (\<forall>r \<in> set l. r = ev ''connected'' [] \<or> (\<exists>c. r = ev ''verification_failed'' c))
      \<and> (ev ''connected'' [] \<in> set l \<longleftrightarrow>
           (\<exists>b s'. trusted_run (at_ed ag) (agent_runner ag) req s b s'
                  \<and> fst (Manager_Install (at_manager ag) (fr_LocalUser req) (ab_SSHPublicKey b) (ag_fs s')) = None)))"

lemma runner_install:
  "fst (rn_Install (agent_runner ag) u k st) = fst (Manager_Install (at_manager ag) u k (ag_fs st))"
  by (simp add: agent_runner_def over_fs_def split: prod.split)

lemma process_reported:
  "\<exists>l. result_posts (snd (Process (at_ed ag) (agent_runner ag) req st)) = result_posts st @ l \<and> reported ag (req, st) l"
  using reports.one_report [where ag = ag and ed = "at_ed ag" and req = req and w = st] by (simp add: reported_def runner_install Let_def)

lemma pending_reported:
  "\<exists>ls. result_posts (process_pending ag rs st) = result_posts st @ concat ls
        \<and> list_all2 (reported ag) (pending_trace ag rs st) ls"
proof (induction rs arbitrary: st)
  case (Cons r rs)
  let ?st = "snd (Process (at_ed ag) (agent_runner ag) (local_request ag r) st)"
  obtain l where l: "result_posts ?st = result_posts st @ l" "reported ag (local_request ag r, st) l"
    using process_reported by blast
  obtain ls where ls: "result_posts (process_pending ag rs ?st) = result_posts ?st @ concat ls"
      "list_all2 (reported ag) (pending_trace ag rs ?st) ls"
    using Cons.IH by blast
  show ?case by (rule exI [of _ "l # ls"]) (simp add: l ls)
qed simp

lemma poll_reports: "PollPending (client_send ag) c d st = (x, st') \<Longrightarrow> result_posts st' = result_posts st"
  by (auto simp: PollPending_def result_posts_def dest: fetch_sent)

lemma tick_reported:
  "\<exists>ls. result_posts (agent_tick ag st) = result_posts st @ concat ls \<and> list_all2 (reported ag) (tick_trace ag st) ls"
proof (cases "PollPending (client_send ag) (at_client ag) (at_deviceID ag) st")
  case (Pair x st')
  show ?thesis
  proof (cases x)
    case (Inr rs)
    with Pair poll_reports [OF Pair] pending_reported [of ag rs st'] show ?thesis
      by (simp add: agent_tick_def tick_trace_def)
  qed (use Pair poll_reports [OF Pair] in \<open>simp add: agent_tick_def tick_trace_def\<close>)
qed

text \<open>
  C11. One report per fetched bundle. Over any number of ticks the result posts of the agent are, in the
  order of the processed requests, one for each request whose bundle was fetched and none for the others:
  \<open>connected\<close> exactly when the bundle was trusted and the key was installed, otherwise a failed
  verification with its reason, always under the request's own ID.
\<close>

theorem one_report_per_bundle:
  "\<exists>ls. result_posts (agent_run ag n st) = result_posts st @ concat ls
        \<and> list_all2 (reported ag) (run_trace ag n st) ls"
proof (induction n arbitrary: st)
  case (Suc n)
  obtain l where l: "result_posts (agent_tick ag st) = result_posts st @ concat l" "list_all2 (reported ag) (tick_trace ag st) l"
    using tick_reported by blast
  obtain ls where ls: "result_posts (agent_run ag n (agent_tick ag st)) = result_posts (agent_tick ag st) @ concat ls"
      "list_all2 (reported ag) (run_trace ag n (agent_tick ag st)) ls"
    using Suc.IH by blast
  show ?case by (rule exI [of _ "l @ ls"]) (simp add: l ls list_all2_appendI)
qed simp

section \<open>A run that installs a key\<close>

text \<open>
  A network that gives canned answers in order, an Ed25519 that accepts every signature, an owner who
  says yes, and no measurement lists.
\<close>

definition demo_claim :: "(string \<times> json) list" where
  "demo_claim = [(''ssh_public_key'', JStr ''k''), (''quote_hex'', JStr ''aa''),
                 (''rtmr0'', JStr ''a''), (''rtmr1'', JStr ''b''), (''rtmr2'', JStr ''c'')]"

definition demo_pending :: json where
  "demo_pending = JArr [JObj [(''id'', JStr ''r1'')]]"

definition demo_bundle :: json where
  "demo_bundle = JObj [(''payload'', JObj demo_claim), (''signature'', JStr (b64_encode (replicate 64 CHR ''s''))),
                       (''alg'', JStr ''ed25519''), (''kid'', JStr ''v1'')]"

definition demo_quote :: json where
  "demo_quote = JObj [(''quote_valid'', JBool True), (''qe_identity_valid'', JBool True), (''tcb_valid'', JBool True),
                      (''report_data_hex'', JStr (hex_encode (Sum256 ''k'')))]"

definition demo_answers :: "client_response list" where
  "demo_answers = map (\<lambda>j. \<lparr>cp_StatusCode = 200, cp_Body = json_write j\<rparr>)
     [demo_pending, JNull, demo_bundle, demo_quote, JNull]"

definition demo_agent :: "client_response list agent" where
  "demo_agent =
     \<lparr>at_ed = toy_ed\<lparr>ed_Verify := (\<lambda>pub m sig. True)\<rparr>,
      at_send = (\<lambda>cr ns. case ns of [] \<Rightarrow> (Inl (Failure ''down''), []) | x # xs \<Rightarrow> (Inr x, xs)),
      at_client = NewClient ''http://cp'' [], at_prompter = NewPrompter (Some (\<lambda>q io. (Inr True, io))) None,
      at_policy = NewStaticPolicy [] [], at_dcap = \<lparr>hv_endpoint = ''http://v'', hv_token = [], hv_timeout = Second\<rparr>,
      at_manager = NewManager ''/keys'', at_order = demo_order, at_deviceID = ''d1'', at_localUser = ''alice''\<rparr>"

definition demo_agent_state :: "client_response list agent_state" where
  "demo_agent_state =
     \<lparr>ag_net = demo_answers, ag_io = \<lparr>st_in = [], st_end = None, st_out = []\<rparr>,
      ag_fs = \<lparr>af_files = Map.empty, af_outcomes = []\<rparr>,
      ag_keys = \<lparr>src_ttl = 10, src_trusted = [''v1'' \<mapsto> b64_encode (replicate 32 CHR ''p'')], src_expiresAt = 10\<rparr>,
      ag_clock = [5], ag_sent = []\<rparr>"

lemma demo_names [simp]:
  "fold_name ''id'' = ''ID''" "fold_name ''connector_id'' = ''CONNECTOR_ID''" "fold_name ''device_id'' = ''DEVICE_ID''"
  "fold_name ''openclaw_user_id'' = ''OPENCLAW_USER_ID''"
  "fold_name ''quote_valid'' = ''QUOTE_VALID''" "fold_name ''qe_identity_valid'' = ''QE_IDENTITY_VALID''"
  "fold_name ''tcb_valid'' = ''TCB_VALID''" "fold_name ''report_data_hex'' = ''REPORT_DATA_HEX''"
  by code_simp+

lemma read_demo_pending:
  "res_bind (decode_text (json_write demo_pending)) (slice_of request_of)
   = Inr [\<lparr>ar_ID = ''r1'', ar_ConnectorID = [], ar_DeviceID = [], ar_OpenClawUserID = []\<rparr>]"
  using decode_written [of demo_pending "[]"]
  by (simp add: demo_pending_def max_depth_def request_of_def del: json_write.simps fold_name.simps)

lemma ascii_utf8: "(\<And>c. c \<in> set s \<Longrightarrow> graph_char c) \<Longrightarrow> valid_utf8 s"
  by (rule valid_ascii) (force simp: graph_char_def)

lemma read_demo_bundle:
  "bundle_of (json_write demo_bundle)
   = Inr \<lparr>cb_Payload = map_of demo_claim, cb_PayloadRaw = json_write (JObj demo_claim),
           cb_Signature = b64_encode (replicate 64 CHR ''s''), cb_Alg = ''ed25519'', cb_KID = ''v1''\<rparr>"
  using bundle_of_written [of demo_claim "b64_encode (replicate 64 CHR ''s'')" "''ed25519''" "''v1''" "[]"]
  by (simp add: demo_bundle_def demo_claim_def max_depth_def fun_upd_twist ascii_utf8 b64_encode_graph
      del: json_write.simps fold_name.simps)

lemma read_demo_claim:
  "parseBundlePayload (map_of demo_claim)
   = Inr \<lparr>ab_ConnectorID = [], ab_SSHPublicKey = ''k'', ab_QuoteHex = ''aa'', ab_MRTD = [], ab_RTMR0 = ''a'', ab_RTMR1 = ''b'',
          ab_RTMR2 = ''c'', ab_RTMR3 = [], ab_ReportDataExpectedSHA256 = [], ab_PolicyVersion = []\<rparr>"
  by (simp add: parseBundlePayload_def stringField_def demo_claim_def)

lemma demo_raw: "json_write (JObj kvs) \<noteq> []"
  by (simp add: object_text_def)

lemma read_demo_quote:
  "read_dcap_response (json_write demo_quote)
   = Inr \<lparr>dr_QuoteValid = True, dr_QEIdentityValid = True, dr_TCBValid = True,
          dr_ReportData = Sum256 ''k'' @ replicate 32 (CHR 0x00)\<rparr>"
proof -
  have "decode_text (json_write demo_quote @ []) = Inr demo_quote"
    by (rule decode_written) (simp_all add: demo_quote_def max_depth_def ascii_utf8 hex_encode_graph)
  moreover have "parseReportDataHex (hex_encode (Sum256 ''k'')) = Inr (Sum256 ''k'' @ replicate (64 - length (Sum256 ''k'')) (CHR 0x00))"
    by (rule report_data_read [where pre = "[]"]) simp_all
  moreover have "\<not> blank (hex_encode (Sum256 ''k''))"
    by simp (metis hex_roundtrip hex_decode.simps(1) length_Sum256 length_0_conv sum.inject(2) zero_neq_numeral)
  ultimately show ?thesis
    by (simp add: demo_quote_def read_dcap_response_def zero_response_def Let_def del: json_write.simps fold_name.simps)
qed

lemma demo_trim [simp]: "TrimSpace ''ed25519'' = ''ed25519''" "TrimSpace ''k'' = ''k''" "TrimSpace ''aa'' = ''aa''"
  by code_simp+

lemma demo_keys: "copyTrustedKeyMap (demo_order m) [''v1'' \<mapsto> b64_encode k] = [''v1'' \<mapsto> b64_encode k]"
  if "m = [''v1'' \<mapsto> b64_encode k]" "k \<noteq> []"
  unfolding that(1) by (rule copy_same [OF demo_covers]) (use that(2) in \<open>auto simp: clean_map_def demo_kid_trim\<close>)

lemma demo_run:
  "af_files (ag_fs (agent_run demo_agent 1 demo_agent_state)) (keys_path (NewManager ''/keys'') ''alice'') \<noteq> None"
  by (simp add: agent_tick_def PollPending_def fetch_def client_send_def over_net_def demo_agent_def demo_agent_state_def
      demo_answers_def read_demo_pending Process_def agent_runner_def local_request_def over_io_def Prompter_Confirm_def
      NewPrompter_def PostLocalDecision_def postJSON_def GetAttestationBundle_def read_demo_bundle agent_keys_def
      read_clock_def TrustedKeys_def cachedIfFresh_def demo_keys check_bundle_def VerifySignedBundleWithKeyset_def
      VerifySignedBundle_def decodePublicKey_def decodeSignature_def b64_roundtrip demo_kid_trim read_demo_claim demo_raw
      StrictVerifier_Verify_def HTTPDCAPVerifier_Verify_def dcap_send_def read_demo_quote CheckMeasurements_def NewStaticPolicy_def
      ComputeExpectedReportData_def finish_install_def over_fs_def Manager_Install_def PostResult_def
      keys_path_def [symmetric] and_then_def MkdirAll_def WriteFile_def Rename_def next_outcome_def Let_def
      del: json_write.simps fold_name.simps)

theorem only_vouched_keys_installed_witness:
  "\<exists>req st b. (req, st) \<in> set (run_trace demo_agent 1 demo_agent_state) \<and> vouched demo_agent req st b
     \<and> af_files (ag_fs (agent_run demo_agent 1 demo_agent_state)) (keys_path (NewManager ''/keys'') ''alice'')
       = Some (TrimSpace (ab_SSHPublicKey b) @ newline)"
proof -
  let ?p = "keys_path (NewManager ''/keys'') ''alice''"
  have "af_files (ag_fs (agent_run demo_agent 1 demo_agent_state)) ?p \<noteq> af_files (ag_fs demo_agent_state) ?p"
    using demo_run by (simp add: demo_agent_state_def)
  from only_vouched_keys_installed [OF this] show ?thesis by (auto simp: demo_agent_def)
qed

end
