(* ===== verification/Handlers.thy ===== *)
theory Handlers
  imports Http
begin

text \<open>
  The endpoints of \<open>internal/http\<close>: the \<open>Handler\<close> with its store, signer, bundle source, clock and
  time to live, one definition per handler method. Each handler parses the path, decodes the body,
  makes at most one call to the store and maps the error values to status codes.
\<close>

section \<open>The handler's parts\<close>

record BundleTemplate =
  bt_ConnectorID :: string
  bt_SSHPublicKey :: string
  bt_QuoteHex :: string
  bt_EventLog :: string
  bt_MRTD :: string
  bt_RTMR0 :: string
  bt_RTMR1 :: string
  bt_RTMR2 :: string
  bt_RTMR3 :: string
  bt_PolicyVersion :: string

record BundleSigner =
  bsg_SignBundle :: "BundlePayload \<Rightarrow> SignedBundle res"
  bsg_Keyset :: SigningKeyset

definition StaticBundleSource_GetBundle :: "(string \<rightharpoonup> BundleTemplate) \<Rightarrow> string \<Rightarrow> BundleTemplate res" where
  "StaticBundleSource_GetBundle byConnector connectorID =
     (case byConnector connectorID of
        None \<Rightarrow> Inl (ErrMsg ''bundle not found'')
      | Some v \<Rightarrow> Inr v)"

text \<open>\<open>h_nowFn\<close> is the reading of the handler's clock that the call's environment supplies.\<close>

record ('e, 's) Handler =
  h_store :: "('e, 's) RequestStore"
  h_signer :: BundleSigner
  h_bundles :: "string \<Rightarrow> BundleTemplate res"
  h_nowFn :: "'e \<Rightarrow> time"
  h_requestTTL :: duration

definition DefaultRequestTTL :: duration where
  "DefaultRequestTTL = 5 * Minute"

definition NewHandler ::
  "('e, 's) RequestStore \<Rightarrow> BundleSigner \<Rightarrow> (string \<Rightarrow> BundleTemplate res) \<Rightarrow> ('e \<Rightarrow> time) \<Rightarrow> ('e, 's) Handler" where
  "NewHandler store signer bundles time_Now =
     \<lparr>h_store = store, h_signer = signer, h_bundles = bundles, h_nowFn = time_Now,
      h_requestTTL = DefaultRequestTTL\<rparr>"

text \<open>The switch over the store's error values that the handlers share.\<close>

fun store_error :: "string \<Rightarrow> string \<Rightarrow> nat \<Rightarrow> err \<Rightarrow> http_response" where
  "store_error expired failed code ErrNotFound = http_error ''not_found'' 404"
| "store_error expired failed code ErrExpired = http_error expired 410"
| "store_error expired failed code ErrInvalidTransition = http_error ''invalid_transition'' 409"
| "store_error expired failed code (ErrMsg m) = http_error failed code"

section \<open>Connection requests\<close>

definition create_body :: "json \<Rightarrow> (string \<times> string \<times> string \<times> string) res" where
  "create_body j =
     res_bind (json_object j) (\<lambda>kvs.
     res_bind (string_field ''openclaw_user_id'' kvs) (\<lambda>user.
     res_bind (string_field ''device_id'' kvs) (\<lambda>device.
     res_bind (string_field ''connector_id'' kvs) (\<lambda>connector.
     res_bind (string_field ''source_channel'' kvs) (\<lambda>channel.
     Inr (user, device, connector, channel))))))"

definition CreateRequest :: "('e, 's) Handler \<Rightarrow> ('e, 's) HandlerFunc" where
  "CreateRequest h e r s =
     (case res_bind (hr_body r) create_body of
        Inl _ \<Rightarrow> (http_error ''invalid_json'' 400, s)
      | Inr (user, device, connector, channel) \<Rightarrow>
          (case rs_Create (h_store h) e
                  \<lparr>ci_OpenClawUserID = user, ci_DeviceID = device, ci_ConnectorID = connector,
                   ci_SourceChannel = channel, ci_TTL = h_requestTTL h\<rparr> s of
             (Inl _, s') \<Rightarrow> (http_error ''create_failed'' 400, s')
           | (Inr req, s') \<Rightarrow> (writeJSON 201 (BRequest req), s')))"

definition ListPendingRequestsForDevice :: "('e, 's) Handler \<Rightarrow> ('e, 's) HandlerFunc" where
  "ListPendingRequestsForDevice h e r s =
     (case parseIDFromPath (hr_Path r) ''/v1/devices/'' ''/pending-requests'' of
        Inl _ \<Rightarrow> (http_error ''invalid_path'' 400, s)
      | Inr deviceID \<Rightarrow>
          (let (its, s') = rs_ListPendingForDevice (h_store h) e deviceID s
           in (writeJSON 200 (BRequests its), s')))"

definition LocalDecision :: "('e, 's) Handler \<Rightarrow> ('e, 's) HandlerFunc" where
  "LocalDecision h e r s =
     (case parseIDFromPath (hr_Path r) ''/v1/connection-requests/'' ''/local-decision'' of
        Inl _ \<Rightarrow> (http_error ''invalid_path'' 400, s)
      | Inr rid \<Rightarrow>
          (case res_bind (hr_body r) (\<lambda>j. res_bind (json_object j) (bool_field ''approved'')) of
             Inl _ \<Rightarrow> (http_error ''invalid_json'' 400, s)
           | Inr approved \<Rightarrow>
               (case rs_SetLocalDecision (h_store h) e rid approved s of
                  (Inl err, s') \<Rightarrow> (store_error ''request_expired'' ''decision_failed'' 500 err, s')
                | (Inr updated, s') \<Rightarrow> (writeJSON 200 (BRequest updated), s'))))"

definition result_body :: "json \<Rightarrow> (string \<times> string) res" where
  "result_body j =
     res_bind (json_object j) (\<lambda>kvs.
     res_bind (string_field ''status'' kvs) (\<lambda>status.
     res_bind (string_field ''reason_code'' kvs) (\<lambda>reason. Inr (status, reason))))"

definition Result :: "('e, 's) Handler \<Rightarrow> ('e, 's) HandlerFunc" where
  "Result h e r s =
     (case parseIDFromPath (hr_Path r) ''/v1/connection-requests/'' ''/result'' of
        Inl _ \<Rightarrow> (http_error ''invalid_path'' 400, s)
      | Inr rid \<Rightarrow>
          (case res_bind (hr_body r) result_body of
             Inl _ \<Rightarrow> (http_error ''invalid_json'' 400, s)
           | Inr (status, reason) \<Rightarrow>
               (case rs_SetResult (h_store h) e rid status reason s of
                  (Inl err, s') \<Rightarrow> (store_error ''request_expired'' ''result_failed'' 500 err, s')
                | (Inr updated, s') \<Rightarrow> (writeJSON 200 (BRequest updated), s'))))"

section \<open>The attestation bundle\<close>

definition policyVersionOrDefault :: "string \<Rightarrow> string" where
  "policyVersionOrDefault v = (if v = [] then ''v1'' else v)"

definition bundle_payload :: "time \<Rightarrow> ConnectionRequest \<Rightarrow> BundleTemplate \<Rightarrow> BundlePayload" where
  "bundle_payload t req tpl =
     \<lparr>bp_RequestID = req_ID req,
      bp_ConnectorID = bt_ConnectorID tpl,
      bp_SSHPublicKey = bt_SSHPublicKey tpl,
      bp_QuoteHex = bt_QuoteHex tpl,
      bp_EventLog = bt_EventLog tpl,
      bp_MRTD = bt_MRTD tpl,
      bp_RTMR0 = bt_RTMR0 tpl,
      bp_RTMR1 = bt_RTMR1 tpl,
      bp_RTMR2 = bt_RTMR2 tpl,
      bp_RTMR3 = bt_RTMR3 tpl,
      bp_ReportDataExpectedSHA256 = ReportDataHashFromSSHPublicKey (bt_SSHPublicKey tpl),
      bp_PolicyVersion = policyVersionOrDefault (bt_PolicyVersion tpl),
      bp_IssuedAt = t,
      bp_ExpiresAt = req_ExpiresAt req,
      bp_Nonce = req_Nonce req\<rparr>"

definition AttestationBundle :: "('e, 's) Handler \<Rightarrow> ('e, 's) HandlerFunc" where
  "AttestationBundle h e r s =
     (case parseIDFromPath (hr_Path r) ''/v1/connection-requests/'' ''/attestation-bundle'' of
        Inl _ \<Rightarrow> (http_error ''invalid_path'' 400, s)
      | Inr rid \<Rightarrow>
          (case rs_Get (h_store h) e rid s of
             (Inl ErrNotFound, s') \<Rightarrow> (http_error ''not_found'' 404, s')
           | (Inl _, s') \<Rightarrow> (http_error ''request_lookup_failed'' 500, s')
           | (Inr req, s') \<Rightarrow>
               if req_Status req \<noteq> StatusApproved then (http_error ''request_not_approved'' 409, s')
               else
                 (case h_bundles h (req_ConnectorID req) of
                    Inl _ \<Rightarrow> (http_error ''bundle_not_found'' 404, s')
                  | Inr tpl \<Rightarrow>
                      (let t = h_nowFn h e in
                       if req_ExpiresAt req < t then (http_error ''request_expired'' 410, s')
                       else
                         (case bsg_SignBundle (h_signer h) (bundle_payload t req tpl) of
                            Inl _ \<Rightarrow> (http_error ''bundle_signing_failed'' 500, s')
                          | Inr sb \<Rightarrow> (writeJSON 200 (BBundle sb), s'))))))"

definition SigningKeys :: "('e, 's) Handler \<Rightarrow> ('e, 's) HandlerFunc" where
  "SigningKeys h e r s = (writeJSON 200 (BKeyset (bsg_Keyset (h_signer h))), s)"

section \<open>Install sessions\<close>

definition Handler_CreateInstallSession :: "('e, 's) Handler \<Rightarrow> ('e, 's) HandlerFunc" where
  "Handler_CreateInstallSession h e r s =
     (case res_bind (hr_body r) create_body of
        Inl _ \<Rightarrow> (http_error ''invalid_json'' 400, s)
      | Inr (user, device, connector, channel) \<Rightarrow>
          (case rs_CreateInstallSession (h_store h) e
                  \<lparr>cii_OpenClawUserID = user, cii_DeviceID = device, cii_ConnectorID = connector,
                   cii_SourceChannel = channel, cii_TTL = h_requestTTL h\<rparr> s of
             (Inl _, s') \<Rightarrow> (http_error ''create_failed'' 400, s')
           | (Inr (session, token), s') \<Rightarrow> (writeJSON 201 (BSessionToken session token), s')))"

definition InstallSessionApproval :: "('e, 's) Handler \<Rightarrow> ('e, 's) HandlerFunc" where
  "InstallSessionApproval h e r s =
     (case parseIDFromPath (hr_Path r) ''/v1/install-sessions/'' ''/approval'' of
        Inl _ \<Rightarrow> (http_error ''invalid_path'' 400, s)
      | Inr sid \<Rightarrow>
          (case res_bind (hr_body r) (\<lambda>j. res_bind (json_object j) (bool_field ''approved'')) of
             Inl _ \<Rightarrow> (http_error ''invalid_json'' 400, s)
           | Inr approved \<Rightarrow>
               (case rs_SetInstallApproval (h_store h) e sid approved s of
                  (Inl err, s') \<Rightarrow> (store_error ''install_session_expired'' ''approval_failed'' 500 err, s')
                | (Inr updated, s') \<Rightarrow> (writeJSON 200 (BSession updated), s'))))"

definition Handler_RedeemInstallToken :: "('e, 's) Handler \<Rightarrow> ('e, 's) HandlerFunc" where
  "Handler_RedeemInstallToken h e r s =
     (case res_bind (hr_body r) (\<lambda>j. res_bind (json_object j) (string_field ''token'')) of
        Inl _ \<Rightarrow> (http_error ''invalid_json'' 400, s)
      | Inr token \<Rightarrow>
          (case rs_RedeemInstallToken (h_store h) e token s of
             (Inl err, s') \<Rightarrow> (store_error ''install_session_expired'' ''redeem_failed'' 500 err, s')
           | (Inr session, s') \<Rightarrow> (writeJSON 200 (BSession session), s')))"

definition Handler_GetInstallSession :: "('e, 's) Handler \<Rightarrow> ('e, 's) HandlerFunc" where
  "Handler_GetInstallSession h e r s =
     (case parseIDFromPath (hr_Path r) ''/v1/install-sessions/'' [] of
        Inl _ \<Rightarrow> (http_error ''invalid_path'' 400, s)
      | Inr sid \<Rightarrow>
          (case rs_GetInstallSession (h_store h) e sid s of
             (Inl ErrNotFound, s') \<Rightarrow> (http_error ''not_found'' 404, s')
           | (Inl ErrExpired, s') \<Rightarrow> (http_error ''install_session_expired'' 410, s')
           | (Inl _, s') \<Rightarrow> (http_error ''get_failed'' 500, s')
           | (Inr session, s') \<Rightarrow> (writeJSON 200 (BSession session), s')))"

definition InstallSessionResult :: "('e, 's) Handler \<Rightarrow> ('e, 's) HandlerFunc" where
  "InstallSessionResult h e r s =
     (case parseIDFromPath (hr_Path r) ''/v1/install-sessions/'' ''/result'' of
        Inl _ \<Rightarrow> (http_error ''invalid_path'' 400, s)
      | Inr sid \<Rightarrow>
          (case res_bind (hr_body r) result_body of
             Inl _ \<Rightarrow> (http_error ''invalid_json'' 400, s)
           | Inr (status, reason) \<Rightarrow>
               (case rs_SetInstallResult (h_store h) e sid status reason s of
                  (Inl err, s') \<Rightarrow> (store_error ''install_session_expired'' ''result_failed'' 500 err, s')
                | (Inr updated, s') \<Rightarrow> (writeJSON 200 (BSession updated), s'))))"

definition registration_body :: "json \<Rightarrow> (string \<times> string) res" where
  "registration_body j =
     res_bind (json_object j) (\<lambda>kvs.
     res_bind (string_field ''connector_id'' kvs) (\<lambda>connector.
     res_bind (string_field ''device_id'' kvs) (\<lambda>device. Inr (connector, device))))"

definition InstallSessionRegistration :: "('e, 's) Handler \<Rightarrow> ('e, 's) HandlerFunc" where
  "InstallSessionRegistration h e r s =
     (case parseIDFromPath (hr_Path r) ''/v1/install-sessions/'' ''/registration'' of
        Inl _ \<Rightarrow> (http_error ''invalid_path'' 400, s)
      | Inr sid \<Rightarrow>
          (case res_bind (hr_body r) registration_body of
             Inl _ \<Rightarrow> (http_error ''invalid_json'' 400, s)
           | Inr (connector, device) \<Rightarrow>
               (case rs_SetInstallIdentity (h_store h) e sid connector device s of
                  (Inl err, s') \<Rightarrow> (store_error ''install_session_expired'' ''registration_failed'' 400 err, s')
                | (Inr updated, s') \<Rightarrow> (writeJSON 200 (BSession updated), s'))))"

end
