(* ===== verification/Intents.thy ===== *)
theory Intents
  imports Handlers
begin

text \<open>
  \<open>internal/openclaw/intent_handler.go\<close>: the chat side's single endpoint, which dispatches on the
  intent named in the body, and the install command and URL it answers with. \<open>fmt\<close>'s \<open>%q\<close> is
  modelled for ASCII; how it renders a rune that is not ASCII depends on the Unicode tables and is the
  parameter \<open>quote_rune\<close>.
\<close>

section \<open>Text\<close>

definition quote_ascii :: "char \<Rightarrow> string" where
  "quote_ascii c =
     (if c = CHR 0x22 \<or> c = CHR 0x5C then [CHR 0x5C, c]
      else if c = CHR 0x07 then [CHR 0x5C, CHR ''a'']
      else if c = CHR 0x08 then [CHR 0x5C, CHR ''b'']
      else if c = CHR 0x0C then [CHR 0x5C, CHR ''f'']
      else if c = CHR 0x0A then [CHR 0x5C, CHR ''n'']
      else if c = CHR 0x0D then [CHR 0x5C, CHR ''r'']
      else if c = CHR 0x09 then [CHR 0x5C, CHR ''t'']
      else if c = CHR 0x0B then [CHR 0x5C, CHR ''v'']
      else if of_char c < (32::nat) \<or> c = CHR 0x7F
      then [CHR 0x5C, CHR ''x'', hex_digit (of_char c div 16), hex_digit (of_char c mod 16)]
      else [c])"

function quote_go_body :: "(string \<Rightarrow> string) \<Rightarrow> string \<Rightarrow> string" where
  "quote_go_body quote_rune [] = []"
| "quote_go_body quote_rune (c # cs) =
     (if ascii c then quote_ascii c @ quote_go_body quote_rune cs
      else if rune_size (c # cs) = 0
      then [CHR 0x5C, CHR ''x'', hex_digit (of_char c div 16), hex_digit (of_char c mod 16)]
           @ quote_go_body quote_rune cs
      else quote_rune (take (rune_size (c # cs)) (c # cs))
           @ quote_go_body quote_rune (drop (rune_size (c # cs) - 1) cs))"
  by pat_completeness auto
termination by (relation "measure (length \<circ> snd)") auto

definition quote_go :: "(string \<Rightarrow> string) \<Rightarrow> string \<Rightarrow> string" where
  "quote_go quote_rune s = CHR 0x22 # quote_go_body quote_rune s @ [CHR 0x22]"

definition dq :: string where
  "dq = [CHR 0x22]"

definition installCommandTemplates :: "(string \<Rightarrow> string) \<Rightarrow> string \<Rightarrow> InstallCommandTemplates" where
  "installCommandTemplates quote_rune token =
     (let command = ''CONTROL_PLANE_URL='' @ dq @ ''<control_plane_url>'' @ dq @ '' DCAP_VERIFIER_URL='' @ dq
            @ ''<dcap_verifier_url>'' @ dq @ '' enclout install -token '' @ quote_go quote_rune token
            @ '' -agent-bin '' @ dq @ ''/usr/local/bin/enclout-agent'' @ dq
      in \<lparr>ict_Darwin = command, ict_Linux = command\<rparr>)"

definition installURLForRequest :: "http_request \<Rightarrow> string \<Rightarrow> string" where
  "installURLForRequest r token =
     (let forwardedHost = hr_header r ''X-Forwarded-Host'';
          host = (if forwardedHost \<noteq> [] then forwardedHost else hr_Host r)
      in if host = [] then ''/install?token='' @ QueryEscape token
         else
           (let scheme = (if hr_TLS r then ''https'' else ''http'');
                forwardedProto = hr_header r ''X-Forwarded-Proto'';
                scheme = (if forwardedProto \<noteq> [] then forwardedProto else scheme)
            in scheme @ ''://'' @ host @ ''/install?token='' @ QueryEscape token))"

section \<open>The handler\<close>

record IntentBody =
  ib_Intent :: string
  ib_OpenClawUserID :: string
  ib_ConnectorID :: string
  ib_DeviceID :: string
  ib_SourceChannel :: string
  ib_InstallSessionID :: string
  ib_Approved :: bool
  ib_Status :: string
  ib_ReasonCode :: string

definition intent_body :: "json \<Rightarrow> IntentBody res" where
  "intent_body j =
     res_bind (json_object j) (\<lambda>kvs.
     res_bind (string_field ''intent'' kvs) (\<lambda>intent.
     res_bind (string_field ''openclaw_user_id'' kvs) (\<lambda>user.
     res_bind (string_field ''connector_id'' kvs) (\<lambda>connector.
     res_bind (string_field ''device_id'' kvs) (\<lambda>device.
     res_bind (string_field ''source_channel'' kvs) (\<lambda>channel.
     res_bind (string_field ''install_session_id'' kvs) (\<lambda>sid.
     res_bind (bool_field ''approved'' kvs) (\<lambda>approved.
     res_bind (string_field ''status'' kvs) (\<lambda>status.
     res_bind (string_field ''reason_code'' kvs) (\<lambda>reason.
     Inr \<lparr>ib_Intent = intent, ib_OpenClawUserID = user, ib_ConnectorID = connector,
          ib_DeviceID = device, ib_SourceChannel = channel, ib_InstallSessionID = sid,
          ib_Approved = approved, ib_Status = status, ib_ReasonCode = reason\<rparr>))))))))))"

definition RequestIntent :: string where "RequestIntent = ''request_connector_access''"
definition InstallRequestIntent :: string where "InstallRequestIntent = ''request_connector_install''"
definition ConnectRequestIntent :: string where "ConnectRequestIntent = ''request_connector_connect''"
definition InstallApprovalIntent :: string where "InstallApprovalIntent = ''approve_install_session''"
definition InstallResultIntent :: string where "InstallResultIntent = ''install_session_result''"

record ('e, 's) IntentHandler =
  ih_store :: "('e, 's) RequestStore"
  ih_requestTTL :: duration

definition NewIntentHandler :: "('e, 's) RequestStore \<Rightarrow> ('e, 's) IntentHandler" where
  "NewIntentHandler store = \<lparr>ih_store = store, ih_requestTTL = 5 * Minute\<rparr>"

definition install_response ::
  "(string \<Rightarrow> string) \<Rightarrow> http_request \<Rightarrow> InstallSession \<Rightarrow> string \<Rightarrow> http_response" where
  "install_response quote_rune r session token =
     writeJSON 201 (BInstall
       \<lparr>irr_InstallSessionID = sess_ID session,
        irr_InstallToken = token,
        irr_InstallURL = installURLForRequest r token,
        irr_Status = sess_Status session,
        irr_ExpiresAt = sess_ExpiresAt session,
        irr_InstallCommands = installCommandTemplates quote_rune token\<rparr>)"

definition Handle :: "(string \<Rightarrow> string) \<Rightarrow> ('e, 's) IntentHandler \<Rightarrow> ('e, 's) HandlerFunc" where
  "Handle quote_rune h e r s =
     (case res_bind (hr_body r) intent_body of
        Inl _ \<Rightarrow> (http_error ''invalid_json'' 400, s)
      | Inr payload \<Rightarrow>
          if ib_Intent payload = RequestIntent then
            (case rs_Create (ih_store h) e
                    \<lparr>ci_OpenClawUserID = ib_OpenClawUserID payload, ci_DeviceID = ib_DeviceID payload,
                     ci_ConnectorID = ib_ConnectorID payload, ci_SourceChannel = ib_SourceChannel payload,
                     ci_TTL = ih_requestTTL h\<rparr> s of
               (Inl _, s') \<Rightarrow> (http_error ''create_failed'' 400, s')
             | (Inr req, s') \<Rightarrow> (writeJSON 201 (BRequest req), s'))
          else if ib_Intent payload = InstallRequestIntent then
            (case rs_CreateInstallSession (ih_store h) e
                    \<lparr>cii_OpenClawUserID = ib_OpenClawUserID payload, cii_DeviceID = ib_DeviceID payload,
                     cii_ConnectorID = ib_ConnectorID payload, cii_SourceChannel = ib_SourceChannel payload,
                     cii_TTL = ih_requestTTL h\<rparr> s of
               (Inl _, s') \<Rightarrow> (http_error ''create_failed'' 400, s')
             | (Inr (session, token), s') \<Rightarrow> (install_response quote_rune r session token, s'))
          else if ib_Intent payload = ConnectRequestIntent then
            (case rs_CreateInstallSession (ih_store h) e
                    \<lparr>cii_OpenClawUserID = ib_OpenClawUserID payload, cii_DeviceID = [],
                     cii_ConnectorID = [], cii_SourceChannel = ib_SourceChannel payload,
                     cii_TTL = ih_requestTTL h\<rparr> s of
               (Inl _, s') \<Rightarrow> (http_error ''create_failed'' 400, s')
             | (Inr (session, token), s') \<Rightarrow> (install_response quote_rune r session token, s'))
          else if ib_Intent payload = InstallApprovalIntent then
            (case rs_SetInstallApproval (ih_store h) e (ib_InstallSessionID payload) (ib_Approved payload) s of
               (Inl _, s') \<Rightarrow> (http_error ''update_failed'' 400, s')
             | (Inr updated, s') \<Rightarrow> (writeJSON 200 (BSession updated), s'))
          else if ib_Intent payload = InstallResultIntent then
            (case rs_SetInstallResult (ih_store h) e (ib_InstallSessionID payload) (ib_Status payload)
                    (ib_ReasonCode payload) s of
               (Inl _, s') \<Rightarrow> (http_error ''update_failed'' 400, s')
             | (Inr updated, s') \<Rightarrow> (writeJSON 200 (BSession updated), s'))
          else (http_error ''unsupported_intent'' 400, s))"

end
