(* ===== verification/Config.thy ===== *)
theory Config
  imports RequestModel Json
begin

text \<open>
  \<open>internal/config/config.go\<close>: the control plane's configuration from its environment. \<open>getenv\<close>
  is \<open>os.Getenv\<close> (an unset variable is empty) and \<open>json_parse\<close> the scanner of \<open>encoding/json\<close>, from a
  text to its value.
\<close>

definition defaultBindAddr :: string where
  "defaultBindAddr = ''127.0.0.1:8080''"

definition defaultStorePath :: string where
  "defaultStorePath = ''./var/control-plane-requests.json''"

record Config =
  cfg_BindAddr :: string
  cfg_SigningKeyB64 :: string
  cfg_SigningKeys :: "string \<rightharpoonup> string"
  cfg_SigningActiveKID :: string
  cfg_APIToken :: string
  cfg_StorePath :: string

definition string_map :: "json \<Rightarrow> (string \<rightharpoonup> string) res" where
  "string_map j = assign_map (\<lambda>v. assign_string v []) j Map.empty"

definition loadSigningKeysFromEnv ::
  "(string \<Rightarrow> string) \<Rightarrow> (string \<Rightarrow> json res) \<Rightarrow> Config \<Rightarrow> Config res" where
  "loadSigningKeysFromEnv getenv json_parse cfg =
     (let raw = getenv ''SIGNING_KEYS_JSON'' in
      if raw = [] then Inl (ErrMsg ''missing SIGNING_KEY_B64'')
      else (case res_bind (json_parse raw) string_map of
              Inl err \<Rightarrow> Inl (ErrMsg ''invalid SIGNING_KEYS_JSON'')
            | Inr keys \<Rightarrow>
                if dom keys = {} then Inl (ErrMsg ''SIGNING_KEYS_JSON must include at least one key'')
                else if cfg_SigningActiveKID cfg = [] then Inl (ErrMsg ''missing SIGNING_ACTIVE_KID'')
                else (case keys (cfg_SigningActiveKID cfg) of
                        None \<Rightarrow> Inl (ErrMsg ''SIGNING_ACTIVE_KID not found in SIGNING_KEYS_JSON'')
                      | Some _ \<Rightarrow> Inr (cfg\<lparr>cfg_SigningKeys := keys\<rparr>))))"

definition Load :: "(string \<Rightarrow> string) \<Rightarrow> (string \<Rightarrow> json res) \<Rightarrow> Config res" where
  "Load getenv json_parse =
     (let cfg = \<lparr>cfg_BindAddr = getenv ''BIND_ADDR'', cfg_SigningKeyB64 = getenv ''SIGNING_KEY_B64'',
                 cfg_SigningKeys = Map.empty, cfg_SigningActiveKID = getenv ''SIGNING_ACTIVE_KID'',
                 cfg_APIToken = getenv ''API_AUTH_TOKEN'', cfg_StorePath = getenv ''STORE_PATH''\<rparr>;
          cfg = (if cfg_BindAddr cfg = [] then cfg\<lparr>cfg_BindAddr := defaultBindAddr\<rparr> else cfg)
      in res_bind
           (if cfg_SigningKeyB64 cfg = [] then loadSigningKeysFromEnv getenv json_parse cfg
            else
              (let cfg = (if cfg_SigningActiveKID cfg = [] then cfg\<lparr>cfg_SigningActiveKID := ''v1''\<rparr> else cfg)
               in Inr (cfg\<lparr>cfg_SigningKeys := [cfg_SigningActiveKID cfg \<mapsto> cfg_SigningKeyB64 cfg]\<rparr>)))
           (\<lambda>cfg.
             if cfg_APIToken cfg = [] then Inl (ErrMsg ''missing API_AUTH_TOKEN'')
             else Inr (if cfg_StorePath cfg = [] then cfg\<lparr>cfg_StorePath := defaultStorePath\<rparr> else cfg)))"

text \<open>What a configuration that loads guarantees to the rest of the program.\<close>

definition config_ok :: "Config \<Rightarrow> bool" where
  "config_ok cfg \<longleftrightarrow>
     cfg_BindAddr cfg \<noteq> [] \<and> cfg_APIToken cfg \<noteq> [] \<and> cfg_StorePath cfg \<noteq> []
     \<and> cfg_SigningActiveKID cfg \<noteq> [] \<and> cfg_SigningKeys cfg (cfg_SigningActiveKID cfg) \<noteq> None"

lemma load_signing_keys_ok:
  assumes "loadSigningKeysFromEnv getenv json_parse cfg = Inr cfg'"
  shows "cfg_SigningActiveKID cfg' = cfg_SigningActiveKID cfg" "cfg_SigningActiveKID cfg \<noteq> []"
    "cfg_SigningKeys cfg' (cfg_SigningActiveKID cfg) \<noteq> None" "cfg_BindAddr cfg' = cfg_BindAddr cfg"
    "cfg_APIToken cfg' = cfg_APIToken cfg" "cfg_StorePath cfg' = cfg_StorePath cfg"
  using assms by (auto simp: loadSigningKeysFromEnv_def Let_def split: if_splits sum.splits option.splits)

lemma load_ok:
  assumes "Load getenv json_parse = Inr cfg"
  shows "config_ok cfg"
proof -
  define c0 where "c0 = \<lparr>cfg_BindAddr = getenv ''BIND_ADDR'', cfg_SigningKeyB64 = getenv ''SIGNING_KEY_B64'',
       cfg_SigningKeys = Map.empty, cfg_SigningActiveKID = getenv ''SIGNING_ACTIVE_KID'',
       cfg_APIToken = getenv ''API_AUTH_TOKEN'', cfg_StorePath = getenv ''STORE_PATH''\<rparr>"
  define c1 where "c1 = (if cfg_BindAddr c0 = [] then c0\<lparr>cfg_BindAddr := defaultBindAddr\<rparr> else c0)"
  define c2 where "c2 = (if cfg_SigningActiveKID c1 = [] then c1\<lparr>cfg_SigningActiveKID := ''v1''\<rparr> else c1)"
  have b: "cfg_BindAddr c1 \<noteq> []" by (simp add: c1_def defaultBindAddr_def)
  from assms obtain c3 where c3: "(if cfg_SigningKeyB64 c1 = [] then loadSigningKeysFromEnv getenv json_parse c1
        else Inr (c2\<lparr>cfg_SigningKeys := [cfg_SigningActiveKID c2 \<mapsto> cfg_SigningKeyB64 c2]\<rparr>)) = Inr c3"
    and cfg: "(if cfg_APIToken c3 = [] then Inl (ErrMsg ''missing API_AUTH_TOKEN'')
        else Inr (if cfg_StorePath c3 = [] then c3\<lparr>cfg_StorePath := defaultStorePath\<rparr> else c3)) = Inr cfg"
    unfolding Load_def Let_def res_bind_Inr c0_def [symmetric] c1_def [symmetric] c2_def [symmetric] by blast
  have "cfg_BindAddr c3 \<noteq> [] \<and> cfg_SigningActiveKID c3 \<noteq> []
        \<and> cfg_SigningKeys c3 (cfg_SigningActiveKID c3) \<noteq> None"
  proof (cases "cfg_SigningKeyB64 c1 = []")
    case True
    with c3 load_signing_keys_ok [of getenv json_parse c1 c3] b show ?thesis by simp
  next
    case False
    with c3 have "c3 = c2\<lparr>cfg_SigningKeys := [cfg_SigningActiveKID c2 \<mapsto> cfg_SigningKeyB64 c2]\<rparr>" by simp
    with b show ?thesis by (simp add: c2_def)
  qed
  with cfg show ?thesis by (auto simp: config_ok_def defaultStorePath_def split: if_splits)
qed

end
