(* ===== verification/Lifecycle.thy ===== *)
theory Lifecycle
  imports RequestStore
begin

text \<open>
  The lifecycle of a connection request as an abstract machine, and the store as a refinement
  of it. \<open>req_step\<close> has one rule for each way an entry may change, with the guard the code
  checks; \<open>entry_step\<close> says that every operation moves every entry by one such step, and which
  operation can cause which. What a status means about the past then follows by induction over
  the history of calls.
\<close>

section \<open>The abstract machine\<close>

datatype cause =
    Kept
  | Lapsed time
  | Decided bool time
  | Reported Status string time

definition open_request :: "ConnectionRequest \<Rightarrow> bool" where
  "open_request r \<longleftrightarrow>
     req_Status r \<noteq> StatusExpired \<and> req_Status r \<noteq> StatusConnected
     \<and> req_Status r \<noteq> StatusDeniedLocal \<and> req_Status r \<noteq> StatusVerificationFailed"

inductive req_step :: "ConnectionRequest \<Rightarrow> cause \<Rightarrow> ConnectionRequest \<Rightarrow> bool" where
  kept: "req_step r Kept r"
| lapsed: "req_ExpiresAt r < t \<Longrightarrow> open_request r
           \<Longrightarrow> req_step r (Lapsed t) (r\<lparr>req_Status := StatusExpired\<rparr>)"
| decided: "t \<le> req_ExpiresAt r \<Longrightarrow> req_Status r = StatusPendingLocalConfirm
           \<Longrightarrow> req_step r (Decided a t)
                 (r\<lparr>req_Status := (if a then StatusApproved else StatusDeniedLocal)\<rparr>)"
| reported: "t \<le> req_ExpiresAt r \<Longrightarrow> req_Status r = StatusApproved
           \<Longrightarrow> x = StatusConnected \<or> x = StatusVerificationFailed
           \<Longrightarrow> req_step r (Reported x rc t) (r\<lparr>req_Status := x, req_ReasonCode := rc\<rparr>)"

inductive_simps req_step_Kept [simp]: "req_step r Kept r'"
inductive_simps req_step_Lapsed [simp]: "req_step r (Lapsed t) r'"
inductive_simps req_step_Decided [simp]: "req_step r (Decided a t) r'"
inductive_simps req_step_Reported [simp]: "req_step r (Reported x rc t) r'"

text \<open>What no step changes.\<close>

lemma req_step_frame:
  assumes "req_step r c r'"
  shows "req_ID r' = req_ID r" "req_OpenClawUserID r' = req_OpenClawUserID r"
    "req_DeviceID r' = req_DeviceID r" "req_ConnectorID r' = req_ConnectorID r"
    "req_SourceChannel r' = req_SourceChannel r" "req_CreatedAt r' = req_CreatedAt r"
    "req_ExpiresAt r' = req_ExpiresAt r" "req_Nonce r' = req_Nonce r"
  using assms by (induction, simp_all)+

lemma req_step_closed: "req_step r c r' \<Longrightarrow> \<not> open_request r \<Longrightarrow> r' = r"
  by (cases c) (auto simp: open_request_def)

lemma expire_step: "expireIfNeeded t r = r \<or> req_step r (Lapsed t) (expireIfNeeded t r)"
  by (auto simp: expireIfNeeded_def open_request_def)

lemma expireIfNeeded_cases:
  obtains (fresh) "expireIfNeeded t r = r" "open_request r \<Longrightarrow> t \<le> req_ExpiresAt r"
        | (lapsed) "expireIfNeeded t r = r\<lparr>req_Status := StatusExpired\<rparr>"
            "req_ExpiresAt r < t" "open_request r"
proof (cases "req_ExpiresAt r < t \<and> open_request r")
  case True
  then show thesis by (intro lapsed) (auto simp: expireIfNeeded_def open_request_def)
next
  case False
  then show thesis by (intro fresh) (auto simp: expireIfNeeded_def open_request_def)
qed

section \<open>The store refines it\<close>

text \<open>Which call can be the reason of a step.\<close>

fun justifies :: "'x store_env_scheme \<Rightarrow> store_op \<Rightarrow> outcome \<Rightarrow> string \<Rightarrow> cause \<Rightarrow> bool" where
  "justifies e c out rid Kept = True"
| "justifies e c out rid (Lapsed t) = True"
| "justifies e c out rid (Decided a t) =
     (c = OpSetLocalDecision rid a \<and> t = now e \<and> op_ok out)"
| "justifies e c out rid (Reported x rc t) =
     (c = OpSetResult rid x rc \<and> t = now e \<and> op_ok out)"

text \<open>A \<open>Create\<close> that goes through files a new entry, in place of one with the same random ID.\<close>

definition valid_input :: "CreateInput \<Rightarrow> bool" where
  "valid_input inp \<longleftrightarrow>
     ci_OpenClawUserID inp \<noteq> [] \<and> ci_DeviceID inp \<noteq> [] \<and> ci_ConnectorID inp \<noteq> [] \<and> 0 < ci_TTL inp"

definition creates :: "'x store_env_scheme \<Rightarrow> store_op \<Rightarrow> string \<Rightarrow> bool" where
  "creates e c rid \<longleftrightarrow> (\<exists>inp. c = OpCreate inp \<and> valid_input inp) \<and> randomID (rand1 e) = rid"

lemma loop_entry:
  assumes "items s rid = Some r"
  shows "\<exists>c r'. items (snd (list_pending_loop dev ord out s)) rid = Some r' \<and> req_step r c r'
               \<and> (c = Kept \<or> (\<exists>t. c = Lapsed t))"
  using assms
proof (induction dev ord out s arbitrary: r rule: list_pending_loop.induct)
  case (1 dev out s)
  then show ?case by (intro exI [of _ Kept]) simp
next
  case (2 dev k t ord out s)
  show ?case
  proof (cases "items s k")
    case None
    with 2 show ?thesis by simp
  next
    case (Some q)
    let ?q = "expireIfNeeded t q"
    let ?s = "s\<lparr>items := (items s)(k \<mapsto> ?q)\<rparr>"
    let ?r = "if k = rid then expireIfNeeded t r else r"
    have r: "items ?s rid = Some ?r" using Some "2.prems" by auto
    then obtain c r' where
        loop: "items (snd (list_pending_loop dev ((k, t) # ord) out s)) rid = Some r'"
      and step: "req_step ?r c r'" and c: "c = Kept \<or> (\<exists>t. c = Lapsed t)"
      using "2.IH"(2) [OF Some refl r] Some by (auto simp: Let_def)
    show ?thesis
    proof (cases "?r = r")
      case True
      with loop step c show ?thesis by auto
    next
      case False
      then have "req_step r (Lapsed t) ?r" using expire_step [of t r] by (auto split: if_splits)
      moreover from this have "r' = ?r"
        using req_step_closed [OF step] by (auto simp: open_request_def)
      ultimately show ?thesis using loop by blast
    qed
  qed
qed

text \<open>The session operations leave the requests alone.\<close>

lemma session_ops_items:
  "items (snd (CreateInstallSession e cin s)) = items s"
  "items (snd (GetInstallSession e sid s)) = items s"
  "items (snd (SetInstallApproval e sid a s)) = items s"
  "items (snd (SetInstallIdentity e sid ci di s)) = items s"
  "items (snd (SetInstallResult e sid x rc s)) = items s"
  "items (snd (RedeemInstallToken e tok s)) = items s"
  by (simp_all add: store_ops_defs Let_def split: option.split prod.split)

lemma entry_step:
  assumes "items s rid = Some r" and "\<not> creates e c rid"
  shows "\<exists>k r'. items (snd (perform mem_store e c s)) rid = Some r' \<and> req_step r k r'
               \<and> justifies e c (fst (perform mem_store e c s)) rid k"
proof (cases c)
  case (OpCreate inp)
  with assms show ?thesis
    by (intro exI [of _ Kept]) (auto simp: Create_def Let_def creates_def valid_input_def)
next
  case (OpGet k)
  show ?thesis
  proof (cases "k = rid")
    case True
    with OpGet assms(1) expire_step [of "now e" r] show ?thesis
      by (auto simp: Get_def Let_def intro: exI [of _ Kept] exI [of _ "Lapsed (now e)"])
  next
    case False
    with OpGet assms(1) show ?thesis
      by (intro exI [of _ Kept]) (auto simp: Get_def Let_def split: option.splits)
  qed
next
  case (OpListPending dev)
  with loop_entry [OF assms(1), of dev "visits e" "[]"] show ?thesis
    by (fastforce simp: ListPendingForDevice_def)
next
  case (OpSetLocalDecision k a)
  show ?thesis
  proof (cases "k = rid")
    case True
    show ?thesis
    proof (cases rule: expireIfNeeded_cases [of "now e" r])
      case fresh
      with OpSetLocalDecision True assms(1) show ?thesis
        by (cases "req_Status r = StatusPendingLocalConfirm")
           (auto simp: SetLocalDecision_def Let_def open_request_def
                 intro: exI [of _ Kept] exI [of _ "Decided a (now e)"])
    next
      case lapsed
      with OpSetLocalDecision True assms(1) show ?thesis
        by (intro exI [of _ "Lapsed (now e)"]) (auto simp: SetLocalDecision_def Let_def)
    qed
  next
    case False
    with OpSetLocalDecision assms(1) show ?thesis
      by (intro exI [of _ Kept]) (auto simp: SetLocalDecision_def Let_def split: option.splits)
  qed
next
  case (OpSetResult k x rc)
  show ?thesis
  proof (cases "k = rid")
    case True
    show ?thesis
    proof (cases rule: expireIfNeeded_cases [of "now e" r])
      case fresh
      with OpSetResult True assms(1) show ?thesis
        by (cases "req_Status r = StatusApproved
                   \<and> (x = StatusConnected \<or> x = StatusVerificationFailed)")
           (auto simp: SetResult_def Let_def open_request_def
                 intro: exI [of _ Kept] exI [of _ "Reported x rc (now e)"])
    next
      case lapsed
      with OpSetResult True assms(1) show ?thesis
        by (intro exI [of _ "Lapsed (now e)"]) (auto simp: SetResult_def Let_def)
    qed
  next
    case False
    with OpSetResult assms(1) show ?thesis
      by (intro exI [of _ Kept]) (auto simp: SetResult_def Let_def split: option.splits)
  qed
qed (use assms(1) in \<open>intro exI [of _ Kept], simp add: session_ops_items\<close>)+

end
