(* ===== verification/History.thy ===== *)
theory History
  imports Lifecycle
begin

text \<open>
  What the status of a connection request says about the calls that led to it: induction over a
  history of calls, from the empty store, with the one-step refinement of \<open>Lifecycle\<close>.
\<close>

section \<open>Where an entry comes from\<close>

lemma loop_dom: "dom (items (snd (list_pending_loop dev ord out s))) = dom (items s)"
proof (induction dev ord out s rule: list_pending_loop.induct)
  case (2 dev rid t ord out s)
  show ?case
  proof (cases "items s rid")
    case None
    with 2 show ?thesis by simp
  next
    case (Some r)
    then have "dom ((items s)(rid \<mapsto> expireIfNeeded t r)) = dom (items s)" by auto
    with "2.IH"(2) [OF Some refl] Some show ?thesis
      by (simp add: Let_def del: fun_upd_apply dom_fun_upd)
  qed
qed simp

lemma perform_dom:
  assumes "items s rid = None" and "items (snd (perform mem_store e c s)) rid = Some r"
  shows "creates e c rid"
proof (cases c)
  case (OpListPending dev)
  have "rid \<notin> dom (items s)" using assms(1) by auto
  with OpListPending assms(2) show ?thesis
    using loop_dom [of dev "visits e" "[]" s] by (auto simp: ListPendingForDevice_def)
qed (use assms in \<open>auto simp: session_ops_items Create_def Get_def SetLocalDecision_def
       SetResult_def Let_def creates_def valid_input_def split: option.splits if_splits\<close>)

lemma created_pending:
  assumes "creates e c rid" and "items (snd (perform mem_store e c s)) rid = Some r"
  shows "req_Status r = StatusPendingLocalConfirm"
  using assms by (auto simp: creates_def valid_input_def Create_def Let_def)

lemma entry_origin:
  assumes "items (snd (perform mem_store e c s)) rid = Some r'"
    and "req_Status r' \<noteq> StatusPendingLocalConfirm"
  obtains r k where "items s rid = Some r" "\<not> creates e c rid" "req_step r k r'"
    "justifies e c (fst (perform mem_store e c s)) rid k"
proof -
  have no: "\<not> creates e c rid" using created_pending assms by blast
  then obtain r where r: "items s rid = Some r"
    using perform_dom [of s rid e c r'] assms(1) by fastforce
  from entry_step [OF r no] assms(1) that [OF r no] show thesis by auto
qed

definition undisturbed :: "string \<Rightarrow> ('x store_env_scheme \<times> store_op) list \<Rightarrow> bool" where
  "undisturbed rid evs \<longleftrightarrow> (\<forall>x \<in> set evs. \<not> creates (fst x) (snd x) rid)"

lemma undisturbed_simps [simp]:
  "undisturbed rid []"
  "undisturbed rid (x # xs) \<longleftrightarrow> \<not> creates (fst x) (snd x) rid \<and> undisturbed rid xs"
  "undisturbed rid (xs @ ys) \<longleftrightarrow> undisturbed rid xs \<and> undisturbed rid ys"
  by (auto simp: undisturbed_def)

text \<open>The call succeeded at that point of the history.\<close>

definition answered :: "('x store_env_scheme \<times> store_op) list \<Rightarrow> 'x store_env_scheme \<Rightarrow> store_op \<Rightarrow> bool" where
  "answered pre e c \<longleftrightarrow> op_ok (fst (perform mem_store e c (run mem_store pre NewInMemoryStore)))"

abbreviation after :: "('x store_env_scheme \<times> store_op) list \<Rightarrow> InMemoryStore" where
  "after evs \<equiv> run mem_store evs NewInMemoryStore"

lemma new_empty [simp]:
  "items NewInMemoryStore rid = None" "installSessions NewInMemoryStore sid = None"
  "installTokens NewInMemoryStore d = None"
  by (simp_all add: NewInMemoryStore_def)

section \<open>Approved, connected, failed, denied\<close>

lemma decided_origin:
  assumes "items (after evs) rid = Some r"
    and "req_Status r = (if a then StatusApproved else StatusDeniedLocal)"
  shows "\<exists>pre e post. evs = pre @ (e, OpSetLocalDecision rid a) # post
           \<and> answered pre e (OpSetLocalDecision rid a)
           \<and> now e \<le> req_ExpiresAt r \<and> undisturbed rid post"
  using assms
proof (induction evs arbitrary: r rule: rev_induct)
  case (snoc x evs)
  obtain e c where x: "x = (e, c)" by (cases x)
  have r: "items (snd (perform mem_store e c (after evs))) rid = Some r"
    using snoc.prems(1) by (simp add: x run_snoc)
  have "req_Status r \<noteq> StatusPendingLocalConfirm" using snoc.prems(2) by auto
  from r this obtain q k where q: "items (after evs) rid = Some q" and no: "\<not> creates e c rid"
    and step: "req_step q k r" and why: "justifies e c (fst (perform mem_store e c (after evs))) rid k"
    by (rule entry_origin)
  show ?case
  proof (cases k)
    case Kept
    with step have "q = r" by simp
    with snoc.IH [of q] q snoc.prems(2) obtain pre e0 post where
      "evs = pre @ (e0, OpSetLocalDecision rid a) # post" "answered pre e0 (OpSetLocalDecision rid a)"
      "now e0 \<le> req_ExpiresAt r" "undisturbed rid post" by auto
    with no show ?thesis
      by (intro exI [of _ pre] exI [of _ e0] exI [of _ "post @ [x]"]) (simp add: x)
  next
    case (Decided b t)
    with why step snoc.prems(2) show ?thesis
      by (intro exI [of _ evs] exI [of _ e] exI [of _ "[]"])
         (auto simp: x answered_def split: if_splits)
  qed (use step snoc.prems(2) in \<open>auto split: if_splits\<close>)
qed simp

lemma reported_origin:
  assumes "items (after evs) rid = Some r"
    and "x = StatusConnected \<or> x = StatusVerificationFailed" and "req_Status r = x"
  shows "\<exists>pre e post. evs = pre @ (e, OpSetResult rid x (req_ReasonCode r)) # post
           \<and> answered pre e (OpSetResult rid x (req_ReasonCode r))
           \<and> now e \<le> req_ExpiresAt r \<and> undisturbed rid post
           \<and> (\<exists>q. items (after pre) rid = Some q \<and> req_Status q = StatusApproved
                   \<and> req_ExpiresAt q = req_ExpiresAt r)"
  using assms
proof (induction evs arbitrary: r rule: rev_induct)
  case (snoc y evs)
  obtain e c where y: "y = (e, c)" by (cases y)
  have r: "items (snd (perform mem_store e c (after evs))) rid = Some r"
    using snoc.prems(1) by (simp add: y run_snoc)
  have "req_Status r \<noteq> StatusPendingLocalConfirm" using snoc.prems by auto
  from r this obtain q k where q: "items (after evs) rid = Some q" and no: "\<not> creates e c rid"
    and step: "req_step q k r" and why: "justifies e c (fst (perform mem_store e c (after evs))) rid k"
    by (rule entry_origin)
  show ?case
  proof (cases k)
    case Kept
    with step have [simp]: "q = r" by simp
    from snoc.IH [of q] q snoc.prems(2,3) obtain pre e0 post q0 where
      "evs = pre @ (e0, OpSetResult rid x (req_ReasonCode r)) # post"
      "answered pre e0 (OpSetResult rid x (req_ReasonCode r))"
      "now e0 \<le> req_ExpiresAt r" "undisturbed rid post" "items (after pre) rid = Some q0"
      "req_Status q0 = StatusApproved" "req_ExpiresAt q0 = req_ExpiresAt r" by auto
    with no show ?thesis
      by (intro exI [of _ pre] exI [of _ e0] exI [of _ "post @ [y]"]) (simp add: y)
  next
    case (Reported z rc t)
    with why step snoc.prems(2,3) q show ?thesis
      by (intro exI [of _ evs] exI [of _ e] exI [of _ "[]"]) (auto simp: y answered_def)
  qed (use step snoc.prems(2,3) in \<open>auto split: if_splits\<close>)
qed simp

section \<open>Closed entries and other entries\<close>

lemma closed_stays:
  assumes "items s rid = Some r" and "\<not> open_request r" and "undisturbed rid evs"
  shows "items (run mem_store evs s) rid = Some r"
  using assms
proof (induction evs arbitrary: s)
  case (Cons x evs)
  obtain e c where x: "x = (e, c)" by (cases x)
  with Cons.prems obtain k r' where
    "items (snd (perform mem_store e c s)) rid = Some r'" "req_step r k r'"
    using entry_step [of s rid r e c] by auto
  with Cons.prems(2) have "items (snd (perform mem_store e c s)) rid = Some r"
    using req_step_closed by blast
  with Cons x show ?case by simp
qed simp

lemma connected_history:
  assumes "items (after evs) rid = Some r" and "req_Status r = StatusConnected"
  shows "\<exists>pre e mid e' post.
           evs = pre @ (e, OpSetLocalDecision rid True) # mid
                 @ (e', OpSetResult rid StatusConnected (req_ReasonCode r)) # post
           \<and> answered pre e (OpSetLocalDecision rid True)
           \<and> answered (pre @ (e, OpSetLocalDecision rid True) # mid) e'
                (OpSetResult rid StatusConnected (req_ReasonCode r))
           \<and> now e \<le> req_ExpiresAt r \<and> now e' \<le> req_ExpiresAt r
           \<and> undisturbed rid mid \<and> undisturbed rid post"
proof -
  from reported_origin [OF assms(1) _ assms(2)] obtain pre' e' post q where
    evs: "evs = pre' @ (e', OpSetResult rid StatusConnected (req_ReasonCode r)) # post"
    and rep: "answered pre' e' (OpSetResult rid StatusConnected (req_ReasonCode r))"
      "now e' \<le> req_ExpiresAt r" "undisturbed rid post"
    and q: "items (after pre') rid = Some q" "req_Status q = StatusApproved"
      "req_ExpiresAt q = req_ExpiresAt r" by auto
  from decided_origin [OF q(1), of True] q(2,3) obtain pre e mid where
    "pre' = pre @ (e, OpSetLocalDecision rid True) # mid"
    "answered pre e (OpSetLocalDecision rid True)" "now e \<le> req_ExpiresAt r"
    "undisturbed rid mid" by auto
  with evs rep show ?thesis
    by (intro exI [of _ pre] exI [of _ e] exI [of _ mid] exI [of _ e'] exI [of _ post]) simp
qed

section \<open>Properties\<close>

text \<open>A small environment for the witnesses: clock \<open>t\<close>, random bytes \<open>a\<close> and \<open>b\<close>.\<close>

definition demo_env :: "time \<Rightarrow> string \<Rightarrow> string \<Rightarrow> store_env" where
  "demo_env t a b = \<lparr>now = t, rand1 = Some a, rand2 = Some b, visits = []\<rparr>"

definition demo_input :: CreateInput where
  "demo_input = \<lparr>ci_OpenClawUserID = ''usr_1'', ci_DeviceID = ''dev_1'',
                 ci_ConnectorID = ''conn_1'', ci_SourceChannel = ''telegram'', ci_TTL = 5 * Minute\<rparr>"

lemmas demo_defs = demo_env_def demo_input_def NewInMemoryStore_def store_ops_defs
  expireIfNeeded_def expireInstallIfNeeded_def Let_def randomID_def

text \<open>
  No connection without local confirmation. If, after any history of calls on the empty
  store, a request is \<open>connected\<close>, then the history contains a successful local approval of that
  very request and, later, a successful \<open>connected\<close> report, both before the request's expiry and
  with no re-creation of the entry since the approval.
\<close>

lemma connected_needs_local_approval:
  assumes "items (after evs) rid = Some r" and "req_Status r = StatusConnected"
  shows "\<exists>pre e mid e' post.
           evs = pre @ (e, OpSetLocalDecision rid True) # mid
                 @ (e', OpSetResult rid StatusConnected (req_ReasonCode r)) # post
           \<and> answered pre e (OpSetLocalDecision rid True)
           \<and> answered (pre @ (e, OpSetLocalDecision rid True) # mid) e'
                (OpSetResult rid StatusConnected (req_ReasonCode r))
           \<and> now e \<le> req_ExpiresAt r \<and> now e' \<le> req_ExpiresAt r
           \<and> undisturbed rid mid \<and> undisturbed rid post"
  by (rule connected_history [OF assms])

lemma connected_needs_local_approval_witness:
  "\<exists>pre e mid e' post.
     [(demo_env 0 ''a'' ''b'', OpCreate demo_input),
      (demo_env 10 ''c'' ''d'', OpSetLocalDecision (hex_encode ''a'') True),
      (demo_env 20 ''c'' ''d'', OpSetResult (hex_encode ''a'') StatusConnected [])]
     = pre @ (e, OpSetLocalDecision (hex_encode ''a'') True) # mid
       @ (e', OpSetResult (hex_encode ''a'') StatusConnected []) # post
     \<and> answered pre e (OpSetLocalDecision (hex_encode ''a'') True)"
proof -
  let ?evs = "[(demo_env 0 ''a'' ''b'', OpCreate demo_input),
      (demo_env 10 ''c'' ''d'', OpSetLocalDecision (hex_encode ''a'') True),
      (demo_env 20 ''c'' ''d'', OpSetResult (hex_encode ''a'') StatusConnected [])]"
  have "\<exists>r. items (after ?evs) (hex_encode ''a'') = Some r \<and> req_Status r = StatusConnected
            \<and> req_ReasonCode r = []"
    by (simp add: demo_defs)
  then obtain r where r: "items (after ?evs) (hex_encode ''a'') = Some r"
    "req_Status r = StatusConnected" "req_ReasonCode r = []" by blast
  show ?thesis
    using connected_needs_local_approval [OF r(1,2)] unfolding r(3) by blast
qed

text \<open>
  C8. The store refines the lifecycle machine: whatever the call, every entry that the call does
  not re-create is still there afterwards and has made one step of \<open>req_step\<close>, of a kind that
  only the matching, successful call can cause.
\<close>

theorem store_refines_lifecycle:
  assumes "items s rid = Some r" and "\<not> creates e c rid"
  shows "\<exists>k r'. items (snd (perform mem_store e c s)) rid = Some r' \<and> req_step r k r'
               \<and> justifies e c (fst (perform mem_store e c s)) rid k"
  using assms by (rule entry_step)

definition demo_request :: ConnectionRequest where
  "demo_request =
     \<lparr>req_ID = ''r1'', req_OpenClawUserID = ''usr_1'', req_DeviceID = ''dev_1'',
      req_ConnectorID = ''conn_1'', req_SourceChannel = ''telegram'',
      req_Status = StatusPendingLocalConfirm, req_CreatedAt = 0, req_ExpiresAt = 100,
      req_Nonce = ''n1'', req_ReasonCode = []\<rparr>"

definition demo_store :: InMemoryStore where
  "demo_store = NewInMemoryStore\<lparr>items := [''r1'' \<mapsto> demo_request]\<rparr>"

theorem store_refines_lifecycle_witness:
  "\<exists>k r'. items (snd (perform mem_store (demo_env 5 ''a'' ''b'') (OpSetLocalDecision ''r1'' False) demo_store)) ''r1''
            = Some r' \<and> req_step demo_request k r'"
  using store_refines_lifecycle
          [of demo_store "''r1''" demo_request "demo_env 5 ''a'' ''b''" "OpSetLocalDecision ''r1'' False"]
  by (auto simp: demo_store_def creates_def)

text \<open>
  C21. A decided request stays decided: once a request is denied, expired, failed or connected, no
  sequence of calls changes any field of it, unless the entry is created anew.
\<close>

theorem closed_request_is_final:
  assumes "items s rid = Some r" and "\<not> open_request r" and "undisturbed rid evs"
  shows "items (run mem_store evs s) rid = Some r"
  using assms by (rule closed_stays)

theorem closed_request_is_final_witness:
  "items (run mem_store [(demo_env 7 ''a'' ''b'', OpSetLocalDecision ''r1'' True),
                         (demo_env 900 ''a'' ''b'', OpGet ''r1'')]
            (demo_store\<lparr>items := [''r1'' \<mapsto> demo_request\<lparr>req_Status := StatusDeniedLocal\<rparr>]\<rparr>)) ''r1''
     = Some (demo_request\<lparr>req_Status := StatusDeniedLocal\<rparr>)"
  by (rule closed_request_is_final) (simp_all add: open_request_def creates_def)

text \<open>
  C24. Expiry is enforced at use. A decision or a result that arrives after \<open>expires_at\<close> never succeeds,
  whatever it asks for. If the request was denied, connected or failed, it is answered with
  \<open>ErrInvalidTransition\<close> and nothing changes; in every other status it is answered with \<open>ErrExpired\<close>, and
  the request is left \<open>expired\<close> and every other part of the store as it was.
\<close>

theorem late_calls_are_rejected:
  assumes "items s rid = Some r" and "req_ExpiresAt r < now e"
  shows "let rejected = (if req_Status r \<in> {StatusDeniedLocal, StatusConnected, StatusVerificationFailed}
                         then (Inl ErrInvalidTransition, s)
                         else (Inl ErrExpired, s\<lparr>items := (items s)(rid \<mapsto> r\<lparr>req_Status := StatusExpired\<rparr>)\<rparr>))
         in SetLocalDecision e rid a s = rejected \<and> SetResult e rid x rc s = rejected"
proof -
  let ?r = "r\<lparr>req_Status := StatusExpired\<rparr>" and ?closed = "{StatusDeniedLocal, StatusConnected, StatusVerificationFailed}"
  show ?thesis
  proof (cases "req_Status r \<in> ?closed")
    case True
    then have "expireIfNeeded (now e) r = r" "req_Status r \<noteq> StatusExpired" by (auto simp: expireIfNeeded_def)
    with True assms(1) show ?thesis by (auto simp: SetLocalDecision_def SetResult_def Let_def)
  next
    case False
    then have "expireIfNeeded (now e) r = ?r" using assms(2) by (cases r) (auto simp: expireIfNeeded_def)
    with False assms(1) show ?thesis by (simp add: SetLocalDecision_def SetResult_def Let_def)
  qed
qed

theorem late_calls_are_rejected_witness:
  "SetLocalDecision (demo_env 101 ''a'' ''b'') ''r1'' True demo_store
     = (Inl ErrExpired, demo_store\<lparr>items := [''r1'' \<mapsto> demo_request\<lparr>req_Status := StatusExpired\<rparr>]\<rparr>)
   \<and> SetLocalDecision (demo_env 101 ''a'' ''b'') ''r1'' True
       (demo_store\<lparr>items := [''r1'' \<mapsto> demo_request\<lparr>req_Status := StatusDeniedLocal\<rparr>]\<rparr>)
     = (Inl ErrInvalidTransition, demo_store\<lparr>items := [''r1'' \<mapsto> demo_request\<lparr>req_Status := StatusDeniedLocal\<rparr>]\<rparr>)"
proof -
  let ?d = "demo_request\<lparr>req_Status := StatusDeniedLocal\<rparr>" and ?e = "demo_env 101 ''a'' ''b''"
  let ?s = "demo_store\<lparr>items := [''r1'' \<mapsto> ?d]\<rparr>"
  have "items demo_store ''r1'' = Some demo_request" "items ?s ''r1'' = Some ?d" "req_ExpiresAt demo_request < now ?e"
    "req_ExpiresAt ?d < now ?e" "items demo_store = [''r1'' \<mapsto> demo_request]" "req_Status demo_request = StatusPendingLocalConfirm"
    by (simp_all add: demo_store_def demo_request_def demo_env_def)
  then show ?thesis
    using late_calls_are_rejected [of demo_store "''r1''" demo_request ?e True] late_calls_are_rejected [of ?s "''r1''" ?d ?e True]
    by (simp add: Let_def)
qed

section \<open>Requests settle\<close>

text \<open>How often a request can still change.\<close>

definition stages_left :: "ConnectionRequest \<Rightarrow> nat" where
  "stages_left r = (if req_Status r = StatusPendingLocalConfirm then 2 else if open_request r then 1 else 0)"

lemma step_uses_stage: "req_step r k r' \<Longrightarrow> r' \<noteq> r \<Longrightarrow> stages_left r' < stages_left r"
  by (cases k) (auto simp: stages_left_def open_request_def split: if_splits)

text \<open>The calls of a history that change the request.\<close>

definition changed_at :: "('x store_env_scheme \<times> store_op) list \<Rightarrow> InMemoryStore \<Rightarrow> string \<Rightarrow> nat \<Rightarrow> bool" where
  "changed_at evs s rid i \<longleftrightarrow>
     items (run mem_store (take (Suc i) evs) s) rid \<noteq> items (run mem_store (take i evs) s) rid"

lemma filter_upt_Suc: "length (filter P [0..<Suc n]) = (if P 0 then 1 else 0) + length (filter (\<lambda>i. P (Suc i)) [0..<n])"
  by (simp add: upt_conv_Cons map_Suc_upt [symmetric] filter_map comp_def del: upt_Suc)

lemma few_changes:
  assumes "items s rid = Some r" and "undisturbed rid evs"
  shows "\<exists>r'. items (run mem_store evs s) rid = Some r' \<and> req_ExpiresAt r' = req_ExpiresAt r
           \<and> length (filter (changed_at evs s rid) [0..<length evs]) + stages_left r' \<le> stages_left r"
  using assms
proof (induction evs arbitrary: s r)
  case (Cons x evs)
  obtain e c where x: "x = (e, c)" by (cases x)
  let ?s = "snd (perform mem_store e c s)"
  from Cons.prems x obtain k q where q: "items ?s rid = Some q" "req_step r k q"
    using entry_step [of s rid r e c] by auto
  with Cons.IH [OF q(1)] Cons.prems(2) obtain r' where r': "items (run mem_store evs ?s) rid = Some r'"
    "req_ExpiresAt r' = req_ExpiresAt q"
    "length (filter (changed_at evs ?s rid) [0..<length evs]) + stages_left r' \<le> stages_left q" by auto
  have "changed_at (x # evs) s rid 0 \<longleftrightarrow> q \<noteq> r" using q(1) Cons.prems(1) by (simp add: changed_at_def x)
  moreover have "changed_at (x # evs) s rid (Suc i) = changed_at evs ?s rid i" for i by (simp add: changed_at_def x)
  ultimately have "length (filter (changed_at (x # evs) s rid) [0..<length (x # evs)]) + stages_left r' \<le> stages_left r"
    using r'(3) step_uses_stage [OF q(2)] by (simp add: filter_upt_Suc del: upt_Suc) auto
  with r'(1,2) req_step_frame(7) [OF q(2)] show ?case by (intro exI [of _ r']) (simp add: x)
qed simp

text \<open>
  C23. Every request settles. Over any history of calls that does not create the same ID anew, however
  long it is, a pending request changes at most twice, an approved one at most once and a closed one never;
  and whatever its state by then, reading it once after its expiry leaves it closed.
\<close>

theorem request_settles:
  assumes "items s rid = Some r" and "undisturbed rid evs"
  shows "length (filter (changed_at evs s rid) [0..<length evs])
           \<le> (if req_Status r = StatusPendingLocalConfirm then 2 else if open_request r then 1 else 0)
         \<and> (\<forall>e. req_ExpiresAt r < now e \<longrightarrow>
              (\<exists>q. items (snd (Get e rid (run mem_store evs s))) rid = Some q \<and> \<not> open_request q))"
proof -
  obtain r' where r': "items (run mem_store evs s) rid = Some r'" "req_ExpiresAt r' = req_ExpiresAt r"
    "length (filter (changed_at evs s rid) [0..<length evs]) + stages_left r' \<le> stages_left r"
    using few_changes [OF assms] by blast
  have "\<not> open_request (expireIfNeeded (now e) r')" if "req_ExpiresAt r < now e" for e :: "'x store_env_scheme"
    using that r'(2) by (auto simp: expireIfNeeded_def open_request_def)
  then show ?thesis using r'(1,3) by (auto simp: Get_def stages_left_def Let_def)
qed

theorem request_settles_witness:
  "length (filter (changed_at [(demo_env 7 ''a'' ''b'', OpSetLocalDecision ''r1'' True), (demo_env 8 ''a'' ''b'', OpGet ''r1''),
                               (demo_env 9 ''a'' ''b'', OpSetResult ''r1'' StatusConnected [])] demo_store ''r1'') [0..<3]) \<le> 2
   \<and> (\<exists>q. items (snd (Get (demo_env 101 ''a'' ''b'') ''r1'' (run mem_store
             [(demo_env 7 ''a'' ''b'', OpSetLocalDecision ''r1'' True), (demo_env 8 ''a'' ''b'', OpGet ''r1''),
              (demo_env 9 ''a'' ''b'', OpSetResult ''r1'' StatusConnected [])] demo_store))) ''r1'' = Some q \<and> \<not> open_request q)"
proof -
  let ?evs = "[(demo_env 7 ''a'' ''b'', OpSetLocalDecision ''r1'' True), (demo_env 8 ''a'' ''b'', OpGet ''r1''),
               (demo_env 9 ''a'' ''b'', OpSetResult ''r1'' StatusConnected [])]"
  have i: "items demo_store ''r1'' = Some demo_request" and u: "undisturbed ''r1'' ?evs"
    by (simp_all add: creates_def demo_store_def)
  have l: "length ?evs = 3" and p: "req_Status demo_request = StatusPendingLocalConfirm"
    and e: "req_ExpiresAt demo_request < now (demo_env 101 ''a'' ''b'')"
    by (simp_all add: demo_request_def demo_env_def)
  note s = request_settles [OF i u]
  from conjunct1 [OF s] have "length (filter (changed_at ?evs demo_store ''r1'') [0..<3]) \<le> 2" by (simp only: l p if_True refl)
  moreover note conjunct2 [OF s, rule_format, OF e]
  ultimately show ?thesis by (rule conjI)
qed

section \<open>Listing\<close>

definition pending_at :: "InMemoryStore \<Rightarrow> string \<Rightarrow> string \<times> time \<Rightarrow> ConnectionRequest option" where
  "pending_at s dev v =
     (case items s (fst v) of
        None \<Rightarrow> None
      | Some r \<Rightarrow> (if req_DeviceID r = dev \<and> req_Status r = StatusPendingLocalConfirm
                      \<and> snd v \<le> req_ExpiresAt r
                   then Some r else None))"

lemma expire_pending:
  "req_Status (expireIfNeeded t r) = StatusPendingLocalConfirm
   \<longleftrightarrow> req_Status r = StatusPendingLocalConfirm \<and> t \<le> req_ExpiresAt r"
  by (auto simp: expireIfNeeded_def)

lemma loop_result:
  assumes "distinct (map fst ord)"
  shows "fst (list_pending_loop dev ord out s) = out @ filter_map (pending_at s dev) ord"
  using assms
proof (induction dev ord out s rule: list_pending_loop.induct)
  case (2 dev rid t ord out s)
  show ?case
  proof (cases "items s rid")
    case None
    with 2 show ?thesis by (simp add: pending_at_def)
  next
    case (Some r)
    let ?s = "s\<lparr>items := (items s)(rid \<mapsto> expireIfNeeded t r)\<rparr>"
    have "pending_at ?s dev v = pending_at s dev v" if "v \<in> set ord" for v
      using that "2.prems" by (force simp: pending_at_def)
    then have rest: "filter_map (pending_at ?s dev) ord = filter_map (pending_at s dev) ord"
      by (rule filter_map_cong)
    have "pending_at s dev (rid, t)
          = (if req_DeviceID r = dev \<and> req_Status (expireIfNeeded t r) = StatusPendingLocalConfirm
             then Some (expireIfNeeded t r) else None)"
      using Some by (auto simp: pending_at_def expire_pending expireIfNeeded_def)
    with Some "2.IH"(2) [OF Some refl] "2.prems" rest show ?thesis
      by (simp add: Let_def)
  qed
qed simp

text \<open>
  C22. The agent's poll returns exactly the requests waiting for its device: with any visiting order
  of the map, a request is listed if and only if it is stored for that device, is pending, and had
  not expired when it was visited; no request is listed twice and none is altered in the answer.
\<close>

theorem list_pending_exact:
  assumes "store_ok s" and "range_order (visits e) (items s)"
  shows "set (fst (ListPendingForDevice e dev s))
           = {r. \<exists>rid t. (rid, t) \<in> set (visits e) \<and> items s rid = Some r \<and> req_DeviceID r = dev
                         \<and> req_Status r = StatusPendingLocalConfirm \<and> t \<le> req_ExpiresAt r}
         \<and> distinct (map req_ID (fst (ListPendingForDevice e dev s)))"
proof -
  have d: "distinct (map fst (visits e))" using assms(2) by (simp add: range_order_def)
  have r: "fst (ListPendingForDevice e dev s) = filter_map (pending_at s dev) (visits e)"
    by (simp add: ListPendingForDevice_def loop_result [OF d])
  have id: "pending_at s dev v = Some q \<Longrightarrow> req_ID q = fst v" for v q
    using store_okD(1) [OF assms(1)] by (auto simp: pending_at_def req_ok_def split: option.splits if_splits)
  have "distinct (map req_ID (filter_map (pending_at s dev) (visits e)))"
    by (rule distinct_filter_map [OF d]) (rule id)
  moreover have "pending_at s dev (rid, t) = Some q \<longleftrightarrow> items s rid = Some q \<and> req_DeviceID q = dev
      \<and> req_Status q = StatusPendingLocalConfirm \<and> t \<le> req_ExpiresAt q" for rid t q
    by (auto simp: pending_at_def split: option.splits)
  ultimately show ?thesis by (auto simp: r set_filter_map Bex_def)
qed

lemma demo_request_sel [simp]:
  "req_ID demo_request = ''r1''" "req_DeviceID demo_request = ''dev_1''"
  "req_Status demo_request = StatusPendingLocalConfirm" "req_ExpiresAt demo_request = 100"
  by (simp_all add: demo_request_def)

lemma demo_store_sel [simp]:
  "items demo_store = [''r1'' \<mapsto> demo_request]"
  "installSessions demo_store = Map.empty" "installTokens demo_store = Map.empty"
  by (simp_all add: demo_store_def NewInMemoryStore_def)

lemma demo_store_ok: "store_ok demo_store"
  by (simp add: store_ok_def requests_ok_def installs_ok_def req_ok_def)
     (simp add: demo_request_def)

theorem list_pending_exact_witness:
  "set (fst (ListPendingForDevice ((demo_env 5 ''a'' ''b'')\<lparr>visits := [(''r1'', 6)]\<rparr>) ''dev_1'' demo_store))
     = {demo_request}"
proof -
  let ?e = "(demo_env 5 ''a'' ''b'')\<lparr>visits := [(''r1'', 6)]\<rparr>"
  have "range_order (visits ?e) (items demo_store)"
    by (simp add: range_order_def)
  from list_pending_exact [OF demo_store_ok this, of "''dev_1''", THEN conjunct1]
  show ?thesis by (simp add: conj_commute cong: conj_cong)
qed

end
