(* ===== verification/Sessions.thy ===== *)
theory Sessions
  imports History
begin

text \<open>
  Install sessions and their one-time tokens: the session machine \<open>sess_step\<close>, its refinement by
  the store, where a token comes from and where it goes, and what a redeemed token or an installed
  session says about the history of calls.
\<close>

section \<open>The session machine\<close>

datatype sess_cause =
    SKept
  | SLapsed time
  | SApproval bool time
  | SIdentity string string time
  | SResult InstallStatus string time

definition live_session :: "InstallSession \<Rightarrow> bool" where
  "live_session q \<longleftrightarrow> sess_Status q \<noteq> InstallStatusInstalled \<and> sess_Status q \<noteq> InstallStatusFailed"

inductive sess_step :: "InstallSession \<Rightarrow> sess_cause \<Rightarrow> InstallSession \<Rightarrow> bool" where
  skept: "sess_step q SKept q"
| slapsed: "sess_ExpiresAt q < t \<Longrightarrow> live_session q
    \<Longrightarrow> sess_step q (SLapsed t)
          (q\<lparr>sess_Status := InstallStatusFailed,
             sess_ReasonCode := (if sess_ReasonCode q = [] then ''Expired'' else sess_ReasonCode q)\<rparr>)"
| sapproved: "t \<le> sess_ExpiresAt q \<Longrightarrow> sess_Status q = InstallStatusRequested
    \<Longrightarrow> sess_step q (SApproval True t) (q\<lparr>sess_Status := InstallStatusApproved\<rparr>)"
| sdenied: "t \<le> sess_ExpiresAt q \<Longrightarrow> sess_Status q = InstallStatusRequested
    \<Longrightarrow> sess_step q (SApproval False t)
          (q\<lparr>sess_Status := InstallStatusFailed, sess_ReasonCode := ''Denied''\<rparr>)"
| sidentity: "t \<le> sess_ExpiresAt q \<Longrightarrow> open_session q \<Longrightarrow> \<not> blank c \<Longrightarrow> \<not> blank d
    \<Longrightarrow> sess_step q (SIdentity c d t)
          (q\<lparr>sess_ConnectorID := TrimSpace c, sess_DeviceID := TrimSpace d\<rparr>)"
| sresult: "t \<le> sess_ExpiresAt q \<Longrightarrow> sess_Status q = InstallStatusApproved
    \<Longrightarrow> x = InstallStatusFailed
        \<or> x = InstallStatusInstalled \<and> \<not> blank (sess_ConnectorID q) \<and> \<not> blank (sess_DeviceID q)
    \<Longrightarrow> sess_step q (SResult x rc t) (q\<lparr>sess_Status := x, sess_ReasonCode := rc\<rparr>)"

inductive_simps sess_step_simps [simp]:
  "sess_step q SKept q'" "sess_step q (SLapsed t) q'" "sess_step q (SApproval True t) q'"
  "sess_step q (SApproval False t) q'" "sess_step q (SIdentity c d t) q'" "sess_step q (SResult x rc t) q'"

lemma sess_step_frame:
  assumes "sess_step q k q'"
  shows "sess_ID q' = sess_ID q" "sess_ExpiresAt q' = sess_ExpiresAt q"
    "sess_OpenClawUserID q' = sess_OpenClawUserID q"
  using assms by (induction, simp_all)+

lemma sess_step_closed: "sess_step q k q' \<Longrightarrow> \<not> live_session q \<Longrightarrow> q' = q"
  by (induction rule: sess_step.induct) (auto simp: live_session_def open_session_def)

fun sess_justifies :: "'x store_env_scheme \<Rightarrow> store_op \<Rightarrow> outcome \<Rightarrow> string \<Rightarrow> sess_cause \<Rightarrow> bool" where
  "sess_justifies e c out sid SKept = True"
| "sess_justifies e c out sid (SLapsed t) = (t = now e)"
| "sess_justifies e c out sid (SApproval a t) =
     (c = OpSetApproval sid a \<and> t = now e \<and> op_ok out)"
| "sess_justifies e c out sid (SIdentity ci di t) =
     (c = OpSetIdentity sid ci di \<and> t = now e \<and> op_ok out)"
| "sess_justifies e c out sid (SResult x rc t) =
     (c = OpSetInstallResult sid x rc \<and> t = now e \<and> op_ok out)"

definition valid_install :: "CreateInstallInput \<Rightarrow> bool" where
  "valid_install inp \<longleftrightarrow> cii_OpenClawUserID inp \<noteq> [] \<and> 0 < cii_TTL inp"

definition opens_session :: "'x store_env_scheme \<Rightarrow> store_op \<Rightarrow> string \<Rightarrow> bool" where
  "opens_session e c sid \<longleftrightarrow>
     (\<exists>inp. c = OpCreateInstall inp \<and> valid_install inp) \<and> randomID (rand1 e) = sid"

definition mints :: "'x store_env_scheme \<Rightarrow> store_op \<Rightarrow> string \<Rightarrow> bool" where
  "mints e c d \<longleftrightarrow>
     (\<exists>inp. c = OpCreateInstall inp \<and> valid_install inp) \<and> digestInstallToken (randomID (rand2 e)) = d"

section \<open>Frames\<close>

lemma loop_sessions [simp]:
  "installSessions (snd (list_pending_loop dev ord out s)) = installSessions s"
  "installTokens (snd (list_pending_loop dev ord out s)) = installTokens s"
  by (induction dev ord out s rule: list_pending_loop.induct)
     (auto simp: Let_def split: option.splits)

lemma request_ops_sessions:
  "installSessions (snd (Create e inp s)) = installSessions s"
  "installSessions (snd (Get e rid s)) = installSessions s"
  "installSessions (snd (SetLocalDecision e rid a s)) = installSessions s"
  "installSessions (snd (SetResult e rid x rc s)) = installSessions s"
  "installSessions (snd (ListPendingForDevice e dev s)) = installSessions s"
  "installTokens (snd (Create e inp s)) = installTokens s"
  "installTokens (snd (Get e rid s)) = installTokens s"
  "installTokens (snd (SetLocalDecision e rid a s)) = installTokens s"
  "installTokens (snd (SetResult e rid x rc s)) = installTokens s"
  "installTokens (snd (ListPendingForDevice e dev s)) = installTokens s"
  by (simp_all add: Create_def Get_def SetLocalDecision_def SetResult_def ListPendingForDevice_def
        Let_def split: option.split)

section \<open>The store refines the session machine\<close>

lemma lapse_step:
  assumes "expireInstallIfNeeded t q = (q', True)"
  shows "sess_step q (SLapsed t) q'"
  using assms by (auto simp: expireInstallIfNeeded_def live_session_def split: if_splits)

lemma fresh_time:
  assumes "expireInstallIfNeeded t q = (q', False)" and "live_session q"
  shows "t \<le> sess_ExpiresAt q"
  using assms by (auto simp: expireInstallIfNeeded_def live_session_def split: if_splits)

lemma open_live: "open_session q \<Longrightarrow> live_session q"
  by (auto simp: open_session_def live_session_def)

lemma requested_live: "sess_Status q = InstallStatusRequested \<Longrightarrow> live_session q"
  "sess_Status q = InstallStatusApproved \<Longrightarrow> live_session q"
  by (simp_all add: live_session_def)

lemma session_step_own:
  assumes "installSessions s sid = Some q"
  shows "\<exists>k q'. installSessions (snd (GetInstallSession e sid s)) sid = Some q' \<and> sess_step q k q'
           \<and> sess_justifies e (OpGetInstall sid) (SessionOut (fst (GetInstallSession e sid s))) sid k"
    and "\<exists>k q'. installSessions (snd (SetInstallApproval e sid a s)) sid = Some q' \<and> sess_step q k q'
           \<and> sess_justifies e (OpSetApproval sid a) (SessionOut (fst (SetInstallApproval e sid a s))) sid k"
    and "\<exists>k q'. installSessions (snd (SetInstallIdentity e sid ci di s)) sid = Some q' \<and> sess_step q k q'
           \<and> sess_justifies e (OpSetIdentity sid ci di)
                (SessionOut (fst (SetInstallIdentity e sid ci di s))) sid k"
    and "\<exists>k q'. installSessions (snd (SetInstallResult e sid x rc s)) sid = Some q' \<and> sess_step q k q'
           \<and> sess_justifies e (OpSetInstallResult sid x rc)
                (SessionOut (fst (SetInstallResult e sid x rc s))) sid k"
proof -
  note f = put_session_def deleteInstallTokensForSession_def
  let ?x = "expireInstallIfNeeded (now e) q"
  show "\<exists>k q'. installSessions (snd (GetInstallSession e sid s)) sid = Some q' \<and> sess_step q k q'
           \<and> sess_justifies e (OpGetInstall sid) (SessionOut (fst (GetInstallSession e sid s))) sid k"
    using assms by (cases rule: expireInstall_cases [of "now e" q])
      (auto simp: GetInstallSession_def f dest: lapse_step simp del: sess_step_simps intro: skept)
  show "\<exists>k q'. installSessions (snd (SetInstallApproval e sid a s)) sid = Some q' \<and> sess_step q k q'
           \<and> sess_justifies e (OpSetApproval sid a) (SessionOut (fst (SetInstallApproval e sid a s))) sid k"
  proof (cases rule: expireInstall_cases [of "now e" q])
    case fresh
    show ?thesis
    proof (cases "sess_Status q = InstallStatusRequested")
      case True
      with fresh assms show ?thesis
        by (intro exI [of _ "SApproval a (now e)"])
           (cases a; auto simp: SetInstallApproval_def Let_def f)
    next
      case False
      with fresh assms show ?thesis
        by (intro exI [of _ SKept]) (auto simp: SetInstallApproval_def)
    qed
  next
    case (lapsed q')
    with assms lapse_step [OF lapsed(1)] show ?thesis
      by (intro exI [of _ "SLapsed (now e)"]) (auto simp: SetInstallApproval_def f simp del: sess_step_simps)
  qed
  show "\<exists>k q'. installSessions (snd (SetInstallIdentity e sid ci di s)) sid = Some q' \<and> sess_step q k q'
           \<and> sess_justifies e (OpSetIdentity sid ci di)
                (SessionOut (fst (SetInstallIdentity e sid ci di s))) sid k"
  proof (cases rule: expireInstall_cases [of "now e" q])
    case fresh
    show ?thesis
    proof (cases "\<not> blank ci \<and> \<not> blank di \<and> open_session q")
      case True
      with fresh open_live [of q] assms show ?thesis
        by (intro exI [of _ "SIdentity ci di (now e)"])
           (auto simp: SetInstallIdentity_def Let_def f open_session_def live_session_def)
    next
      case False
      with fresh assms show ?thesis
        by (intro exI [of _ SKept]) (auto simp: SetInstallIdentity_def open_session_def)
    qed
  next
    case (lapsed q')
    show ?thesis
    proof (cases "blank ci \<or> blank di")
      case True
      with assms show ?thesis by (intro exI [of _ SKept]) (auto simp: SetInstallIdentity_def)
    next
      case False
      with lapsed assms lapse_step [OF lapsed(1)] show ?thesis
        by (intro exI [of _ "SLapsed (now e)"]) (auto simp: SetInstallIdentity_def f simp del: sess_step_simps)
    qed
  qed
  show "\<exists>k q'. installSessions (snd (SetInstallResult e sid x rc s)) sid = Some q' \<and> sess_step q k q'
           \<and> sess_justifies e (OpSetInstallResult sid x rc)
                (SessionOut (fst (SetInstallResult e sid x rc s))) sid k"
  proof (cases rule: expireInstall_cases [of "now e" q])
    case fresh
    show ?thesis
    proof (cases "sess_Status q = InstallStatusApproved \<and> (x = InstallStatusFailed
        \<or> x = InstallStatusInstalled \<and> \<not> blank (sess_ConnectorID q) \<and> \<not> blank (sess_DeviceID q))")
      case True
      with fresh assms show ?thesis
        by (intro exI [of _ "SResult x rc (now e)"]) (auto simp: SetInstallResult_def Let_def f)
    next
      case False
      with fresh assms show ?thesis
        by (intro exI [of _ SKept]) (auto simp: SetInstallResult_def)
    qed
  next
    case (lapsed q')
    with assms lapse_step [OF lapsed(1)] show ?thesis
      by (intro exI [of _ "SLapsed (now e)"]) (auto simp: SetInstallResult_def f simp del: sess_step_simps)
  qed
qed


lemma session_other:
  assumes "k \<noteq> sid"
  shows "installSessions (snd (GetInstallSession e k s)) sid = installSessions s sid"
    "installSessions (snd (SetInstallApproval e k a s)) sid = installSessions s sid"
    "installSessions (snd (SetInstallIdentity e k ci di s)) sid = installSessions s sid"
    "installSessions (snd (SetInstallResult e k x rc s)) sid = installSessions s sid"
  using assms
  by (simp_all add: store_ops_defs Let_def split: option.split prod.split)

lemma redeem_sessions:
  "installSessions (snd (RedeemInstallToken e tok s)) sid = installSessions s sid
   \<or> (\<exists>q q'. installSessions s sid = Some q \<and> expireInstallIfNeeded (now e) q = (q', True)
             \<and> installSessions (snd (RedeemInstallToken e tok s)) sid = Some q')"
  by (auto simp: RedeemInstallToken_def put_session_def deleteInstallTokensForSession_def
           split: option.split prod.split)

lemma session_entry_step:
  assumes "installSessions s sid = Some q" and "\<not> opens_session e c sid"
  shows "\<exists>k q'. installSessions (snd (perform mem_store e c s)) sid = Some q' \<and> sess_step q k q'
               \<and> sess_justifies e c (fst (perform mem_store e c s)) sid k"
proof (cases c)
  case (OpCreateInstall inp)
  with assms show ?thesis
    by (intro exI [of _ SKept])
       (auto simp: CreateInstallSession_def put_session_def Let_def opens_session_def valid_install_def)
next
  case (OpGetInstall k)
  show ?thesis
  proof (cases "k = sid")
    case True
    with OpGetInstall session_step_own(1) [OF assms(1)] show ?thesis by simp
  next
    case False
    with OpGetInstall assms(1) show ?thesis
      by (intro exI [of _ SKept]) (simp add: session_other [OF False])
  qed
next
  case (OpSetApproval k a)
  show ?thesis
  proof (cases "k = sid")
    case True
    with OpSetApproval session_step_own(2) [OF assms(1)] show ?thesis by simp
  next
    case False
    with OpSetApproval assms(1) show ?thesis
      by (intro exI [of _ SKept]) (simp add: session_other [OF False])
  qed
next
  case (OpSetIdentity k ci di)
  show ?thesis
  proof (cases "k = sid")
    case True
    with OpSetIdentity session_step_own(3) [OF assms(1)] show ?thesis by simp
  next
    case False
    with OpSetIdentity assms(1) show ?thesis
      by (intro exI [of _ SKept]) (simp add: session_other [OF False])
  qed
next
  case (OpSetInstallResult k x rc)
  show ?thesis
  proof (cases "k = sid")
    case True
    with OpSetInstallResult session_step_own(4) [OF assms(1)] show ?thesis by simp
  next
    case False
    with OpSetInstallResult assms(1) show ?thesis
      by (intro exI [of _ SKept]) (simp add: session_other [OF False])
  qed
next
  case (OpRedeem tok)
  from redeem_sessions [of e tok s sid] show ?thesis
  proof
    assume "installSessions (snd (RedeemInstallToken e tok s)) sid = installSessions s sid"
    with OpRedeem assms(1) show ?thesis by (intro exI [of _ SKept]) simp
  next
    assume "\<exists>q q'. installSessions s sid = Some q \<and> expireInstallIfNeeded (now e) q = (q', True)
             \<and> installSessions (snd (RedeemInstallToken e tok s)) sid = Some q'"
    with OpRedeem assms(1) show ?thesis
      by (intro exI [of _ "SLapsed (now e)"]) (auto dest: lapse_step simp del: sess_step_simps)
  qed
qed (use assms(1) in \<open>intro exI [of _ SKept], simp add: request_ops_sessions\<close>)+

section \<open>Tokens\<close>

lemma token_origin_step:
  assumes "installTokens (snd (perform mem_store e c s)) d = Some sid"
  shows "installTokens s d = Some sid \<or> mints e c d \<and> opens_session e c sid"
proof (cases c)
  case (OpCreateInstall inp)
  with assms show ?thesis
    by (auto simp: CreateInstallSession_def put_session_def Let_def mints_def opens_session_def
          valid_install_def split: if_splits)
qed (use assms in \<open>auto simp: request_ops_sessions store_ops_defs Let_def
        split: option.splits if_splits prod.splits\<close>)

lemma unminted_stays_gone:
  assumes "installTokens s d = None" and "\<forall>x \<in> set evs. \<not> mints (fst x) (snd x) d"
  shows "installTokens (run mem_store evs s) d = None"
  using assms
proof (induction evs arbitrary: s)
  case (Cons x evs)
  obtain e c where x: "x = (e, c)" by (cases x)
  have "installTokens (snd (perform mem_store e c s)) d = None"
  proof (cases "installTokens (snd (perform mem_store e c s)) d")
    case (Some sid)
    with token_origin_step [OF Some] Cons.prems x show ?thesis by auto
  qed
  with Cons x show ?case by simp
qed simp

lemma redeemed_gone:
  assumes "store_ok s" and "fst (RedeemInstallToken e tok s) = Inr q"
  shows "installTokens (snd (RedeemInstallToken e tok s)) (digestInstallToken tok) = None"
proof -
  from assms(2) obtain sid where sid: "installTokens s (digestInstallToken tok) = Some sid"
    and r: "installSessions s sid = Some q"
    by (auto simp: RedeemInstallToken_def expireInstallIfNeeded_def split: option.splits prod.splits if_splits)
  from store_okD(2) [OF assms(1) r] have "sess_ID q = sid" by (simp add: sess_ok_def)
  with assms(2) sid r show ?thesis
    by (auto simp: RedeemInstallToken_def deleteInstallTokensForSession_def put_session_def
             split: option.splits prod.splits if_splits)
qed

lemma redeem_absent:
  "installTokens s (digestInstallToken tok) = None
   \<Longrightarrow> RedeemInstallToken e tok s = (Inl ErrNotFound, s)"
  by (simp add: RedeemInstallToken_def)

lemma redeem_success:
  assumes "fst (RedeemInstallToken e tok s) = Inr q"
  obtains sid where "installTokens s (digestInstallToken tok) = Some sid"
    "installSessions s sid = Some q" "sess_Status q = InstallStatusApproved" "now e \<le> sess_ExpiresAt q"
  using assms
  by (auto simp: RedeemInstallToken_def expireInstallIfNeeded_def
           split: option.splits prod.splits if_splits)

lemma token_origin:
  assumes "installTokens (after evs) d = Some sid"
  shows "\<exists>pre e inp post. evs = pre @ (e, OpCreateInstall inp) # post
           \<and> randomID (rand1 e) = sid \<and> digestInstallToken (randomID (rand2 e)) = d"
  using assms
proof (induction evs rule: rev_induct)
  case (snoc x evs)
  obtain e c where x: "x = (e, c)" by (cases x)
  from snoc.prems have "installTokens (snd (perform mem_store e c (after evs))) d = Some sid"
    by (simp add: x run_snoc)
  from token_origin_step [OF this] show ?case
  proof
    assume "installTokens (after evs) d = Some sid"
    from snoc.IH [OF this] obtain pre e0 inp post where
      "evs = pre @ (e0, OpCreateInstall inp) # post"
      "randomID (rand1 e0) = sid" "digestInstallToken (randomID (rand2 e0)) = d" by blast
    then show ?thesis
      by (intro exI [of _ pre] exI [of _ e0] exI [of _ inp] exI [of _ "post @ [x]"]) simp
  next
    assume "mints e c d \<and> opens_session e c sid"
    then show ?thesis by (auto simp: x mints_def opens_session_def)
  qed
qed simp

section \<open>What a status says about the past\<close>

lemma session_dom:
  assumes "installSessions s sid = None"
    and "installSessions (snd (perform mem_store e c s)) sid = Some q"
  shows "opens_session e c sid"
  using assms
  by (cases c)
     (auto simp: request_ops_sessions store_ops_defs Let_def opens_session_def valid_install_def
        split: option.splits if_splits prod.splits)

lemma opened_requested:
  assumes "opens_session e c sid" and "installSessions (snd (perform mem_store e c s)) sid = Some q"
  shows "sess_Status q = InstallStatusRequested"
  using assms by (auto simp: opens_session_def valid_install_def CreateInstallSession_def put_session_def Let_def)

lemma session_origin:
  assumes "installSessions (snd (perform mem_store e c s)) sid = Some q'"
    and "sess_Status q' \<noteq> InstallStatusRequested"
  obtains q k where "installSessions s sid = Some q" "\<not> opens_session e c sid" "sess_step q k q'"
    "sess_justifies e c (fst (perform mem_store e c s)) sid k"
proof -
  have no: "\<not> opens_session e c sid" using opened_requested assms by blast
  then obtain q where q: "installSessions s sid = Some q"
    using session_dom [of s sid e c q'] assms(1) by fastforce
  from session_entry_step [OF q no] assms(1) that [OF q no] show thesis by auto
qed

lemma approval_origin:
  assumes "installSessions (after evs) sid = Some q" and "sess_Status q = InstallStatusApproved"
  shows "\<exists>pre e post. evs = pre @ (e, OpSetApproval sid True) # post
           \<and> answered pre e (OpSetApproval sid True) \<and> now e \<le> sess_ExpiresAt q"
  using assms
proof (induction evs arbitrary: q rule: rev_induct)
  case (snoc x evs)
  obtain e c where x: "x = (e, c)" by (cases x)
  have q: "installSessions (snd (perform mem_store e c (after evs))) sid = Some q"
    using snoc.prems(1) by (simp add: x run_snoc)
  have "sess_Status q \<noteq> InstallStatusRequested" using snoc.prems(2) by auto
  from q this obtain p k where p: "installSessions (after evs) sid = Some p"
    and step: "sess_step p k q"
    and why: "sess_justifies e c (fst (perform mem_store e c (after evs))) sid k"
    by (rule session_origin)
  have keep: ?case if "sess_Status p = InstallStatusApproved" "sess_ExpiresAt p = sess_ExpiresAt q"
  proof -
    from snoc.IH [OF p that(1)] that(2) obtain pre e0 post where
      "evs = pre @ (e0, OpSetApproval sid True) # post" "answered pre e0 (OpSetApproval sid True)"
      "now e0 \<le> sess_ExpiresAt q" by auto
    then show ?thesis
      by (intro exI [of _ pre] exI [of _ e0] exI [of _ "post @ [x]"]) simp
  qed
  show ?case
  proof (cases k)
    case (SApproval a t)
    show ?thesis
    proof (cases a)
      case True
      with SApproval step why snoc.prems(2) show ?thesis
        by (intro exI [of _ evs] exI [of _ e] exI [of _ "[]"]) (auto simp: x answered_def)
    qed (use SApproval step snoc.prems(2) in auto)
  qed (use step snoc.prems(2) keep in auto)
qed simp

lemma installed_origin:
  assumes "installSessions (after evs) sid = Some q" and "sess_Status q = InstallStatusInstalled"
  shows "\<exists>pre e post p. evs = pre @ (e, OpSetInstallResult sid InstallStatusInstalled (sess_ReasonCode q)) # post
           \<and> answered pre e (OpSetInstallResult sid InstallStatusInstalled (sess_ReasonCode q))
           \<and> installSessions (after pre) sid = Some p \<and> sess_Status p = InstallStatusApproved"
  using assms
proof (induction evs arbitrary: q rule: rev_induct)
  case (snoc x evs)
  obtain e c where x: "x = (e, c)" by (cases x)
  have q: "installSessions (snd (perform mem_store e c (after evs))) sid = Some q"
    using snoc.prems(1) by (simp add: x run_snoc)
  have "sess_Status q \<noteq> InstallStatusRequested" using snoc.prems(2) by auto
  from q this obtain p k where p: "installSessions (after evs) sid = Some p"
    and step: "sess_step p k q"
    and why: "sess_justifies e c (fst (perform mem_store e c (after evs))) sid k"
    by (rule session_origin)
  show ?case
  proof (cases k)
    case SKept
    with step p snoc.IH [of q] snoc.prems(2) obtain pre e0 post p0 where
      "evs = pre @ (e0, OpSetInstallResult sid InstallStatusInstalled (sess_ReasonCode q)) # post"
      "answered pre e0 (OpSetInstallResult sid InstallStatusInstalled (sess_ReasonCode q))"
      "installSessions (after pre) sid = Some p0" "sess_Status p0 = InstallStatusApproved" by auto
    then show ?thesis
      by (intro exI [of _ pre] exI [of _ e0] exI [of _ "post @ [x]"] exI [of _ p0]) simp
  next
    case (SApproval a t)
    with step snoc.prems(2) show ?thesis by (cases a) auto
  next
    case (SIdentity ci di t)
    with step snoc.prems(2) show ?thesis by (auto simp: open_session_def)
  next
    case (SResult y rc t)
    with step why p snoc.prems(2) show ?thesis
      by (intro exI [of _ evs] exI [of _ e] exI [of _ "[]"] exI [of _ p]) (auto simp: x answered_def)
  qed (use step snoc.prems(2) in auto)
qed simp

section \<open>Properties\<close>

definition demo_install :: CreateInstallInput where
  "demo_install = \<lparr>cii_OpenClawUserID = ''usr_1'', cii_DeviceID = [], cii_ConnectorID = [],
                   cii_SourceChannel = ''telegram'', cii_TTL = 5 * Minute\<rparr>"

text \<open>The history of a complete install: request, approve, redeem, register, report.\<close>

definition demo_calls :: "(store_env \<times> store_op) list" where
  "demo_calls =
     [(demo_env 0 ''s'' ''t'', OpCreateInstall demo_install),
      (demo_env 1 ''x'' ''y'', OpSetApproval (hex_encode ''s'') True)]"

definition demo_finish :: "(store_env \<times> store_op) list" where
  "demo_finish =
     [(demo_env 2 ''x'' ''y'', OpSetIdentity (hex_encode ''s'') (hex_encode ''c'') (hex_encode ''d'')),
      (demo_env 3 ''x'' ''y'', OpSetInstallResult (hex_encode ''s'') InstallStatusInstalled [])]"

lemmas demo_install_defs = demo_defs demo_install_def demo_calls_def demo_finish_def

lemma demo_calls_redeem:
  "\<exists>q. fst (RedeemInstallToken (demo_env 2 ''x'' ''y'') (hex_encode ''t'') (after demo_calls)) = Inr q
       \<and> sess_ID q = hex_encode ''s''"
  by (simp add: demo_install_defs)

text \<open>
  An install token is redeemed at most once. After a successful redemption, redeeming the same
  token again (white space at its ends aside) answers \<open>ErrNotFound\<close>, whatever calls come between,
  as long as none of them mints a token with the same digest.
\<close>

lemma token_redeems_once:
  assumes "store_ok s" and "fst (RedeemInstallToken e tok s) = Inr q"
    and "\<forall>x \<in> set evs. \<not> mints (fst x) (snd x) (digestInstallToken tok)"
    and "TrimSpace tok' = TrimSpace tok"
  shows "fst (RedeemInstallToken e' tok'
              (run mem_store evs (snd (RedeemInstallToken e tok s)))) = Inl ErrNotFound"
proof -
  have "digestInstallToken tok' = digestInstallToken tok"
    using assms(4) by (simp add: digestInstallToken_def)
  with unminted_stays_gone [OF redeemed_gone [OF assms(1,2)] assms(3)] show ?thesis
    by (simp add: redeem_absent)
qed

lemma token_redeems_once_witness:
  "fst (RedeemInstallToken (demo_env 9 ''x'' ''y'') (hex_encode ''t'')
          (run mem_store demo_finish
             (snd (RedeemInstallToken (demo_env 2 ''x'' ''y'') (hex_encode ''t'') (after demo_calls)))))
     = Inl ErrNotFound"
proof -
  obtain q where q: "fst (RedeemInstallToken (demo_env 2 ''x'' ''y'') (hex_encode ''t'') (after demo_calls)) = Inr q"
    using demo_calls_redeem by blast
  show ?thesis
    by (rule token_redeems_once [OF mem_run_ok [OF store_ok_new] q])
       (simp_all add: demo_finish_def mints_def)
qed

text \<open>
  C19. A token redeems only for an approved session. Whenever a redemption succeeds, the session it
  hands out was opened by the call that minted the token and was approved by an earlier successful
  approval call, and neither the approval nor the redemption came after the session's expiry.
\<close>

theorem redeemed_was_approved:
  assumes "fst (RedeemInstallToken e tok (after evs)) = Inr q"
  shows "\<exists>sid. sess_Status q = InstallStatusApproved \<and> now e \<le> sess_ExpiresAt q
           \<and> installSessions (after evs) sid = Some q
           \<and> (\<exists>pre e0 inp post. evs = pre @ (e0, OpCreateInstall inp) # post
                \<and> randomID (rand1 e0) = sid
                \<and> digestInstallToken (randomID (rand2 e0)) = digestInstallToken tok)
           \<and> (\<exists>pre e0 post. evs = pre @ (e0, OpSetApproval sid True) # post
                \<and> answered pre e0 (OpSetApproval sid True) \<and> now e0 \<le> sess_ExpiresAt q)"
proof -
  obtain sid where sid: "installTokens (after evs) (digestInstallToken tok) = Some sid"
    and q: "installSessions (after evs) sid = Some q" "sess_Status q = InstallStatusApproved"
    and t: "now e \<le> sess_ExpiresAt q"
    using assms by (rule redeem_success)
  from token_origin [OF sid] approval_origin [OF q] q t show ?thesis
    by (intro exI [of _ sid] conjI) auto
qed

theorem redeemed_was_approved_witness:
  "\<exists>sid pre e0 post. demo_calls = pre @ (e0, OpSetApproval sid True) # post
      \<and> answered pre e0 (OpSetApproval sid True)"
  using demo_calls_redeem redeemed_was_approved [of "demo_env 2 ''x'' ''y''" "hex_encode ''t''" demo_calls]
  by blast

text \<open>
  C20. An install is recorded as \<open>installed\<close> only after it was approved and only with an identity:
  the history holds a successful approval, later a successful \<open>installed\<close> report, and the stored
  connector and device IDs are both non-blank.
\<close>

theorem installed_was_approved:
  assumes "installSessions (after evs) sid = Some q" and "sess_Status q = InstallStatusInstalled"
  shows "\<not> blank (sess_ConnectorID q) \<and> \<not> blank (sess_DeviceID q)
         \<and> (\<exists>pre e mid e' post.
              evs = pre @ (e, OpSetApproval sid True) # mid
                    @ (e', OpSetInstallResult sid InstallStatusInstalled (sess_ReasonCode q)) # post
              \<and> answered pre e (OpSetApproval sid True)
              \<and> answered (pre @ (e, OpSetApproval sid True) # mid) e'
                   (OpSetInstallResult sid InstallStatusInstalled (sess_ReasonCode q)))"
proof -
  have "sess_ok sid q" by (rule store_okD(2) [OF mem_run_ok [OF store_ok_new] assms(1)])
  with assms(2) have "\<not> blank (sess_ConnectorID q) \<and> \<not> blank (sess_DeviceID q)"
    by (auto simp: sess_ok_def open_session_def)
  moreover from installed_origin [OF assms] obtain pre' e' post p where
    evs: "evs = pre' @ (e', OpSetInstallResult sid InstallStatusInstalled (sess_ReasonCode q)) # post"
    and a: "answered pre' e' (OpSetInstallResult sid InstallStatusInstalled (sess_ReasonCode q))"
    and p: "installSessions (after pre') sid = Some p" "sess_Status p = InstallStatusApproved" by blast
  moreover from approval_origin [OF p] obtain pre e mid where
    "pre' = pre @ (e, OpSetApproval sid True) # mid" "answered pre e (OpSetApproval sid True)" by blast
  ultimately show ?thesis
    by (intro conjI exI [of _ pre] exI [of _ e] exI [of _ mid] exI [of _ e'] exI [of _ post]) simp_all
qed

theorem installed_was_approved_witness:
  "\<exists>pre e mid e' post.
     demo_calls @ demo_finish = pre @ (e, OpSetApproval (hex_encode ''s'') True) # mid
       @ (e', OpSetInstallResult (hex_encode ''s'') InstallStatusInstalled []) # post"
proof -
  have "\<not> blank (hex_encode ''c'')" "\<not> blank (hex_encode ''d'')"
    unfolding TrimSpace_hex by (simp_all add: hex_encode_def)
  then have "\<exists>q. installSessions (after (demo_calls @ demo_finish)) (hex_encode ''s'') = Some q
            \<and> sess_Status q = InstallStatusInstalled \<and> sess_ReasonCode q = []"
    by (simp add: demo_install_defs)
  then obtain q where q: "installSessions (after (demo_calls @ demo_finish)) (hex_encode ''s'') = Some q"
    "sess_Status q = InstallStatusInstalled" "sess_ReasonCode q = []" by blast
  show ?thesis using installed_was_approved [OF q(1,2)] unfolding q(3) by blast
qed

text \<open>
  C18. The invariant holds in every reachable store: entries filed under their own IDs with the
  fields and statuses the code promises, and every install token leading to a session that is
  still open.
\<close>

theorem reachable_store_ok: "store_ok (after evs)"
  by (rule mem_run_ok [OF store_ok_new])

text \<open>
  C28. When the random source fails, identifiers are not fresh: two creations on a failing source
  get the same ID and nonce, so the second replaces the first request, and an install session
  created then has a token that anyone can compute.
\<close>

theorem rng_failure_reuses_identifiers:
  assumes "rand1 e = None" and "rand2 e = None" and "rand1 e' = None" and "rand2 e' = None"
    and "fst (Create e inp s) = Inr r" and "fst (Create e' inp' (snd (Create e inp s))) = Inr r'"
    and "fst (CreateInstallSession e cin s) = Inr (q, tok)"
  shows "req_ID r' = req_ID r \<and> req_Nonce r' = req_Nonce r
         \<and> items (snd (Create e' inp' (snd (Create e inp s)))) (req_ID r) = Some r'
         \<and> tok = ''00000000000000000000000000000000''"
  using assms
  by (auto simp: Create_def CreateInstallSession_def randomID_def Let_def split: if_splits)

theorem rng_failure_reuses_identifiers_witness:
  "\<exists>(e::store_env) q. fst (CreateInstallSession e demo_install NewInMemoryStore)
       = Inr (q, ''00000000000000000000000000000000'')"
proof -
  let ?e = "(demo_env 0 [] [])\<lparr>rand1 := None, rand2 := None\<rparr>"
  obtain r where r: "fst (Create ?e demo_input NewInMemoryStore) = Inr r"
    by (simp add: demo_defs)
  obtain r' where r': "fst (Create ?e demo_input (snd (Create ?e demo_input NewInMemoryStore))) = Inr r'"
    by (simp add: demo_defs)
  obtain q tok where q: "fst (CreateInstallSession ?e demo_install NewInMemoryStore) = Inr (q, tok)"
    by (simp add: demo_install_defs)
  from rng_failure_reuses_identifiers [OF _ _ _ _ r r' q] q show ?thesis
    by (intro exI [of _ ?e] exI [of _ q]) simp
qed

end
