(* ===== verification/Durability.thy ===== *)
theory Durability
  imports FileStore Sessions
begin

text \<open>
  What survives the control plane's process: over any history of calls, with any system call of any
  persist failing or cut short, the file always loads, and it holds the memory as it was after the
  last call whose persist went through.
\<close>

section \<open>Marshalling\<close>

text \<open>The only reason a state does not marshal is an instant outside the years JSON allows.\<close>

definition years_ok :: "InMemoryStore \<Rightarrow> bool" where
  "years_ok m \<longleftrightarrow>
     (\<forall>r \<in> ran (items m). year_ok (req_CreatedAt r) \<and> year_ok (req_ExpiresAt r))
     \<and> (\<forall>q \<in> ran (installSessions m). year_ok (sess_CreatedAt q) \<and> year_ok (sess_ExpiresAt q))"

lemma encode_map_total:
  assumes "\<forall>v \<in> ran m. \<exists>j. enc v = Inr j"
  shows "\<exists>j. encode_map enc m = Inr j"
proof -
  have "\<exists>kvs. encode_entries enc m ks = Inr kvs" for ks
  proof (induction ks)
    case (Cons k ks)
    then obtain kvs where kvs: "encode_entries enc m ks = Inr kvs" by blast
    show ?case
    proof (cases "m k")
      case (Some v)
      then obtain j where "enc v = Inr j" using assms ranI by metis
      with Some kvs show ?thesis by simp
    qed (simp add: kvs)
  qed simp
  then obtain kvs where "encode_entries enc m (sorted_list_of_set (dom m)) = Inr kvs" by blast
  then show ?thesis by (simp add: encode_map_def)
qed

lemma marshal_total: "years_ok m \<Longrightarrow> \<exists>j. marshal_state m = Inr j"
proof -
  assume y: "years_ok m"
  obtain a where "encode_map json_of_request (items m) = Inr a"
    using encode_map_total [of "items m" json_of_request] y
    by (auto simp: years_ok_def json_of_request_def marshal_time_def)
  moreover obtain b where "encode_map json_of_session (installSessions m) = Inr b"
    using encode_map_total [of "installSessions m" json_of_session] y
    by (auto simp: years_ok_def json_of_session_def marshal_time_def)
  moreover obtain c where "encode_map (\<lambda>sid. Inr (JStr sid)) (installTokens m) = Inr c"
    using encode_map_total [of "installTokens m" "\<lambda>sid. Inr (JStr sid)"] by auto
  ultimately show ?thesis by (simp add: marshal_state_def)
qed

section \<open>One call\<close>

text \<open>
  Every call of the file store performs the call of its memory and, if that succeeded, persists the
  memory it left; only the answers to a failed persist differ.
\<close>

lemma file_step:
  "snd (perform file_store e c s) =
     (let (g, m) = perform mem_store e c (fs_mem s)
      in if op_ok g then snd (persistLocked e (s\<lparr>fs_mem := m\<rparr>)) else s\<lparr>fs_mem := m\<rparr>)"
  by (cases c) (auto simp: file_ops_defs commit_def settle_def Let_def split: prod.splits sum.splits option.splits)

fun failed_outcome :: "err \<Rightarrow> outcome \<Rightarrow> bool" where
  "failed_outcome err (RequestOut r) = (r = Inl err)"
| "failed_outcome err (RequestsOut rs) = False"
| "failed_outcome err (SessionOut r) = (r = Inl err)"
| "failed_outcome err (TokenOut r) = (r = Inl err)"

lemma failed_not_ok: "failed_outcome err g \<Longrightarrow> \<not> op_ok g"
  by (cases g) auto

definition persist_error :: "'x file_env_scheme \<Rightarrow> store_op \<Rightarrow> FileStore \<Rightarrow> err option" where
  "persist_error e c s = fst (persistLocked e (s\<lparr>fs_mem := snd (perform mem_store e c (fs_mem s))\<rparr>))"

lemma file_answer:
  "\<not> writes_through c \<or> persist_error e c s = None \<Longrightarrow> fst (perform file_store e c s) = fst (perform mem_store e c (fs_mem s))"
  "writes_through c \<Longrightarrow> op_ok (fst (perform mem_store e c (fs_mem s))) \<Longrightarrow> persist_error e c s = Some err \<Longrightarrow>
   failed_outcome err (fst (perform file_store e c s))"
  by (cases c; auto simp: file_ops_defs commit_def settle_def persist_error_def Let_def split: prod.splits sum.splits option.splits)+

text \<open>The call left the memory on the disk.\<close>

definition persists :: "'x file_env_scheme \<Rightarrow> store_op \<Rightarrow> FileStore \<Rightarrow> bool" where
  "persists e c s \<longleftrightarrow> op_ok (fst (perform mem_store e c (fs_mem s))) \<and> persist_error e c s = None"

lemma acknowledged_persists:
  assumes "writes_through c" and "op_ok (fst (perform file_store e c s))"
  shows "persists e c s"
proof -
  have ok: "op_ok (fst (perform mem_store e c (fs_mem s)))" using assms(2) by (rule on_disk.answer_ok)
  with file_answer(2) [OF assms(1)] assms(2) failed_not_ok show ?thesis
    unfolding persists_def by (metis not_Some_eq)
qed

lemma perform_holds:
  assumes "holds s m" and "fs_path s \<noteq> []" and "finite_store (fs_mem s)"
  shows "holds (snd (perform file_store e c s)) (if persists e c s then fs_mem (snd (perform file_store e c s)) else m)"
proof -
  obtain g m' where p: "perform mem_store e c (fs_mem s) = (g, m')" by fastforce
  let ?s = "s\<lparr>fs_mem := m'\<rparr>"
  have h: "holds ?s m" by (rule holds_frame [OF assms(1)]) simp_all
  have mem: "fs_mem (snd (perform file_store e c s)) = m'" using on_disk.view_step [of e c s] p by simp
  have fin: "finite_store m'" using finite_perform [OF assms(3), of e c] p by simp
  show ?thesis
  proof (cases "op_ok g")
    case True
    show ?thesis
      by (rule persist_holds [of ?s m e])
        (use True p h mem fin assms(2) in \<open>auto simp: file_step persists_def persist_error_def\<close>)
  qed (use p h in \<open>simp add: file_step persists_def\<close>)
qed

lemma perform_path [simp]: "fs_path (snd (perform file_store e c s)) = fs_path s"
  by (cases c) (simp_all add: file_ops_defs split: prod.splits)

lemma run_path [simp]: "fs_path (run file_store evs s) = fs_path s"
  by (induction evs arbitrary: s) auto

section \<open>A history\<close>

text \<open>A file that loads gives finite maps, and it holds what it gave.\<close>

lemma decode_entries_finite:
  "finite (dom m) \<Longrightarrow> decode_entries dec kvs m = Inr m' \<Longrightarrow> finite (dom m')"
  by (induction dec kvs m arbitrary: m' rule: decode_entries.induct) (auto split: sum.splits)

lemma assign_map_finite:
  "finite (dom m) \<Longrightarrow> assign_map dec j m = Inr m' \<Longrightarrow> finite (dom m')"
  by (cases j) (auto dest: decode_entries_finite)

lemma decode_map_finite:
  "finite (dom m) \<Longrightarrow> decode_field (assign_map dec) name kvs m = Inr m' \<Longrightarrow> finite (dom m')"
proof (induction kvs arbitrary: m)
  case (Cons kv kvs)
  then show ?case
    by (cases kv) (auto dest: assign_map_finite split: if_splits sum.splits)
qed simp

lemma unmarshal_finite: "unmarshal_state j = Inr m \<Longrightarrow> finite_store m"
  by (auto simp: unmarshal_state_def res_bind_Inr finite_store_def dest: decode_map_finite [rotated])

lemma new_file_store:
  assumes "NewFileStore None path d = Inr s"
  shows "path \<noteq> []" and "fs_path s = path" and "fs_disk s = d"
    and "finite_store (fs_mem s)" and "holds s (fs_mem s)"
  using assms finite_store_new
  by (auto simp: NewFileStore_def load_def res_bind_Inr holds_def unmarshal_finite
      split: if_splits option.splits file_content.splits)

text \<open>The calls of a history that changed the store and were answered without an error.\<close>

definition acknowledged :: "('x file_env_scheme \<times> store_op) list \<Rightarrow> FileStore \<Rightarrow> nat \<Rightarrow> bool" where
  "acknowledged evs s i \<longleftrightarrow>
     i < length evs \<and> writes_through (snd (evs ! i))
     \<and> op_ok (fst (perform file_store (fst (evs ! i)) (snd (evs ! i)) (run file_store (take i evs) s)))"

lemma run_finite: "finite_store (fs_mem s) \<Longrightarrow> finite_store (fs_mem (run file_store evs s))"
  unfolding on_disk.run_view
  by (induction evs arbitrary: s rule: rev_induct) (auto simp: run_append finite_perform)

definition persisted :: "('x file_env_scheme \<times> store_op) list \<Rightarrow> FileStore \<Rightarrow> nat \<Rightarrow> bool" where
  "persisted evs s i \<longleftrightarrow>
     i < length evs \<and> persists (fst (evs ! i)) (snd (evs ! i)) (run file_store (take i evs) s)"

lemma acknowledged_persisted: "acknowledged evs s i \<Longrightarrow> persisted evs s i"
  by (simp add: acknowledged_def persisted_def acknowledged_persists)

lemma persisted_snoc:
  "persisted (evs @ [(e, c)]) s i \<longleftrightarrow>
     persisted evs s i \<or> i = length evs \<and> persists e c (run file_store evs s)"
  by (auto simp: persisted_def nth_append less_Suc_eq)

text \<open>The number of calls up to the last one that was persisted.\<close>

definition last_persisted :: "('x file_env_scheme \<times> store_op) list \<Rightarrow> FileStore \<Rightarrow> nat \<Rightarrow> bool" where
  "last_persisted evs s n \<longleftrightarrow>
     (\<forall>i. persisted evs s i \<longrightarrow> i < n) \<and> (n = 0 \<or> persisted evs s (n - 1))"

lemma last_persisted_le: "last_persisted evs s n \<Longrightarrow> n \<le> length evs"
  by (auto simp: last_persisted_def persisted_def)

lemma history_holds:
  assumes "holds s (fs_mem s)" and "fs_path s \<noteq> []" and "finite_store (fs_mem s)"
  shows "\<exists>n. last_persisted evs s n \<and> holds (run file_store evs s) (fs_mem (run file_store (take n evs) s))"
proof (induction evs rule: rev_induct)
  case Nil
  then show ?case using assms(1) by (simp add: last_persisted_def persisted_def)
next
  case (snoc x evs)
  obtain e c where x: "x = (e, c)" by (cases x)
  let ?s = "run file_store evs s"
  from snoc obtain n where n: "last_persisted evs s n" "holds ?s (fs_mem (run file_store (take n evs) s))" by blast
  have h: "holds (run file_store (evs @ [x]) s)
      (if persists e c ?s then fs_mem (run file_store (evs @ [x]) s) else fs_mem (run file_store (take n evs) s))"
    using perform_holds [OF n(2) _ run_finite [OF assms(3)], of e c] assms(2) by (simp add: x run_append split: if_splits)
  show ?case
  proof (cases "persists e c ?s")
    case True
    then have "last_persisted (evs @ [x]) s (Suc (length evs))"
      by (auto simp: last_persisted_def x persisted_snoc persisted_def)
    with True h show ?thesis by (intro exI [of _ "Suc (length evs)"]) simp
  next
    case False
    then have "last_persisted (evs @ [x]) s n" using n(1) by (simp add: last_persisted_def x persisted_snoc)
    with False h last_persisted_le [OF n(1)] show ?thesis by (intro exI [of _ n]) simp
  qed
qed

text \<open>Restarting the process: the file is loaded into a new store.\<close>

definition reopen :: "FileStore \<Rightarrow> FileStore res" where
  "reopen s = NewFileStore None (fs_path s) (fs_disk s)"

lemma holds_reopen: "holds s m \<Longrightarrow> reopen s = Inr (s\<lparr>fs_mem := m\<rparr>)"
  by (cases s) (simp add: holds_def reopen_def)

lemma commit_fault:
  "fst (commit e rm s) \<noteq> fst rm
   \<Longrightarrow> succeeds (fst rm) \<and> (\<exists>err. fst (persistLocked e (s\<lparr>fs_mem := snd rm\<rparr>)) = Some err
                                \<and> fst (commit e rm s) = Inl err)"
  by (auto simp: commit_def split: prod.splits sum.splits option.splits)

section \<open>Properties\<close>

text \<open>
  C5. Crash recovery. Take any history of calls on a store opened from a file, with any system call
  failing or leaving a partly written temporary file. Restarting then succeeds, and the memory
  after the restart is exactly the memory the process had after the last call whose persist went
  through (or the memory it started with, if none did): nothing that was not written by then is in it,
  and every call that changes the store and was answered without an error was persisted.
\<close>

theorem restart_recovers_acknowledged:
  assumes "NewFileStore None path d = Inr s"
  shows "\<exists>n r. n \<le> length evs \<and> reopen (run file_store evs s) = Inr r
           \<and> fs_mem r = fs_mem (run file_store (take n evs) s)
           \<and> (\<forall>i. persisted evs s i \<longrightarrow> i < n) \<and> (n = 0 \<or> persisted evs s (n - 1))
           \<and> (\<forall>i. acknowledged evs s i \<longrightarrow> persisted evs s i)"
proof -
  note new = new_file_store [OF assms]
  from history_holds [OF new(5) _ new(4), of evs] new(1,2) obtain n where
    n: "last_persisted evs s n" "holds (run file_store evs s) (fs_mem (run file_store (take n evs) s))" by auto
  moreover from n(2) have
    "reopen (run file_store evs s)
     = Inr ((run file_store evs s)\<lparr>fs_mem := fs_mem (run file_store (take n evs) s)\<rparr>)"
    by (rule holds_reopen)
  moreover have "fs_mem ((run file_store evs s)\<lparr>fs_mem := m\<rparr>) = m" for m by simp
  ultimately show ?thesis
    using last_persisted_le [OF n(1)] acknowledged_persisted [of evs s] unfolding last_persisted_def by blast
qed

definition demo_disk_env :: "time \<Rightarrow> string \<Rightarrow> string \<Rightarrow> err option \<Rightarrow> file_env" where
  "demo_disk_env t a b er =
     \<lparr>now = t, rand1 = Some a, rand2 = Some b, visits = [],
      mkdir_err = None, write_err = None, rename_err = er\<rparr>"

definition demo_new :: FileStore where
  "demo_new = \<lparr>fs_path = ''requests.json'', fs_mem = NewInMemoryStore, fs_disk = Map.empty\<rparr>"

lemma demo_marshal:
  assumes "t = 0 \<or> t = 1"
  shows "\<exists>j. marshal_state (snd (Create (demo_disk_env t a b er) demo_input NewInMemoryStore)) = Inr j"
  by (rule marshal_total) (use assms in \<open>auto simp: demo_defs demo_disk_env_def years_ok_def year_ok_def\<close>)

theorem restart_recovers_acknowledged_witness:
  "\<exists>r. reopen (run file_store [(demo_disk_env 0 ''a'' ''b'' None, OpCreate demo_input),
                               (demo_disk_env 1 ''c'' ''d'' (Some (ErrMsg ''io'')), OpCreate demo_input)] demo_new) = Inr r
       \<and> items (fs_mem r) (hex_encode ''a'') \<noteq> None \<and> items (fs_mem r) (hex_encode ''c'') = None"
proof -
  let ?e = "demo_disk_env 0 ''a'' ''b'' None" and ?f = "demo_disk_env 1 ''c'' ''d'' (Some (ErrMsg ''io''))"
  let ?evs = "[(?e, OpCreate demo_input), (?f, OpCreate demo_input)]"
  have "NewFileStore None ''requests.json'' Map.empty = Inr demo_new"
    by (simp add: NewFileStore_def load_def demo_new_def)
  from restart_recovers_acknowledged [OF this, of ?evs] obtain n r where
    n: "n \<le> length ?evs" "reopen (run file_store ?evs demo_new) = Inr r"
       "fs_mem r = fs_mem (run file_store (take n ?evs) demo_new)"
       "\<forall>i. persisted ?evs demo_new i \<longrightarrow> i < n" "n = 0 \<or> persisted ?evs demo_new (n - 1)" by blast
  obtain j where j: "marshal_state (snd (Create ?e demo_input NewInMemoryStore)) = Inr j"
    using demo_marshal by blast
  have "persists ?e (OpCreate demo_input) demo_new"
    using j by (simp add: persists_def persist_error_def demo_new_def persistLocked_def demo_disk_env_def demo_defs)
  then have "persisted ?evs demo_new 0" by (simp add: persisted_def)
  moreover have "\<not> persists ?f (OpCreate demo_input) t" for t
    by (auto simp: persists_def persist_error_def persistLocked_def demo_disk_env_def Let_def split: sum.splits)
  then have "\<not> persisted ?evs demo_new 1" by (simp add: persisted_def)
  ultimately have "n = 1" using n(1,4,5) by (cases n; cases "n - 1") auto
  with n(3) have "fs_mem r = fs_mem (run file_store (take 1 ?evs) demo_new)" by simp
  then have "fs_mem r = run mem_store (take 1 ?evs) NewInMemoryStore"
    unfolding on_disk.run_view by (simp add: demo_new_def)
  with n(2) show ?thesis by (simp add: demo_disk_env_def demo_defs)
qed

text \<open>
  A redeemed install token stays redeemed across a restart. If the file-backed store answers a
  redemption with a session, then the store reopened from the disk answers \<open>ErrNotFound\<close> to the same
  token, at once and after any further calls that do not mint that token again.
\<close>

lemma redeemed_survives_restart:
  assumes "store_ok (fs_mem s)" and "fs_path s \<noteq> []" and "holds s m"
    and "fst (FileStore_RedeemInstallToken e tok s) = Inr q"
    and "\<forall>x \<in> set evs. \<not> mints (fst x) (snd x) (digestInstallToken tok)"
  shows "\<exists>r. reopen (snd (FileStore_RedeemInstallToken e tok s)) = Inr r
             \<and> fst (FileStore_RedeemInstallToken e' tok (run file_store evs r)) = Inl ErrNotFound"
proof -
  let ?s = "snd (FileStore_RedeemInstallToken e tok s)"
  have mem: "fst (RedeemInstallToken e tok (fs_mem s)) = Inr q"
    using commit_answer [of e "RedeemInstallToken e tok (fs_mem s)" s] assms(4)
    by (simp add: FileStore_RedeemInstallToken_def)
  have "finite_store (fs_mem s)"
    using assms(1) by (simp add: store_ok_def requests_ok_def installs_ok_def finite_store_def)
  from perform_holds [OF assms(3,2) this, of e "OpRedeem tok"] acknowledged_persists [of "OpRedeem tok" e s] assms(4)
  have "reopen ?s = Inr (?s\<lparr>fs_mem := fs_mem ?s\<rparr>)" by (simp add: holds_reopen)
  moreover have "installTokens (fs_mem ?s) (digestInstallToken tok) = None"
    using redeemed_gone [OF assms(1) mem] by (simp add: FileStore_RedeemInstallToken_def)
  then have "installTokens (fs_mem (run file_store evs ?s)) (digestInstallToken tok) = None"
    unfolding on_disk.run_view by (rule unminted_stays_gone [OF _ assms(5)])
  ultimately show ?thesis
    by (simp add: FileStore_RedeemInstallToken_def commit_def redeem_absent)
qed

lemma redeem_now: "now e = now e' \<Longrightarrow> RedeemInstallToken e tok s = RedeemInstallToken e' tok s"
  unfolding RedeemInstallToken_def by (erule ssubst) (rule refl)

lemma demo_file_redeem:
  "\<exists>q. fst (FileStore_RedeemInstallToken (demo_disk_env 2 ''x'' ''y'' None) (hex_encode ''t'')
              (demo_new\<lparr>fs_mem := after demo_calls\<rparr>)) = Inr q"
proof -
  let ?e = "demo_disk_env 2 ''x'' ''y'' None"
  obtain q where q: "fst (RedeemInstallToken ?e (hex_encode ''t'') (after demo_calls)) = Inr q"
    using demo_calls_redeem redeem_now [of ?e "demo_env 2 ''x'' ''y''"]
    by (auto simp: demo_disk_env_def demo_env_def)
  have "years_ok (snd (RedeemInstallToken ?e (hex_encode ''t'') (after demo_calls)))"
    by (auto simp: RedeemInstallToken_def years_ok_def year_ok_def demo_install_defs ran_def
        split: option.splits prod.splits if_splits)
  then obtain j where "marshal_state (snd (RedeemInstallToken ?e (hex_encode ''t'') (after demo_calls))) = Inr j"
    using marshal_total by blast
  with q show ?thesis
    by (cases "RedeemInstallToken ?e (hex_encode ''t'') (after demo_calls)")
       (simp add: FileStore_RedeemInstallToken_def commit_def persistLocked_def demo_disk_env_def)
qed

lemma redeemed_survives_restart_witness:
  "\<exists>r. reopen (snd (FileStore_RedeemInstallToken (demo_disk_env 2 ''x'' ''y'' None) (hex_encode ''t'')
                      (demo_new\<lparr>fs_mem := after demo_calls\<rparr>))) = Inr r
       \<and> fst (FileStore_RedeemInstallToken (demo_disk_env 3 ''x'' ''y'' None) (hex_encode ''t'') (run file_store [] r))
         = Inl ErrNotFound"
proof -
  let ?s = "demo_new\<lparr>fs_mem := after demo_calls\<rparr>"
  obtain q where "fst (FileStore_RedeemInstallToken (demo_disk_env 2 ''x'' ''y'' None) (hex_encode ''t'') ?s) = Inr q"
    using demo_file_redeem by blast
  moreover have "holds ?s NewInMemoryStore"
    by (simp add: holds_def NewFileStore_def load_def demo_new_def)
  moreover have "store_ok (fs_mem ?s)" by (simp add: mem_run_ok [OF store_ok_new])
  moreover have "fs_path ?s \<noteq> []" by (simp add: demo_new_def)
  ultimately show ?thesis
    by (intro redeemed_survives_restart [of ?s NewInMemoryStore]) simp_all
qed

text \<open>
  C25. The file-backed store behaves as the in-memory one: over any history, with any disk faults,
  its memory moves exactly as the in-memory store's, and a call it answers without an error gets the
  in-memory answer; the only other outcome is an error of the file system or the encoder.
\<close>

theorem file_store_refines_memory:
  "fs_mem (run file_store evs s) = run mem_store evs (fs_mem s)
   \<and> (let S = run file_store evs s;
          f = fst (perform file_store e c S);
          (g, m) = perform mem_store e c (fs_mem S)
      in f = g \<or> writes_through c \<and> op_ok g \<and> (\<exists>err. fst (persistLocked e (S\<lparr>fs_mem := m\<rparr>)) = Some err
                                                  \<and> f \<in> {RequestOut (Inl err), SessionOut (Inl err), TokenOut (Inl err)}))"
  unfolding on_disk.run_view
  by (cases c) (auto simp: file_ops_defs Let_def case_prod_unfold dest: commit_fault)

lemma persist_error_disk:
  "persist_error e c s \<noteq> None \<Longrightarrow> fs_disk (snd (perform file_store e c s)) (fs_path s) = fs_disk s (fs_path s)"
  by (auto simp: file_step persist_error_def persistLocked_def Let_def split: prod.splits sum.splits option.splits)

lemma decided_not_again:
  assumes "SetLocalDecision e rid a s = (Inr r, m)"
  shows "\<not> succeeds (fst (SetLocalDecision e' rid a' m))"
  using assms
  by (auto simp: SetLocalDecision_def expireIfNeeded_def Let_def succeeds_def split: option.splits if_splits)

text \<open>
  C26. A persist that fails leaves the change in memory. Take any call that its memory performs and
  whose persist then fails. The change stays in memory although the file keeps its old content. A call
  that changes the store is answered with the error of the persist, as if nothing had happened, while
  \<open>Get\<close>, \<open>ListPendingForDevice\<close> and \<open>GetInstallSession\<close> drop the error and answer from memory. So a local
  decision that was answered with such an error cannot be made again: every retry fails, whenever it
  comes and whatever it decides.
\<close>

theorem failed_persist_keeps_change:
  assumes "perform mem_store e c (fs_mem s) = (g, m)" and "op_ok g"
    and "fst (persistLocked e (s\<lparr>fs_mem := m\<rparr>)) = Some err"
    and "perform file_store e c s = (answer, s')"
  shows "fs_mem s' = m \<and> fs_disk s' (fs_path s) = fs_disk s (fs_path s)
         \<and> (if c \<in> range OpGet \<union> range OpListPending \<union> range OpGetInstall then answer = g
            else answer \<in> {RequestOut (Inl err), SessionOut (Inl err), TokenOut (Inl err)})
         \<and> (\<forall>rid a. c = OpSetLocalDecision rid a \<longrightarrow>
              (\<forall>e' a'. \<not> succeeds (fst (FileStore_SetLocalDecision e' rid a' s'))))"
proof -
  have p: "persist_error e c s = Some err" using assms(1,3) by (simp add: persist_error_def)
  have m: "fs_mem s' = m" using on_disk.view_step [of e c s] assms(1,4) by simp
  have "writes_through c \<longleftrightarrow> c \<notin> range OpGet \<union> range OpListPending \<union> range OpGetInstall" by (cases c) auto
  moreover have "failed_outcome err answer \<Longrightarrow> answer \<in> {RequestOut (Inl err), SessionOut (Inl err), TokenOut (Inl err)}"
    by (cases answer) auto
  ultimately have answer: "if c \<in> range OpGet \<union> range OpListPending \<union> range OpGetInstall then answer = g
      else answer \<in> {RequestOut (Inl err), SessionOut (Inl err), TokenOut (Inl err)}"
    using file_answer [of c e s] p assms(1,2,4) by auto
  have "\<not> succeeds (fst (FileStore_SetLocalDecision e' rid a' s'))" if c: "c = OpSetLocalDecision rid a" for rid a e' a'
  proof -
    obtain r where "SetLocalDecision e rid a (fs_mem s) = (Inr r, m)"
      using assms(1,2) c by (cases "SetLocalDecision e rid a (fs_mem s)"; cases "fst (SetLocalDecision e rid a (fs_mem s))") auto
    from decided_not_again [OF this, of e' a'] show ?thesis
      using commit_answer [of e' "SetLocalDecision e' rid a' m" s'] by (auto simp: FileStore_SetLocalDecision_def m succeeds_iff)
  qed
  with m answer persist_error_disk [of e c s] p assms(4) show ?thesis by auto
qed

theorem failed_persist_keeps_change_witness:
  "\<exists>s'. perform file_store ((demo_disk_env 5 ''a'' ''b'' None)\<lparr>mkdir_err := Some (ErrMsg ''io'')\<rparr>) (OpSetLocalDecision ''r1'' True)
          (demo_new\<lparr>fs_mem := demo_store\<rparr>) = (RequestOut (Inl (ErrMsg ''io'')), s')
        \<and> items (fs_mem s') ''r1'' = Some (demo_request\<lparr>req_Status := StatusApproved\<rparr>)
        \<and> fs_disk s' ''requests.json'' = None
        \<and> \<not> succeeds (fst (FileStore_SetLocalDecision (demo_disk_env 6 ''a'' ''b'' None) ''r1'' True s'))"
proof -
  let ?e = "(demo_disk_env 5 ''a'' ''b'' None)\<lparr>mkdir_err := Some (ErrMsg ''io'')\<rparr>" and ?s = "demo_new\<lparr>fs_mem := demo_store\<rparr>"
  let ?r = "demo_request\<lparr>req_Status := StatusApproved\<rparr>" and ?c = "OpSetLocalDecision ''r1'' True"
  let ?m = "demo_store\<lparr>items := [''r1'' \<mapsto> ?r]\<rparr>"
  have 1: "perform mem_store ?e ?c (fs_mem ?s) = (RequestOut (Inr ?r), ?m)"
    by (simp add: SetLocalDecision_def expireIfNeeded_def demo_disk_env_def Let_def)
  have "years_ok ?m" by (simp add: years_ok_def demo_store_def NewInMemoryStore_def) (simp add: demo_request_def year_ok_def)
  then obtain j where j: "marshal_state ?m = Inr j" using marshal_total by blast
  have 2: "fst (persistLocked ?e (?s\<lparr>fs_mem := ?m\<rparr>)) = Some (ErrMsg ''io'')"
    using j by (simp add: persistLocked_def)
  obtain answer s' where 3: "perform file_store ?e ?c ?s = (answer, s')" by fastforce
  have "answer = RequestOut (Inl (ErrMsg ''io''))"
    using 3 1 2 by (auto simp: FileStore_SetLocalDecision_def commit_def split: prod.splits sum.splits option.splits)
  moreover have "fs_path ?s = ''requests.json''" "fs_disk ?s = Map.empty" by (simp_all add: demo_new_def)
  ultimately show ?thesis
    using failed_persist_keeps_change [OF 1 _ 2 3] 3 by auto
qed

end
