(* ===== verification/Routes.thy ===== *)
theory Routes
  imports Intents Config Durability
begin

text \<open>
  \<open>cmd/api/main.go\<close>: the routes of the control plane behind the bearer token, the install landing
  page, and start-up from the environment.
\<close>

section \<open>Middleware and the landing page\<close>

definition methodOnly :: "string \<Rightarrow> ('e, 's) HandlerFunc \<Rightarrow> ('e, 's) HandlerFunc" where
  "methodOnly method next e r s =
     (if hr_Method r \<noteq> method then (http_error ''method_not_allowed'' 405, s) else next e r s)"

definition requestBaseURL :: "http_request \<Rightarrow> string" where
  "requestBaseURL r =
     (let forwardedHost = hr_header r ''X-Forwarded-Host'';
          host = (if forwardedHost \<noteq> [] then forwardedHost else hr_Host r);
          scheme = (if hr_TLS r then ''https'' else ''http'');
          forwardedProto = hr_header r ''X-Forwarded-Proto'';
          scheme = (if forwardedProto \<noteq> [] then forwardedProto else scheme)
      in scheme @ ''://'' @ host)"

text \<open>The escaping \<open>html/template\<close> applies to a string in element text.\<close>

definition html_escape :: "string \<Rightarrow> string" where
  "html_escape s =
     concat (map (\<lambda>c. if c = CHR 0x22 then ''&#34;'' else if c = CHR ''&'' then ''&amp;''
                      else if c = CHR 0x27 then ''&#39;'' else if c = CHR ''+'' then ''&#43;''
                      else if c = CHR ''<'' then ''&lt;'' else if c = CHR ''>'' then ''&gt;''
                      else if c = CHR 0x00 then [CHR 0xEF, CHR 0xBF, CHR 0xBD] else [c]) s)"

definition install_command :: "(string \<Rightarrow> string) \<Rightarrow> string \<Rightarrow> string \<Rightarrow> string" where
  "install_command quote_rune controlPlaneURL token =
     ''CONTROL_PLANE_URL='' @ quote_go quote_rune controlPlaneURL @ '' DCAP_VERIFIER_URL='' @ dq
     @ ''<dcap_verifier_url>'' @ dq @ '' enclout install -token '' @ quote_go quote_rune token
     @ '' -agent-bin '' @ dq @ ''/usr/local/bin/enclout-agent'' @ dq"

definition nl :: string where
  "nl = [CHR 0x0A]"

definition install_page :: "string \<Rightarrow> string" where
  "install_page command =
     ''<!doctype html>'' @ nl
     @ ''<html lang='' @ dq @ ''en'' @ dq @ ''>'' @ nl
     @ ''<head><meta charset='' @ dq @ ''utf-8'' @ dq @ ''><title>Install enclout Connector</title></head>'' @ nl
     @ ''<body>'' @ nl
     @ ''<h1>Install enclout Connector</h1>'' @ nl
     @ ''<p>Run this command on the target device:</p>'' @ nl
     @ ''<pre><code>'' @ html_escape command @ ''</code></pre>'' @ nl
     @ ''<p>After install completes, return to chat to continue connection setup.</p>'' @ nl
     @ ''</body>'' @ nl
     @ ''</html>''"

definition serveInstallLanding :: "(string \<Rightarrow> string) \<Rightarrow> ('e, 's) HandlerFunc" where
  "serveInstallLanding quote_rune e r s =
     (let token = TrimSpace (hr_query r ''token'') in
      if token = [] then (http_error ''missing token'' 400, s)
      else (\<lparr>hs_Status = 200,
             hs_Body = BHtml (install_page (install_command quote_rune (requestBaseURL r) token))\<rparr>, s))"

definition healthz :: "('e, 's) HandlerFunc" where
  "healthz e r s = (\<lparr>hs_Status = 200, hs_Body = BText ''ok''\<rparr>, s)"

definition not_found :: "('e, 's) HandlerFunc" where
  "not_found e r s = (http_error ''404 page not found'' 404, s)"

section \<open>The routes\<close>

definition connection_request_routes :: "string \<Rightarrow> ('e, 's) Handler \<Rightarrow> ('e, 's) HandlerFunc" where
  "connection_request_routes tok api e r s =
     (if HasSuffix (hr_Path r) ''/local-decision'' \<and> hr_Method r = ''POST''
      then RequireBearerToken tok (LocalDecision api) e r s
      else if HasSuffix (hr_Path r) ''/result'' \<and> hr_Method r = ''POST''
      then RequireBearerToken tok (Result api) e r s
      else if HasSuffix (hr_Path r) ''/attestation-bundle'' \<and> hr_Method r = ''GET''
      then RequireBearerToken tok (AttestationBundle api) e r s
      else not_found e r s)"

definition install_session_routes :: "string \<Rightarrow> ('e, 's) Handler \<Rightarrow> ('e, 's) HandlerFunc" where
  "install_session_routes tok api e r s =
     (if hr_Method r = ''GET'' \<and> CHR ''/'' \<notin> set (TrimPrefix (hr_Path r) ''/v1/install-sessions/'')
      then RequireBearerToken tok (Handler_GetInstallSession api) e r s
      else if HasSuffix (hr_Path r) ''/approval'' \<and> hr_Method r = ''POST''
      then RequireBearerToken tok (InstallSessionApproval api) e r s
      else if HasSuffix (hr_Path r) ''/registration'' \<and> hr_Method r = ''POST''
      then RequireBearerToken tok (InstallSessionRegistration api) e r s
      else if HasSuffix (hr_Path r) ''/result'' \<and> hr_Method r = ''POST''
      then RequireBearerToken tok (InstallSessionResult api) e r s
      else not_found e r s)"

record ('e, 's) api_server =
  as_APIToken :: string
  as_api :: "('e, 's) Handler"
  as_openClaw :: "('e, 's) IntentHandler"
  as_quote_rune :: "string \<Rightarrow> string"

definition api_routes :: "('e, 's) api_server \<Rightarrow> (pattern \<times> ('e, 's) HandlerFunc) list" where
  "api_routes srv =
     (let requireAuth = RequireBearerToken (as_APIToken srv); api = as_api srv in
      [(Exact [''v1'', ''connection-requests''], requireAuth (methodOnly ''POST'' (CreateRequest api))),
       (Subtree [''v1'', ''connection-requests''], connection_request_routes (as_APIToken srv) api),
       (Exact [''v1'', ''install-sessions''], requireAuth (methodOnly ''POST'' (Handler_CreateInstallSession api))),
       (Exact [''v1'', ''install-sessions'', ''redeem''],
          requireAuth (methodOnly ''POST'' (Handler_RedeemInstallToken api))),
       (Subtree [''v1'', ''install-sessions''], install_session_routes (as_APIToken srv) api),
       (Subtree [''v1'', ''devices''], requireAuth (methodOnly ''GET'' (ListPendingRequestsForDevice api))),
       (Exact [''v1'', ''openclaw'', ''intents''],
          requireAuth (methodOnly ''POST'' (Handle (as_quote_rune srv) (as_openClaw srv)))),
       (Exact [''v1'', ''signing-keys''], requireAuth (methodOnly ''GET'' (SigningKeys api))),
       (Exact [''install''], methodOnly ''GET'' (serveInstallLanding (as_quote_rune srv))),
       (Exact [''healthz''], healthz)])"

definition serve :: "('e, 's) api_server \<Rightarrow> ('e, 's) HandlerFunc" where
  "serve srv = serve_mux (api_routes srv)"

section \<open>Start-up\<close>

definition template_of_json :: "json \<Rightarrow> BundleTemplate res" where
  "template_of_json j =
     res_bind (json_object j) (\<lambda>kvs.
     res_bind (string_field ''ConnectorID'' kvs) (\<lambda>connector.
     res_bind (string_field ''SSHPublicKey'' kvs) (\<lambda>key.
     res_bind (string_field ''QuoteHex'' kvs) (\<lambda>quote.
     res_bind (string_field ''EventLog'' kvs) (\<lambda>log.
     res_bind (string_field ''MRTD'' kvs) (\<lambda>mrtd.
     res_bind (string_field ''RTMR0'' kvs) (\<lambda>r0.
     res_bind (string_field ''RTMR1'' kvs) (\<lambda>r1.
     res_bind (string_field ''RTMR2'' kvs) (\<lambda>r2.
     res_bind (string_field ''RTMR3'' kvs) (\<lambda>r3.
     res_bind (string_field ''PolicyVersion'' kvs) (\<lambda>policy.
     Inr \<lparr>bt_ConnectorID = connector, bt_SSHPublicKey = key, bt_QuoteHex = quote, bt_EventLog = log,
          bt_MRTD = mrtd, bt_RTMR0 = r0, bt_RTMR1 = r1, bt_RTMR2 = r2, bt_RTMR3 = r3,
          bt_PolicyVersion = policy\<rparr>)))))))))))"

definition loadBundleTemplatesFromEnv ::
  "(string \<Rightarrow> string) \<Rightarrow> (string \<Rightarrow> json res) \<Rightarrow> (string \<rightharpoonup> BundleTemplate)" where
  "loadBundleTemplatesFromEnv getenv json_parse =
     (let raw = getenv ''CONNECTOR_BUNDLE_TEMPLATES_JSON'' in
      if raw = [] then Map.empty
      else (case res_bind (json_parse raw) (\<lambda>j. assign_map template_of_json j Map.empty) of
              Inl _ \<Rightarrow> Map.empty
            | Inr out \<Rightarrow> out))"

text \<open>
  What the process starts with: environment, disk, Ed25519, clock, and the orders in which the two
  maps of signing keys are ranged over. The store is opened before the handlers are made.
\<close>

record 'e start_env =
  se_getenv :: "string \<Rightarrow> string"
  se_json_parse :: "string \<Rightarrow> json res"
  se_ed25519 :: ed25519
  se_seed_order :: "(string \<rightharpoonup> string) \<Rightarrow> (string \<times> string) list"
  se_key_order :: "string list"
  se_clock :: "'e \<Rightarrow> time"
  se_quote_rune :: "string \<Rightarrow> string"
  se_read_err :: "err option"
  se_disk :: disk

definition api_main ::
  "'x file_env_scheme start_env
   \<Rightarrow> (('x file_env_scheme, FileStore) api_server \<times> FileStore) res" where
  "api_main w =
     res_bind (Load (se_getenv w) (se_json_parse w)) (\<lambda>cfg.
     res_bind (NewSignerSetFromSeedMap (se_ed25519 w) (se_seed_order w (cfg_SigningKeys cfg))
                 (cfg_SigningActiveKID cfg)) (\<lambda>signerSet.
     res_bind (NewFileStore (se_read_err w) (cfg_StorePath cfg) (se_disk w)) (\<lambda>store.
     (let bundles = StaticBundleSource_GetBundle
                      (loadBundleTemplatesFromEnv (se_getenv w) (se_json_parse w));
          signer = \<lparr>bsg_SignBundle = SignerSet_SignBundle (se_ed25519 w) signerSet,
                    bsg_Keyset = SignerSet_Keyset (se_key_order w) signerSet\<rparr>
      in Inr (\<lparr>as_APIToken = cfg_APIToken cfg,
               as_api = NewHandler file_store signer bundles (se_clock w),
               as_openClaw = NewIntentHandler file_store,
               as_quote_rune = se_quote_rune w\<rparr>, store)))))"

end
