(* ===== verification/Gateway.thy ===== *)
theory Gateway
  imports Routes
begin

text \<open>
  What an HTTP request can do to the store: nothing, or exactly the one call that its method, path
  and body ask for, and only with the bearer token. With the contract of the store this carries the
  properties of call histories over to sequences of HTTP requests on the file-backed control plane.
\<close>

section \<open>What a request asks for\<close>

abbreviation segments :: "http_request \<Rightarrow> string list" where
  "segments r \<equiv> path_segments (hr_EscapedPath r)"

abbreviation body_as :: "http_request \<Rightarrow> (json \<Rightarrow> 'a res) \<Rightarrow> 'a \<Rightarrow> bool" where
  "body_as r dec x \<equiv> res_bind (hr_body r) dec = Inr x"

abbreviation approved_body :: "json \<Rightarrow> bool res" where
  "approved_body \<equiv> (\<lambda>j. res_bind (json_object j) (bool_field ''approved''))"

abbreviation token_body :: "json \<Rightarrow> string res" where
  "token_body \<equiv> (\<lambda>j. res_bind (json_object j) (string_field ''token''))"

inductive asks :: "duration \<Rightarrow> http_request \<Rightarrow> store_op \<Rightarrow> bool" for ttl r where
  create: "segments r = [''v1'', ''connection-requests''] \<Longrightarrow> hr_Method r = ''POST'' \<Longrightarrow>
     body_as r create_body (user, device, connector, channel) \<Longrightarrow>
     asks ttl r (OpCreate \<lparr>ci_OpenClawUserID = user, ci_DeviceID = device, ci_ConnectorID = connector,
                           ci_SourceChannel = channel, ci_TTL = ttl\<rparr>)"
| list_pending: "hr_Method r = ''GET'' \<Longrightarrow>
     parseIDFromPath (hr_Path r) ''/v1/devices/'' ''/pending-requests'' = Inr dev \<Longrightarrow>
     asks ttl r (OpListPending dev)"
| decision: "hr_Method r = ''POST'' \<Longrightarrow>
     parseIDFromPath (hr_Path r) ''/v1/connection-requests/'' ''/local-decision'' = Inr rid \<Longrightarrow>
     body_as r approved_body a \<Longrightarrow> asks ttl r (OpSetLocalDecision rid a)"
| report: "hr_Method r = ''POST'' \<Longrightarrow>
     parseIDFromPath (hr_Path r) ''/v1/connection-requests/'' ''/result'' = Inr rid \<Longrightarrow>
     body_as r result_body (x, rc) \<Longrightarrow> asks ttl r (OpSetResult rid x rc)"
| fetch_bundle: "hr_Method r = ''GET'' \<Longrightarrow>
     parseIDFromPath (hr_Path r) ''/v1/connection-requests/'' ''/attestation-bundle'' = Inr rid \<Longrightarrow>
     asks ttl r (OpGet rid)"
| create_install: "segments r = [''v1'', ''install-sessions''] \<Longrightarrow> hr_Method r = ''POST'' \<Longrightarrow>
     body_as r create_body (user, device, connector, channel) \<Longrightarrow>
     asks ttl r (OpCreateInstall \<lparr>cii_OpenClawUserID = user, cii_DeviceID = device, cii_ConnectorID = connector,
                                  cii_SourceChannel = channel, cii_TTL = ttl\<rparr>)"
| redeem: "segments r = [''v1'', ''install-sessions'', ''redeem''] \<Longrightarrow> hr_Method r = ''POST'' \<Longrightarrow>
     body_as r token_body tok \<Longrightarrow> asks ttl r (OpRedeem tok)"
| get_install: "hr_Method r = ''GET'' \<Longrightarrow>
     parseIDFromPath (hr_Path r) ''/v1/install-sessions/'' [] = Inr sid \<Longrightarrow> asks ttl r (OpGetInstall sid)"
| approval: "hr_Method r = ''POST'' \<Longrightarrow>
     parseIDFromPath (hr_Path r) ''/v1/install-sessions/'' ''/approval'' = Inr sid \<Longrightarrow>
     body_as r approved_body a \<Longrightarrow> asks ttl r (OpSetApproval sid a)"
| registration: "hr_Method r = ''POST'' \<Longrightarrow>
     parseIDFromPath (hr_Path r) ''/v1/install-sessions/'' ''/registration'' = Inr sid \<Longrightarrow>
     body_as r registration_body (connector, device) \<Longrightarrow> asks ttl r (OpSetIdentity sid connector device)"
| install_result: "hr_Method r = ''POST'' \<Longrightarrow>
     parseIDFromPath (hr_Path r) ''/v1/install-sessions/'' ''/result'' = Inr sid \<Longrightarrow>
     body_as r result_body (x, rc) \<Longrightarrow> asks ttl r (OpSetInstallResult sid x rc)"
| intent_create: "segments r = [''v1'', ''openclaw'', ''intents''] \<Longrightarrow> hr_Method r = ''POST'' \<Longrightarrow>
     body_as r intent_body b \<Longrightarrow> ib_Intent b = RequestIntent \<Longrightarrow>
     asks ttl r (OpCreate \<lparr>ci_OpenClawUserID = ib_OpenClawUserID b, ci_DeviceID = ib_DeviceID b,
                           ci_ConnectorID = ib_ConnectorID b, ci_SourceChannel = ib_SourceChannel b, ci_TTL = ttl\<rparr>)"
| intent_install: "segments r = [''v1'', ''openclaw'', ''intents''] \<Longrightarrow> hr_Method r = ''POST'' \<Longrightarrow>
     body_as r intent_body b \<Longrightarrow> ib_Intent b = InstallRequestIntent \<Longrightarrow>
     asks ttl r (OpCreateInstall \<lparr>cii_OpenClawUserID = ib_OpenClawUserID b, cii_DeviceID = ib_DeviceID b,
                  cii_ConnectorID = ib_ConnectorID b, cii_SourceChannel = ib_SourceChannel b, cii_TTL = ttl\<rparr>)"
| intent_connect: "segments r = [''v1'', ''openclaw'', ''intents''] \<Longrightarrow> hr_Method r = ''POST'' \<Longrightarrow>
     body_as r intent_body b \<Longrightarrow> ib_Intent b = ConnectRequestIntent \<Longrightarrow>
     asks ttl r (OpCreateInstall \<lparr>cii_OpenClawUserID = ib_OpenClawUserID b, cii_DeviceID = [],
                  cii_ConnectorID = [], cii_SourceChannel = ib_SourceChannel b, cii_TTL = ttl\<rparr>)"
| intent_approval: "segments r = [''v1'', ''openclaw'', ''intents''] \<Longrightarrow> hr_Method r = ''POST'' \<Longrightarrow>
     body_as r intent_body b \<Longrightarrow> ib_Intent b = InstallApprovalIntent \<Longrightarrow>
     asks ttl r (OpSetApproval (ib_InstallSessionID b) (ib_Approved b))"
| intent_result: "segments r = [''v1'', ''openclaw'', ''intents''] \<Longrightarrow> hr_Method r = ''POST'' \<Longrightarrow>
     body_as r intent_body b \<Longrightarrow> ib_Intent b = InstallResultIntent \<Longrightarrow>
     asks ttl r (OpSetInstallResult (ib_InstallSessionID b) (ib_Status b) (ib_ReasonCode b))"

inductive_cases asks_decisionE: "asks ttl r (OpSetLocalDecision rid a)"
inductive_cases asks_reportE: "asks ttl r (OpSetResult rid x rc)"
inductive_cases asks_approvalE: "asks ttl r (OpSetApproval sid a)"

section \<open>Handlers make at most the call asked for\<close>

text \<open>
  The answer and the new store are those of no call, or of one call that the request asks for; unless
  the call is a \<open>Get\<close>, whose answer is examined further, the status reports success exactly when
  the call succeeded.
\<close>

definition made_call ::
  "('e, 's) RequestStore \<Rightarrow> duration \<Rightarrow> 'e \<Rightarrow> http_request \<Rightarrow> 's \<Rightarrow> http_response \<times> 's \<Rightarrow> bool" where
  "made_call st ttl e r s res \<longleftrightarrow>
     snd res = s
     \<or> (\<exists>c. asks ttl r c \<and> snd res = snd (perform st e c s)
            \<and> ((\<exists>rid. c = OpGet rid) \<or> (hs_Status (fst res) < 300) = op_ok (fst (perform st e c s))))"

lemma made_none [intro]: "made_call st ttl e r s (resp, s)"
  by (simp add: made_call_def)

lemma made_callI:
  assumes "asks ttl r c" and "perform st e c s = (out, s')" and "(hs_Status resp < 300) = op_ok out"
  shows "made_call st ttl e r s (resp, s')"
  using assms by (auto simp: made_call_def intro!: exI [of _ c])

lemma made_get:
  "rs_Get st e rid s = (out, s') \<Longrightarrow> asks ttl r (OpGet rid) \<Longrightarrow> made_call st ttl e r s (resp, s')"
  by (auto simp: made_call_def intro!: exI [of _ "OpGet rid"])

lemma made_list:
  "rs_ListPendingForDevice st e dev s = (out, s') \<Longrightarrow> asks ttl r (OpListPending dev)
   \<Longrightarrow> hs_Status resp < 300 \<Longrightarrow> made_call st ttl e r s (resp, s')"
  by (rule made_callI) auto

lemma made_create:
  "rs_Create st e inp s = (out, s') \<Longrightarrow> asks ttl r (OpCreate inp)
   \<Longrightarrow> (hs_Status resp < 300) = succeeds out \<Longrightarrow> made_call st ttl e r s (resp, s')"
  by (rule made_callI) auto

lemma made_decision:
  "rs_SetLocalDecision st e rid a s = (out, s') \<Longrightarrow> asks ttl r (OpSetLocalDecision rid a)
   \<Longrightarrow> (hs_Status resp < 300) = succeeds out \<Longrightarrow> made_call st ttl e r s (resp, s')"
  by (rule made_callI) auto

lemma made_report:
  "rs_SetResult st e rid x rc s = (out, s') \<Longrightarrow> asks ttl r (OpSetResult rid x rc)
   \<Longrightarrow> (hs_Status resp < 300) = succeeds out \<Longrightarrow> made_call st ttl e r s (resp, s')"
  by (rule made_callI) auto

lemma made_create_install:
  "rs_CreateInstallSession st e inp s = (out, s') \<Longrightarrow> asks ttl r (OpCreateInstall inp)
   \<Longrightarrow> (hs_Status resp < 300) = succeeds out \<Longrightarrow> made_call st ttl e r s (resp, s')"
  by (rule made_callI) auto

lemma made_get_install:
  "rs_GetInstallSession st e sid s = (out, s') \<Longrightarrow> asks ttl r (OpGetInstall sid)
   \<Longrightarrow> (hs_Status resp < 300) = succeeds out \<Longrightarrow> made_call st ttl e r s (resp, s')"
  by (rule made_callI) auto

lemma made_approval:
  "rs_SetInstallApproval st e sid a s = (out, s') \<Longrightarrow> asks ttl r (OpSetApproval sid a)
   \<Longrightarrow> (hs_Status resp < 300) = succeeds out \<Longrightarrow> made_call st ttl e r s (resp, s')"
  by (rule made_callI) auto

lemma made_identity:
  "rs_SetInstallIdentity st e sid ci di s = (out, s') \<Longrightarrow> asks ttl r (OpSetIdentity sid ci di)
   \<Longrightarrow> (hs_Status resp < 300) = succeeds out \<Longrightarrow> made_call st ttl e r s (resp, s')"
  by (rule made_callI) auto

lemma made_install_result:
  "rs_SetInstallResult st e sid x rc s = (out, s') \<Longrightarrow> asks ttl r (OpSetInstallResult sid x rc)
   \<Longrightarrow> (hs_Status resp < 300) = succeeds out \<Longrightarrow> made_call st ttl e r s (resp, s')"
  by (rule made_callI) auto

lemma made_redeem:
  "rs_RedeemInstallToken st e tok s = (out, s') \<Longrightarrow> asks ttl r (OpRedeem tok)
   \<Longrightarrow> (hs_Status resp < 300) = succeeds out \<Longrightarrow> made_call st ttl e r s (resp, s')"
  by (rule made_callI) auto

lemma store_error_code [simp]: "300 \<le> c \<Longrightarrow> \<not> hs_Status (store_error a b c err) < 300"
  by (cases err) auto

lemma made_CreateRequest:
  "segments r = [''v1'', ''connection-requests''] \<Longrightarrow> hr_Method r = ''POST'' \<Longrightarrow>
   made_call (h_store h) (h_requestTTL h) e r s (CreateRequest h e r s)"
  by (auto simp: CreateRequest_def Let_def split: sum.splits prod.splits intro: made_create asks.create)

lemma made_ListPendingRequestsForDevice:
  "hr_Method r = ''GET'' \<Longrightarrow>
   made_call (h_store h) (h_requestTTL h) e r s (ListPendingRequestsForDevice h e r s)"
  by (auto simp: ListPendingRequestsForDevice_def Let_def split: sum.splits prod.splits intro: made_list asks.list_pending)

lemma made_LocalDecision:
  "hr_Method r = ''POST'' \<Longrightarrow>
   made_call (h_store h) (h_requestTTL h) e r s (LocalDecision h e r s)"
  by (auto simp: LocalDecision_def Let_def split: sum.splits prod.splits intro: made_decision asks.decision)

lemma made_Result:
  "hr_Method r = ''POST'' \<Longrightarrow>
   made_call (h_store h) (h_requestTTL h) e r s (Result h e r s)"
  by (auto simp: Result_def Let_def split: sum.splits prod.splits intro: made_report asks.report)

lemma made_AttestationBundle:
  "hr_Method r = ''GET'' \<Longrightarrow>
   made_call (h_store h) (h_requestTTL h) e r s (AttestationBundle h e r s)"
  by (auto simp: AttestationBundle_def Let_def split: sum.splits prod.splits err.splits intro: made_get asks.fetch_bundle)

lemma made_CreateInstallSession:
  "segments r = [''v1'', ''install-sessions''] \<Longrightarrow> hr_Method r = ''POST'' \<Longrightarrow>
   made_call (h_store h) (h_requestTTL h) e r s (Handler_CreateInstallSession h e r s)"
  by (auto simp: Handler_CreateInstallSession_def Let_def split: sum.splits prod.splits intro: made_create_install asks.create_install)

lemma made_RedeemInstallToken:
  "segments r = [''v1'', ''install-sessions'', ''redeem''] \<Longrightarrow> hr_Method r = ''POST'' \<Longrightarrow>
   made_call (h_store h) (h_requestTTL h) e r s (Handler_RedeemInstallToken h e r s)"
  by (auto simp: Handler_RedeemInstallToken_def Let_def split: sum.splits prod.splits intro: made_redeem asks.redeem)

lemma made_GetInstallSession:
  "hr_Method r = ''GET'' \<Longrightarrow>
   made_call (h_store h) (h_requestTTL h) e r s (Handler_GetInstallSession h e r s)"
  by (auto simp: Handler_GetInstallSession_def Let_def split: sum.splits prod.splits err.splits intro: made_get_install asks.get_install)

lemma made_InstallSessionApproval:
  "hr_Method r = ''POST'' \<Longrightarrow>
   made_call (h_store h) (h_requestTTL h) e r s (InstallSessionApproval h e r s)"
  by (auto simp: InstallSessionApproval_def Let_def split: sum.splits prod.splits intro: made_approval asks.approval)

lemma made_InstallSessionRegistration:
  "hr_Method r = ''POST'' \<Longrightarrow>
   made_call (h_store h) (h_requestTTL h) e r s (InstallSessionRegistration h e r s)"
  by (auto simp: InstallSessionRegistration_def Let_def split: sum.splits prod.splits intro: made_identity asks.registration)

lemma made_InstallSessionResult:
  "hr_Method r = ''POST'' \<Longrightarrow>
   made_call (h_store h) (h_requestTTL h) e r s (InstallSessionResult h e r s)"
  by (auto simp: InstallSessionResult_def Let_def split: sum.splits prod.splits intro: made_install_result asks.install_result)

lemma made_SigningKeys: "made_call (h_store h) (h_requestTTL h) e r s (SigningKeys h e r s)"
  by (simp add: SigningKeys_def made_none)

lemma made_Handle:
  assumes "segments r = [''v1'', ''openclaw'', ''intents'']" and "hr_Method r = ''POST''"
  shows "made_call (ih_store h) (ih_requestTTL h) e r s (Handle quote_rune h e r s)"
proof (cases "res_bind (hr_body r) intent_body")
  case (Inl err)
  then show ?thesis by (simp add: Handle_def made_none)
next
  case (Inr b)
  note pre = assms Inr
  have d: "distinct [RequestIntent, InstallRequestIntent, ConnectRequestIntent, InstallApprovalIntent, InstallResultIntent]"
    "distinct [InstallResultIntent, InstallApprovalIntent, ConnectRequestIntent, InstallRequestIntent, RequestIntent]"
    by (simp_all add: RequestIntent_def InstallRequestIntent_def ConnectRequestIntent_def
        InstallApprovalIntent_def InstallResultIntent_def)
  note defs = Handle_def install_response_def Inr d [simplified]
  consider "ib_Intent b = RequestIntent" | "ib_Intent b = InstallRequestIntent"
    | "ib_Intent b = ConnectRequestIntent" | "ib_Intent b = InstallApprovalIntent"
    | "ib_Intent b = InstallResultIntent"
    | "ib_Intent b \<notin> {RequestIntent, InstallRequestIntent, ConnectRequestIntent, InstallApprovalIntent, InstallResultIntent}"
    by blast
  then show ?thesis
  proof cases
    case 1
    from asks.intent_create [OF pre 1] show ?thesis
      by (auto simp: defs 1 split: sum.splits prod.splits intro: made_create)
  next
    case 2
    from asks.intent_install [OF pre 2] show ?thesis
      by (auto simp: defs 2 split: sum.splits prod.splits intro: made_create_install)
  next
    case 3
    from asks.intent_connect [OF pre 3] show ?thesis
      by (auto simp: defs 3 split: sum.splits prod.splits intro: made_create_install)
  next
    case 4
    from asks.intent_approval [OF pre 4] show ?thesis
      by (auto simp: defs 4 split: sum.splits prod.splits intro: made_approval)
  next
    case 5
    from asks.intent_result [OF pre 5] show ?thesis
      by (auto simp: defs 5 split: sum.splits prod.splits intro: made_install_result)
  next
    case 6
    then show ?thesis by (simp add: defs made_none)
  qed
qed

section \<open>The whole server\<close>

lemma made_auth:
  "(authorized tok r \<Longrightarrow> made_call st ttl e r s (next e r s))
   \<Longrightarrow> made_call st ttl e r s (RequireBearerToken tok next e r s)"
  by (auto simp: RequireBearerToken_cases)

lemma made_method:
  "(hr_Method r = m \<Longrightarrow> made_call st ttl e r s (next e r s))
   \<Longrightarrow> made_call st ttl e r s (methodOnly m next e r s)"
  by (auto simp: methodOnly_def)

lemma best_match_in: "best_match segs ps = Some (p, h) \<Longrightarrow> (p, h) \<in> set ps \<and> matches_pattern segs p"
  by (induction segs ps rule: best_match.induct) (auto split: option.splits if_splits prod.splits)

text \<open>The two handlers of a server work on one store with one time to live.\<close>

definition server_over :: "('e, 's) RequestStore \<Rightarrow> duration \<Rightarrow> ('e, 's) api_server \<Rightarrow> bool" where
  "server_over st ttl srv \<longleftrightarrow>
     h_store (as_api srv) = st \<and> h_requestTTL (as_api srv) = ttl
     \<and> ih_store (as_openClaw srv) = st \<and> ih_requestTTL (as_openClaw srv) = ttl"

lemma route_made:
  assumes "server_over st ttl srv" and "(p, H) \<in> set (api_routes srv)" and "matches_pattern (segments r) p"
  shows "made_call st ttl e r s (H e r s)"
proof -
  note api = made_CreateRequest [of r "as_api srv"] made_ListPendingRequestsForDevice [of r "as_api srv"]
    made_LocalDecision [of r "as_api srv"] made_Result [of r "as_api srv"]
    made_AttestationBundle [of r "as_api srv"] made_CreateInstallSession [of r "as_api srv"]
    made_RedeemInstallToken [of r "as_api srv"] made_GetInstallSession [of r "as_api srv"]
    made_InstallSessionApproval [of r "as_api srv"] made_InstallSessionRegistration [of r "as_api srv"]
    made_InstallSessionResult [of r "as_api srv"] made_SigningKeys [of "as_api srv"]
    made_Handle [of r "as_openClaw srv"]
  note made = api [unfolded assms(1) [unfolded server_over_def, THEN conjunct1]
      assms(1) [unfolded server_over_def, THEN conjunct2, THEN conjunct1]
      assms(1) [unfolded server_over_def, THEN conjunct2, THEN conjunct2, THEN conjunct1]
      assms(1) [unfolded server_over_def, THEN conjunct2, THEN conjunct2, THEN conjunct2]]
  show ?thesis
    using assms(2,3)
    by (auto simp: api_routes_def Let_def connection_request_routes_def install_session_routes_def
        not_found_def healthz_def serveInstallLanding_def intro!: made_auth made_method intro: made)
qed

lemma serve_made:
  assumes "server_over st ttl srv"
  shows "made_call st ttl e r s (serve srv e r s)"
  by (auto simp: serve_def serve_mux_def not_found_def split: option.splits
      intro: route_made [OF assms] dest!: best_match_in)

text \<open>Without the token the store is left alone, by every route.\<close>

lemma route_unauthorized:
  assumes "(p, H) \<in> set (api_routes srv)" and "\<not> authorized (as_APIToken srv) r"
  shows "snd (H e r s) = s"
  using assms
  by (auto simp: api_routes_def Let_def connection_request_routes_def install_session_routes_def
      not_found_def healthz_def serveInstallLanding_def RequireBearerToken_cases methodOnly_def)

lemma serve_unauthorized:
  "\<not> authorized (as_APIToken srv) r \<Longrightarrow> snd (serve srv e r s) = s"
  by (auto simp: serve_def serve_mux_def not_found_def split: option.splits
      intro: route_unauthorized dest!: best_match_in)

end
