(* ===== verification/ControlPlane.thy ===== *)
theory ControlPlane
  imports Gateway
begin

text \<open>
  The control plane as a whole, started from its environment and driven by a sequence of HTTP
  requests: which requests must have come in for a connection request to be \<open>connected\<close>, and
  that a token is redeemed once.
\<close>

section \<open>Sequences of requests\<close>

fun serve_all :: "('e, 's) api_server \<Rightarrow> ('e \<times> http_request) list \<Rightarrow> 's \<Rightarrow> 's" where
  "serve_all srv [] s = s"
| "serve_all srv ((e, r) # reqs) s = serve_all srv reqs (snd (serve srv e r s))"

lemma serve_all_append: "serve_all srv (xs @ ys) s = serve_all srv ys (serve_all srv xs s)"
  by (induction srv xs s rule: serve_all.induct) auto

text \<open>The calls that a sequence of requests makes, each asked for by an authorized request.\<close>

inductive traces :: "duration \<Rightarrow> string \<Rightarrow> ('e \<times> http_request) list \<Rightarrow> ('e \<times> store_op) list \<Rightarrow> bool"
  for ttl tok where
  nothing: "traces ttl tok [] []"
| silent: "traces ttl tok reqs ops \<Longrightarrow> traces ttl tok ((e, r) # reqs) ops"
| call: "traces ttl tok reqs ops \<Longrightarrow> authorized tok r \<Longrightarrow> asks ttl r c
         \<Longrightarrow> traces ttl tok ((e, r) # reqs) ((e, c) # ops)"

inductive_cases traces_ConsE: "traces ttl tok reqs (x # ops)"

lemma serve_all_run:
  assumes "server_over st ttl srv"
  shows "\<exists>ops. traces ttl (as_APIToken srv) reqs ops \<and> serve_all srv reqs s = run st ops s"
proof (induction reqs arbitrary: s)
  case Nil
  then show ?case by (intro exI [of _ "[]"]) (simp add: traces.nothing)
next
  case (Cons x reqs)
  obtain e r where x: "x = (e, r)" by (cases x)
  obtain ops where ops: "traces ttl (as_APIToken srv) reqs ops"
    "serve_all srv reqs (snd (serve srv e r s)) = run st ops (snd (serve srv e r s))" using Cons by blast
  show ?case
  proof (cases "snd (serve srv e r s) = s")
    case True
    with ops x show ?thesis by (intro exI [of _ ops]) (auto intro: traces.silent)
  next
    case False
    with serve_made [OF assms, of e r s] obtain c where
      "asks ttl r c" "snd (serve srv e r s) = snd (perform st e c s)" by (auto simp: made_call_def)
    moreover have "authorized (as_APIToken srv) r" using False serve_unauthorized by metis
    ultimately show ?thesis
      using ops x by (intro exI [of _ "(e, c) # ops"]) (auto intro: traces.call)
  qed
qed

lemma traces_split:
  assumes "traces ttl tok reqs (pre @ (e, c) # post)"
  shows "\<exists>rpre r rpost. reqs = rpre @ (e, r) # rpost \<and> authorized tok r \<and> asks ttl r c
           \<and> traces ttl tok rpre pre \<and> traces ttl tok rpost post"
  using assms
proof (induction reqs "pre @ (e, c) # post" arbitrary: pre rule: traces.induct)
  case (silent reqs e' r')
  then obtain rpre r rpost where "reqs = rpre @ (e, r) # rpost" "authorized tok r" "asks ttl r c"
    "traces ttl tok rpre pre" "traces ttl tok rpost post" by blast
  then show ?case
    by (intro exI [of _ "(e', r') # rpre"] exI [of _ r] exI [of _ rpost]) (auto intro: traces.silent)
next
  case (call reqs ops r' c' e')
  show ?case
  proof (cases pre)
    case Nil
    with call show ?thesis
      by (intro exI [of _ "[]"] exI [of _ r'] exI [of _ reqs]) (auto intro: traces.nothing)
  next
    case (Cons y pre')
    with call.hyps obtain rpre r rpost where "reqs = rpre @ (e, r) # rpost" "authorized tok r" "asks ttl r c"
      "traces ttl tok rpre pre'" "traces ttl tok rpost post" by auto
    with Cons call show ?thesis
      by (intro exI [of _ "(e', r') # rpre"] exI [of _ r] exI [of _ rpost]) (auto intro: traces.call)
  qed
qed auto

lemma traces_env: "traces ttl tok reqs ops \<Longrightarrow> fst ` set ops \<subseteq> fst ` set reqs"
  by (induction rule: traces.induct) auto

section \<open>Start-up\<close>

lemma api_main_parts:
  assumes "api_main w = Inr (srv, s)"
  obtains cfg ss where "Load (se_getenv w) (se_json_parse w) = Inr cfg"
    "NewSignerSetFromSeedMap (se_ed25519 w) (se_seed_order w (cfg_SigningKeys cfg)) (cfg_SigningActiveKID cfg) = Inr ss"
    "NewFileStore (se_read_err w) (cfg_StorePath cfg) (se_disk w) = Inr s"
    "as_APIToken srv = cfg_APIToken cfg" "as_APIToken srv \<noteq> []"
    "h_signer (as_api srv) = \<lparr>bsg_SignBundle = SignerSet_SignBundle (se_ed25519 w) ss,
                              bsg_Keyset = SignerSet_Keyset (se_key_order w) ss\<rparr>"
    "server_over file_store DefaultRequestTTL srv" "h_nowFn (as_api srv) = se_clock w"
proof -
  from assms obtain cfg ss where 1: "Load (se_getenv w) (se_json_parse w) = Inr cfg"
    "NewSignerSetFromSeedMap (se_ed25519 w) (se_seed_order w (cfg_SigningKeys cfg)) (cfg_SigningActiveKID cfg) = Inr ss"
    "NewFileStore (se_read_err w) (cfg_StorePath cfg) (se_disk w) = Inr s"
    and srv: "srv = \<lparr>as_APIToken = cfg_APIToken cfg,
               as_api = NewHandler file_store \<lparr>bsg_SignBundle = SignerSet_SignBundle (se_ed25519 w) ss,
                              bsg_Keyset = SignerSet_Keyset (se_key_order w) ss\<rparr>
                          (StaticBundleSource_GetBundle (loadBundleTemplatesFromEnv (se_getenv w) (se_json_parse w)))
                          (se_clock w),
               as_openClaw = NewIntentHandler file_store, as_quote_rune = se_quote_rune w\<rparr>"
    by (auto simp: api_main_def res_bind_Inr Let_def)
  have "cfg_APIToken cfg \<noteq> []" using load_ok [OF 1(1)] by (simp add: config_ok_def)
  with 1 srv that show ?thesis
    by (simp add: server_over_def NewHandler_def NewIntentHandler_def DefaultRequestTTL_def)
qed

lemma fresh_start:
  assumes "NewFileStore re path d = Inr s" and "d path = None"
  shows "fs_mem s = NewInMemoryStore"
  using assms by (auto simp: NewFileStore_def load_def split: if_splits option.splits)

section \<open>A small session, for the witnesses\<close>

definition demo_post :: "string \<Rightarrow> json \<Rightarrow> http_request" where
  "demo_post path j =
     \<lparr>hr_Method = ''POST'', hr_EscapedPath = path, hr_query = (\<lambda>k. []),
      hr_header = (\<lambda>k. if k = ''Authorization'' then ''Bearer tok'' else []), hr_Host = ''cp'',
      hr_TLS = False, hr_body = Inr j\<rparr>"

definition demo_getenv :: "string \<Rightarrow> string" where
  "demo_getenv k =
     (if k = ''SIGNING_KEY_B64'' then b64_encode demo_seed else if k = ''API_AUTH_TOKEN'' then ''tok'' else [])"

definition demo_start :: "file_env start_env" where
  "demo_start =
     \<lparr>se_getenv = demo_getenv, se_json_parse = (\<lambda>raw. Inl json_error), se_ed25519 = toy_ed,
      se_seed_order = (\<lambda>m. [(''v1'', b64_encode demo_seed)]), se_key_order = [''v1''], se_clock = now,
      se_quote_rune = (\<lambda>w. w), se_read_err = None, se_disk = Map.empty\<rparr>"

lemma demo_main:
  obtains srv where "api_main demo_start = Inr (srv, \<lparr>fs_path = defaultStorePath, fs_mem = NewInMemoryStore, fs_disk = Map.empty\<rparr>)"
    "as_APIToken srv = ''tok''" 
proof -
  obtain ss where ss: "NewSignerSetFromSeedMap toy_ed [(''v1'', b64_encode demo_seed)] ''v1'' = Inr ss"
    using demo_signer_set by blast
  have l: "Load demo_getenv (\<lambda>raw. Inl json_error) = Inr \<lparr>cfg_BindAddr = defaultBindAddr, cfg_SigningKeyB64 = b64_encode demo_seed,
     cfg_SigningKeys = [''v1'' \<mapsto> b64_encode demo_seed], cfg_SigningActiveKID = ''v1'', cfg_APIToken = ''tok'', cfg_StorePath = defaultStorePath\<rparr>"
    by (simp add: Load_def demo_getenv_def demo_seed_def)
  show ?thesis
    using that by (auto simp: api_main_def demo_start_def l ss NewFileStore_def load_def defaultStorePath_def Let_def)
qed

lemma demo_splits:
  "split_on CHR ''/'' ''/v1/connection-requests'' = [[], ''v1'', ''connection-requests'']"
  "split_on CHR ''/'' ''/v1/connection-requests/61/local-decision'' = [[], ''v1'', ''connection-requests'', ''61'', ''local-decision'']"
  "split_on CHR ''/'' ''/v1/connection-requests/61/result'' = [[], ''v1'', ''connection-requests'', ''61'', ''result'']"
  by simp_all

lemma demo_ids:
  "parseIDFromPath ''/v1/connection-requests/61/local-decision'' ''/v1/connection-requests/'' ''/local-decision'' = Inr ''61''"
  "parseIDFromPath ''/v1/connection-requests/61/result'' ''/v1/connection-requests/'' ''/result'' = Inr ''61''"
  "hex_encode ''a'' = ''61''"
  by code_simp+

lemma demo_auth: "authorized ''tok'' (demo_post p j)"
proof -
  have "parseBearerToken ''Bearer tok'' = ''tok''" by code_simp
  then show ?thesis by (simp add: authorized_def demo_post_def)
qed

lemma demo_routes:
  assumes "server_over st ttl srv" and "as_APIToken srv = ''tok''"
  shows "serve srv e (demo_post ''/v1/connection-requests'' j) s = CreateRequest (as_api srv) e (demo_post ''/v1/connection-requests'' j) s"
    "serve srv e (demo_post ''/v1/connection-requests/61/local-decision'' j) s
     = LocalDecision (as_api srv) e (demo_post ''/v1/connection-requests/61/local-decision'' j) s"
    "serve srv e (demo_post ''/v1/connection-requests/61/result'' j) s
     = Result (as_api srv) e (demo_post ''/v1/connection-requests/61/result'' j) s"
  using demo_auth
  by (simp_all add: serve_def serve_mux_def redirects_def path_segments_def path_clean_def demo_splits unescape_plain
      api_routes_def RequireBearerToken_cases methodOnly_def connection_request_routes_def assms(2) Let_def pattern_weight_def
      demo_post_def hr_Path_def HasSuffix_rev)



lemma demo_bearer: "parseBearerToken ''Bearer tok'' = ''tok''"
  by code_simp

text \<open>A server whose token is \<open>secret\<close>, which the demonstration requests do not carry.\<close>

definition demo_server :: "('x store_env_scheme, 's) RequestStore \<Rightarrow> ('x store_env_scheme, 's) api_server" where
  "demo_server st =
     \<lparr>as_APIToken = ''secret'',
      as_api = NewHandler st \<lparr>bsg_SignBundle = (\<lambda>p. Inl (ErrMsg [])), bsg_Keyset = \<lparr>ks_ActiveKID = [], ks_Keys = []\<rparr>\<rparr>
                 (StaticBundleSource_GetBundle Map.empty) now,
      as_openClaw = NewIntentHandler st, as_quote_rune = (\<lambda>w. w)\<rparr>"

definition demo_create :: json where
  "demo_create = JObj [(''openclaw_user_id'', JStr ''usr_1''), (''device_id'', JStr ''dev_1''),
                       (''connector_id'', JStr ''conn_1''), (''source_channel'', JStr ''telegram'')]"

definition demo_approve :: json where
  "demo_approve = JObj [(''approved'', JBool True)]"

definition demo_connected :: json where
  "demo_connected = JObj [(''status'', JStr ''connected''), (''reason_code'', JStr [])]"

lemma approved_name [simp]: "fold_name ''approved'' = ''APPROVED''"
  by code_simp

lemma demo_bodies:
  "create_body demo_create = Inr (''usr_1'', ''dev_1'', ''conn_1'', ''telegram'')"
  "approved_body demo_approve = Inr True" "result_body demo_connected = Inr (StatusConnected, [])"
  by (simp_all add: create_body_def demo_create_def demo_approve_def result_body_def demo_connected_def
      StatusConnected_def del: fold_name.simps)

definition demo_requests :: "(file_env \<times> http_request) list" where
  "demo_requests =
     [(demo_disk_env 0 ''a'' ''b'' None, demo_post ''/v1/connection-requests'' demo_create),
      (demo_disk_env 1 ''c'' ''d'' None, demo_post ''/v1/connection-requests/61/local-decision'' demo_approve),
      (demo_disk_env 2 ''c'' ''d'' None, demo_post ''/v1/connection-requests/61/result'' demo_connected)]"

lemma demo_served:
  assumes "server_over file_store DefaultRequestTTL srv" and "as_APIToken srv = ''tok''"
  shows "fs_mem (serve_all srv demo_requests s)
         = run mem_store [(demo_disk_env 0 ''a'' ''b'' None, OpCreate demo_input),
                          (demo_disk_env 1 ''c'' ''d'' None, OpSetLocalDecision ''61'' True),
                          (demo_disk_env 2 ''c'' ''d'' None, OpSetResult ''61'' StatusConnected [])] (fs_mem s)"
proof -
  have api: "h_store (as_api srv) = file_store" "h_requestTTL (as_api srv) = 5 * Minute"
    using assms(1) by (simp_all add: server_over_def DefaultRequestTTL_def)
  have body: "hr_body (demo_post p j) = Inr j" for p j by (simp add: demo_post_def)
  have path: "hr_Path (demo_post p j) = path_unescape p" for p j by (simp add: demo_post_def hr_Path_def)
  have "fs_mem (snd (CreateRequest (as_api srv) e (demo_post p demo_create) s)) = snd (Create e demo_input (fs_mem s))" for p e s
    by (simp add: CreateRequest_def body demo_bodies api FileStore_Create_def demo_input_def split: prod.splits sum.splits)
       (metis commit_mem(1) snd_conv)
  moreover have "fs_mem (snd (LocalDecision (as_api srv) e (demo_post ''/v1/connection-requests/61/local-decision'' demo_approve) s))
      = snd (SetLocalDecision e ''61'' True (fs_mem s))" for e s
    by (simp add: LocalDecision_def body path unescape_plain demo_ids demo_bodies api FileStore_SetLocalDecision_def
        split: prod.splits sum.splits) (metis commit_mem(1) snd_conv)
  moreover have "fs_mem (snd (Result (as_api srv) e (demo_post ''/v1/connection-requests/61/result'' demo_connected) s))
      = snd (SetResult e ''61'' StatusConnected [] (fs_mem s))" for e s
    by (simp add: Result_def body path unescape_plain demo_ids demo_bodies api FileStore_SetResult_def
        split: prod.splits sum.splits) (metis commit_mem(1) snd_conv)
  ultimately show ?thesis by (simp add: demo_requests_def demo_routes [OF assms])
qed

section \<open>Properties\<close>

text \<open>
  C3. No connection without the device owner. Start the control plane without a store file and let
  any requests arrive, with any disk faults. If a connection request is then \<open>connected\<close>, an
  authorized POST to that request's \<open>local-decision\<close> path with \<open>approved\<close> true came in before it
  expired and, after it, an authorized POST to its \<open>result\<close> path with status \<open>connected\<close>, also
  before it expired.
\<close>

theorem connected_only_after_local_approval:
  assumes "api_main w = Inr (srv, s)" and "se_disk w (fs_path s) = None"
    and "items (fs_mem (serve_all srv reqs s)) rid = Some r" and "req_Status r = StatusConnected"
  shows "\<exists>pre e q mid e' q' post.
           reqs = pre @ (e, q) # mid @ (e', q') # post
           \<and> authorized (as_APIToken srv) q \<and> hr_Method q = ''POST''
           \<and> parseIDFromPath (hr_Path q) ''/v1/connection-requests/'' ''/local-decision'' = Inr rid
           \<and> body_as q approved_body True \<and> now e \<le> req_ExpiresAt r
           \<and> authorized (as_APIToken srv) q' \<and> hr_Method q' = ''POST''
           \<and> parseIDFromPath (hr_Path q') ''/v1/connection-requests/'' ''/result'' = Inr rid
           \<and> body_as q' result_body (StatusConnected, req_ReasonCode r) \<and> now e' \<le> req_ExpiresAt r"
proof -
  from assms(1) obtain path where over: "server_over file_store DefaultRequestTTL srv"
    and new: "NewFileStore (se_read_err w) path (se_disk w) = Inr s"
    by (elim api_main_parts) blast
  have "fs_path s = path" using new by (auto simp: NewFileStore_def load_def res_bind_Inr
        split: if_splits option.splits file_content.splits)
  with fresh_start [OF new] assms(2) have fresh: "fs_mem s = NewInMemoryStore" by simp
  from serve_all_run [OF over, of reqs s] obtain ops where
    tr: "traces DefaultRequestTTL (as_APIToken srv) reqs ops"
    and r: "items (after ops) rid = Some r" using assms(3) by (auto simp: on_disk.run_view fresh)
  from connected_history [OF r assms(4)] obtain pre e mid e' post where
    ops: "ops = pre @ (e, OpSetLocalDecision rid True) # mid
            @ (e', OpSetResult rid StatusConnected (req_ReasonCode r)) # post"
    and t: "now e \<le> req_ExpiresAt r" "now e' \<le> req_ExpiresAt r" by blast
  from traces_split [OF tr [unfolded ops]] obtain rpre q rest where
    q: "reqs = rpre @ (e, q) # rest" "authorized (as_APIToken srv) q"
       "asks DefaultRequestTTL q (OpSetLocalDecision rid True)"
    and tr': "traces DefaultRequestTTL (as_APIToken srv) rest
                (mid @ (e', OpSetResult rid StatusConnected (req_ReasonCode r)) # post)" by blast
  from traces_split [OF tr'] obtain rmid q' rpost where
    q': "rest = rmid @ (e', q') # rpost" "authorized (as_APIToken srv) q'"
        "asks DefaultRequestTTL q' (OpSetResult rid StatusConnected (req_ReasonCode r))" by blast
  from q(3) have "hr_Method q = ''POST''" "body_as q approved_body True"
    "parseIDFromPath (hr_Path q) ''/v1/connection-requests/'' ''/local-decision'' = Inr rid"
    by (auto elim: asks_decisionE)
  moreover from q'(3) have "hr_Method q' = ''POST''"
    "body_as q' result_body (StatusConnected, req_ReasonCode r)"
    "parseIDFromPath (hr_Path q') ''/v1/connection-requests/'' ''/result'' = Inr rid"
    by (auto elim: asks_reportE)
  ultimately show ?thesis
    using q(1,2) q'(1,2) t
    by (intro exI [of _ rpre] exI [of _ e] exI [of _ q] exI [of _ rmid] exI [of _ e'] exI [of _ q']
          exI [of _ rpost]) simp
qed

theorem connected_only_after_local_approval_witness:
  "\<exists>srv s. api_main demo_start = Inr (srv, s) \<and> (\<exists>pre e q mid e' q' post.
     demo_requests = pre @ (e, q) # mid @ (e', q') # post \<and> body_as q approved_body True)"
proof -
  obtain srv where m: "api_main demo_start
      = Inr (srv, \<lparr>fs_path = defaultStorePath, fs_mem = NewInMemoryStore, fs_disk = Map.empty\<rparr>)"
    and tok: "as_APIToken srv = ''tok''" by (rule demo_main)
  let ?s = "\<lparr>fs_path = defaultStorePath, fs_mem = NewInMemoryStore, fs_disk = Map.empty\<rparr>"
  have over: "server_over file_store DefaultRequestTTL srv" by (rule api_main_parts [OF m])
  have d: "se_disk demo_start (fs_path ?s) = None" by (simp add: demo_start_def)
  obtain r where r: "items (fs_mem (serve_all srv demo_requests ?s)) ''61'' = Some r" "req_Status r = StatusConnected"
    by (simp add: demo_served [OF over tok] demo_defs demo_disk_env_def demo_ids)
  show ?thesis using connected_only_after_local_approval [OF m d r] m by blast
qed

text \<open>
  C12. Only the token opens the API. A request without the configured bearer token leaves the store as
  it is, whatever its method, path and body, and gets a success status from two routes only: the
  install landing page and the health check.
\<close>

theorem unauthorized_requests_do_nothing:
  assumes "\<not> authorized (as_APIToken srv) r"
  shows "snd (serve srv e r s) = s
         \<and> (hs_Status (fst (serve srv e r s)) < 300 \<longrightarrow> segments r = [''install''] \<or> segments r = [''healthz''])"
proof -
  have "hs_Status (fst (H e r s)) < 300 \<longrightarrow> segments r = [''install''] \<or> segments r = [''healthz'']"
    if "(p, H) \<in> set (api_routes srv)" and "matches_pattern (segments r) p" for p H
    using that assms
    by (auto simp: api_routes_def Let_def connection_request_routes_def install_session_routes_def
        not_found_def RequireBearerToken_cases split: if_splits)
  then show ?thesis
    using serve_unauthorized [OF assms]
    by (auto simp: serve_def serve_mux_def not_found_def split: option.splits dest!: best_match_in)
qed

theorem unauthorized_requests_do_nothing_witness:
  "snd (serve (demo_server file_store) (demo_disk_env 0 ''a'' ''b'' None) (demo_post ''/v1/connection-requests'' demo_create) demo_new)
   = demo_new"
  by (rule unauthorized_requests_do_nothing [THEN conjunct1])
     (simp add: demo_server_def authorized_def demo_post_def demo_bearer)

lemma serve_redeem:
  assumes "segments r = [''v1'', ''install-sessions'', ''redeem'']" and "hs_Status (fst (serve srv e r s)) \<noteq> 301"
  shows "serve srv e r s
         = RequireBearerToken (as_APIToken srv) (methodOnly ''POST'' (Handler_RedeemInstallToken (as_api srv))) e r s"
  using assms
  by (auto simp: serve_def serve_mux_def api_routes_def Let_def pattern_weight_def split: if_splits)

text \<open>
  C9. An install token buys one session over HTTP. If a POST to \<open>install-sessions/redeem\<close> was answered
  with status 200, then after any further requests, none of whose random draws repeats the token,
  redeeming the token again is not answered with 200.
\<close>

theorem token_redeems_once_over_http:
  assumes "api_main w = Inr (srv, s0)" and "store_ok (fs_mem s)"
    and "segments r = [''v1'', ''install-sessions'', ''redeem'']" and "body_as r token_body tok"
    and "hs_Status (fst (serve srv e r s)) = 200"
    and "\<forall>x \<in> set reqs. digestInstallToken (randomID (rand2 (fst x))) \<noteq> digestInstallToken tok"
    and "segments r' = [''v1'', ''install-sessions'', ''redeem'']" and "body_as r' token_body tok'"
    and "TrimSpace tok' = TrimSpace tok"
  shows "hs_Status (fst (serve srv e' r' (serve_all srv reqs (snd (serve srv e r s))))) \<noteq> 200"
proof
  let ?s = "snd (serve srv e r s)"
  let ?s' = "serve_all srv reqs ?s"
  assume again: "hs_Status (fst (serve srv e' r' ?s')) = 200"
  have over: "server_over file_store DefaultRequestTTL srv" by (rule api_main_parts [OF assms(1)])
  have redeemed: "\<exists>q. fst (RedeemInstallToken f t (fs_mem x)) = Inr q
                       \<and> fs_mem (snd (serve srv f q' x)) = snd (RedeemInstallToken f t (fs_mem x))"
    if "segments q' = [''v1'', ''install-sessions'', ''redeem'']" "body_as q' token_body t"
      "hs_Status (fst (serve srv f q' x)) = 200" for f q' t x
  proof -
    note h = that
    have ok: "hs_Status (store_error a b 500 err) \<noteq> 200" for a b err by (cases err) auto
    from h(3) have st: "hs_Status (fst (serve srv f q' x)) \<noteq> 301" by simp
    have "h_store (as_api srv) = file_store" using over by (simp add: server_over_def)
    with h(2,3) obtain q where "fst (FileStore_RedeemInstallToken f t x) = Inr q"
      and v: "snd (serve srv f q' x) = snd (FileStore_RedeemInstallToken f t x)"
      unfolding serve_redeem [OF h(1) st]
      by (auto simp: RequireBearerToken_cases methodOnly_def Handler_RedeemInstallToken_def ok
          split: if_splits sum.splits prod.splits)
    with commit_answer [of f "RedeemInstallToken f t (fs_mem x)" x] show ?thesis
      by (auto simp: FileStore_RedeemInstallToken_def intro: sym)
  qed
  from redeemed [OF assms(3,4,5)] obtain q where q: "fst (RedeemInstallToken e tok (fs_mem s)) = Inr q"
    and mem: "fs_mem ?s = snd (RedeemInstallToken e tok (fs_mem s))" by blast
  from redeemed_gone [OF assms(2) q] have gone: "installTokens (fs_mem ?s) (digestInstallToken tok) = None"
    by (simp add: mem)
  from serve_all_run [OF over, of reqs ?s] obtain ops where
    tr: "traces DefaultRequestTTL (as_APIToken srv) reqs ops" and run: "?s' = run file_store ops ?s" by blast
  have "\<forall>f \<in> fst ` set reqs. digestInstallToken (randomID (rand2 f)) \<noteq> digestInstallToken tok"
    using assms(6) by simp
  with traces_env [OF tr] have "\<forall>f \<in> fst ` set ops. digestInstallToken (randomID (rand2 f)) \<noteq> digestInstallToken tok"
    by blast
  then have "\<forall>x \<in> set ops. \<not> mints (fst x) (snd x) (digestInstallToken tok)"
    by (simp add: mints_def)
  from unminted_stays_gone [OF gone this] have "installTokens (fs_mem ?s') (digestInstallToken tok) = None"
    by (simp add: run on_disk.run_view)
  moreover from redeemed [OF assms(7,8) again] obtain q' where
    "fst (RedeemInstallToken e' tok' (fs_mem ?s')) = Inr q'" by blast
  moreover have "digestInstallToken tok' = digestInstallToken tok"
    using assms(9) by (simp add: digestInstallToken_def)
  ultimately show False by (simp add: RedeemInstallToken_def)
qed

definition demo_token :: json where
  "demo_token = JObj [(''token'', JStr (hex_encode ''t''))]"

lemma token_name [simp]: "fold_name ''token'' = ''TOKEN''"
  by code_simp

lemma demo_redeem_route:
  "segments (demo_post ''/v1/install-sessions/redeem'' j) = [''v1'', ''install-sessions'', ''redeem'']"
  "path_clean ''/v1/install-sessions/redeem''"
proof -
  have s: "split_on CHR ''/'' ''/v1/install-sessions/redeem'' = [[], ''v1'', ''install-sessions'', ''redeem'']" by simp
  then show "segments (demo_post ''/v1/install-sessions/redeem'' j) = [''v1'', ''install-sessions'', ''redeem'']"
    by (simp add: path_segments_def demo_post_def unescape_plain)
  from s show "path_clean ''/v1/install-sessions/redeem''" by (simp add: path_clean_def)
qed

theorem token_redeems_once_over_http_witness:
  "\<exists>srv s0. api_main demo_start = Inr (srv, s0)
     \<and> hs_Status (fst (serve srv (demo_disk_env 3 ''x'' ''y'' None) (demo_post ''/v1/install-sessions/redeem'' demo_token)
           (serve_all srv [] (snd (serve srv (demo_disk_env 2 ''x'' ''y'' None)
              (demo_post ''/v1/install-sessions/redeem'' demo_token) (demo_new\<lparr>fs_mem := after demo_calls\<rparr>)))))) \<noteq> 200"
proof -
  let ?r = "demo_post ''/v1/install-sessions/redeem'' demo_token"
  let ?e = "demo_disk_env 2 ''x'' ''y'' None"
  let ?s = "demo_new\<lparr>fs_mem := after demo_calls\<rparr>"
  obtain srv s0 where m: "api_main demo_start = Inr (srv, s0)" and tok: "as_APIToken srv = ''tok''"
    using demo_main by metis
  have over: "server_over file_store DefaultRequestTTL srv" by (rule api_main_parts [OF m])
  have b: "body_as ?r token_body (hex_encode ''t'')"
    by (simp add: demo_post_def demo_token_def del: fold_name.simps)
  have "\<not> redirects (api_routes srv) ?r"
    using demo_redeem_route by (auto simp: redirects_def api_routes_def Let_def demo_post_def)
  then have "serve srv ?e ?r ?s = RequireBearerToken (as_APIToken srv)
      (methodOnly ''POST'' (Handler_RedeemInstallToken (as_api srv))) ?e ?r ?s"
    by (simp add: serve_def serve_mux_def api_routes_def Let_def pattern_weight_def demo_redeem_route)
  moreover obtain q where "fst (FileStore_RedeemInstallToken ?e (hex_encode ''t'') ?s) = Inr q"
    using demo_file_redeem by blast
  ultimately have ok: "hs_Status (fst (serve srv ?e ?r ?s)) = 200"
    using over demo_auth tok b
    by (cases "FileStore_RedeemInstallToken ?e (hex_encode ''t'') ?s")
       (simp add: RequireBearerToken_cases methodOnly_def Handler_RedeemInstallToken_def server_over_def demo_post_def)
  have "store_ok (fs_mem ?s)" by (simp add: mem_run_ok [OF store_ok_new])
  from token_redeems_once_over_http [OF m this demo_redeem_route(1) b ok _ demo_redeem_route(1) b refl, of "[]"] m
  show ?thesis by auto
qed

end
