(* ===== verification/Bundles.thy ===== *)
theory Bundles
  imports ControlPlane
begin

text \<open>
  What an attestation bundle that the control plane hands out certifies: only one route answers with a
  bundle, only for an approved request, with that request's data and a signature that verifies under
  the published active key.
\<close>

section \<open>Attestation bundles\<close>

lemma store_error_text: "hs_Body (store_error a b c er) \<noteq> BBundle sb"
  by (cases er) auto

lemma Handle_no_bundle: "hs_Body (fst (Handle qr h e r s)) \<noteq> BBundle sb"
  by (simp add: Handle_def install_response_def split: sum.split prod.split)

lemma handlers_no_bundle:
  "hs_Body (fst (CreateRequest h e r s)) \<noteq> BBundle sb"
  "hs_Body (fst (LocalDecision h e r s)) \<noteq> BBundle sb"
  "hs_Body (fst (Result h e r s)) \<noteq> BBundle sb"
  "hs_Body (fst (Handler_CreateInstallSession h e r s)) \<noteq> BBundle sb"
  "hs_Body (fst (Handler_RedeemInstallToken h e r s)) \<noteq> BBundle sb"
  "hs_Body (fst (Handler_GetInstallSession h e r s)) \<noteq> BBundle sb"
  "hs_Body (fst (InstallSessionApproval h e r s)) \<noteq> BBundle sb"
  "hs_Body (fst (InstallSessionRegistration h e r s)) \<noteq> BBundle sb"
  "hs_Body (fst (InstallSessionResult h e r s)) \<noteq> BBundle sb"
  "hs_Body (fst (ListPendingRequestsForDevice h e r s)) \<noteq> BBundle sb"
  "hs_Body (fst (SigningKeys h e r s)) \<noteq> BBundle sb"
  "hs_Body (fst (healthz e r s)) \<noteq> BBundle sb"
  "hs_Body (fst (not_found e r s)) \<noteq> BBundle sb"
  "hs_Body (fst (serveInstallLanding qr e r s)) \<noteq> BBundle sb"
  by (simp_all add: CreateRequest_def LocalDecision_def Result_def Handler_CreateInstallSession_def
      Handler_RedeemInstallToken_def Handler_GetInstallSession_def InstallSessionApproval_def
      InstallSessionRegistration_def InstallSessionResult_def ListPendingRequestsForDevice_def
      SigningKeys_def healthz_def not_found_def serveInstallLanding_def Let_def store_error_text
      split: sum.split prod.split err.split)

lemma only_bundle_route:
  assumes "hs_Body (fst (serve srv e r s)) = BBundle sb"
  shows "authorized (as_APIToken srv) r \<and> hr_Method r = ''GET''
         \<and> serve srv e r s = AttestationBundle (as_api srv) e r s"
proof -
  have "authorized (as_APIToken srv) r \<and> hr_Method r = ''GET'' \<and> H e r s = AttestationBundle (as_api srv) e r s"
    if "(p, H) \<in> set (api_routes srv)" and "hs_Body (fst (H e r s)) = BBundle sb" for p H
    using that
    by (auto simp: api_routes_def Let_def connection_request_routes_def install_session_routes_def
        RequireBearerToken_cases methodOnly_def handlers_no_bundle Handle_no_bundle split: if_splits)
  with assms show ?thesis
    by (auto simp: serve_def serve_mux_def split: if_splits option.splits dest!: best_match_in)
qed

lemma set_signature_verifies:
  assumes "ed_laws ed" and "signer_set_ok ed ss" and "SignerSet_SignBundle ed ss p = Inr sb"
    and "ss_activeKID ss \<in> set vs"
  shows "sb_Payload sb = p \<and> (\<exists>k \<in> set (ks_Keys (SignerSet_Keyset vs ss)).
           pk_KID k = ss_activeKID ss \<and> VerifyBundle ed p (sb_Signature sb) (pk_PublicKeyB64 k) = Inr True)"
proof -
  from assms(2,3) obtain sg where sg: "ss_signers ss (ss_activeKID ss) = Some sg"
    "signer_ok ed (ss_activeKID ss) sg" "Ed25519Signer_SignBundle ed sg p = Inr sb"
    by (auto simp: SignerSet_SignBundle_def signer_set_ok_def split: option.splits)
  from signed_verifies [OF assms(1) sg(2,3)] have
    "VerifyBundle ed p (sb_Signature sb) (pk_PublicKeyB64 (public_key_info sg)) = Inr True" "sb_Payload sb = p"
    by (auto simp: VerifyBundle_def public_key_info_def Ed25519Signer_PublicKeyB64_def b64_roundtrip)
  moreover have "public_key_info sg \<in> set (ks_Keys (SignerSet_Keyset vs ss))"
    using assms(4) sg(1) by (force simp: SignerSet_Keyset_def set_filter_map)
  moreover have "pk_KID (public_key_info sg) = ss_activeKID ss"
    using sg(2) by (simp add: public_key_info_def signer_ok_def)
  ultimately show ?thesis by blast
qed

lemma bundle_answer:
  assumes "hs_Body (fst (AttestationBundle h e r s)) = BBundle sb"
  obtains rid req tpl s' where
    "parseIDFromPath (hr_Path r) ''/v1/connection-requests/'' ''/attestation-bundle'' = Inr rid"
    "rs_Get (h_store h) e rid s = (Inr req, s')" "req_Status req = StatusApproved"
    "h_nowFn h e \<le> req_ExpiresAt req" "h_bundles h (req_ConnectorID req) = Inr tpl"
    "bsg_SignBundle (h_signer h) (bundle_payload (h_nowFn h e) req tpl) = Inr sb"
  using assms
  by (auto simp: AttestationBundle_def Let_def split: sum.splits prod.splits err.splits if_splits)

lemma get_approved:
  assumes "fst (FileStore_Get e rid s) = Inr req" and "req_Status req = StatusApproved"
  shows "items (fs_mem s) rid = Some req \<and> now e \<le> req_ExpiresAt req"
  using assms
  by (auto simp: FileStore_Get_def settle_def Get_def expireIfNeeded_def Let_def
      split: option.splits if_splits prod.splits)

lemma api_main_bundles:
  assumes "api_main w = Inr (srv, s)"
  shows "h_bundles (as_api srv) = StaticBundleSource_GetBundle (loadBundleTemplatesFromEnv (se_getenv w) (se_json_parse w))"
  using assms by (auto simp: api_main_def res_bind_Inr Let_def NewHandler_def)

text \<open>
  C10. What an attestation bundle certifies. If the control plane answers with a bundle, the request
  was an authorized GET for a stored connection request that is approved and not expired on either
  clock reading; the payload carries that request's ID, nonce and expiry, the template configured for
  its connector and the SHA-256 of the template's SSH key; and the signature verifies under the key
  the keyset publishes as active, when that key is among those visited.
\<close>

theorem bundle_only_for_approved_request:
  assumes "api_main w = Inr (srv, s0)" and "hs_Body (fst (serve srv e r s)) = BBundle sb"
    and "ed_laws (se_ed25519 w)"
    and "ks_ActiveKID (bsg_Keyset (h_signer (as_api srv))) \<in> set (se_key_order w)"
  shows "\<exists>rid req tpl. authorized (as_APIToken srv) r \<and> hr_Method r = ''GET''
           \<and> parseIDFromPath (hr_Path r) ''/v1/connection-requests/'' ''/attestation-bundle'' = Inr rid
           \<and> items (fs_mem s) rid = Some req \<and> req_Status req = StatusApproved
           \<and> now e \<le> req_ExpiresAt req \<and> se_clock w e \<le> req_ExpiresAt req
           \<and> loadBundleTemplatesFromEnv (se_getenv w) (se_json_parse w) (req_ConnectorID req) = Some tpl
           \<and> sb_Payload sb = bundle_payload (se_clock w e) req tpl
           \<and> (\<exists>k \<in> set (ks_Keys (bsg_Keyset (h_signer (as_api srv)))).
                pk_KID k = ks_ActiveKID (bsg_Keyset (h_signer (as_api srv)))
                \<and> VerifyBundle (se_ed25519 w) (sb_Payload sb) (sb_Signature sb) (pk_PublicKeyB64 k) = Inr True)"
proof -
  let ?h = "as_api srv"
  obtain cfg :: Config and ss :: SignerSet where ss: "NewSignerSetFromSeedMap (se_ed25519 w) (se_seed_order w (cfg_SigningKeys cfg))
        (cfg_SigningActiveKID cfg) = Inr ss"
    and sg: "h_signer ?h = \<lparr>bsg_SignBundle = SignerSet_SignBundle (se_ed25519 w) ss,
                             bsg_Keyset = SignerSet_Keyset (se_key_order w) ss\<rparr>"
    and over: "server_over file_store DefaultRequestTTL srv" and clk: "h_nowFn ?h = se_clock w"
    by (rule api_main_parts [OF assms(1)]) blast
  have tpls: "h_bundles ?h = StaticBundleSource_GetBundle (loadBundleTemplatesFromEnv (se_getenv w) (se_json_parse w))"
    by (rule api_main_bundles [OF assms(1)])
  from only_bundle_route [OF assms(2)] assms(2) have
    route: "authorized (as_APIToken srv) r" "hr_Method r = ''GET''"
    and body: "hs_Body (fst (AttestationBundle ?h e r s)) = BBundle sb" by simp_all
  from body obtain rid req tpl s' where b:
    "parseIDFromPath (hr_Path r) ''/v1/connection-requests/'' ''/attestation-bundle'' = Inr rid"
    "rs_Get (h_store ?h) e rid s = (Inr req, s')" "req_Status req = StatusApproved"
    "h_nowFn ?h e \<le> req_ExpiresAt req" "h_bundles ?h (req_ConnectorID req) = Inr tpl"
    "bsg_SignBundle (h_signer ?h) (bundle_payload (h_nowFn ?h e) req tpl) = Inr sb"
    by (rule bundle_answer)
  have "fst (FileStore_Get e rid s) = Inr req" using b(2) over by (simp add: server_over_def)
  note got = get_approved [OF this b(3)]
  have "loadBundleTemplatesFromEnv (se_getenv w) (se_json_parse w) (req_ConnectorID req) = Some tpl"
    using b(5) by (simp add: tpls StaticBundleSource_GetBundle_def split: option.splits)
  moreover have "SignerSet_SignBundle (se_ed25519 w) ss (bundle_payload (se_clock w e) req tpl) = Inr sb"
    using b(6) by (simp add: sg clk)
  note set_signature_verifies [OF assms(3) new_signer_set_ok [OF ss] this, of "se_key_order w"]
  ultimately show ?thesis
    using route b(1,3,4) got assms(4) by (auto simp: sg clk SignerSet_Keyset_def Let_def)
qed


text \<open>A control plane with a template for \<open>conn_1\<close>, and a store with an approved request.\<close>

definition demo_templates :: json where
  "demo_templates = JObj [(''conn_1'', JObj [(''SSHPublicKey'', JStr ''k''), (''QuoteHex'', JStr ''aa''),
     (''RTMR0'', JStr ''a''), (''RTMR1'', JStr ''b''), (''RTMR2'', JStr ''c'')])]"

definition demo_tpl :: BundleTemplate where
  "demo_tpl = \<lparr>bt_ConnectorID = [], bt_SSHPublicKey = ''k'', bt_QuoteHex = ''aa'', bt_EventLog = [], bt_MRTD = [],
     bt_RTMR0 = ''a'', bt_RTMR1 = ''b'', bt_RTMR2 = ''c'', bt_RTMR3 = [], bt_PolicyVersion = []\<rparr>"

definition demo_bundle_start :: "file_env start_env" where
  "demo_bundle_start = demo_start
     \<lparr>se_getenv := demo_getenv(''CONNECTOR_BUNDLE_TEMPLATES_JSON'' := ''t''),
      se_json_parse := (\<lambda>raw. if raw = ''t'' then Inr demo_templates else Inl json_error)\<rparr>"

definition demo_get :: "string \<Rightarrow> http_request" where
  "demo_get path = (demo_post path JNull)\<lparr>hr_Method := ''GET''\<rparr>"

definition demo_approved :: FileStore where
  "demo_approved = demo_new\<lparr>fs_mem := demo_store\<lparr>items := [''r1'' \<mapsto> demo_request\<lparr>req_Status := StatusApproved\<rparr>]\<rparr>\<rparr>"

lemma template_names [simp]:
  "fold_name ''SSHPublicKey'' = ''SSHPUBLICKEY''" "fold_name ''QuoteHex'' = ''QUOTEHEX''"
  "fold_name ''EventLog'' = ''EVENTLOG''" "fold_name ''MRTD'' = ''MRTD''" "fold_name ''RTMR0'' = ''RTMR0''"
  "fold_name ''RTMR1'' = ''RTMR1''" "fold_name ''RTMR2'' = ''RTMR2''" "fold_name ''RTMR3'' = ''RTMR3''"
  "fold_name ''PolicyVersion'' = ''POLICYVERSION''" "fold_name ''ConnectorID'' = ''CONNECTORID''"
  by code_simp+

lemma demo_template:
  "loadBundleTemplatesFromEnv (se_getenv demo_bundle_start) (se_json_parse demo_bundle_start) ''conn_1'' = Some demo_tpl"
  by (simp add: demo_tpl_def loadBundleTemplatesFromEnv_def demo_bundle_start_def demo_start_def demo_templates_def
      template_of_json_def Let_def del: fold_name.simps)

lemma demo_bundle_main:
  obtains srv ss where
    "api_main demo_bundle_start = Inr (srv, \<lparr>fs_path = defaultStorePath, fs_mem = NewInMemoryStore, fs_disk = Map.empty\<rparr>)"
    "as_APIToken srv = ''tok''" "signer_set_ok toy_ed ss" "ss_activeKID ss = ''v1''"
    "h_signer (as_api srv) = \<lparr>bsg_SignBundle = SignerSet_SignBundle toy_ed ss, bsg_Keyset = SignerSet_Keyset [''v1''] ss\<rparr>"
    "h_nowFn (as_api srv) = now"
proof -
  obtain ss where ss: "NewSignerSetFromSeedMap toy_ed [(''v1'', b64_encode demo_seed)] ''v1'' = Inr ss"
    using demo_signer_set by blast
  then have a: "ss_activeKID ss = ''v1''"
    by (auto simp: NewSignerSetFromSeedMap_def Let_def res_bind_Inr demo_kid_trim split: if_splits option.splits)
  have l: "Load (se_getenv demo_bundle_start) (se_json_parse demo_bundle_start)
    = Inr \<lparr>cfg_BindAddr = defaultBindAddr, cfg_SigningKeyB64 = b64_encode demo_seed,
     cfg_SigningKeys = [''v1'' \<mapsto> b64_encode demo_seed], cfg_SigningActiveKID = ''v1'', cfg_APIToken = ''tok'', cfg_StorePath = defaultStorePath\<rparr>"
    by (simp add: Load_def demo_bundle_start_def demo_start_def demo_getenv_def demo_seed_def)
  have f: "NewFileStore None defaultStorePath Map.empty
           = Inr \<lparr>fs_path = defaultStorePath, fs_mem = NewInMemoryStore, fs_disk = Map.empty\<rparr>"
    by (simp add: NewFileStore_def load_def defaultStorePath_def)
  have w: "se_ed25519 demo_bundle_start = toy_ed" "se_key_order demo_bundle_start = [''v1'']" "se_clock demo_bundle_start = now"
    "se_seed_order demo_bundle_start m = [(''v1'', b64_encode demo_seed)]"
    "se_read_err demo_bundle_start = None" "se_disk demo_bundle_start = Map.empty" for m
    by (simp_all add: demo_bundle_start_def demo_start_def)
  show ?thesis
    using that new_signer_set_ok [OF ss] a by (simp add: api_main_def NewHandler_def Let_def w l ss f)
qed

lemma demo_bundle_route:
  assumes "as_APIToken srv = ''tok''"
  shows "serve srv e (demo_get ''/v1/connection-requests/r1/attestation-bundle'') s
     = AttestationBundle (as_api srv) e (demo_get ''/v1/connection-requests/r1/attestation-bundle'') s"
proof -
  have "split_on CHR ''/'' ''/v1/connection-requests/r1/attestation-bundle''
        = [[], ''v1'', ''connection-requests'', ''r1'', ''attestation-bundle'']" by simp
  moreover have "authorized ''tok'' (demo_get p)" for p
    using demo_auth [of p JNull] by (simp add: authorized_def demo_get_def)
  ultimately show ?thesis
    by (simp add: serve_def serve_mux_def redirects_def path_segments_def path_clean_def unescape_plain
      api_routes_def RequireBearerToken_cases methodOnly_def connection_request_routes_def assms Let_def pattern_weight_def
      demo_get_def demo_post_def hr_Path_def HasSuffix_rev)
qed

theorem bundle_only_for_approved_request_witness:
  "\<exists>srv s0 sb. api_main demo_bundle_start = Inr (srv, s0)
     \<and> hs_Body (fst (serve srv (demo_disk_env 5 ''x'' ''y'' None)
          (demo_get ''/v1/connection-requests/r1/attestation-bundle'') demo_approved)) = BBundle sb
     \<and> bp_RequestID (sb_Payload sb) = ''r1'' \<and> bp_Nonce (sb_Payload sb) = ''n1''"
proof -
  let ?r = "demo_get ''/v1/connection-requests/r1/attestation-bundle''"
  let ?e = "demo_disk_env 5 ''x'' ''y'' None"
  obtain srv ss where m: "api_main demo_bundle_start = Inr (srv, \<lparr>fs_path = defaultStorePath, fs_mem = NewInMemoryStore, fs_disk = Map.empty\<rparr>)"
    and tok: "as_APIToken srv = ''tok''" and ss: "signer_set_ok toy_ed ss" "ss_activeKID ss = ''v1''"
    and sg: "h_signer (as_api srv) = \<lparr>bsg_SignBundle = SignerSet_SignBundle toy_ed ss, bsg_Keyset = SignerSet_Keyset [''v1''] ss\<rparr>"
    and clk: "h_nowFn (as_api srv) = now" by (rule demo_bundle_main)
  obtain tpl where tpl: "h_bundles (as_api srv) ''conn_1'' = Inr tpl"
    using demo_template by (auto simp: api_main_bundles [OF m] StaticBundleSource_GetBundle_def)
  have st: "h_store (as_api srv) = file_store"
    by (rule api_main_parts [OF m]) (simp add: server_over_def)
  have path: "parseIDFromPath (hr_Path ?r) ''/v1/connection-requests/'' ''/attestation-bundle'' = Inr ''r1''"
    by (simp add: demo_get_def demo_post_def hr_Path_def unescape_plain) code_simp
  obtain sb where sb: "SignerSet_SignBundle toy_ed ss (bundle_payload 5 (demo_request\<lparr>req_Status := StatusApproved\<rparr>) tpl) = Inr sb"
    using ss by (auto simp: signer_set_ok_def SignerSet_SignBundle_def Ed25519Signer_SignBundle_def marshalCanonical_def
        bundle_payload_def demo_request_def year_ok_def Let_def)
  have "hs_Body (fst (serve srv ?e ?r demo_approved)) = BBundle sb"
    unfolding demo_bundle_route [OF tok]
    using tpl sb by (simp add: AttestationBundle_def path st sg clk FileStore_Get_def settle_def Get_def
        demo_approved_def demo_disk_env_def expireIfNeeded_def demo_request_def Let_def)
  moreover from bundle_only_for_approved_request [OF m this] obtain req tpl' where
    "items (fs_mem demo_approved) ''r1'' = Some req" "sb_Payload sb = bundle_payload 5 req tpl'"
    using path ss by (auto simp: demo_bundle_start_def demo_start_def toy_ed_laws sg SignerSet_Keyset_def Let_def
        demo_disk_env_def)
  ultimately show ?thesis
    using m by (auto simp: demo_approved_def demo_request_def bundle_payload_def)
qed

end
