(* ===== verification/Startup.thy ===== *)
theory Startup
  imports Bundles
begin

text \<open>
  What a control plane that starts guarantees, and exactly which \<open>Authorization\<close> headers and which
  decision paths it accepts.
\<close>

section \<open>Configuration\<close>

lemma load_token:
  assumes "Load getenv json_parse = Inr cfg"
  shows "cfg_APIToken cfg = getenv ''API_AUTH_TOKEN''"
  using assms load_signing_keys_ok(5)
  by (fastforce simp: Load_def Let_def res_bind_Inr split: if_splits)

lemma new_file_store_content:
  assumes "NewFileStore re path d = Inr s"
  shows "fs_path s = path \<and> path \<noteq> [] \<and> fs_disk s = d
         \<and> (case d path of
              None \<Rightarrow> fs_mem s = NewInMemoryStore
            | Some f \<Rightarrow> \<exists>j. f = Doc j \<and> unmarshal_state j = Inr (fs_mem s))"
  using assms
  by (auto simp: NewFileStore_def load_def res_bind_Inr split: if_splits option.splits file_content.splits)

lemma set_signs_total:
  assumes "signer_set_ok ed ss" and "year_ok (bp_IssuedAt p)" and "year_ok (bp_ExpiresAt p)"
  shows "\<exists>sb. SignerSet_SignBundle ed ss p = Inr sb"
  using assms
  by (auto simp: signer_set_ok_def SignerSet_SignBundle_def Ed25519Signer_SignBundle_def marshalCanonical_def Let_def)

text \<open>
  C29. Start-up fails closed. A control plane that starts has a non-empty API token, the one of its
  environment; a store path, and in memory exactly what a readable store file holds, or nothing when
  there is no file; and a signer that signs every bundle whose instants JSON can write, so that no
  request can dereference a missing key.
\<close>

theorem startup_fails_closed:
  assumes "api_main w = Inr (srv, s)"
  shows "as_APIToken srv = se_getenv w ''API_AUTH_TOKEN'' \<and> as_APIToken srv \<noteq> [] \<and> fs_path s \<noteq> []
         \<and> (case se_disk w (fs_path s) of
              None \<Rightarrow> fs_mem s = NewInMemoryStore
            | Some f \<Rightarrow> \<exists>j. f = Doc j \<and> unmarshal_state j = Inr (fs_mem s))
         \<and> (\<forall>p. year_ok (bp_IssuedAt p) \<longrightarrow> year_ok (bp_ExpiresAt p)
                  \<longrightarrow> (\<exists>sb. bsg_SignBundle (h_signer (as_api srv)) p = Inr sb))"
proof -
  obtain cfg :: Config and ss :: SignerSet where c:
    "Load (se_getenv w) (se_json_parse w) = Inr cfg"
    "NewSignerSetFromSeedMap (se_ed25519 w) (se_seed_order w (cfg_SigningKeys cfg)) (cfg_SigningActiveKID cfg) = Inr ss"
    "NewFileStore (se_read_err w) (cfg_StorePath cfg) (se_disk w) = Inr s"
    "as_APIToken srv = cfg_APIToken cfg" "as_APIToken srv \<noteq> []"
    "h_signer (as_api srv) = \<lparr>bsg_SignBundle = SignerSet_SignBundle (se_ed25519 w) ss,
                              bsg_Keyset = SignerSet_Keyset (se_key_order w) ss\<rparr>"
    by (rule api_main_parts [OF assms]) blast
  from new_file_store_content [OF c(3)] show ?thesis
    using c(4-6) load_token [OF c(1)] set_signs_total [OF new_signer_set_ok [OF c(2)]] by auto
qed

theorem startup_fails_closed_witness:
  "\<exists>srv s sb. api_main demo_start = Inr (srv, s) \<and> as_APIToken srv = ''tok''
     \<and> bsg_SignBundle (h_signer (as_api srv)) demo_payload = Inr sb"
proof -
  obtain srv where m: "api_main demo_start = Inr (srv, \<lparr>fs_path = defaultStorePath, fs_mem = NewInMemoryStore, fs_disk = Map.empty\<rparr>)"
    using demo_main by metis
  have y: "year_ok (bp_IssuedAt demo_payload)" "year_ok (bp_ExpiresAt demo_payload)"
    by (simp_all add: demo_payload_def year_ok_def)
  from startup_fails_closed [OF m] y m show ?thesis
    by (auto simp: demo_start_def demo_getenv_def)
qed

section \<open>Exact authentication\<close>

text \<open>
  Exactly these headers pass. A handler behind \<open>RequireBearerToken\<close> runs if and only if a token
  is configured and the header is, up to white space around it, the word \<open>Bearer\<close> in any case, a
  space, and the token up to white space around it; otherwise the answer is 401 and the store is
  untouched.
\<close>

lemma bearer_header_exact:
  "RequireBearerToken tok next e r s =
     (if tok \<noteq> [] \<and> (\<exists>scheme rest. TrimSpace (hr_header r ''Authorization'') = scheme @ CHR '' '' # rest
                        \<and> EqualFold scheme ''Bearer'' \<and> CHR '' '' \<notin> set scheme \<and> TrimSpace rest = tok)
      then next e r s else (http_error ''unauthorized'' 401, s))"
  using authorized_iff [of tok r] by (auto simp: RequireBearerToken_cases)

text \<open>
  A token with white space at its ends locks everybody out. \<open>Load\<close> takes \<open>API_AUTH_TOKEN\<close> as it
  is, but the token of a header is trimmed before it is compared, so no request is ever accepted.
\<close>

lemma padded_token_locks_out:
  assumes "TrimSpace tok \<noteq> tok"
  shows "RequireBearerToken tok next e r s = (http_error ''unauthorized'' 401, s)"
  using assms authorized_iff [of tok r] by (auto simp: RequireBearerToken_cases)

lemma padded_token_locks_out_witness:
  "RequireBearerToken ''tok '' (\<lambda>e r s. (writeJSON 200 (BText ''ok''), s)) () (demo_post ''/x'' JNull) ()
   = (http_error ''unauthorized'' 401, ())"
proof (rule padded_token_locks_out)
  show "TrimSpace ''tok '' \<noteq> ''tok ''" by code_simp
qed

section \<open>Exact paths\<close>

text \<open>
  Exactly these paths decide a request. The ID taken from a decision path is the one non-empty
  segment between prefix and suffix, and a path has at most one such ID. The prefix and the suffix may
  share their slash: \<open>/v1/connection-requests/local-decision\<close> names the request \<open>local-decision\<close>.
\<close>

lemma decision_path_exact:
  "parseIDFromPath path ''/v1/connection-requests/'' ''/local-decision'' = Inr i \<longleftrightarrow>
     CHR ''/'' \<notin> set i \<and> i \<noteq> []
     \<and> (path = ''/v1/connection-requests/'' @ i @ ''/local-decision''
        \<or> path = ''/v1/connection-requests/'' @ i \<and> i = ''local-decision'')"
  by (rule parseID_iff [where p = "''/v1/connection-requests''"]) simp_all

end
