(* ===== verification/Wire.thy ===== *)
theory Wire
  imports AgentRuns Startup
begin

text \<open>
  The wire between the agent's client and the control plane: the request the server sees for a request
  the client builds, and the text the server writes for the value a handler answers with.
\<close>

section \<open>Escaped path elements come back\<close>

lemma hex_upper_value: "n < 16 \<Longrightarrow> hex_value (hex_upper n) = Some n"
  by (auto simp: hex_value_def hex_upper_def in_range_def of_char_of)

lemma unescape_percent: "path_unescape (percent c @ s) = c # path_unescape s"
proof -
  have "(of_char c :: nat) div 16 < 16" by (simp add: less_mult_imp_div_less)
  then show ?thesis by (simp add: percent_def path_unescape.simps(2) hex_upper_value)
qed

definition plain_in_path :: "char \<Rightarrow> bool" where
  "plain_in_path c \<longleftrightarrow> is_letter_or_digit c \<or> c \<in> set ''-_.~$&+:=@''"

lemma PathEscape_Cons: "PathEscape (c # s) = (if plain_in_path c then [c] else percent c) @ PathEscape s"
  by (simp add: PathEscape_def plain_in_path_def)

lemma plain_not_special: "plain_in_path c \<Longrightarrow> c \<noteq> CHR ''%'' \<and> c \<noteq> CHR ''/''"
  by (auto simp: plain_in_path_def is_letter_or_digit_def in_range_def)

lemma unescape_escaped: "path_unescape (PathEscape s @ r) = s @ path_unescape r"
proof (induction s)
  case (Cons c s)
  then show ?case
    by (cases "plain_in_path c") (auto simp: PathEscape_Cons unescape_percent unescape_cons dest: plain_not_special)
qed (simp add: PathEscape_def)

lemma hex_upper_plain: "n < 16 \<Longrightarrow> hex_upper n \<noteq> CHR ''/'' \<and> hex_upper n \<noteq> CHR ''.''"
  by (auto simp: hex_upper_def dest: arg_cong [of _ _ "of_char :: char \<Rightarrow> nat"] simp: of_char_of)

lemma escaped_no_slash: "CHR ''/'' \<notin> set (PathEscape s)"
proof (induction s)
  case (Cons c s)
  have "(of_char c :: nat) div 16 < 16" by (simp add: less_mult_imp_div_less)
  then have "CHR ''/'' \<notin> set (percent c)" using hex_upper_plain [of "of_char c div 16"] hex_upper_plain [of "of_char c mod 16"]
    by (auto simp: percent_def)
  with Cons show ?case by (auto simp: PathEscape_Cons dest: plain_not_special)
qed (simp add: PathEscape_def)

lemma escaped_inj: "PathEscape s = PathEscape t \<Longrightarrow> s = t"
  using unescape_escaped [of s "[]"] unescape_escaped [of t "[]"] by simp

lemma escaped_dots: "PathEscape [] = []" "PathEscape ''.'' = ''.''" "PathEscape ''..'' = ''..''"
  by (simp_all add: PathEscape_def is_letter_or_digit_def in_range_def)

lemma escaped_plain_elem: "plain_elem rid \<Longrightarrow> plain_elem (PathEscape rid)"
  using escaped_no_slash [of rid] escaped_inj [of rid] escaped_dots by (auto simp: plain_elem_def)

section \<open>Delivery\<close>

text \<open>The part of the URL after the base is the path the server sees; the body is decoded as JSON text.\<close>

definition deliver :: "Client \<Rightarrow> client_request \<Rightarrow> http_request" where
  "deliver c cr =
     \<lparr>hr_Method = cq_Method cr, hr_EscapedPath = drop (length (cl_baseURL c)) (cq_URL cr), hr_query = (\<lambda>k. []),
      hr_header = (\<lambda>k. if k = ''Authorization'' then cq_Authorization cr
                        else if k = ''Content-Type'' then cq_ContentType cr else []),
      hr_Host = cl_baseURL c, hr_TLS = False, hr_body = decode_text (cq_Body cr)\<rparr>"

lemma deliver_parts [simp]:
  "hr_Method (deliver c (get_request c path)) = ''GET''" "hr_Method (deliver c (post_request c path j)) = ''POST''"
  "hr_EscapedPath (deliver c (get_request c path)) = path" "hr_EscapedPath (deliver c (post_request c path j)) = path"
  "hr_body (deliver c (post_request c path j)) = decode_text (json_write j)"
  by (simp_all add: deliver_def get_request_def post_request_def addHeaders_def)

text \<open>A token of visible ASCII passes the server's check.\<close>

definition visible_token :: "string \<Rightarrow> bool" where
  "visible_token tok \<longleftrightarrow> tok \<noteq> [] \<and> (\<forall>c \<in> set tok. graph_char c)"

lemma bearer_visible:
  assumes "visible_token tok"
  shows "parseBearerToken (''Bearer '' @ tok) = tok"
proof -
  have g: "graph_char (last tok)" "\<forall>c \<in> set tok. graph_char c" "tok \<noteq> []" using assms by (auto simp: visible_token_def)
  have t: "TrimSpace tok = tok" using g(2) by (intro TrimSpace_graph) simp
  have b: "TrimSpace (''Bearer '' @ tok) = ''Bearer '' @ tok"
    by (rule TrimSpace_id [OF trimmed_ends]) (use g in \<open>simp add: graph_char_def\<close>)
  have f: "split_first CHR '' '' (''Bearer '' @ tok) = Some (''Bearer'', tok)" by (subst split_first_Some) simp
  have e: "EqualFold ''Bearer'' ''Bearer''" by code_simp
  show ?thesis unfolding parseBearerToken_def b f Let_def using t e by simp
qed

lemma client_authorized:
  assumes "cl_token c = tok" and "visible_token tok"
  shows "authorized tok (deliver c (get_request c path))" "authorized tok (deliver c (post_request c path j))"
  using assms bearer_visible [OF assms(2)]
  by (auto simp: authorized_def deliver_def get_request_def post_request_def addHeaders_def visible_token_def)

section \<open>Bodies as text\<close>

text \<open>An instant is written as the string of its RFC 3339 form.\<close>

fun textual :: "json \<Rightarrow> json" where
  "textual (JTime t) = JStr (rfc3339 t)"
| "textual (JArr vs) = JArr (map textual vs)"
| "textual (JObj kvs) = JObj (map (\<lambda>kv. (fst kv, textual (snd kv))) kvs)"
| "textual j = j"

lemma write_textual: "json_write (textual j) = json_write j"
proof (induction j)
  case (JArr vs)
  then have "map json_write (map textual vs) = map json_write vs" by simp
  then show ?case by (simp only: textual.simps json_write.simps)
next
  case (JObj kvs)
  have "json_write (textual (snd kv)) = json_write (snd kv)" if "kv \<in> set kvs" for kv
    using JObj [OF that, of "snd kv"] by (cases kv) simp
  then have "map (\<lambda>kv. (fst kv, json_write (snd kv))) (map (\<lambda>kv. (fst kv, textual (snd kv))) kvs)
      = map (\<lambda>kv. (fst kv, json_write (snd kv))) kvs" by simp
  then show ?case by (simp only: textual.simps json_write.simps)
qed simp_all

definition payload_json :: "BundlePayload \<Rightarrow> json" where
  "payload_json p = JObj (map (apsnd JStr) (payload_fields p))"

definition bundle_json :: "SignedBundle \<Rightarrow> json res" where
  "bundle_json sb =
     (if \<not> year_ok (bp_IssuedAt (sb_Payload sb)) \<or> \<not> year_ok (bp_ExpiresAt (sb_Payload sb))
      then Inl (ErrMsg ''Time.MarshalJSON: year outside of range [0,9999]'')
      else Inr (JObj [(''payload'', payload_json (sb_Payload sb)), (''signature'', JStr (sb_Signature sb)),
                      (''alg'', JStr (sb_Alg sb)), (''kid'', JStr (sb_KID sb))]))"

definition key_json :: "PublicKeyInfo \<Rightarrow> json" where
  "key_json k = JObj [(''kid'', JStr (pk_KID k)), (''alg'', JStr (pk_Alg k)), (''public_key_b64'', JStr (pk_PublicKeyB64 k))]"

definition keyset_json :: "SigningKeyset \<Rightarrow> json" where
  "keyset_json ks = JObj [(''active_kid'', JStr (ks_ActiveKID ks)), (''keys'', JArr (map key_json (ks_Keys ks)))]"

text \<open>A slice is marshalled element by element; the first error is the outcome.\<close>

fun json_list :: "('a \<Rightarrow> json res) \<Rightarrow> 'a list \<Rightarrow> json list res" where
  "json_list enc [] = Inr []"
| "json_list enc (x # xs) = res_bind (enc x) (\<lambda>j. res_bind (json_list enc xs) (\<lambda>js. Inr (j # js)))"

text \<open>An embedded struct's members come first.\<close>

definition session_token_json :: "InstallSession \<Rightarrow> string \<Rightarrow> json res" where
  "session_token_json session token =
     res_bind (json_of_session session) (\<lambda>j.
       res_bind (json_object j) (\<lambda>kvs. Inr (JObj (kvs @ [(''install_token'', JStr token)]))))"

definition install_json :: "InstallRequestResponse \<Rightarrow> json res" where
  "install_json v =
     res_bind (marshal_time (irr_ExpiresAt v)) (\<lambda>expires.
     Inr (JObj [(''install_session_id'', JStr (irr_InstallSessionID v)), (''install_token'', JStr (irr_InstallToken v)),
                (''install_url'', JStr (irr_InstallURL v)), (''status'', JStr (irr_Status v)), (''expires_at'', expires),
                (''install_commands'', JObj [(''darwin'', JStr (ict_Darwin (irr_InstallCommands v))),
                                             (''linux'', JStr (ict_Linux (irr_InstallCommands v)))])]))"

text \<open>
  \<open>json.NewEncoder(w).Encode(v)\<close> writes the text and a newline, and nothing when marshalling fails;
  \<open>http.Error\<close> writes its message and a newline, the health check its text alone.
\<close>

definition sent_json :: "json res \<Rightarrow> string" where
  "sent_json r = (case r of Inl _ \<Rightarrow> [] | Inr j \<Rightarrow> json_write (textual j) @ newline)"

definition body_text :: "http_response \<Rightarrow> string" where
  "body_text res =
     (case hs_Body res of
        BRequest r \<Rightarrow> sent_json (json_of_request r)
      | BRequests rs \<Rightarrow> sent_json (res_bind (json_list json_of_request rs) (\<lambda>js. Inr (JArr js)))
      | BSession s \<Rightarrow> sent_json (json_of_session s)
      | BSessionToken s token \<Rightarrow> sent_json (session_token_json s token)
      | BInstall v \<Rightarrow> sent_json (install_json v)
      | BBundle sb \<Rightarrow> sent_json (bundle_json sb)
      | BKeyset ks \<Rightarrow> sent_json (Inr (keyset_json ks))
      | BText m \<Rightarrow> if hs_Status res = 200 then m else m @ newline
      | BHtml m \<Rightarrow> m)"

text \<open>The control plane as the client's transport: one request, handled in environment \<open>e\<close>.\<close>

definition server_transport :: "('e, 's) api_server \<Rightarrow> 'e \<Rightarrow> Client \<Rightarrow> 's transport" where
  "server_transport srv e c cr s =
     (let (res, s') = serve srv e (deliver c cr) s
      in (Inr \<lparr>cp_StatusCode = hs_Status res, cp_Body = body_text res\<rparr>, s'))"

end
