(* ===== verification/InstallRunner.thy ===== *)
theory InstallRunner
  imports ApiClient
begin

text \<open>
  \<open>internal/install/runner.go\<close>: an installation, over the interfaces the Go code names. The token is
  redeemed, the identity is settled and registered, the service is installed and started, and the
  outcome is reported.
\<close>

section \<open>Types\<close>

definition install_InstallStatusInstalled :: string where
  "install_InstallStatusInstalled = ''installed''"

definition install_InstallStatusFailed :: string where
  "install_InstallStatusFailed = ''failed''"

definition InstallFailureInvalidConfig :: string where
  "InstallFailureInvalidConfig = ''InvalidConfig''"

definition InstallFailureLaunchd :: string where
  "InstallFailureLaunchd = ''LaunchdInstallError''"

definition InstallFailureSystemd :: string where
  "InstallFailureSystemd = ''SystemdInstallError''"

definition InstallFailureRegistration :: string where
  "InstallFailureRegistration = ''IdentityRegistrationError''"

record 'w InstallerAPI =
  ia_RedeemInstallToken :: "string \<Rightarrow> 'w \<Rightarrow> api_InstallSession ares \<times> 'w"
  ia_RegisterInstallIdentity :: "string \<Rightarrow> string \<Rightarrow> string \<Rightarrow> 'w \<Rightarrow> agent_error option \<times> 'w"
  ia_PostInstallResult :: "string \<Rightarrow> string \<Rightarrow> string \<Rightarrow> 'w \<Rightarrow> agent_error option \<times> 'w"

record ServiceConfig =
  sc_Label :: string
  sc_AgentBinary :: string
  sc_PlistPath :: string
  sc_Env :: "string \<rightharpoonup> string"

type_synonym 'w ServiceInstaller = "ServiceConfig \<Rightarrow> 'w \<Rightarrow> agent_error option \<times> 'w"

record InstallConfig =
  ic_InstallToken :: string
  ic_Label :: string
  ic_AgentBinary :: string
  ic_PlistPath :: string
  ic_InstallFailureReason :: string
  ic_Env :: "string \<rightharpoonup> string"

text \<open>A missing map entry reads as the empty string.\<close>

definition env_get :: "(string \<rightharpoonup> string) \<Rightarrow> string \<Rightarrow> string" where
  "env_get env key = (case env key of None \<Rightarrow> [] | Some v \<Rightarrow> v)"

section \<open>Identity\<close>

text \<open>
  \<open>ident_char\<close> is the character class of the regular expression; every maximal run of other bytes,
  those of runes beyond ASCII included, becomes one hyphen.
\<close>

definition ident_char :: "char \<Rightarrow> bool" where
  "ident_char c \<longleftrightarrow> in_range 97 122 c \<or> in_range 48 57 c \<or> c = CHR ''-''"

function hyphenate :: "string \<Rightarrow> string" where
  "hyphenate [] = []"
| "hyphenate (c # cs) =
     (if ident_char c then c # hyphenate cs else CHR ''-'' # hyphenate (dropWhile (\<lambda>d. \<not> ident_char d) cs))"
  by pat_completeness auto
termination
  by (relation "measure length") (auto simp: less_Suc_eq_le intro: length_dropWhile_le)

definition trim_hyphens :: "string \<Rightarrow> string" where
  "trim_hyphens s = rev (dropWhile (\<lambda>c. c = CHR ''-'') (rev (dropWhile (\<lambda>c. c = CHR ''-'') s)))"

text \<open>\<open>host\<close> is what \<open>os.Hostname\<close> returns, \<open>None\<close> being its error.\<close>

definition defaultIdentityID :: "(string \<Rightarrow> string) \<Rightarrow> string option \<Rightarrow> string \<Rightarrow> string" where
  "defaultIdentityID lower host prefix =
     (let host = (case host of None \<Rightarrow> [] | Some h \<Rightarrow> h);
          host = ToLower lower (TrimSpace host);
          host = hyphenate host;
          host = trim_hyphens host;
          host = (if host = [] then ''local'' else host)
      in prefix @ ''_'' @ host)"

definition resolveInstallIdentity ::
  "(string \<Rightarrow> string) \<Rightarrow> string option \<Rightarrow> (string \<rightharpoonup> string) \<Rightarrow> api_InstallSession \<Rightarrow> string \<times> string" where
  "resolveInstallIdentity lower host env session =
     (let connectorID = TrimSpace (env_get env ''CONNECTOR_ID'');
          connectorID = (if connectorID = [] then TrimSpace (ais_ConnectorID session) else connectorID);
          connectorID = (if connectorID = [] then defaultIdentityID lower host ''conn'' else connectorID);
          deviceID = TrimSpace (env_get env ''DEVICE_ID'');
          deviceID = (if deviceID = [] then TrimSpace (ais_DeviceID session) else deviceID);
          deviceID = (if deviceID = [] then defaultIdentityID lower host ''dev'' else deviceID)
      in (connectorID, deviceID))"

section \<open>The run\<close>

fun missing_key :: "(string \<rightharpoonup> string) \<Rightarrow> string list \<Rightarrow> string option" where
  "missing_key env [] = None"
| "missing_key env (key # keys) = (if blank (env_get env key) then Some key else missing_key env keys)"

definition required_keys :: "string list" where
  "required_keys = [''CONTROL_PLANE_URL'', ''DEVICE_ID'', ''LOCAL_USERNAME'', ''DCAP_VERIFIER_URL'']"

definition validateConfig :: "InstallConfig \<Rightarrow> (string \<rightharpoonup> string) \<Rightarrow> agent_error option" where
  "validateConfig cfg env =
     (if blank (ic_Label cfg) then Some (Failure ''missing service label'')
      else if blank (ic_AgentBinary cfg) then Some (Failure ''missing agent binary'')
      else if blank (ic_PlistPath cfg) then Some (Failure ''missing service file path'')
      else map_option (\<lambda>key. Failure (''missing '' @ key)) (missing_key env required_keys))"

text \<open>
  A failed report is added to the text of the cause; the cause itself is kept (it is wrapped with \<open>%w\<close>),
  so its verification code, if any, is still found.
\<close>

fun with_text :: "agent_error \<Rightarrow> string \<Rightarrow> agent_error" where
  "with_text (Failure m) w = Failure (m @ w)"
| "with_text (VerificationError code m) w = VerificationError code (m @ w)"

definition failInstall ::
  "'w InstallerAPI \<Rightarrow> string \<Rightarrow> string \<Rightarrow> agent_error \<Rightarrow> 'w \<Rightarrow> agent_error option \<times> 'w" where
  "failInstall client sessionID reason cause w =
     (case ia_PostInstallResult client sessionID install_InstallStatusFailed reason w of
        (None, w') \<Rightarrow> (Some cause, w')
      | (Some postErr, w') \<Rightarrow>
          (Some (with_text cause ('' (also failed to post install result: '' @ error_text postErr @ '')'')), w'))"

definition install_Run ::
  "(string \<Rightarrow> string) \<Rightarrow> string option \<Rightarrow> 'w InstallerAPI \<Rightarrow> 'w ServiceInstaller \<Rightarrow> InstallConfig \<Rightarrow> 'w
   \<Rightarrow> agent_error option \<times> 'w" where
  "install_Run lower host client installer cfg w =
     (case ia_RedeemInstallToken client (ic_InstallToken cfg) w of
        (Inl err, w) \<Rightarrow> (Some err, w)
      | (Inr session, w) \<Rightarrow>
          (let env = ic_Env cfg;
               (connectorID, deviceID) = resolveInstallIdentity lower host env session;
               env = env(''CONNECTOR_ID'' \<mapsto> connectorID, ''DEVICE_ID'' \<mapsto> deviceID)
           in case validateConfig cfg env of
                Some err \<Rightarrow> failInstall client (ais_ID session) InstallFailureInvalidConfig err w
              | None \<Rightarrow>
                  (case ia_RegisterInstallIdentity client (ais_ID session) connectorID deviceID w of
                     (Some err, w) \<Rightarrow> failInstall client (ais_ID session) InstallFailureRegistration err w
                   | (None, w) \<Rightarrow>
                       (let serviceCfg = \<lparr>sc_Label = ic_Label cfg, sc_AgentBinary = ic_AgentBinary cfg,
                                          sc_PlistPath = ic_PlistPath cfg, sc_Env = env\<rparr>;
                            reason = TrimSpace (ic_InstallFailureReason cfg);
                            reason = (if reason = [] then InstallFailureLaunchd else reason)
                        in case installer serviceCfg w of
                             (Some err, w) \<Rightarrow> failInstall client (ais_ID session) reason err w
                           | (None, w) \<Rightarrow>
                               ia_PostInstallResult client (ais_ID session) install_InstallStatusInstalled [] w))))"

text \<open>
  The run in one line: what happens between redeeming and reporting is an attempt, which ends with a
  reason code and an error or without.
\<close>

definition run_env :: "(string \<Rightarrow> string) \<Rightarrow> string option \<Rightarrow> InstallConfig \<Rightarrow> api_InstallSession \<Rightarrow> (string \<rightharpoonup> string)" where
  "run_env lower host cfg session =
     (let (connectorID, deviceID) = resolveInstallIdentity lower host (ic_Env cfg) session
      in (ic_Env cfg)(''CONNECTOR_ID'' \<mapsto> connectorID, ''DEVICE_ID'' \<mapsto> deviceID))"

definition run_service :: "(string \<Rightarrow> string) \<Rightarrow> string option \<Rightarrow> InstallConfig \<Rightarrow> api_InstallSession \<Rightarrow> ServiceConfig" where
  "run_service lower host cfg session =
     \<lparr>sc_Label = ic_Label cfg, sc_AgentBinary = ic_AgentBinary cfg, sc_PlistPath = ic_PlistPath cfg,
      sc_Env = run_env lower host cfg session\<rparr>"

definition install_attempt ::
  "(string \<Rightarrow> string) \<Rightarrow> string option \<Rightarrow> 'w InstallerAPI \<Rightarrow> 'w ServiceInstaller \<Rightarrow> InstallConfig \<Rightarrow> api_InstallSession \<Rightarrow> 'w
   \<Rightarrow> (string \<times> agent_error) option \<times> 'w" where
  "install_attempt lower host client installer cfg session w =
     (case validateConfig cfg (run_env lower host cfg session) of
        Some err \<Rightarrow> (Some (InstallFailureInvalidConfig, err), w)
      | None \<Rightarrow>
          (let (connectorID, deviceID) = resolveInstallIdentity lower host (ic_Env cfg) session in
           case ia_RegisterInstallIdentity client (ais_ID session) connectorID deviceID w of
             (Some err, w) \<Rightarrow> (Some (InstallFailureRegistration, err), w)
           | (None, w) \<Rightarrow>
               (case installer (run_service lower host cfg session) w of
                  (Some err, w) \<Rightarrow>
                    (Some (if blank (ic_InstallFailureReason cfg) then InstallFailureLaunchd
                           else TrimSpace (ic_InstallFailureReason cfg), err), w)
                | (None, w) \<Rightarrow> (None, w))))"

lemma run_attempt:
  "install_Run lower host client installer cfg w =
     (case ia_RedeemInstallToken client (ic_InstallToken cfg) w of
        (Inl err, w) \<Rightarrow> (Some err, w)
      | (Inr session, w) \<Rightarrow>
          (case install_attempt lower host client installer cfg session w of
             (Some (reason, err), w) \<Rightarrow> failInstall client (ais_ID session) reason err w
           | (None, w) \<Rightarrow> ia_PostInstallResult client (ais_ID session) install_InstallStatusInstalled [] w))"
proof -
  obtain got w1 where g: "ia_RedeemInstallToken client (ic_InstallToken cfg) w = (got, w1)" by fastforce
  show ?thesis
  proof (cases got)
    case (Inr session)
    obtain ci di where i: "resolveInstallIdentity lower host (ic_Env cfg) session = (ci, di)" by fastforce
    let ?env = "(ic_Env cfg)(''CONNECTOR_ID'' \<mapsto> ci, ''DEVICE_ID'' \<mapsto> di)"
    let ?sc = "\<lparr>sc_Label = ic_Label cfg, sc_AgentBinary = ic_AgentBinary cfg, sc_PlistPath = ic_PlistPath cfg, sc_Env = ?env\<rparr>"
    obtain x w2 where r: "ia_RegisterInstallIdentity client (ais_ID session) ci di w1 = (x, w2)" by fastforce
    obtain y w3 where s: "installer ?sc w2 = (y, w3)" by fastforce
    show ?thesis
      by (cases "validateConfig cfg ?env"; cases x; cases y)
         (simp_all add: install_Run_def install_attempt_def run_env_def run_service_def Let_def g Inr i r s)
  qed (simp add: install_Run_def g)
qed

lemma fail_posts: "snd (failInstall client sid reason cause w) = snd (ia_PostInstallResult client sid install_InstallStatusFailed reason w)"
  by (simp add: failInstall_def split: prod.split option.split)

section \<open>Default identities are plain\<close>

lemma ident_plain: "ident_char c \<Longrightarrow> c \<noteq> CHR ''/'' \<and> c \<noteq> CHR ''.'' \<and> c \<noteq> CHR ''%'' \<and> (is_letter_or_digit c \<or> c = CHR ''-'')"
  by (auto simp: ident_char_def in_range_def is_letter_or_digit_def)

lemma hyphenate_chars: "c \<in> set (hyphenate s) \<Longrightarrow> ident_char c"
  by (induction s rule: hyphenate.induct) (auto split: if_splits simp: ident_char_def)

lemma hyphenate_ident: "\<forall>c \<in> set s. ident_char c \<Longrightarrow> hyphenate s = s"
  by (induction s) auto

lemma trim_hyphens_sub: "set (trim_hyphens s) \<subseteq> set s"
  by (auto simp: trim_hyphens_def dest!: set_dropWhileD)

lemma trim_hyphens_ends:
  assumes "trim_hyphens s \<noteq> []"
  shows "hd (trim_hyphens s) \<noteq> CHR ''-'' \<and> last (trim_hyphens s) \<noteq> CHR ''-''"
proof -
  let ?d = "dropWhile (\<lambda>c. c = CHR ''-'') s" and ?P = "\<lambda>c. c = CHR ''-''"
  have t: "trim_hyphens s = rev (dropWhile ?P (rev ?d))" by (simp add: trim_hyphens_def)
  have ne: "dropWhile ?P (rev ?d) \<noteq> []" using assms t by simp
  have "last (trim_hyphens s) = hd (dropWhile ?P (rev ?d))" using ne by (simp add: t last_rev)
  then have l: "last (trim_hyphens s) \<noteq> CHR ''-''" using hd_dropWhile [OF ne] by simp
  obtain u where u: "?d = trim_hyphens s @ u"
    by (metis t rev_append rev_rev_ident takeWhile_dropWhile_id)
  have "hd (trim_hyphens s) = hd ?d" using assms by (metis u hd_append2)
  moreover have "?d \<noteq> []" using u assms by auto
  ultimately show ?thesis using l hd_dropWhile [of ?P s] by simp
qed

lemma PathEscape_plain:
  "\<forall>c \<in> set s. is_letter_or_digit c \<or> c \<in> set ''-_.~$&+:=@'' \<Longrightarrow> PathEscape s = s"
  by (induction s) (auto simp: PathEscape_def)

text \<open>
  C40. Default identities are usable. Whatever the host is called, the identity made up for it is the
  prefix, an underscore and a non-empty host part of lower-case letters, digits and inner hyphens, so it
  has no white space, is one path element, and stands unescaped in a URL.
\<close>

theorem default_identity_plain:
  "\<exists>h. defaultIdentityID lower host prefix = prefix @ ''_'' @ h \<and> h \<noteq> []
       \<and> list_all ident_char h \<and> hd h \<noteq> CHR ''-'' \<and> last h \<noteq> CHR ''-'' \<and> PathEscape h = h"
proof -
  let ?h = "trim_hyphens (hyphenate (ToLower lower (TrimSpace (case host of None \<Rightarrow> [] | Some h \<Rightarrow> h))))"
  let ?r = "if ?h = [] then ''local'' else ?h"
  have c: "\<forall>c \<in> set ?r. ident_char c"
    using trim_hyphens_sub hyphenate_chars by (auto simp: ident_char_def in_range_def)
  then have "PathEscape ?r = ?r" using ident_plain by (intro PathEscape_plain) fastforce
  then show ?thesis
    using c trim_hyphens_ends [of "hyphenate (ToLower lower (TrimSpace (case host of None \<Rightarrow> [] | Some h \<Rightarrow> h)))"]
    by (intro exI [of _ ?r]) (simp add: defaultIdentityID_def list_all_iff Let_def)
qed

end
