(* ===== verification/InstallService.thy ===== *)
theory InstallService
  imports InstallRunner
begin

text \<open>
  \<open>internal/install/launchd.go\<close> and \<open>systemd.go\<close>: the service files the installer writes, byte by byte,
  and the commands it runs to start the service.
\<close>

section \<open>The machine\<close>

text \<open>
  \<open>is_net\<close> is everything the installer does not know: the network and how commands end. \<open>is_sent\<close> and
  \<open>is_commands\<close> are the requests sent and the commands run so far.
\<close>

record 'n install_state =
  is_net :: 'n
  is_fs :: agent_fs
  is_sent :: "client_request list"
  is_commands :: "string list list"

definition on_fs ::
  "(agent_fs \<Rightarrow> agent_error option \<times> agent_fs) \<Rightarrow> 'n install_state \<Rightarrow> agent_error option \<times> 'n install_state" where
  "on_fs f st = (let (x, fs) = f (is_fs st) in (x, st\<lparr>is_fs := fs\<rparr>))"

fun join_blank :: "string list \<Rightarrow> string" where
  "join_blank [] = []"
| "join_blank [w] = w"
| "join_blank (w # ws) = w @ CHR '' '' # join_blank ws"

text \<open>A command ends with its combined output and an error, if any.\<close>

type_synonym 'n exec = "string list \<Rightarrow> 'n \<Rightarrow> (string \<times> string option) \<times> 'n"

definition osCommandRunner_Run ::
  "'n exec \<Rightarrow> string \<Rightarrow> string list \<Rightarrow> 'n install_state \<Rightarrow> agent_error option \<times> 'n install_state" where
  "osCommandRunner_Run exec name args st =
     (let ((out, err), n) = exec (name # args) (is_net st);
          st = st\<lparr>is_net := n, is_commands := is_commands st @ [name # args]\<rparr>
      in case err of
           None \<Rightarrow> (None, st)
         | Some e \<Rightarrow>
             (Some (Failure (name @ '' ['' @ join_blank args @ '']: '' @ e @ '' ('' @ out @ '')'')), st))"

section \<open>Text\<close>

definition text_line :: "string \<Rightarrow> string" where
  "text_line s = s @ [CHR 0x0A]"

text \<open>\<open>xml.EscapeText\<close>; characters outside XML's range become U+FFFD.\<close>

definition xml_ascii :: "char \<Rightarrow> string" where
  "xml_ascii c =
     (if c = CHR 0x22 then ''&#34;'' else if c = CHR 0x27 then ''&#39;''
      else if c = CHR ''&'' then ''&amp;'' else if c = CHR ''<'' then ''&lt;'' else if c = CHR ''>'' then ''&gt;''
      else if c = CHR 0x09 then ''&#x9;'' else if c = CHR 0x0A then ''&#xA;'' else if c = CHR 0x0D then ''&#xD;''
      else if of_char c < (32::nat) then rune_error else [c])"

definition xml_rune :: "string \<Rightarrow> string" where
  "xml_rune r = (if r \<in> {[CHR 0xEF, CHR 0xBF, CHR 0xBE], [CHR 0xEF, CHR 0xBF, CHR 0xBF]} then rune_error else r)"

function xmlEscape :: "string \<Rightarrow> string" where
  "xmlEscape [] = []"
| "xmlEscape (c # cs) =
     (if ascii c then xml_ascii c @ xmlEscape cs
      else if rune_size (c # cs) = 0 then rune_error @ xmlEscape cs
      else xml_rune (take (rune_size (c # cs)) (c # cs)) @ xmlEscape (drop (rune_size (c # cs) - 1) cs))"
  by pat_completeness auto
termination by (relation "measure length") auto

definition writePlistString :: "string \<Rightarrow> string" where
  "writePlistString value = text_line (''<string>'' @ xmlEscape value @ ''</string>'')"

definition writePlistKeyString :: "string \<Rightarrow> string \<Rightarrow> string" where
  "writePlistKeyString key value = text_line (''<key>'' @ xmlEscape key @ ''</key>'') @ writePlistString value"

text \<open>\<open>sort.Strings\<close> on the keys of a map: bytewise order.\<close>

definition sorted_keys :: "(string \<rightharpoonup> string) \<Rightarrow> string list" where
  "sorted_keys m = sorted_list_of_set (dom m)"

definition renderLaunchdPlist :: "ServiceConfig \<Rightarrow> string" where
  "renderLaunchdPlist cfg =
     text_line ''<?xml version=\"1.0\" encoding=\"UTF-8\"?>''
     @ text_line ''<!DOCTYPE plist PUBLIC \"-//Apple//DTD PLIST 1.0//EN\" \"http://www.apple.com/DTDs/PropertyList-1.0.dtd\">''
     @ text_line ''<plist version=\"1.0\">''
     @ text_line ''<dict>''
     @ writePlistKeyString ''Label'' (sc_Label cfg)
     @ text_line ''<key>ProgramArguments</key>''
     @ text_line ''<array>''
     @ writePlistString (sc_AgentBinary cfg)
     @ text_line ''</array>''
     @ text_line ''<key>RunAtLoad</key>'' @ text_line ''<true/>''
     @ text_line ''<key>KeepAlive</key>'' @ text_line ''<true/>''
     @ (if sc_Env cfg \<noteq> Map.empty
        then text_line ''<key>EnvironmentVariables</key>'' @ text_line ''<dict>''
             @ concat (map (\<lambda>key. writePlistKeyString key (env_get (sc_Env cfg) key)) (sorted_keys (sc_Env cfg)))
             @ text_line ''</dict>''
        else [])
     @ text_line ''</dict>''
     @ text_line ''</plist>''"

definition replace_char :: "char \<Rightarrow> string \<Rightarrow> string \<Rightarrow> string" where
  "replace_char c by s = concat (map (\<lambda>d. if d = c then by else [d]) s)"

definition systemdEscape :: "string \<Rightarrow> string" where
  "systemdEscape v =
     (let v = replace_char (CHR 0x5C) [CHR 0x5C, CHR 0x5C] v;
          v = replace_char (CHR 0x22) [CHR 0x5C, CHR 0x22] v
      in v)"

definition renderSystemdUnit :: "ServiceConfig \<Rightarrow> string" where
  "renderSystemdUnit cfg =
     text_line ''[Unit]''
     @ text_line ''Description=Enclout Local Agent''
     @ text_line ''After=network-online.target'' @ text_line []
     @ text_line ''[Service]''
     @ text_line ''Type=simple''
     @ text_line (''ExecStart='' @ sc_AgentBinary cfg)
     @ text_line ''Restart=always''
     @ text_line ''RestartSec=2''
     @ concat (map (\<lambda>key. text_line (''Environment=\"'' @ systemdEscape (key @ ''='' @ env_get (sc_Env cfg) key) @ [CHR 0x22]))
         (sorted_keys (sc_Env cfg)))
     @ text_line [] @ text_line ''[Install]''
     @ text_line ''WantedBy=default.target''"

section \<open>Install and start\<close>

definition itoa_int :: "int \<Rightarrow> string" where
  "itoa_int n = (if n < 0 then ''-'' @ itoa (nat (- n)) else itoa (nat n))"

definition launchd_InstallAndStart :: "'n exec \<Rightarrow> int \<Rightarrow> 'n install_state ServiceInstaller" where
  "launchd_InstallAndStart exec uid cfg st =
     (let plistData = renderLaunchdPlist cfg;
          guiTarget = ''gui/'' @ itoa_int uid;
          serviceTarget = guiTarget @ ''/'' @ sc_Label cfg;
          run = osCommandRunner_Run exec ''launchctl''
      in and_then (on_fs (MkdirAll (Dir (sc_PlistPath cfg))) st) (\<lambda>st.
         and_then (on_fs (WriteFile (sc_PlistPath cfg) plistData) st) (\<lambda>st.
         (let st = snd (run [''bootout'', guiTarget, sc_PlistPath cfg] st) in
         and_then (run [''bootstrap'', guiTarget, sc_PlistPath cfg] st) (\<lambda>st.
         and_then (run [''enable'', serviceTarget] st) (\<lambda>st.
         run [''kickstart'', ''-k'', serviceTarget] st))))))"

definition systemd_InstallAndStart :: "'n exec \<Rightarrow> 'n install_state ServiceInstaller" where
  "systemd_InstallAndStart exec cfg st =
     (let unitPath = TrimSpace (sc_PlistPath cfg) in
      if unitPath = [] then (Some (Failure ''missing systemd unit path''), st)
      else
        (let unitData = renderSystemdUnit cfg;
             unitName = Base unitPath;
             unitName = (if \<not> HasSuffix unitName ''.service'' then unitName @ ''.service'' else unitName);
             run = osCommandRunner_Run exec ''systemctl''
         in and_then (on_fs (MkdirAll (Dir unitPath)) st) (\<lambda>st.
            and_then (on_fs (WriteFile unitPath unitData) st) (\<lambda>st.
            and_then (run [''--user'', ''daemon-reload''] st) (\<lambda>st.
            run [''--user'', ''enable'', ''--now'', unitName] st)))))"

section \<open>The unit file says what was configured\<close>

text \<open>
  A quoted value of a unit file, read as systemd documents it: a backslash before a quote or a backslash
  stands for that character, and no other escape occurs in what the installer writes.
  \<open>unit_assignments\<close> collects the unquoted values of the \<open>Environment\<close> lines.
\<close>

fun unit_unquote :: "string \<Rightarrow> (string \<times> string) option" where
  "unit_unquote [] = None"
| "unit_unquote (c # cs) =
     (if c = CHR 0x22 then Some ([], cs)
      else if c = CHR 0x5C then
        (case cs of
           [] \<Rightarrow> None
         | d # ds \<Rightarrow> if d = CHR 0x22 \<or> d = CHR 0x5C then map_option (apfst (Cons d)) (unit_unquote ds) else None)
      else map_option (apfst (Cons c)) (unit_unquote cs))"

definition environment_line :: "string \<Rightarrow> string option" where
  "environment_line l =
     (if HasPrefix l ''Environment=\"'' then
        (case unit_unquote (TrimPrefix l ''Environment=\"'') of Some (v, []) \<Rightarrow> Some v | _ \<Rightarrow> None)
      else None)"

definition unit_assignments :: "string \<Rightarrow> string list" where
  "unit_assignments unit = filter_map environment_line (split_on (CHR 0x0A) unit)"

text \<open>
  Then specifiers are expanded: two percent signs stand for one, and a percent sign with another character
  for what \<open>spec\<close> says it is on this machine. An assignment with a specifier that cannot be resolved is
  ignored, and a percent sign at the end stands for itself.
\<close>

fun expand_specifiers :: "(char \<Rightarrow> string option) \<Rightarrow> string \<Rightarrow> string option" where
  "expand_specifiers spec [] = Some []"
| "expand_specifiers spec [c] = Some [c]"
| "expand_specifiers spec (c # d # cs) =
     (if c \<noteq> CHR ''%'' then map_option (Cons c) (expand_specifiers spec (d # cs))
      else if d = CHR ''%'' then map_option (Cons (CHR ''%'')) (expand_specifiers spec cs)
      else (case spec d of
              None \<Rightarrow> None
            | Some v \<Rightarrow> map_option (append v) (expand_specifiers spec cs)))"

definition unit_environment :: "(char \<Rightarrow> string option) \<Rightarrow> string \<Rightarrow> string list" where
  "unit_environment spec unit = filter_map (expand_specifiers spec) (unit_assignments unit)"

lemma no_specifiers: "CHR ''%'' \<notin> set v \<Longrightarrow> expand_specifiers spec v = Some v"
  by (induction spec v rule: expand_specifiers.induct) auto

lemma systemdEscape_simps [simp]:
  "systemdEscape [] = []"
  "systemdEscape (c # s) = (if c = CHR 0x22 \<or> c = CHR 0x5C then [CHR 0x5C, c] else [c]) @ systemdEscape s"
  by (auto simp: systemdEscape_def replace_char_def)

lemma unquote_escaped: "unit_unquote (systemdEscape v @ CHR 0x22 # r) = Some (v, r)"
  by (induction v) auto

lemma escape_no_newline: "CHR 0x0A \<notin> set v \<Longrightarrow> CHR 0x0A \<notin> set (systemdEscape v)"
  by (induction v) auto

lemma environment_line_escaped: "environment_line (''Environment=\"'' @ systemdEscape v @ [CHR 0x22]) = Some v"
proof -
  have "TrimPrefix (''Environment=\"'' @ w) ''Environment=\"'' = w" for w by (simp add: TrimPrefix_def)
  then show ?thesis by (simp add: environment_line_def unquote_escaped)
qed

lemma split_lines:
  "\<forall>l \<in> set ls. CHR 0x0A \<notin> set l \<Longrightarrow> split_on (CHR 0x0A) (concat (map text_line ls)) = ls @ [[]]"
  by (induction ls) (auto simp: text_line_def split_on_append split_on_free)

definition unit_lines :: "ServiceConfig \<Rightarrow> string list" where
  "unit_lines cfg =
     [''[Unit]'', ''Description=Enclout Local Agent'', ''After=network-online.target'', [], ''[Service]'', ''Type=simple'',
      ''ExecStart='' @ sc_AgentBinary cfg, ''Restart=always'', ''RestartSec=2'']
     @ map (\<lambda>key. ''Environment=\"'' @ systemdEscape (key @ ''='' @ env_get (sc_Env cfg) key) @ [CHR 0x22]) (sorted_keys (sc_Env cfg))
     @ [[], ''[Install]'', ''WantedBy=default.target'']"

lemma unit_text: "renderSystemdUnit cfg = concat (map text_line (unit_lines cfg))"
  by (simp add: renderSystemdUnit_def unit_lines_def comp_def)

lemma filter_map_append [simp]: "filter_map f (xs @ ys) = filter_map f xs @ filter_map f ys"
  by (induction xs) (auto split: option.split)

lemma filter_map_Some: "\<forall>x \<in> set xs. f (g x) = Some (h x) \<Longrightarrow> filter_map f (map g xs) = map h xs"
  by (induction xs) auto

definition one_line :: "string \<Rightarrow> bool" where
  "one_line s \<longleftrightarrow> CHR 0x0A \<notin> set s"

lemma sorted_keys_set: "finite (dom m) \<Longrightarrow> set (sorted_keys m) = dom m"
  by (simp add: sorted_keys_def)

lemma unit_entries:
  assumes "finite (dom (sc_Env cfg))" and "one_line (sc_AgentBinary cfg)"
    and "\<forall>key v. sc_Env cfg key = Some v \<longrightarrow> one_line key \<and> one_line v"
  shows "unit_assignments (renderSystemdUnit cfg)
         = map (\<lambda>key. key @ ''='' @ env_get (sc_Env cfg) key) (sorted_keys (sc_Env cfg))"
proof -
  have keys: "one_line (systemdEscape (key @ ''='' @ env_get (sc_Env cfg) key))" if "key \<in> set (sorted_keys (sc_Env cfg))" for key
  proof -
    from that obtain v where "sc_Env cfg key = Some v" using sorted_keys_set [OF assms(1)] by auto
    with assms(3) show ?thesis unfolding one_line_def by (intro escape_no_newline) (auto simp: env_get_def)
  qed
  have "\<forall>l \<in> set (unit_lines cfg). CHR 0x0A \<notin> set l"
    using assms(2) keys by (auto simp: unit_lines_def one_line_def simp del: systemdEscape_simps)
  from split_lines [OF this] have "unit_assignments (renderSystemdUnit cfg) = filter_map environment_line (unit_lines cfg)"
    by (simp add: unit_assignments_def unit_text environment_line_def)
  also have "\<dots> = map (\<lambda>key. key @ ''='' @ env_get (sc_Env cfg) key) (sorted_keys (sc_Env cfg))"
  proof -
    have p: "environment_line l = None" if "\<not> HasPrefix l ''Environment=\"''" for l using that by (simp add: environment_line_def)
    show ?thesis
      by (simp add: unit_lines_def p filter_map_Some environment_line_escaped [simplified] del: systemdEscape_simps)
  qed
  finally show ?thesis .
qed

lemma filter_map_map: "filter_map f (map g xs) = filter_map (f \<circ> g) xs"
  by (induction xs) (auto split: option.split)

lemma entry_kept:
  assumes "finite (dom m)" and "k \<in> set (sorted_keys m)" and "\<forall>key v. m key = Some v \<longrightarrow> CHR ''%'' \<notin> set key \<and> CHR ''%'' \<notin> set v"
  shows "expand_specifiers spec (k @ ''='' @ env_get m k) = Some (k @ ''='' @ env_get m k)"
proof (rule no_specifiers)
  obtain v where "m k = Some v" using assms(1,2) sorted_keys_set by auto
  with assms(3) show "CHR ''%'' \<notin> set (k @ ''='' @ env_get m k)" by (auto simp: env_get_def)
qed

lemma unit_expanded:
  assumes "finite (dom (sc_Env cfg))" and "one_line (sc_AgentBinary cfg)"
    and "\<forall>key v. sc_Env cfg key = Some v \<longrightarrow> one_line key \<and> one_line v"
  shows "unit_environment spec (renderSystemdUnit cfg)
         = filter_map (\<lambda>key. expand_specifiers spec (key @ ''='' @ env_get (sc_Env cfg) key)) (sorted_keys (sc_Env cfg))
       \<and> ((\<forall>key v. sc_Env cfg key = Some v \<longrightarrow> CHR ''%'' \<notin> set key \<and> CHR ''%'' \<notin> set v) \<longrightarrow>
          unit_environment spec (renderSystemdUnit cfg)
          = map (\<lambda>key. key @ ''='' @ env_get (sc_Env cfg) key) (sorted_keys (sc_Env cfg)))"
proof (intro conjI impI)
  show all: "unit_environment spec (renderSystemdUnit cfg)
      = filter_map (\<lambda>key. expand_specifiers spec (key @ ''='' @ env_get (sc_Env cfg) key)) (sorted_keys (sc_Env cfg))"
    unfolding unit_environment_def unit_entries [OF assms] filter_map_map comp_def ..
  assume "\<forall>key v. sc_Env cfg key = Some v \<longrightarrow> CHR ''%'' \<notin> set key \<and> CHR ''%'' \<notin> set v"
  then show "unit_environment spec (renderSystemdUnit cfg)
      = map (\<lambda>key. key @ ''='' @ env_get (sc_Env cfg) key) (sorted_keys (sc_Env cfg))"
    unfolding unit_environment_def unit_entries [OF assms]
    by (intro filter_map_Some ballI entry_kept [OF assms(1)])
qed

text \<open>
  C39. What the unit file gives the agent. When neither the agent's path nor any name or value contains a
  newline, the \<open>Environment\<close> lines of the rendered unit, unquoted and expanded as systemd does, are the
  entries of the environment in the order of their names, each with its percent specifiers expanded (and
  without those whose specifiers cannot be resolved), whatever quotes and backslashes they contain. So an
  environment without percent signs reaches the agent exactly as it was given; one with them does not.
\<close>

theorem unit_environment_reads_back:
  assumes "finite (dom (sc_Env cfg))" and "one_line (sc_AgentBinary cfg)"
    and "\<forall>key v. sc_Env cfg key = Some v \<longrightarrow> one_line key \<and> one_line v"
  shows "unit_environment spec (renderSystemdUnit cfg)
         = filter_map (\<lambda>key. expand_specifiers spec (key @ ''='' @ env_get (sc_Env cfg) key)) (sorted_keys (sc_Env cfg))
       \<and> ((\<forall>key v. sc_Env cfg key = Some v \<longrightarrow> CHR ''%'' \<notin> set key \<and> CHR ''%'' \<notin> set v) \<longrightarrow>
          unit_environment spec (renderSystemdUnit cfg)
          = map (\<lambda>key. key @ ''='' @ env_get (sc_Env cfg) key) (sorted_keys (sc_Env cfg)))"
  by (rule unit_expanded [OF assms])

definition demo_service :: ServiceConfig where
  "demo_service = \<lparr>sc_Label = ''ai.enclout.agent'', sc_AgentBinary = ''/usr/bin/agent'', sc_PlistPath = ''/u/a.service'',
     sc_Env = [''ALLOW_MRTD'' \<mapsto> ''a\"b'', ''DEVICE_ID'' \<mapsto> ''d1'']\<rparr>"

theorem unit_environment_reads_back_witness:
  "unit_environment (\<lambda>c. None) (renderSystemdUnit demo_service)
   = map (\<lambda>key. key @ ''='' @ env_get (sc_Env demo_service) key) (sorted_keys (sc_Env demo_service))"
proof -
  have "finite (dom (sc_Env demo_service))" "one_line (sc_AgentBinary demo_service)"
    "\<forall>key v. sc_Env demo_service key = Some v \<longrightarrow> one_line key \<and> one_line v"
    "\<forall>key v. sc_Env demo_service key = Some v \<longrightarrow> CHR ''%'' \<notin> set key \<and> CHR ''%'' \<notin> set v"
    by (simp_all add: demo_service_def one_line_def)
  from conjunct2 [OF unit_environment_reads_back [OF this(1-3)], THEN mp, OF this(4)] show ?thesis .
qed

section \<open>Values cannot break the property list\<close>

text \<open>
  Character data, read as XML defines it: up to the next tag, with the predefined entities and character
  references that \<open>xml.EscapeText\<close> uses.
\<close>

definition xml_entities :: "(string \<times> char) list" where
  "xml_entities = [(''#34;'', CHR 0x22), (''#39;'', CHR 0x27), (''amp;'', CHR ''&''), (''lt;'', CHR ''<''), (''gt;'', CHR ''>''),
     (''#x9;'', CHR 0x09), (''#xA;'', CHR 0x0A), (''#xD;'', CHR 0x0D)]"

fun xml_entity :: "(string \<times> char) list \<Rightarrow> string \<Rightarrow> (char \<times> string) option" where
  "xml_entity [] s = None"
| "xml_entity ((e, c) # es) s = (if HasPrefix s e then Some (c, TrimPrefix s e) else xml_entity es s)"

lemma xml_entity_shorter: "xml_entity es s = Some (c, r) \<Longrightarrow> length r \<le> length s"
  by (induction es s rule: xml_entity.induct) (auto simp: TrimPrefix_def split: if_splits)

function xml_text :: "string \<Rightarrow> (string \<times> string) option" where
  "xml_text [] = None"
| "xml_text (c # cs) =
     (if c = CHR ''<'' then Some ([], c # cs)
      else if c = CHR ''&'' then
        (case xml_entity xml_entities cs of None \<Rightarrow> None | Some (d, ds) \<Rightarrow> map_option (apfst (Cons d)) (xml_text ds))
      else map_option (apfst (Cons c)) (xml_text cs))"
  by pat_completeness auto
termination by (relation "measure length") (auto dest: xml_entity_shorter)

text \<open>The strings that XML can hold: UTF-8, and no control characters or noncharacters.\<close>

function xml_chars :: "string \<Rightarrow> bool" where
  "xml_chars [] = True"
| "xml_chars (c # cs) =
     (if ascii c then (32 \<le> (of_char c :: nat) \<or> c \<in> {CHR 0x09, CHR 0x0A, CHR 0x0D}) \<and> xml_chars cs
      else rune_size (c # cs) \<noteq> 0
           \<and> take (rune_size (c # cs)) (c # cs) \<notin> {[CHR 0xEF, CHR 0xBF, CHR 0xBE], [CHR 0xEF, CHR 0xBF, CHR 0xBF]}
           \<and> xml_chars (drop (rune_size (c # cs) - 1) cs))"
  by pat_completeness auto
termination by (relation "measure length") auto

lemma xml_text_plain: "\<forall>c \<in> set w. \<not> ascii c \<Longrightarrow> xml_text (w @ r) = map_option (apfst ((@) w)) (xml_text r)"
proof (induction w)
  case Nil
  show ?case by (cases "xml_text r") auto
next
  case (Cons c w)
  then have "c \<noteq> CHR ''<''" "c \<noteq> CHR ''&''" by auto
  with Cons show ?case by (cases "xml_text r") auto
qed

lemma xml_text_ascii:
  assumes "ascii c" and "32 \<le> (of_char c :: nat) \<or> c \<in> {CHR 0x09, CHR 0x0A, CHR 0x0D}"
  shows "xml_text (xml_ascii c @ r) = map_option (apfst (Cons c)) (xml_text r)"
proof (cases "c \<in> {CHR 0x22, CHR 0x27, CHR ''&'', CHR ''<'', CHR ''>'', CHR 0x09, CHR 0x0A, CHR 0x0D}")
  case True
  then show ?thesis
    by (elim insertE emptyE; hypsubst) (simp_all add: xml_ascii_def xml_entities_def TrimPrefix_def)
next
  case False
  then have "xml_ascii c = [c]" using assms(2) by (auto simp: xml_ascii_def)
  with False show ?thesis by simp
qed

lemma xml_text_escaped: "xml_chars v \<Longrightarrow> xml_text (xmlEscape v @ CHR ''<'' # r) = Some (v, CHR ''<'' # r)"
proof (induction v rule: xmlEscape.induct)
  case (2 c cs)
  show ?case
  proof (cases "ascii c")
    case True
    with 2 show ?thesis by (simp add: xml_text_ascii)
  next
    case False
    let ?n = "rune_size (c # cs)"
    from False 2(4) have n: "?n \<noteq> 0" by simp
    note b = rune_size_bounds [OF n]
    have w: "xml_rune (take ?n (c # cs)) = take ?n (c # cs)"
      using 2(4) False by (simp only: xml_chars.simps xml_rune_def if_False)
    have e: "xmlEscape (c # cs) = take ?n (c # cs) @ xmlEscape (drop (?n - 1) cs)"
      using False n by (simp only: xmlEscape.simps if_False w)
    have v: "xml_chars (drop (?n - 1) cs)"
      using 2(4) False by (simp only: xml_chars.simps if_False)
    have "take ?n (c # cs) @ drop (?n - 1) cs = c # cs"
      using b(1) by (simp only: take_Cons') simp
    then show ?thesis
      unfolding e append_assoc xml_text_plain [OF b(3)] 2(3) [OF False n v]
      by (simp only: option.map apfst_conv)
  qed
qed simp

lemma xml_escape_tags: "c \<in> set (xmlEscape v) \<Longrightarrow> c \<noteq> CHR ''<'' \<and> c \<noteq> CHR ''>'' \<and> c \<noteq> CHR 0x22 \<and> c \<noteq> CHR 0x0A"
proof (induction v rule: xmlEscape.induct)
  case (2 d cs)
  have r: "x \<noteq> CHR ''<'' \<and> x \<noteq> CHR ''>'' \<and> x \<noteq> CHR 0x22 \<and> x \<noteq> CHR 0x0A" if "\<not> ascii x" for x using that by auto
  have e: "\<not> ascii x" if "x \<in> set rune_error" for x using that by (auto simp: rune_error_def)
  show ?case
  proof (cases "ascii d")
    case True
    with 2 e show ?thesis by (fastforce simp: xml_ascii_def split: if_splits)
  next
    case False
    let ?n = "rune_size (d # cs)"
    show ?thesis
    proof (cases "?n = 0")
      case True
      with False 2 e r show ?thesis by auto
    next
      case n: False
      have "xmlEscape (d # cs) = xml_rune (take ?n (d # cs)) @ xmlEscape (drop (?n - 1) cs)"
        using False n by (simp only: xmlEscape.simps if_False)
      then consider "c \<in> set (xml_rune (take ?n (d # cs)))" | "c \<in> set (xmlEscape (drop (?n - 1) cs))"
        using 2(4) by auto
      then show ?thesis
      proof cases
        case 1
        then have "\<not> ascii c" using rune_size_bounds(3) [OF n] e by (auto simp: xml_rune_def split: if_splits)
        then show ?thesis by (rule r)
      next
        case 2
        then show ?thesis using "2.IH"(3) [OF False n] by simp
      qed
    qed
  qed
qed simp

text \<open>
  No value can break the property list. Whatever bytes a label, path or variable holds, its escaped
  form has no angle bracket, quote or newline, so it neither opens nor closes an element; and every value
  that XML can hold is read back unchanged from the text up to the closing tag.
\<close>

lemma plist_values_contained:
  assumes "xml_chars v"
  shows "xml_text (xmlEscape v @ ''</string>'' @ r) = Some (v, ''</string>'' @ r)
         \<and> (\<forall>w c. c \<in> set (xmlEscape w) \<longrightarrow> c \<noteq> CHR ''<'' \<and> c \<noteq> CHR ''>'' \<and> c \<noteq> CHR 0x22 \<and> c \<noteq> CHR 0x0A)"
  using xml_text_escaped [OF assms, of "''/string>'' @ r"] xml_escape_tags by simp

lemma plist_values_contained_witness:
  "xml_text (xmlEscape ''<key>A & B</key>'' @ ''</string>'') = Some (''<key>A & B</key>'', ''</string>'')"
  using plist_values_contained [of "''<key>A & B</key>''" "[]"] by simp

end
