(* ===== verification/InstallMain.thy ===== *)
theory InstallMain
  imports InstallService AgentConfig
begin

text \<open>
  \<open>cmd/install\<close>: the command line, the environment of the service, and the installation it runs.
\<close>

section \<open>Flags\<close>

text \<open>
  \<open>flag.FlagSet.Parse\<close> for string flags. \<open>names\<close> are the flags that are defined, \<open>vals\<close> their values so
  far; parsing ends at the first argument that is not a flag, or after \<open>--\<close>.
\<close>

definition split_flag :: "string \<Rightarrow> string \<times> string option" where
  "split_flag name =
     (case split_first (CHR ''='') (tl name) of
        None \<Rightarrow> (name, None)
      | Some (a, b) \<Rightarrow> (hd name # a, Some b))"

fun parse_flags :: "string list \<Rightarrow> string list \<Rightarrow> (string \<Rightarrow> string) \<Rightarrow> (string \<Rightarrow> string) ares" where
  "parse_flags names [] vals = Inr vals"
| "parse_flags names (s # args) vals =
     (if length s < 2 \<or> \<not> HasPrefix s ''-'' then Inr vals
      else if s = ''--'' then Inr vals
      else
        (let name = (if HasPrefix s ''--'' then drop 2 s else drop 1 s) in
         if name = [] \<or> HasPrefix name ''-'' \<or> HasPrefix name ''='' then Inl (Failure (''bad flag syntax: '' @ s))
         else
           (let (name, value) = split_flag name in
            if name \<notin> set names
            then Inl (Failure (if name = ''help'' \<or> name = ''h'' then ''flag: help requested''
                               else ''flag provided but not defined: -'' @ name))
            else
              (case value of
                 Some v \<Rightarrow> parse_flags names args (vals(name := v))
               | None \<Rightarrow>
                   (case args of
                      [] \<Rightarrow> Inl (Failure (''flag needs an argument: -'' @ name))
                    | v # args' \<Rightarrow> parse_flags names args' (vals(name := v)))))))"

definition defaultLabel :: string where
  "defaultLabel = ''ai.enclout.agent''"

text \<open>\<open>lookupEnv\<close> returns no value for a variable that is not set.\<close>

definition envOrEmpty :: "(string \<Rightarrow> string option) \<Rightarrow> string \<Rightarrow> string" where
  "envOrEmpty lookupEnv key = (case lookupEnv key of Some v \<Rightarrow> v | None \<Rightarrow> [])"

definition flag_names :: "string list" where
  "flag_names = [''token'', ''agent-bin'', ''label'', ''control-plane-url'', ''agent-token'', ''local-username'',
     ''dcap-verifier-url'', ''connector-id'', ''device-id'', ''service-path'', ''plist-path'']"

definition flag_defaults :: "(string \<Rightarrow> string option) \<Rightarrow> string \<Rightarrow> string" where
  "flag_defaults lookupEnv =
     (\<lambda>name. [])
       (''label'' := defaultLabel,
        ''control-plane-url'' := envOrEmpty lookupEnv ''CONTROL_PLANE_URL'',
        ''agent-token'' := envOrEmpty lookupEnv ''AGENT_TOKEN'',
        ''local-username'' := envOrEmpty lookupEnv ''LOCAL_USERNAME'',
        ''dcap-verifier-url'' := envOrEmpty lookupEnv ''DCAP_VERIFIER_URL'',
        ''connector-id'' := envOrEmpty lookupEnv ''CONNECTOR_ID'',
        ''device-id'' := envOrEmpty lookupEnv ''DEVICE_ID'')"

section \<open>Paths and environment\<close>

definition defaultPlistPath :: "string \<Rightarrow> string \<Rightarrow> string" where
  "defaultPlistPath home label = Join [home, ''Library'', ''LaunchAgents'', label @ ''.plist'']"

definition defaultSystemdUnitPath :: "string \<Rightarrow> string \<Rightarrow> string" where
  "defaultSystemdUnitPath home label =
     (let label = (if \<not> HasSuffix label ''.service'' then label @ ''.service'' else label)
      in Join [home, ''.config'', ''systemd'', ''user'', label])"

definition forwarded_keys :: "string list" where
  "forwarded_keys =
     [''AGENT_TOKEN'', ''DCAP_VERIFIER_TOKEN'', ''DCAP_VERIFIER_TIMEOUT'', ''MANAGED_KEYS_DIR'', ''ALLOW_MRTD'', ''ALLOW_RTMR3'',
      ''CONNECTOR_ID'', ''DEVICE_ID'', ''CONTROL_PLANE_SIGNING_KEYS_JSON'', ''CONTROL_PLANE_SIGNING_PUBKEY_B64'',
      ''CONTROL_PLANE_SIGNING_KID'', ''SIGNING_KEYSET_CACHE_TTL'']"

fun forward_keys :: "(string \<Rightarrow> string) \<Rightarrow> string list \<Rightarrow> (string \<rightharpoonup> string) \<Rightarrow> (string \<rightharpoonup> string)" where
  "forward_keys getenv [] out = out"
| "forward_keys getenv (key # keys) out =
     (let v = TrimSpace (getenv key) in forward_keys getenv keys (if v \<noteq> [] then out(key \<mapsto> v) else out))"

definition buildInstallEnv :: "string \<Rightarrow> string \<Rightarrow> string \<Rightarrow> (string \<Rightarrow> string) \<Rightarrow> (string \<rightharpoonup> string)" where
  "buildInstallEnv localUsername controlPlaneURL dcapVerifierURL getenv =
     forward_keys getenv forwarded_keys
       [''CONTROL_PLANE_URL'' \<mapsto> controlPlaneURL, ''LOCAL_USERNAME'' \<mapsto> localUsername,
        ''DCAP_VERIFIER_URL'' \<mapsto> dcapVerifierURL]"

definition installFailureReasonForGOOS :: "string \<Rightarrow> string" where
  "installFailureReasonForGOOS goos = (if goos = ''linux'' then InstallFailureSystemd else InstallFailureLaunchd)"

section \<open>The command\<close>

text \<open>
  What the command line comes to: the client of the control plane and the configuration of the run, or
  an error before anything was sent. \<open>current_user\<close> is the result of \<open>user.Current\<close>.
\<close>

definition install_plan ::
  "string list \<Rightarrow> (string \<Rightarrow> string option) \<Rightarrow> string \<Rightarrow> string ares \<Rightarrow> (Client \<times> InstallConfig) ares" where
  "install_plan args lookupEnv goos current_user =
     (if goos \<noteq> ''darwin'' \<and> goos \<noteq> ''linux''
      then Inl (Failure (''installer is only supported on darwin or linux, got '' @ goos))
      else
        res_bind (parse_flags flag_names args (flag_defaults lookupEnv)) (\<lambda>flag.
          if blank (flag ''token'') then Inl (Failure ''missing required -token'')
          else if blank (flag ''agent-bin'') then Inl (Failure ''missing required -agent-bin'')
          else if blank (flag ''control-plane-url'')
          then Inl (Failure ''missing required CONTROL_PLANE_URL or -control-plane-url'')
          else if blank (flag ''dcap-verifier-url'')
          then Inl (Failure ''missing required DCAP_VERIFIER_URL or -dcap-verifier-url'')
          else
            res_bind
              (if blank (flag ''local-username'') then
                 (case current_user of
                    Inl err \<Rightarrow> Inl (Failure (''resolve local username: '' @ error_text err))
                  | Inr u \<Rightarrow> if blank u then Inl (Failure ''resolve local username: %!w(<nil>)'') else Inr u)
               else Inr (flag ''local-username'')) (\<lambda>localUsername.
            res_bind
              (let path = TrimSpace (flag ''service-path'');
                   path = (if path = [] then TrimSpace (flag ''plist-path'') else path)
               in if path \<noteq> [] then Inr path
                  else
                    (let home = envOrEmpty lookupEnv ''HOME'' in
                     if home = [] then Inl (Failure ''missing HOME for default service path; set -service-path'')
                     else Inr (if goos = ''darwin'' then defaultPlistPath home (flag ''label'')
                               else defaultSystemdUnitPath home (flag ''label'')))) (\<lambda>resolvedServicePath.
            (let env = buildInstallEnv localUsername (flag ''control-plane-url'') (flag ''dcap-verifier-url'')
                         (envOrEmpty lookupEnv);
                 v = TrimSpace (flag ''connector-id'');
                 env = (if v \<noteq> [] then env(''CONNECTOR_ID'' \<mapsto> v) else env);
                 v = TrimSpace (flag ''device-id'');
                 env = (if v \<noteq> [] then env(''DEVICE_ID'' \<mapsto> v) else env)
             in Inr (NewClient (flag ''control-plane-url'') (flag ''agent-token''),
                     \<lparr>ic_InstallToken = flag ''token'', ic_Label = flag ''label'', ic_AgentBinary = flag ''agent-bin'',
                      ic_PlistPath = resolvedServicePath, ic_InstallFailureReason = installFailureReasonForGOOS goos,
                      ic_Env = env\<rparr>))))))"

text \<open>A first argument \<open>--\<close> ends the flags: nothing after it is read, and the token is missing.\<close>

lemma dashes_end_the_flags:
  assumes "goos = ''darwin'' \<or> goos = ''linux''"
  shows "install_plan (''--'' # args) lookupEnv goos current_user = Inl (Failure ''missing required -token'')"
proof -
  have "blank (flag_defaults lookupEnv ''token'')" by (simp add: flag_defaults_def TrimSpace_def)
  with assms show ?thesis by (auto simp: install_plan_def)
qed

text \<open>The client as the run's interface: each request is sent and recorded.\<close>

definition install_send :: "'n transport \<Rightarrow> 'n install_state transport" where
  "install_send send cr st =
     (let (x, n) = send cr (is_net st) in (x, st\<lparr>is_net := n, is_sent := is_sent st @ [cr]\<rparr>))"

definition install_client :: "'n transport \<Rightarrow> Client \<Rightarrow> 'n install_state InstallerAPI" where
  "install_client send c =
     \<lparr>ia_RedeemInstallToken = Client_RedeemInstallToken (install_send send) c,
      ia_RegisterInstallIdentity = RegisterInstallIdentity (install_send send) c,
      ia_PostInstallResult = PostInstallResult (install_send send) c\<rparr>"

definition installerFactoryForGOOS :: "string \<Rightarrow> 'n exec \<Rightarrow> int \<Rightarrow> 'n install_state ServiceInstaller ares" where
  "installerFactoryForGOOS goos exec uid =
     (if goos = ''darwin'' then Inr (launchd_InstallAndStart exec uid)
      else if goos = ''linux'' then Inr (systemd_InstallAndStart exec)
      else Inl (Failure (''installer is only supported on darwin or linux, got '' @ goos)))"

definition runWithDeps ::
  "'n transport \<Rightarrow> (string \<Rightarrow> string) \<Rightarrow> string option \<Rightarrow> string list \<Rightarrow> (string \<Rightarrow> string option) \<Rightarrow> string
   \<Rightarrow> 'n install_state ServiceInstaller \<Rightarrow> string ares \<Rightarrow> 'n install_state \<Rightarrow> agent_error option \<times> 'n install_state" where
  "runWithDeps send lower host args lookupEnv goos newInstaller current_user st =
     (case install_plan args lookupEnv goos current_user of
        Inl err \<Rightarrow> (Some err, st)
      | Inr (c, cfg) \<Rightarrow> install_Run lower host (install_client send c) newInstaller cfg st)"

text \<open>The whole command; \<open>goos\<close> is \<open>runtime.GOOS\<close>, \<open>uid\<close> the user's number.\<close>

definition install_main ::
  "'n transport \<Rightarrow> 'n exec \<Rightarrow> int \<Rightarrow> (string \<Rightarrow> string) \<Rightarrow> string option \<Rightarrow> string list \<Rightarrow> (string \<Rightarrow> string option)
   \<Rightarrow> string \<Rightarrow> string ares \<Rightarrow> 'n install_state \<Rightarrow> agent_error option \<times> 'n install_state" where
  "install_main send exec uid lower host args lookupEnv goos current_user st =
     (case installerFactoryForGOOS goos exec uid of
        Inl err \<Rightarrow> (Some err, st)
      | Inr newInstaller \<Rightarrow> runWithDeps send lower host args lookupEnv goos newInstaller current_user st)"

section \<open>What an installation tells the control plane\<close>

definition redeem_request :: "Client \<Rightarrow> string \<Rightarrow> client_request" where
  "redeem_request c token = post_request c ''/v1/install-sessions/redeem'' (JObj [(''token'', JStr token)])"

definition registration_request :: "Client \<Rightarrow> string \<Rightarrow> string \<Rightarrow> string \<Rightarrow> client_request" where
  "registration_request c sessionID connectorID deviceID =
     post_request c (''/v1/install-sessions/'' @ PathEscape sessionID @ ''/registration'')
       (JObj [(''connector_id'', JStr connectorID), (''device_id'', JStr deviceID)])"

definition outcome_request :: "Client \<Rightarrow> string \<Rightarrow> string \<Rightarrow> string \<Rightarrow> client_request" where
  "outcome_request c sessionID status reasonCode =
     post_request c (''/v1/install-sessions/'' @ PathEscape sessionID @ ''/result'')
       (JObj [(''reason_code'', JStr reasonCode), (''status'', JStr status)])"

lemma install_send_sent: "install_send send cr st = (x, st') \<Longrightarrow> is_sent st' = is_sent st @ [cr]"
  by (auto simp: install_send_def split: prod.splits)

lemma fetch_once: "fetch (install_send send) what dec r st = (x, st') \<Longrightarrow> is_sent st' = is_sent st @ [r]"
  by (auto simp: fetch_def install_send_sent split: prod.splits sum.splits if_splits)

lemma post_once:
  "postJSON (install_send send) c path body st = (x, st') \<Longrightarrow> is_sent st' = is_sent st @ [post_request c path body]"
  by (auto simp: postJSON_def install_send_sent split: prod.splits sum.splits if_splits)

lemma redeem_sent:
  "ia_RedeemInstallToken (install_client send c) token st = (x, st') \<Longrightarrow> is_sent st' = is_sent st @ [redeem_request c token]"
  by (simp add: install_client_def Client_RedeemInstallToken_def redeem_request_def fetch_once)

lemma registration_sent:
  "ia_RegisterInstallIdentity (install_client send c) sid ci di st = (x, st') \<Longrightarrow>
   is_sent st' = is_sent st @ [registration_request c sid ci di]"
  unfolding install_client_def RegisterInstallIdentity_def registration_request_def InstallerAPI.select_convs by (rule post_once)

lemma outcome_sent:
  "is_sent (snd (ia_PostInstallResult (install_client send c) sid status reason st)) = is_sent st @ [outcome_request c sid status reason]"
  unfolding install_client_def PostInstallResult_def outcome_request_def InstallerAPI.select_convs
  by (rule post_once) (rule prod.collapse [symmetric])

lemma on_fs_sent: "is_sent (snd (on_fs f st)) = is_sent st"
  by (simp add: on_fs_def split: prod.split)

lemma command_sent: "is_sent (snd (osCommandRunner_Run exec name args st)) = is_sent st"
  by (simp add: osCommandRunner_Run_def Let_def split: prod.split option.split)

lemma and_then_sent: "(\<And>w. is_sent (snd (f w)) = is_sent w) \<Longrightarrow> is_sent (snd (and_then x f)) = is_sent (snd x)"
  by (simp add: and_then_def split: prod.split option.split)

lemma installer_sent:
  "installerFactoryForGOOS goos exec uid = Inr installer \<Longrightarrow> is_sent (snd (installer cfg st)) = is_sent st"
  by (auto simp: installerFactoryForGOOS_def launchd_InstallAndStart_def systemd_InstallAndStart_def Let_def and_then_sent
      on_fs_sent command_sent split: if_splits)

lemma attempt_sent:
  assumes "installerFactoryForGOOS goos exec uid = Inr installer"
  shows "is_sent (snd (install_attempt lower host (install_client send c) installer cfg session st)) =
     is_sent st @ (if validateConfig cfg (run_env lower host cfg session) = None
                   then [case resolveInstallIdentity lower host (ic_Env cfg) session of
                           (connectorID, deviceID) \<Rightarrow> registration_request c (ais_ID session) connectorID deviceID]
                   else [])"
proof (cases "validateConfig cfg (run_env lower host cfg session)")
  case None
  obtain ci di where i: "resolveInstallIdentity lower host (ic_Env cfg) session = (ci, di)" by fastforce
  obtain x st1 where r: "ia_RegisterInstallIdentity (install_client send c) (ais_ID session) ci di st = (x, st1)" by fastforce
  obtain y st2 where s: "installer (run_service lower host cfg session) st1 = (y, st2)" by fastforce
  have "is_sent st2 = is_sent st1" using installer_sent [OF assms, of "run_service lower host cfg session" st1] s by simp
  then show ?thesis
    using registration_sent [OF r] by (cases x; cases y) (simp_all add: install_attempt_def None i r s)
qed (simp add: install_attempt_def)

text \<open>What a run is to send, in order, from state \<open>st\<close>: the redemption, the registration, one result.\<close>

definition reports ::
  "(string \<Rightarrow> string) \<Rightarrow> string option \<Rightarrow> 'n transport \<Rightarrow> 'n install_state ServiceInstaller \<Rightarrow> Client \<Rightarrow> InstallConfig
   \<Rightarrow> 'n install_state \<Rightarrow> client_request list" where
  "reports lower host send installer c cfg st =
     (let (got, st1) = ia_RedeemInstallToken (install_client send c) (ic_InstallToken cfg) st
      in redeem_request c (ic_InstallToken cfg) #
       (case got of
          Inl err \<Rightarrow> []
        | Inr session \<Rightarrow>
            (let result = fst (install_attempt lower host (install_client send c) installer cfg session st1) in
             (if validateConfig cfg (run_env lower host cfg session) = None
              then [case resolveInstallIdentity lower host (ic_Env cfg) session of
                      (connectorID, deviceID) \<Rightarrow> registration_request c (ais_ID session) connectorID deviceID]
              else [])
             @ [case result of
                  None \<Rightarrow> outcome_request c (ais_ID session) ''installed'' []
                | Some (reason, err) \<Rightarrow> outcome_request c (ais_ID session) ''failed'' reason])))"

lemma run_reports:
  assumes "installerFactoryForGOOS goos exec uid = Inr installer"
  shows "is_sent (snd (install_Run lower host (install_client send c) installer cfg st))
         = is_sent st @ reports lower host send installer c cfg st"
proof -
  obtain got st1 where r: "ia_RedeemInstallToken (install_client send c) (ic_InstallToken cfg) st = (got, st1)" by fastforce
  note s = redeem_sent [OF r]
  show ?thesis
  proof (cases got)
    case (Inr session)
    obtain res st2 where a: "install_attempt lower host (install_client send c) installer cfg session st1 = (res, st2)"
      by fastforce
    show ?thesis
      using s attempt_sent [OF assms, of lower host send c cfg session st1] a
      by (cases res) (simp_all add: reports_def Let_def run_attempt r Inr fail_posts outcome_sent split_def
          install_InstallStatusInstalled_def install_InstallStatusFailed_def)
  qed (use s in \<open>simp add: reports_def Let_def run_attempt r\<close>)
qed

text \<open>
  C17. An installation reports exactly once. Whatever the network, the file system and the service manager
  do, the command sends nothing when the system, the command line or the environment is not usable.
  Otherwise it sends the redemption of its token and nothing else if that fails; once redeemed, it
  sends a registration if its configuration is complete, and then exactly one result, the last request,
  which says \<open>installed\<close> exactly when registration, service files and start all succeeded.
\<close>

theorem install_reports_once:
  "is_sent (snd (install_main send exec uid lower host args lookupEnv goos current_user st)) = is_sent st @
     (case (installerFactoryForGOOS goos exec uid, install_plan args lookupEnv goos current_user) of
        (Inr installer, Inr (c, cfg)) \<Rightarrow> reports lower host send installer c cfg st
      | _ \<Rightarrow> [])"
  by (auto simp: install_main_def runWithDeps_def run_reports split: sum.split prod.split)

end
