(* ===== verification/Service.thy ===== *)
theory Service
  imports AgentRuns InstallMain
begin

text \<open>
  The installer and the agent together: the environment an installation gives the service is the one the
  agent starts from.
\<close>

section \<open>What the service is given\<close>

lemma forward_keys_get:
  "forward_keys getenv keys out k =
     (if k \<in> set keys \<and> \<not> blank (getenv k) then Some (TrimSpace (getenv k)) else out k)"
  by (induction keys arbitrary: out) (auto simp: Let_def)

lemma install_env_token:
  assumes "blank (getenv ''AGENT_TOKEN'')"
  shows "buildInstallEnv user url dcap getenv ''AGENT_TOKEN'' = None"
  using assms by (simp add: buildInstallEnv_def forward_keys_get)

lemma plan_env:
  assumes "install_plan args lookupEnv goos current_user = Inr (c, cfg)"
  obtains flag user where "parse_flags flag_names args (flag_defaults lookupEnv) = Inr flag"
    "c = NewClient (flag ''control-plane-url'') (flag ''agent-token'')"
    "\<And>k. k \<notin> {''CONNECTOR_ID'', ''DEVICE_ID''} \<Longrightarrow> ic_Env cfg k =
        buildInstallEnv user (flag ''control-plane-url'') (flag ''dcap-verifier-url'') (envOrEmpty lookupEnv) k"
  using assms
  by (auto simp: install_plan_def Let_def res_bind_Inr split: if_splits sum.splits)

lemma run_env_get:
  "k \<notin> {''CONNECTOR_ID'', ''DEVICE_ID''} \<Longrightarrow> run_env lower host cfg session k = ic_Env cfg k"
  "env_get (run_env lower host cfg session) ''DEVICE_ID'' = snd (resolveInstallIdentity lower host (ic_Env cfg) session)"
  by (simp_all add: run_env_def env_get_def split_def Let_def)

lemma missing_key_None: "missing_key env keys = None \<longleftrightarrow> (\<forall>k \<in> set keys. \<not> blank (env_get env k))"
  by (induction keys) auto

lemma blank_Nil: "blank []"
  by code_simp

text \<open>
  An environment that was validated starts the agent. With an environment that passed the installer's validation, the agent
  finds every variable it requires and starts, unless the configured signing keys are malformed; and it
  polls under the very device ID that was registered, with the token the environment has.
\<close>

lemma environment_starts_agent:
  assumes "validateConfig cfg (run_env lower host cfg session) = None"
    and "loadTrustedControlPlaneSigningKeysFromEnv (env_get (run_env lower host cfg session)) = Inr keys"
  shows "\<exists>ag src. agent_main ed send native lower order scale (env_get (run_env lower host cfg session)) t = Inr (ag, src)
           \<and> at_deviceID ag = snd (resolveInstallIdentity lower host (ic_Env cfg) session)
           \<and> at_localUser ag = env_get (ic_Env cfg) ''LOCAL_USERNAME''
           \<and> at_client ag = NewClient (env_get (ic_Env cfg) ''CONTROL_PLANE_URL'') (env_get (ic_Env cfg) ''AGENT_TOKEN'')"
proof -
  let ?get = "env_get (run_env lower host cfg session)"
  have "missing_key (run_env lower host cfg session) required_keys = None"
    using assms(1) by (auto simp: validateConfig_def split: if_splits)
  then have nb: "\<not> blank (?get k)" if "k \<in> set required_keys" for k using that by (simp add: missing_key_None)
  then have ne: "?get k \<noteq> []" if "k \<in> set required_keys" for k using that blank_Nil by metis
  have same: "?get k = env_get (ic_Env cfg) k" if "k \<notin> {''CONNECTOR_ID'', ''DEVICE_ID''}" for k
    using run_env_get(1) [OF that] by (simp add: env_get_def)
  have must: "mustEnv ?get k = Inr (?get k)" if "k \<in> set required_keys" for k using ne [OF that] by (simp add: mustEnv_def)
  have "TrimSpace (?get ''DCAP_VERIFIER_URL'') \<noteq> []" using nb [of "''DCAP_VERIFIER_URL''"] by (simp add: required_keys_def)
  then obtain v where v: "NewHTTPDCAPVerifier (?get ''DCAP_VERIFIER_URL'') (?get ''DCAP_VERIFIER_TOKEN'')
      (parseDurationOrDefault scale (?get ''DCAP_VERIFIER_TIMEOUT'') (10 * Second)) = Inr v"
    by (simp add: NewHTTPDCAPVerifier_def Let_def)
  show ?thesis
    using v assms(2) must by (simp add: agent_main_def required_keys_def same run_env_get(2) Let_def)
qed

text \<open>
  C38. The token given on the command line does not reach the service. When the installer's own environment
  has no \<open>AGENT_TOKEN\<close>, the service gets none, whatever \<open>-agent-token\<close> was and although the installation
  itself used it: the agent starts, and the control plane answers every request of its client with 401.
\<close>

theorem flag_token_is_not_forwarded:
  assumes "install_plan args lookupEnv goos current_user = Inr (c, cfg)" and "blank (envOrEmpty lookupEnv ''AGENT_TOKEN'')"
    and "agent_main ed send native lower order scale (env_get (run_env lower host cfg session)) t = Inr (ag, src)"
    and "hr_header r ''Authorization'' = cq_Authorization (get_request (at_client ag) path)"
  shows "RequireBearerToken tok next e r s = (http_error ''unauthorized'' 401, s)"
proof -
  have "ic_Env cfg ''AGENT_TOKEN'' = None"
    by (rule plan_env [OF assms(1)]) (simp add: install_env_token [of "envOrEmpty lookupEnv"] assms(2))
  then have "env_get (run_env lower host cfg session) ''AGENT_TOKEN'' = []" by (simp add: run_env_get(1) env_get_def)
  then have "cl_token (at_client ag) = []"
    using assms(3) by (auto simp: agent_main_def res_bind_Inr Let_def NewClient_def)
  then have "hr_header r ''Authorization'' = []"
    using assms(4) by (simp add: get_request_def addHeaders_def)
  then show ?thesis by (auto simp: RequireBearerToken_cases authorized_def parseBearerToken_def blank_Nil)
qed

section \<open>An installation\<close>

definition demo_lookup :: "string \<Rightarrow> string option" where
  "demo_lookup = [''HOME'' \<mapsto> ''/home/a'', ''CONTROL_PLANE_URL'' \<mapsto> ''http://cp'', ''DCAP_VERIFIER_URL'' \<mapsto> ''http://v'',
                  ''LOCAL_USERNAME'' \<mapsto> ''alice'', ''DEVICE_ID'' \<mapsto> ''d1'']"

definition demo_args :: "string list" where
  "demo_args = [''-token'', ''t1'', ''-agent-bin'', ''/bin/agent'', ''--agent-token=secret'']"

definition demo_session :: api_InstallSession where
  "demo_session = \<lparr>ais_ID = ''s1'', ais_OpenClawUserID = ''u1'', ais_DeviceID = ''d1'', ais_ConnectorID = ''c1'',
     ais_SourceChannel = [], ais_Status = ''approved'', ais_ReasonCode = []\<rparr>"

definition demo_config :: InstallConfig where
  "demo_config = (case install_plan demo_args demo_lookup ''linux'' (Inr ''alice'') of Inr (c, cfg) \<Rightarrow> cfg)"

lemma demo_parse:
  "parse_flags flag_names demo_args vals =
     Inr (vals(''token'' := ''t1'', ''agent-bin'' := ''/bin/agent'', ''agent-token'' := ''secret''))"
proof -
  have "split_flag ''token'' = (''token'', None)" "split_flag ''agent-bin'' = (''agent-bin'', None)"
    "split_flag ''agent-token=secret'' = (''agent-token'', Some ''secret'')"
    by (simp_all add: split_flag_def)
  then show ?thesis by (simp add: demo_args_def flag_names_def Let_def)
qed

lemma demo_words:
  "TrimSpace ''t1'' = ''t1''" "TrimSpace ''/bin/agent'' = ''/bin/agent''" "TrimSpace ''http://cp'' = ''http://cp''"
  "TrimSpace ''http://v'' = ''http://v''" "TrimSpace ''alice'' = ''alice''" "TrimSpace ''d1'' = ''d1''" "TrimSpace [] = []"
  "TrimSpace ''ai.enclout.agent'' = ''ai.enclout.agent''" "TrimSpace ''c1'' = ''c1''"
  by code_simp+

lemma demo_plan:
  obtains cfg where "install_plan demo_args demo_lookup ''linux'' (Inr ''alice'') = Inr (NewClient ''http://cp'' ''secret'', cfg)"
    "ic_Label cfg = defaultLabel" "ic_AgentBinary cfg = ''/bin/agent''"
    "ic_PlistPath cfg = defaultSystemdUnitPath ''/home/a'' defaultLabel"
    "ic_Env cfg = (buildInstallEnv ''alice'' ''http://cp'' ''http://v'' (envOrEmpty demo_lookup))(''DEVICE_ID'' \<mapsto> ''d1'')"
  using that
  by (simp add: install_plan_def demo_parse flag_defaults_def demo_words envOrEmpty_def demo_lookup_def Let_def)

lemma demo_unit_path: "\<not> blank (defaultSystemdUnitPath ''/home/a'' defaultLabel)"
  by code_simp

lemma demo_env:
  assumes "ic_Env cfg = (buildInstallEnv ''alice'' ''http://cp'' ''http://v'' (envOrEmpty demo_lookup))(''DEVICE_ID'' \<mapsto> ''d1'')"
  shows "env_get (run_env lower host cfg demo_session) =
           (\<lambda>k. []) (''CONTROL_PLANE_URL'' := ''http://cp'', ''LOCAL_USERNAME'' := ''alice'', ''DCAP_VERIFIER_URL'' := ''http://v'',
                    ''CONNECTOR_ID'' := ''c1'', ''DEVICE_ID'' := ''d1'')"
  by (rule ext) (simp add: run_env_def resolveInstallIdentity_def assms demo_session_def buildInstallEnv_def forward_keys_get
      forwarded_keys_def env_get_def envOrEmpty_def demo_lookup_def demo_words Let_def)

text \<open>The poll of an agent, as the server gets it.\<close>

definition demo_probe :: "'n agent \<Rightarrow> http_request" where
  "demo_probe ag =
     \<lparr>hr_Method = ''GET'', hr_EscapedPath = ''/x'', hr_query = (\<lambda>k. []),
      hr_header = (\<lambda>h. cq_Authorization (get_request (at_client ag) ''/x'')), hr_Host = [], hr_TLS = False, hr_body = Inr JNull\<rparr>"

theorem flag_token_is_not_forwarded_witness:
  "\<exists>c cfg ag src. install_plan demo_args demo_lookup ''linux'' (Inr ''alice'') = Inr (c, cfg) \<and> cl_token c = ''secret''
     \<and> agent_main toy_ed (\<lambda>cr n. (Inl (Failure ''down''), n)) (\<lambda>q io. (Inr True, io)) (\<lambda>w. w) demo_order (\<lambda>a b c. c)
         (env_get (run_env (\<lambda>w. w) None cfg demo_session)) 0 = Inr (ag :: unit agent, src)
     \<and> RequireBearerToken ''secret'' (\<lambda>e r s. (writeJSON 200 (BText ''ok''), s)) ()
         (demo_probe ag) ()
       = (http_error ''unauthorized'' 401, ())"
proof -
  obtain cfg where p: "install_plan demo_args demo_lookup ''linux'' (Inr ''alice'') = Inr (NewClient ''http://cp'' ''secret'', cfg)"
    and e: "ic_Env cfg = (buildInstallEnv ''alice'' ''http://cp'' ''http://v'' (envOrEmpty demo_lookup))(''DEVICE_ID'' \<mapsto> ''d1'')"
    by (rule demo_plan)
  have l: "loadTrustedControlPlaneSigningKeysFromEnv (env_get (run_env (\<lambda>w. w) None cfg demo_session)) = Inr Map.empty"
    by (simp add: loadTrustedControlPlaneSigningKeysFromEnv_def demo_env [OF e] demo_words Let_def)
  obtain ag :: "unit agent" and src where m: "agent_main toy_ed (\<lambda>cr n. (Inl (Failure ''down''), n)) (\<lambda>q io. (Inr True, io)) (\<lambda>w. w)
      demo_order (\<lambda>a b c. c) (env_get (run_env (\<lambda>w. w) None cfg demo_session)) 0 = Inr (ag, src)"
    using l by (simp add: agent_main_def demo_env [OF e] mustEnv_def NewHTTPDCAPVerifier_def demo_words Let_def)
  have "blank (envOrEmpty demo_lookup ''AGENT_TOKEN'')" by (simp add: envOrEmpty_def demo_lookup_def demo_words)
  have "RequireBearerToken ''secret'' (\<lambda>e r s. (writeJSON 200 (BText ''ok''), s)) ()
         (demo_probe ag) ()
       = (http_error ''unauthorized'' 401, ())"
    by (rule flag_token_is_not_forwarded [OF p \<open>blank _\<close> m, of _ "''/x''"]) (simp add: demo_probe_def)
  moreover have "cl_token (NewClient ''http://cp'' ''secret'') = ''secret''" by (simp add: NewClient_def)
  ultimately show ?thesis using p m by blast
qed

end
