(* ===== verification/EndToEnd.thy ===== *)
theory EndToEnd
  imports Wire Service
begin

text \<open>
  The control plane and the agent together: what the one signs and publishes is what the other verifies,
  and the agent's calls over HTTP are the calls on the store.
\<close>

section \<open>Reading what the control plane writes\<close>

lemma sent_json_read:
  assumes "readable (textual j)" and "json_depth (textual j) \<le> max_depth"
  shows "decode_text (sent_json (Inr j)) = Inr (textual j)"
  using decode_written [OF assms] by (simp add: sent_json_def)

lemma fold_max_le: "(\<And>x. x \<in> set xs \<Longrightarrow> x \<le> k) \<Longrightarrow> m \<le> k \<Longrightarrow> fold max xs m \<le> (k :: nat)"
  by (induction xs arbitrary: m) auto

lemma textual_strings: "textual (JObj (map (apsnd JStr) f)) = JObj (map (apsnd JStr) f)"
  by (simp add: comp_def apsnd_def map_prod_def split_def)

lemma string_members_readable:
  "list_all (\<lambda>x. valid_utf8 (fst x) \<and> valid_utf8 (snd x)) f \<Longrightarrow> readable (JObj (map (apsnd JStr) f))"
  by (simp add: list_all_iff)

lemma string_members_depth: "json_depth (JObj (map (apsnd JStr) f)) \<le> 1"
proof -
  have "fold max (map ((\<lambda>kv. json_depth (snd kv)) \<circ> apsnd JStr) f) 0 \<le> 0" by (rule fold_max_le) auto
  then show ?thesis by simp
qed

lemma string_members_text: "json_write (JObj (map (apsnd JStr) f)) = object_text (map (apsnd quote_json) f)"
  by (simp add: comp_def apsnd_def map_prod_def split_def)

text \<open>The keyset.\<close>

lemma key_names [simp]:
  "fold_name ''public_key_b64'' = ''PUBLIC_KEY_B64''" "fold_name ''active_kid'' = ''ACTIVE_KID''" "fold_name ''keys'' = ''KEYS''"
  by code_simp+

definition key_of :: "PublicKeyInfo \<Rightarrow> SigningKeyInfo" where
  "key_of k = \<lparr>ki_KID = pk_KID k, ki_Alg = pk_Alg k, ki_PublicKeyB64 = pk_PublicKeyB64 k\<rparr>"

lemma key_read: "key_info_of (key_json k) = Inr (key_of k)"
  by (simp add: key_info_of_def key_json_def key_of_def del: fold_name.simps)

lemma keys_read: "list_of key_info_of (map key_json ks) = Inr (map key_of ks)"
  by (induction ks) (simp_all add: key_read)

lemma keyset_read:
  assumes "valid_utf8 (ks_ActiveKID ks)"
    and "\<forall>k \<in> set (ks_Keys ks). valid_utf8 (pk_KID k) \<and> valid_utf8 (pk_Alg k) \<and> valid_utf8 (pk_PublicKeyB64 k)"
  shows "res_bind (decode_text (body_text (writeJSON 200 (BKeyset ks)))) keyset_of
         = Inr \<lparr>ak_ActiveKID = ks_ActiveKID ks, ak_Keys = map key_of (ks_Keys ks)\<rparr>"
proof -
  have t: "textual (keyset_json ks) = keyset_json ks" by (simp add: keyset_json_def key_json_def)
  have "json_depth (key_json k) \<le> 1" for k by (simp add: key_json_def)
  then have "fold max (map (json_depth \<circ> key_json) (ks_Keys ks)) 0 \<le> 1" by (intro fold_max_le) auto
  then have "json_depth (keyset_json ks) \<le> max_depth" by (simp add: keyset_json_def max_depth_def)
  moreover have "readable (keyset_json ks)"
    using assms by (auto simp: keyset_json_def key_json_def list_all_iff)
  ultimately have "decode_text (body_text (writeJSON 200 (BKeyset ks))) = Inr (keyset_json ks)"
    using sent_json_read [of "keyset_json ks"] by (simp add: body_text_def t)
  then show ?thesis by (simp add: keyset_of_def keyset_json_def keys_read del: fold_name.simps)
qed

text \<open>A keyset of good keys with distinct IDs is trusted as it is.\<close>

lemma trusted_loop_good:
  "\<forall>k \<in> set ks. TrimSpace (ki_KID k) \<noteq> [] \<and> TrimSpace (ki_PublicKeyB64 k) \<noteq> [] \<and> TrimSpace (ki_Alg k) = ''ed25519''
   \<Longrightarrow> \<exists>m. trusted_loop ks out = Inr m"
  by (induction ks arbitrary: out) (simp_all add: Let_def)

lemma trusted_loop_last:
  "trusted_loop ks out = Inr m \<Longrightarrow> distinct (map (TrimSpace \<circ> ki_KID) ks) \<Longrightarrow>
   (\<forall>k \<in> set ks. m (TrimSpace (ki_KID k)) = Some (TrimSpace (ki_PublicKeyB64 k)))
   \<and> (\<forall>i. i \<notin> (TrimSpace \<circ> ki_KID) ` set ks \<longrightarrow> m i = out i)"
proof (induction ks arbitrary: out)
  case (Cons k ks)
  let ?out = "out(TrimSpace (ki_KID k) \<mapsto> TrimSpace (ki_PublicKeyB64 k))"
  have "trusted_loop ks ?out = Inr m" using Cons.prems(1) by (auto simp: Let_def split: if_splits)
  from Cons.IH [OF this] Cons.prems(2) show ?case by auto
qed simp

text \<open>The payload.\<close>

lemma payload_depth: "json_depth (payload_json p) \<le> 1"
  unfolding payload_json_def by (rule string_members_depth)

lemma field_names_utf8: "x \<in> set (payload_fields p) \<Longrightarrow> valid_utf8 (fst x)"
proof -
  assume "x \<in> set (payload_fields p)"
  then have "\<forall>c \<in> set (fst x). ascii c" by (auto simp: payload_fields_def)
  then show ?thesis by (intro valid_ascii) blast
qed

lemma payload_readable: "payload_utf8 p \<Longrightarrow> readable (payload_json p)"
  unfolding payload_json_def
  by (rule string_members_readable) (use field_names_utf8 in \<open>auto simp: payload_utf8_def list_all_iff\<close>)

definition claims_of :: "BundlePayload \<Rightarrow> Bundle" where
  "claims_of p =
     \<lparr>ab_ConnectorID = bp_ConnectorID p, ab_SSHPublicKey = bp_SSHPublicKey p, ab_QuoteHex = bp_QuoteHex p, ab_MRTD = bp_MRTD p,
      ab_RTMR0 = bp_RTMR0 p, ab_RTMR1 = bp_RTMR1 p, ab_RTMR2 = bp_RTMR2 p, ab_RTMR3 = bp_RTMR3 p,
      ab_ReportDataExpectedSHA256 = bp_ReportDataExpectedSHA256 p, ab_PolicyVersion = bp_PolicyVersion p\<rparr>"

lemma payload_claims:
  assumes "bp_SSHPublicKey p \<noteq> []" and "bp_QuoteHex p \<noteq> []"
  shows "\<exists>m. decode_entries Inr (map (apsnd JStr) (payload_fields p)) Map.empty = Inr m \<and> parseBundlePayload m = Inr (claims_of p)"
  using assms by (simp add: payload_fields_def parseBundlePayload_def stringField_def claims_of_def Let_def)

lemma bundle_read:
  assumes "payload_utf8 p" and "year_ok (bp_IssuedAt p)" and "year_ok (bp_ExpiresAt p)"
    and "valid_utf8 sig" and "valid_utf8 alg" and "valid_utf8 kid" and "bp_SSHPublicKey p \<noteq> []" and "bp_QuoteHex p \<noteq> []"
  shows "\<exists>m. bundle_of (body_text (writeJSON 200 (BBundle \<lparr>sb_Payload = p, sb_Signature = sig, sb_Alg = alg, sb_KID = kid\<rparr>)))
           = Inr \<lparr>cb_Payload = m, cb_PayloadRaw = object_text (map (apsnd quote_json) (payload_fields p)),
                  cb_Signature = sig, cb_Alg = alg, cb_KID = kid\<rparr>
         \<and> parseBundlePayload m = Inr (claims_of p)"
proof -
  obtain m where m: "decode_entries Inr (map (apsnd JStr) (payload_fields p)) Map.empty = Inr m"
    "parseBundlePayload m = Inr (claims_of p)" using payload_claims [OF assms(7,8)] by blast
  let ?ps = "map (apsnd JStr) (payload_fields p)"
  have "json_depth (JObj ?ps) < max_depth"
    using string_members_depth [of "payload_fields p"] by (simp add: max_depth_def del: json_depth.simps)
  from bundle_of_written [OF payload_readable [OF assms(1), unfolded payload_json_def] assms(4,5,6) this, of newline] show ?thesis
    using m assms(2,3) string_members_text [of "payload_fields p"]
    by (intro exI [of _ m])
       (simp add: body_text_def sent_json_def bundle_json_def payload_json_def write_textual del: json_write.simps(7) textual.simps map_map)
qed

section \<open>What the control plane signs, the agent accepts\<close>

lemma published_bundle_read:
  assumes "ed_laws ed" and "NewSignerSetFromSeedMap ed seeds active = Inr s" and "SignerSet_SignBundle ed s p = Inr sb"
    and "distinct vs" and "set vs = dom (ss_signers s)" and "\<forall>kid \<in> dom (ss_signers s). valid_utf8 kid"
    and "payload_utf8 p" and "bp_SSHPublicKey p \<noteq> []" and "bp_QuoteHex p \<noteq> []"
  shows "\<exists>b keyset trusted.
           bundle_of (body_text (writeJSON 200 (BBundle sb))) = Inr b
         \<and> res_bind (decode_text (body_text (writeJSON 200 (BKeyset (SignerSet_Keyset vs s))))) keyset_of = Inr keyset
         \<and> trustedMapFromKeyset keyset = Inr trusted \<and> dom trusted = dom (ss_signers s)
         \<and> marshalCanonical p = Inr (cb_PayloadRaw b)
         \<and> VerifySignedBundleWithKeyset ed (cb_PayloadRaw b) (cb_Signature b) (cb_Alg b) (cb_KID b) trusted = None
         \<and> parseBundlePayload (cb_Payload b) = Inr (claims_of p)"
proof -
  note ok = new_signer_set_ok [OF assms(2)]
  let ?ks = "ks_Keys (SignerSet_Keyset vs s)" and ?raw = "object_text (map (apsnd quote_json) (payload_fields p))"
  obtain sg where sg: "ss_signers s (ss_activeKID s) = Some sg" "signer_ok ed (ss_activeKID s) sg"
    using ok by (auto simp: signer_set_ok_def)
  have sign: "Ed25519Signer_SignBundle ed sg p = Inr sb" using assms(3) sg(1) by (simp add: SignerSet_SignBundle_def)
  from signed_verifies [OF assms(1) sg(2) sign] obtain raw sig where
    raw: "marshalCanonical p = Inr raw" and sb: "sb_Payload sb = p" "sb_KID sb = ss_activeKID s" "sb_Alg sb = ''ed25519''"
    and sig: "b64_decode (sb_Signature sb) = Inr sig" "length sig = 64" "TrimSpace (sb_Signature sb) = sb_Signature sb"
    and pk: "length (sg_publicKey sg) = 32" and v: "ed_Verify ed (sg_publicKey sg) raw sig" by blast
  have years: "year_ok (bp_IssuedAt p)" "year_ok (bp_ExpiresAt p)" and rawt: "raw = ?raw"
    using raw by (auto simp: marshalCanonical_def split: if_splits)
  have sigt: "\<exists>w. sb_Signature sb = b64_encode w" using sign by (auto simp: Ed25519Signer_SignBundle_def res_bind_Inr Let_def)
  have kid: "valid_utf8 (ss_activeKID s)" using assms(6) sg(1) by blast
  have b64: "valid_utf8 (b64_encode w)" for w by (rule ascii_utf8) (rule b64_encode_graph)
  have alg: "valid_utf8 ''ed25519''" by simp
  from sigt b64 have sigu: "valid_utf8 (sb_Signature sb)" by auto
  have sbeq: "sb = \<lparr>sb_Payload = p, sb_Signature = sb_Signature sb, sb_Alg = ''ed25519'', sb_KID = ss_activeKID s\<rparr>"
    using sb by simp
  obtain m where m: "bundle_of (body_text (writeJSON 200 (BBundle sb)))
      = Inr \<lparr>cb_Payload = m, cb_PayloadRaw = ?raw, cb_Signature = sb_Signature sb, cb_Alg = ''ed25519'', cb_KID = ss_activeKID s\<rparr>"
    and mp: "parseBundlePayload m = Inr (claims_of p)"
    using bundle_read [OF assms(7) years sigu alg kid assms(8,9)] sbeq by metis
  have keys: "set ?ks = public_key_info ` ran (ss_signers s)" "sorted_wrt (\<lambda>a b. pk_KID a < pk_KID b) ?ks"
    by (rule keyset_keys [OF ok assms(4,5)])+
  have each: "TrimSpace (pk_KID k) = pk_KID k \<and> pk_KID k \<noteq> [] \<and> pk_Alg k = ''ed25519''
      \<and> ss_signers s (pk_KID k) \<noteq> None \<and> pk_PublicKeyB64 k = b64_encode (sg_publicKey (the (ss_signers s (pk_KID k))))
      \<and> length (sg_publicKey (the (ss_signers s (pk_KID k)))) = 32" if "k \<in> set ?ks" for k
  proof -
    from that keys(1) obtain i g where g: "ss_signers s i = Some g" "k = public_key_info g" by (auto simp: ran_def)
    with ok have "signer_ok ed i g" by (auto simp: signer_set_ok_def)
    with g assms(1) show ?thesis by (auto simp: signer_ok_def public_key_info_def Ed25519Signer_PublicKeyB64_def ed_laws_def)
  qed
  let ?keyset = "\<lparr>ak_ActiveKID = ss_activeKID s, ak_Keys = map key_of ?ks\<rparr>"
  have read: "res_bind (decode_text (body_text (writeJSON 200 (BKeyset (SignerSet_Keyset vs s))))) keyset_of = Inr ?keyset"
    using keyset_read [of "SignerSet_Keyset vs s"] each assms(6) kid b64 by (force simp: SignerSet_Keyset_def Let_def)
  have good: "\<forall>k \<in> set (map key_of ?ks). TrimSpace (ki_KID k) \<noteq> [] \<and> TrimSpace (ki_PublicKeyB64 k) \<noteq> [] \<and> TrimSpace (ki_Alg k) = ''ed25519''"
    using each by (force simp: key_of_def)
  obtain trusted where t: "trusted_loop (map key_of ?ks) Map.empty = Inr trusted" using trusted_loop_good [OF good] by blast
  have kids: "map (TrimSpace \<circ> ki_KID) (map key_of ?ks) = map pk_KID ?ks" using each by (simp add: key_of_def)
  have "sorted_wrt (<) (map pk_KID ?ks)" using keys(2) by (simp add: sorted_wrt_map)
  then have "distinct (map pk_KID ?ks)" by (simp add: strict_sorted_iff)
  note last = trusted_loop_last [OF t, unfolded kids, OF this]
  have mine: "public_key_info sg \<in> set ?ks" using keys(1) sg(1) by (auto simp: ran_def)
  have act: "trusted (ss_activeKID s) = Some (b64_encode (sg_publicKey sg))"
    using last mine each [OF mine] sg by (force simp: key_of_def public_key_info_def signer_ok_def Ed25519Signer_PublicKeyB64_def)
  have dom: "dom trusted = dom (ss_signers s)"
  proof -
    have "dom trusted = (TrimSpace \<circ> ki_KID) ` set (map key_of ?ks)" using trusted_loop_keys [OF t] by simp
    also have "\<dots> = set (map pk_KID ?ks)" by (metis kids list.set_map)
    also have "\<dots> = dom (ss_signers s)"
    proof -
      have "pk_KID (public_key_info g) = i" if "ss_signers s i = Some g" for i g
        using that ok by (auto simp: signer_set_ok_def signer_ok_def public_key_info_def)
      then show ?thesis using keys(1) by (force simp: ran_def image_iff)
    qed
    finally show ?thesis .
  qed
  have "trustedMapFromKeyset ?keyset = Inr trusted"
    using mine t act sg(2) by (auto simp: trustedMapFromKeyset_def signer_ok_def Let_def)
  moreover have "VerifySignedBundleWithKeyset ed ?raw (sb_Signature sb) ''ed25519'' (ss_activeKID s) trusted = None"
    using act sg(2) sig pk v by (auto simp: signature_accepted signer_ok_def rawt object_text_def b64_roundtrip)
  ultimately show ?thesis using m mp read dom raw rawt by auto
qed

lemma demo_signed:
  obtains s sb where "NewSignerSetFromSeedMap toy_ed [(''v1'', b64_encode demo_seed)] ''v1'' = Inr s"
    "SignerSet_SignBundle toy_ed s demo_payload = Inr sb" "distinct [''v1'']" "set [''v1''] = dom (ss_signers s)"
    "\<forall>kid \<in> dom (ss_signers s). valid_utf8 kid" "payload_utf8 demo_payload"
    "bp_SSHPublicKey demo_payload \<noteq> []" "bp_QuoteHex demo_payload \<noteq> []"
proof -
  obtain s where s: "NewSignerSetFromSeedMap toy_ed [(''v1'', b64_encode demo_seed)] ''v1'' = Inr s"
    and d: "dom (ss_signers s) = {''v1''}" using demo_signer_set by blast
  have y: "year_ok (bp_IssuedAt demo_payload)" "year_ok (bp_ExpiresAt demo_payload)"
    by (simp_all add: demo_payload_def year_ok_def)
  obtain sb where sb: "SignerSet_SignBundle toy_ed s demo_payload = Inr sb"
    using new_signer_set_ok [OF s] y
    by (auto simp: signer_set_ok_def SignerSet_SignBundle_def Ed25519Signer_SignBundle_def marshalCanonical_def Let_def)
  have "payload_utf8 demo_payload"
    by (simp add: payload_utf8_def payload_fields_def demo_payload_def rfc3339_utf8)
  with that [OF s sb] show ?thesis by (simp add: d demo_payload_def)
qed

text \<open>
  C6. Signing and verification agree across the wire. When the control plane signs a payload with a set of
  signers built from its seeds and publishes their keyset, then the agent, reading both from the texts the
  server writes, trusts exactly the published keys, gets the canonical bytes that were signed as the raw
  payload, accepts the signature under the bundle's key ID, and reads from the payload the claims that were
  signed. So rejection by an honest agent always means that something was changed or not published.
\<close>

theorem signed_bundles_are_accepted:
  assumes "ed_laws ed" and "NewSignerSetFromSeedMap ed seeds active = Inr s" and "SignerSet_SignBundle ed s p = Inr sb"
    and "distinct vs" and "set vs = dom (ss_signers s)" and "\<forall>kid \<in> dom (ss_signers s). valid_utf8 kid"
    and "payload_utf8 p" and "bp_SSHPublicKey p \<noteq> []" and "bp_QuoteHex p \<noteq> []"
  shows "\<exists>b keyset trusted.
           bundle_of (body_text (writeJSON 200 (BBundle sb))) = Inr b
         \<and> res_bind (decode_text (body_text (writeJSON 200 (BKeyset (SignerSet_Keyset vs s))))) keyset_of = Inr keyset
         \<and> trustedMapFromKeyset keyset = Inr trusted \<and> dom trusted = dom (ss_signers s)
         \<and> marshalCanonical p = Inr (cb_PayloadRaw b)
         \<and> VerifySignedBundleWithKeyset ed (cb_PayloadRaw b) (cb_Signature b) (cb_Alg b) (cb_KID b) trusted = None
         \<and> parseBundlePayload (cb_Payload b) = Inr (claims_of p)"
  by (rule published_bundle_read [OF assms])

theorem signed_bundles_are_accepted_witness:
  "\<exists>s sb b keyset trusted. NewSignerSetFromSeedMap toy_ed [(''v1'', b64_encode demo_seed)] ''v1'' = Inr s
     \<and> SignerSet_SignBundle toy_ed s demo_payload = Inr sb
     \<and> bundle_of (body_text (writeJSON 200 (BBundle sb))) = Inr b
     \<and> res_bind (decode_text (body_text (writeJSON 200 (BKeyset (SignerSet_Keyset [''v1''] s))))) keyset_of = Inr keyset
     \<and> trustedMapFromKeyset keyset = Inr trusted
     \<and> VerifySignedBundleWithKeyset toy_ed (cb_PayloadRaw b) (cb_Signature b) (cb_Alg b) (cb_KID b) trusted = None
     \<and> parseBundlePayload (cb_Payload b) = Inr (claims_of demo_payload)"
proof -
  obtain s sb where demo: "NewSignerSetFromSeedMap toy_ed [(''v1'', b64_encode demo_seed)] ''v1'' = Inr s"
    "SignerSet_SignBundle toy_ed s demo_payload = Inr sb" "distinct [''v1'']" "set [''v1''] = dom (ss_signers s)"
    "\<forall>kid \<in> dom (ss_signers s). valid_utf8 kid" "payload_utf8 demo_payload"
    "bp_SSHPublicKey demo_payload \<noteq> []" "bp_QuoteHex demo_payload \<noteq> []" by (rule demo_signed)
  from signed_bundles_are_accepted [OF toy_ed_laws demo] demo(1,2) show ?thesis by blast
qed

text \<open>
  C37. A bundle is good for every request and for ever. The agent holds neither the request, the nonce nor
  the expiry of a bundle against anything: a bundle the control plane signed for any request, with any
  expiry, is accepted and installed in the processing of every other request it is served for, as long as
  the verifier trusts its quote and its key is published.
\<close>

theorem bundle_is_not_bound_to_a_request:
  assumes "ed_laws ed" and "NewSignerSetFromSeedMap ed seeds active = Inr s" and "SignerSet_SignBundle ed s p = Inr sb"
    and "distinct vs" and "set vs = dom (ss_signers s)" and "\<forall>kid \<in> dom (ss_signers s). valid_utf8 kid"
    and "payload_utf8 p" and "bp_SSHPublicKey p \<noteq> []" and "bp_QuoteHex p \<noteq> []"
    and "rn_Verify r (claims_of p) w = (Inr d, w')" and "dn_Trusted d"
  shows "\<exists>b keyset trusted.
           bundle_of (body_text (writeJSON 200 (BBundle sb))) = Inr b
         \<and> res_bind (decode_text (body_text (writeJSON 200 (BKeyset (SignerSet_Keyset vs s))))) keyset_of = Inr keyset
         \<and> trustedMapFromKeyset keyset = Inr trusted
         \<and> (\<forall>req. check_bundle ed r req b trusted w = finish_install r req (claims_of p) w')"
  using published_bundle_read [OF assms(1-9)] assms(10,11) by (elim exE conjE) (auto simp: check_bundle_def)

definition trusting_runner :: "unit Runner" where
  "trusting_runner =
     \<lparr>rn_PostLocalDecision = (\<lambda>i a w. (None, w)), rn_GetAttestationBundle = (\<lambda>i w. (Inl ErrUserDenied, w)),
      rn_PostResult = (\<lambda>i s c w. (None, w)), rn_Confirm = (\<lambda>q w. (Inr True, w)),
      rn_Verify = (\<lambda>b w. (Inr \<lparr>dn_Trusted = True, dn_ReasonCode = []\<rparr>, w)),
      rn_Install = (\<lambda>u k w. (None, w)), rn_TrustedKeys = None\<rparr>"

theorem bundle_is_not_bound_to_a_request_witness:
  "\<exists>s sb b keyset trusted. NewSignerSetFromSeedMap toy_ed [(''v1'', b64_encode demo_seed)] ''v1'' = Inr s
     \<and> SignerSet_SignBundle toy_ed s demo_payload = Inr sb
     \<and> bundle_of (body_text (writeJSON 200 (BBundle sb))) = Inr b
     \<and> trustedMapFromKeyset keyset = Inr trusted
     \<and> check_bundle toy_ed trusting_runner \<lparr>fr_ID = ''another'', fr_ConnectorID = ''other'', fr_LocalUser = ''alice''\<rparr> b trusted ()
       = (None, ())"
proof -
  obtain s sb where demo: "NewSignerSetFromSeedMap toy_ed [(''v1'', b64_encode demo_seed)] ''v1'' = Inr s"
    "SignerSet_SignBundle toy_ed s demo_payload = Inr sb" "distinct [''v1'']" "set [''v1''] = dom (ss_signers s)"
    "\<forall>kid \<in> dom (ss_signers s). valid_utf8 kid" "payload_utf8 demo_payload"
    "bp_SSHPublicKey demo_payload \<noteq> []" "bp_QuoteHex demo_payload \<noteq> []" by (rule demo_signed)
  have v: "rn_Verify trusting_runner (claims_of demo_payload) () = (Inr \<lparr>dn_Trusted = True, dn_ReasonCode = []\<rparr>, ())"
    by (simp add: trusting_runner_def)
  have f: "finish_install trusting_runner req (claims_of demo_payload) () = (None, ())" for req
    by (simp add: finish_install_def trusting_runner_def)
  obtain b keyset trusted where "bundle_of (body_text (writeJSON 200 (BBundle sb))) = Inr b"
    "trustedMapFromKeyset keyset = Inr trusted" "check_bundle toy_ed trusting_runner req b trusted () = (None, ())" for req
    using bundle_is_not_bound_to_a_request [OF toy_ed_laws demo v] unfolding f by (simp del: ex_simps) blast
  with demo(1,2) show ?thesis by blast
qed

end
