(* ===== verification/Calls.thy ===== *)
theory Calls
  imports EndToEnd
begin

text \<open>
  The agent's and the installer's client calls, made over the wire to the control plane's own route table:
  each is the call on the store that its name says, and what it returns is what the store answered.
\<close>

section \<open>Paths with an ID\<close>

definition id_path :: "string \<Rightarrow> string \<Rightarrow> string \<Rightarrow> string" where
  "id_path kind i op = ''/v1/'' @ kind @ ''/'' @ PathEscape i @ ''/'' @ op"

definition literal_elem :: "string \<Rightarrow> bool" where
  "literal_elem w \<longleftrightarrow> plain_elem w \<and> CHR ''%'' \<notin> set w"

lemma id_path_split:
  assumes "plain_elem i" and "literal_elem kind" and "literal_elem op"
  shows "split_on CHR ''/'' (id_path kind i op) = [[], ''v1'', kind, PathEscape i, op]"
proof -
  have "list_all plain_elem [''v1'', kind, PathEscape i, op]"
    using assms escaped_plain_elem by (simp add: literal_elem_def) (simp add: plain_elem_def)
  from split_join [OF _ this] show ?thesis by (simp add: id_path_def)
qed

lemma unescape_literal: "CHR ''%'' \<notin> set w \<Longrightarrow> path_unescape (w @ s) = w @ path_unescape s"
  by (induction w) (auto simp: unescape_cons)

lemma id_path_facts:
  assumes "plain_elem i" and "literal_elem kind" and "literal_elem op"
  shows "path_clean (id_path kind i op)" "path_segments (id_path kind i op) = [''v1'', kind, i, op]"
    "path_unescape (id_path kind i op) = ''/v1/'' @ kind @ ''/'' @ i @ ''/'' @ op"
proof -
  have u: "path_unescape w = w" if "literal_elem w" for w using that by (simp add: literal_elem_def unescape_plain)
  have e: "path_unescape (PathEscape i) = i" using unescape_escaped [of i "[]"] by simp
  have p: "plain_elem (PathEscape i)" by (rule escaped_plain_elem) (fact assms(1))
  show "path_clean (id_path kind i op)"
    using p assms(2,3) unfolding path_clean_def id_path_split [OF assms] by (auto simp: literal_elem_def plain_elem_def)
  show "path_segments (id_path kind i op) = [''v1'', kind, i, op]"
    unfolding path_segments_def id_path_split [OF assms] by (simp add: u assms(2,3) e unescape_plain)
  have l: "path_unescape (''/v1/'' @ w) = ''/v1/'' @ path_unescape w" "path_unescape (''/'' @ w) = ''/'' @ path_unescape w"
    "path_unescape (kind @ w) = kind @ path_unescape w" for w
    by (rule unescape_literal, use assms(2) in \<open>simp add: literal_elem_def\<close>)+
  show "path_unescape (id_path kind i op) = ''/v1/'' @ kind @ ''/'' @ i @ ''/'' @ op"
    unfolding id_path_def l unescape_escaped by (simp add: u assms(3))
qed

lemma literals [simp]:
  "literal_elem ''connection-requests''" "literal_elem ''install-sessions''" "literal_elem ''devices''"
  "literal_elem ''local-decision''" "literal_elem ''result''" "literal_elem ''attestation-bundle''"
  "literal_elem ''registration''" "literal_elem ''pending-requests''" "literal_elem ''redeem''" "literal_elem ''signing-keys''"
  by (simp_all add: literal_elem_def plain_elem_def)

section \<open>Routes\<close>

lemma serve_id:
  assumes "hr_EscapedPath r = id_path kind i op" and "plain_elem i" and "literal_elem kind" and "literal_elem op"
    and "as_APIToken srv = tok" and "authorized tok r"
  shows "kind = ''connection-requests'' \<Longrightarrow> serve srv e r s = connection_request_routes tok (as_api srv) e r s"
    "kind = ''install-sessions'' \<Longrightarrow> serve srv e r s = install_session_routes tok (as_api srv) e r s"
    "kind = ''devices'' \<Longrightarrow> hr_Method r = ''GET'' \<Longrightarrow> serve srv e r s = ListPendingRequestsForDevice (as_api srv) e r s"
proof -
  have "op \<noteq> []" using assms(4) by (simp add: literal_elem_def plain_elem_def)
  then show "kind = ''connection-requests'' \<Longrightarrow> serve srv e r s = connection_request_routes tok (as_api srv) e r s"
    "kind = ''install-sessions'' \<Longrightarrow> serve srv e r s = install_session_routes tok (as_api srv) e r s"
    "kind = ''devices'' \<Longrightarrow> hr_Method r = ''GET'' \<Longrightarrow> serve srv e r s = ListPendingRequestsForDevice (as_api srv) e r s"
    using assms(5,6) id_path_facts(1,2) [OF assms(2-4)]
    by (simp_all add: serve_def serve_mux_def redirects_def assms(1) api_routes_def RequireBearerToken_cases methodOnly_def
        Let_def pattern_weight_def)
qed

lemma id_path_suffix:
  assumes "hr_EscapedPath r = id_path kind i op" and "plain_elem i" and "literal_elem kind" and "literal_elem op"
  shows "hr_Path r = (''/v1/'' @ kind @ ''/'' @ i) @ CHR ''/'' # op"
  using id_path_facts(3) [OF assms(2-4)] by (simp add: hr_Path_def assms(1))

lemma last_elem: "x \<notin> set w \<Longrightarrow> rev (takeWhile (\<lambda>c. c \<noteq> x) (rev (p @ x # w))) = w"
proof -
  assume "x \<notin> set w"
  then have "takeWhile (\<lambda>c. c \<noteq> x) (rev w @ x # rev p) = rev w" by (subst takeWhile_append2) auto
  then show ?thesis by simp
qed

lemma suffix_op:
  assumes "literal_elem op" and "literal_elem op'"
  shows "HasSuffix (p @ CHR ''/'' # op) (CHR ''/'' # op') \<longleftrightarrow> op = op'"
proof
  assume "HasSuffix (p @ CHR ''/'' # op) (CHR ''/'' # op')"
  then obtain t where "p @ CHR ''/'' # op = t @ CHR ''/'' # op'" by (auto simp: HasSuffix_iff)
  moreover have "CHR ''/'' \<notin> set op" "CHR ''/'' \<notin> set op'" using assms by (auto simp: literal_elem_def plain_elem_def)
  ultimately show "op = op'" using last_elem by metis
qed auto

lemma parse_id:
  assumes "hr_EscapedPath r = id_path kind i op" and "plain_elem i" and "literal_elem kind" and "literal_elem op"
  shows "parseIDFromPath (hr_Path r) (''/v1/'' @ kind @ ''/'') (CHR ''/'' # op) = Inr i"
proof -
  have "CHR ''/'' \<notin> set op" "CHR ''/'' \<notin> set i" "i \<noteq> []" using assms(2,4) by (auto simp: literal_elem_def plain_elem_def)
  then show ?thesis
    using parseID_iff [of "''/v1/'' @ kind @ ''/''" "''/v1/'' @ kind" op "hr_Path r" i] id_path_suffix [OF assms] by simp
qed

section \<open>Answers as the client reads them\<close>

definition request_summary :: "ConnectionRequest \<Rightarrow> Request" where
  "request_summary r =
     \<lparr>ar_ID = req_ID r, ar_ConnectorID = req_ConnectorID r, ar_DeviceID = req_DeviceID r, ar_OpenClawUserID = req_OpenClawUserID r\<rparr>"

definition session_summary :: "InstallSession \<Rightarrow> api_InstallSession" where
  "session_summary s =
     \<lparr>ais_ID = sess_ID s, ais_OpenClawUserID = sess_OpenClawUserID s, ais_DeviceID = sess_DeviceID s,
      ais_ConnectorID = sess_ConnectorID s, ais_SourceChannel = sess_SourceChannel s, ais_Status = sess_Status s,
      ais_ReasonCode = sess_ReasonCode s\<rparr>"

text \<open>What JSON can carry: UTF-8 strings and instants with four-digit years.\<close>

definition request_writable :: "ConnectionRequest \<Rightarrow> bool" where
  "request_writable r \<longleftrightarrow>
     year_ok (req_CreatedAt r) \<and> year_ok (req_ExpiresAt r)
     \<and> list_all valid_utf8 [req_ID r, req_OpenClawUserID r, req_DeviceID r, req_ConnectorID r, req_SourceChannel r,
                           req_Status r, req_Nonce r, req_ReasonCode r]"

definition session_writable :: "InstallSession \<Rightarrow> bool" where
  "session_writable s \<longleftrightarrow>
     year_ok (sess_CreatedAt s) \<and> year_ok (sess_ExpiresAt s)
     \<and> list_all valid_utf8 [sess_ID s, sess_OpenClawUserID s, sess_DeviceID s, sess_ConnectorID s, sess_SourceChannel s,
                           sess_Status s, sess_ReasonCode s]"

lemma member_names [simp]:
  "fold_name ''source_channel'' = ''SOURCE_CHANNEL''" "fold_name ''status'' = ''STATUS''" "fold_name ''reason_code'' = ''REASON_CODE''"
  "fold_name ''created_at'' = ''CREATED_AT''" "fold_name ''expires_at'' = ''EXPIRES_AT''" "fold_name ''nonce'' = ''NONCE''"
  "fold_name ''approved'' = ''APPROVED''" "fold_name ''token'' = ''TOKEN''"
  by code_simp+

lemma request_json:
  assumes "request_writable r"
  obtains j where "json_of_request r = Inr j" "readable (textual j)" "json_depth (textual j) = 1"
    "request_of (textual j) = Inr (request_summary r)"
  using assms that
  by (auto simp: json_of_request_def marshal_time_def request_writable_def request_of_def request_summary_def rfc3339_utf8
      simp del: fold_name.simps)

lemma session_json:
  assumes "session_writable s"
  obtains j where "json_of_session s = Inr j" "readable (textual j)" "json_depth (textual j) = 1"
    "session_of (textual j) = Inr (session_summary s)"
  using assms that
  by (auto simp: json_of_session_def marshal_time_def session_writable_def session_of_def session_summary_def rfc3339_utf8
      simp del: fold_name.simps)

lemma requests_json:
  assumes "\<forall>r \<in> set rs. request_writable r"
  shows "\<exists>js. json_list json_of_request rs = Inr js \<and> (\<forall>j \<in> set js. readable (textual j) \<and> json_depth (textual j) = 1)
           \<and> list_of request_of (map textual js) = Inr (map request_summary rs)"
  using assms
proof (induction rs)
  case (Cons r rs)
  obtain j where "json_of_request r = Inr j" "readable (textual j)" "json_depth (textual j) = 1"
    "request_of (textual j) = Inr (request_summary r)"
    by (rule request_json [of r]) (use Cons.prems in simp_all)
  with Cons show ?case by auto
qed simp

lemma session_read:
  assumes "session_writable s"
  shows "res_bind (decode_text (body_text (writeJSON 200 (BSession s)))) session_of = Inr (session_summary s)"
proof -
  obtain j where j: "json_of_session s = Inr j" "readable (textual j)" "json_depth (textual j) = 1"
    "session_of (textual j) = Inr (session_summary s)" by (rule session_json [OF assms])
  then have "decode_text (sent_json (Inr j)) = Inr (textual j)" by (intro sent_json_read) (simp_all add: max_depth_def)
  with j show ?thesis by (simp add: body_text_def)
qed

lemma requests_read:
  assumes "\<forall>r \<in> set rs. request_writable r"
  shows "res_bind (decode_text (body_text (writeJSON 200 (BRequests rs)))) (slice_of request_of) = Inr (map request_summary rs)"
proof -
  obtain js where js: "json_list json_of_request rs = Inr js" "\<forall>j \<in> set js. readable (textual j) \<and> json_depth (textual j) = 1"
    "list_of request_of (map textual js) = Inr (map request_summary rs)" using requests_json [OF assms] by blast
  have "fold max (map (json_depth \<circ> textual) js) 0 \<le> 1" by (rule fold_max_le) (use js(2) in auto)
  then have "decode_text (sent_json (Inr (JArr js))) = Inr (textual (JArr js))"
    using js(2) by (intro sent_json_read) (auto simp: max_depth_def list_all_iff)
  with js(1,3) show ?thesis by (simp add: body_text_def)
qed

section \<open>The calls\<close>

text \<open>A client whose token is the server's.\<close>

definition paired :: "('e, 's) api_server \<Rightarrow> Client \<Rightarrow> bool" where
  "paired srv c \<longleftrightarrow> visible_token (cl_token c) \<and> as_APIToken srv = cl_token c"

lemma paired_authorized:
  "paired srv c \<Longrightarrow> authorized (as_APIToken srv) (deliver c (get_request c path))"
  "paired srv c \<Longrightarrow> authorized (as_APIToken srv) (deliver c (post_request c path j))"
  by (simp_all add: paired_def client_authorized)

text \<open>What a posting call returns for an outcome of the store.\<close>

definition posted :: "nat \<Rightarrow> 'a res \<Rightarrow> agent_error option" where
  "posted code out =
     (case out of
        Inr _ \<Rightarrow> None
      | Inl err \<Rightarrow> Some (Failure (''request failed with status '' @ itoa (hs_Status (store_error [] [] code err)))))"

lemma posted_None: "posted code out = None \<longleftrightarrow> succeeds out"
  by (auto simp: posted_def succeeds_def split: sum.split)

lemma store_error_status: "hs_Status (store_error a b code err) = hs_Status (store_error [] [] code err)"
  by (cases err) simp_all

lemma store_error_bad: "300 \<le> code \<Longrightarrow> hs_Status (store_error [] [] code err) \<noteq> 200 \<and> hs_Status (store_error [] [] code err) \<noteq> 201"
  by (cases err) simp_all

lemma post_answer:
  assumes "serve srv e (deliver c (post_request c path j)) s
      = (case call of (Inl err, s') \<Rightarrow> (store_error a b code err, s') | (Inr x, s') \<Rightarrow> (writeJSON 200 (body x), s'))"
    and "300 \<le> code"
  shows "postJSON (server_transport srv e c) c path j s = (posted code (fst call), snd call)"
  using store_error_bad [OF assms(2)]
  by (auto simp: postJSON_def server_transport_def assms(1) posted_def store_error_status [of a b] split: prod.split sum.split)

lemma written_members_read:
  "list_all (\<lambda>x. valid_utf8 (fst x) \<and> valid_utf8 (snd x)) f \<Longrightarrow>
   decode_text (json_write (JObj (map (apsnd JStr) f))) = Inr (JObj (map (apsnd JStr) f))"
  using decode_written [OF string_members_readable, of f "[]"] string_members_depth [of f]
  by (simp add: max_depth_def del: json_write.simps json_depth.simps)

lemma approved_read:
  "decode_text (json_write (JObj [(''approved'', JBool a)])) = Inr (JObj [(''approved'', JBool a)])"
  using decode_written [of "JObj [(''approved'', JBool a)]" "[]"] by (simp add: max_depth_def del: json_write.simps)

lemma decision_call:
  assumes "paired srv c" and "plain_elem i"
  shows "PostLocalDecision (server_transport srv e c) c i a s
         = (posted 500 (fst (rs_SetLocalDecision (h_store (as_api srv)) e i a s)),
            snd (rs_SetLocalDecision (h_store (as_api srv)) e i a s))"
proof -
  let ?path = "id_path ''connection-requests'' i ''local-decision''" and ?j = "JObj [(''approved'', JBool a)]"
  let ?r = "deliver c (post_request c ?path ?j)"
  have p: "hr_EscapedPath ?r = ?path" by simp
  have "serve srv e ?r s = connection_request_routes (as_APIToken srv) (as_api srv) e ?r s"
    by (rule serve_id(1) [OF p assms(2) _ _ refl paired_authorized(2) [OF assms(1)]]) simp_all
  also have "\<dots> = LocalDecision (as_api srv) e ?r s"
    unfolding connection_request_routes_def id_path_suffix [OF p assms(2) literals(1,4)] suffix_op [OF literals(4) literals(4)]
    by (simp add: RequireBearerToken_cases paired_authorized(2) [OF assms(1)])
  also have "\<dots> = (case rs_SetLocalDecision (h_store (as_api srv)) e i a s of
      (Inl err, s') \<Rightarrow> (store_error ''request_expired'' ''decision_failed'' 500 err, s')
    | (Inr updated, s') \<Rightarrow> (writeJSON 200 (BRequest updated), s'))"
    using parse_id [OF p assms(2) literals(1,4)]
    by (simp add: LocalDecision_def approved_read del: json_write.simps fold_name.simps)
  finally have "postJSON (server_transport srv e c) c ?path ?j s
      = (posted 500 (fst (rs_SetLocalDecision (h_store (as_api srv)) e i a s)), snd (rs_SetLocalDecision (h_store (as_api srv)) e i a s))"
    by (rule post_answer) simp
  then show ?thesis by (simp add: PostLocalDecision_def id_path_def)
qed

lemma result_read:
  assumes "valid_utf8 status" and "valid_utf8 reason"
  shows "decode_text (json_write (JObj [(''reason_code'', JStr reason), (''status'', JStr status)]))
         = Inr (JObj [(''reason_code'', JStr reason), (''status'', JStr status)])"
  using written_members_read [of "[(''reason_code'', reason), (''status'', status)]"] assms
  by (simp del: json_write.simps)

lemma result_body_read: "result_body (JObj [(''reason_code'', JStr reason), (''status'', JStr status)]) = Inr (status, reason)"
  by (simp add: result_body_def del: fold_name.simps)

lemma result_call:
  assumes "paired srv c" and "plain_elem i" and "valid_utf8 status" and "valid_utf8 reason"
  shows "PostResult (server_transport srv e c) c i status reason s
         = (posted 500 (fst (rs_SetResult (h_store (as_api srv)) e i status reason s)),
            snd (rs_SetResult (h_store (as_api srv)) e i status reason s))"
proof -
  let ?path = "id_path ''connection-requests'' i ''result''"
    and ?j = "JObj [(''reason_code'', JStr reason), (''status'', JStr status)]"
  let ?r = "deliver c (post_request c ?path ?j)"
  have p: "hr_EscapedPath ?r = ?path" by simp
  have "serve srv e ?r s = connection_request_routes (as_APIToken srv) (as_api srv) e ?r s"
    by (rule serve_id(1) [OF p assms(2) _ _ refl paired_authorized(2) [OF assms(1)]]) simp_all
  also have "\<dots> = Result (as_api srv) e ?r s"
    unfolding connection_request_routes_def id_path_suffix [OF p assms(2) literals(1,5)] suffix_op [OF literals(5) literals(4)]
      suffix_op [OF literals(5) literals(5)]
    by (simp add: RequireBearerToken_cases paired_authorized(2) [OF assms(1)])
  also have "\<dots> = (case rs_SetResult (h_store (as_api srv)) e i status reason s of
      (Inl err, s') \<Rightarrow> (store_error ''request_expired'' ''result_failed'' 500 err, s')
    | (Inr updated, s') \<Rightarrow> (writeJSON 200 (BRequest updated), s'))"
    using parse_id [OF p assms(2) literals(1,5)]
    by (simp add: Result_def result_read [OF assms(3,4)] result_body_read del: json_write.simps fold_name.simps)
  finally have "postJSON (server_transport srv e c) c ?path ?j s
      = (posted 500 (fst (rs_SetResult (h_store (as_api srv)) e i status reason s)),
         snd (rs_SetResult (h_store (as_api srv)) e i status reason s))"
    by (rule post_answer) simp
  then show ?thesis by (simp add: PostResult_def id_path_def)
qed

lemma install_result_call:
  assumes "paired srv c" and "plain_elem i" and "valid_utf8 status" and "valid_utf8 reason"
  shows "PostInstallResult (server_transport srv e c) c i status reason s
         = (posted 500 (fst (rs_SetInstallResult (h_store (as_api srv)) e i status reason s)),
            snd (rs_SetInstallResult (h_store (as_api srv)) e i status reason s))"
proof -
  let ?path = "id_path ''install-sessions'' i ''result''"
    and ?j = "JObj [(''reason_code'', JStr reason), (''status'', JStr status)]"
  let ?r = "deliver c (post_request c ?path ?j)"
  have p: "hr_EscapedPath ?r = ?path" by simp
  have a: "literal_elem ''approval''" by (simp add: literal_elem_def plain_elem_def)
  have "serve srv e ?r s = install_session_routes (as_APIToken srv) (as_api srv) e ?r s"
    by (rule serve_id(2) [OF p assms(2) _ _ refl paired_authorized(2) [OF assms(1)]]) simp_all
  also have "\<dots> = InstallSessionResult (as_api srv) e ?r s"
    unfolding install_session_routes_def id_path_suffix [OF p assms(2) literals(2,5)] suffix_op [OF literals(5) a]
      suffix_op [OF literals(5) literals(7)] suffix_op [OF literals(5) literals(5)]
    by (simp add: RequireBearerToken_cases paired_authorized(2) [OF assms(1)])
  also have "\<dots> = (case rs_SetInstallResult (h_store (as_api srv)) e i status reason s of
      (Inl err, s') \<Rightarrow> (store_error ''install_session_expired'' ''result_failed'' 500 err, s')
    | (Inr updated, s') \<Rightarrow> (writeJSON 200 (BSession updated), s'))"
    using parse_id [OF p assms(2) literals(2,5)]
    by (simp add: InstallSessionResult_def result_read [OF assms(3,4)] result_body_read del: json_write.simps fold_name.simps)
  finally have "postJSON (server_transport srv e c) c ?path ?j s
      = (posted 500 (fst (rs_SetInstallResult (h_store (as_api srv)) e i status reason s)),
         snd (rs_SetInstallResult (h_store (as_api srv)) e i status reason s))"
    by (rule post_answer) simp
  then show ?thesis by (simp add: PostInstallResult_def id_path_def)
qed

lemma registration_call:
  assumes "paired srv c" and "plain_elem i" and "valid_utf8 connector" and "valid_utf8 device"
  shows "RegisterInstallIdentity (server_transport srv e c) c i connector device s
         = (posted 400 (fst (rs_SetInstallIdentity (h_store (as_api srv)) e i connector device s)),
            snd (rs_SetInstallIdentity (h_store (as_api srv)) e i connector device s))"
proof -
  let ?path = "id_path ''install-sessions'' i ''registration''"
    and ?j = "JObj [(''connector_id'', JStr connector), (''device_id'', JStr device)]"
  let ?r = "deliver c (post_request c ?path ?j)"
  have p: "hr_EscapedPath ?r = ?path" by simp
  have a: "literal_elem ''approval''" by (simp add: literal_elem_def plain_elem_def)
  have d: "decode_text (json_write ?j) = Inr ?j"
    using written_members_read [of "[(''connector_id'', connector), (''device_id'', device)]"] assms(3,4)
    by (simp del: json_write.simps)
  have "serve srv e ?r s = install_session_routes (as_APIToken srv) (as_api srv) e ?r s"
    by (rule serve_id(2) [OF p assms(2) _ _ refl paired_authorized(2) [OF assms(1)]]) simp_all
  also have "\<dots> = InstallSessionRegistration (as_api srv) e ?r s"
    unfolding install_session_routes_def id_path_suffix [OF p assms(2) literals(2,7)] suffix_op [OF literals(7) a]
      suffix_op [OF literals(7) literals(7)]
    by (simp add: RequireBearerToken_cases paired_authorized(2) [OF assms(1)])
  also have "\<dots> = (case rs_SetInstallIdentity (h_store (as_api srv)) e i connector device s of
      (Inl err, s') \<Rightarrow> (store_error ''install_session_expired'' ''registration_failed'' 400 err, s')
    | (Inr updated, s') \<Rightarrow> (writeJSON 200 (BSession updated), s'))"
    using parse_id [OF p assms(2) literals(2,7)]
    by (simp add: InstallSessionRegistration_def d registration_body_def del: json_write.simps fold_name.simps)
  finally have "postJSON (server_transport srv e c) c ?path ?j s
      = (posted 400 (fst (rs_SetInstallIdentity (h_store (as_api srv)) e i connector device s)),
         snd (rs_SetInstallIdentity (h_store (as_api srv)) e i connector device s))"
    by (rule post_answer) simp
  then show ?thesis by (simp add: RegisterInstallIdentity_def id_path_def)
qed

lemma serve_fixed:
  assumes "authorized (as_APIToken srv) r"
  shows "hr_EscapedPath r = ''/v1/install-sessions/redeem'' \<Longrightarrow> hr_Method r = ''POST'' \<Longrightarrow>
         serve srv e r s = Handler_RedeemInstallToken (as_api srv) e r s"
    "hr_EscapedPath r = ''/v1/signing-keys'' \<Longrightarrow> hr_Method r = ''GET'' \<Longrightarrow> serve srv e r s = SigningKeys (as_api srv) e r s"
proof -
  have "split_on CHR ''/'' ''/v1/install-sessions/redeem'' = [[], ''v1'', ''install-sessions'', ''redeem'']"
    "split_on CHR ''/'' ''/v1/signing-keys'' = [[], ''v1'', ''signing-keys'']" by simp_all
  then show "hr_EscapedPath r = ''/v1/install-sessions/redeem'' \<Longrightarrow> hr_Method r = ''POST'' \<Longrightarrow>
         serve srv e r s = Handler_RedeemInstallToken (as_api srv) e r s"
    "hr_EscapedPath r = ''/v1/signing-keys'' \<Longrightarrow> hr_Method r = ''GET'' \<Longrightarrow> serve srv e r s = SigningKeys (as_api srv) e r s"
    using assms by (simp_all add: serve_def serve_mux_def redirects_def path_segments_def path_clean_def unescape_plain
      api_routes_def RequireBearerToken_cases methodOnly_def Let_def pattern_weight_def)
qed

lemma redeem_call:
  assumes "paired srv c" and "valid_utf8 token"
    and "\<And>session. fst (rs_RedeemInstallToken (h_store (as_api srv)) e token s) = Inr session \<Longrightarrow> session_writable session"
  shows "Client_RedeemInstallToken (server_transport srv e c) c token s
         = (case rs_RedeemInstallToken (h_store (as_api srv)) e token s of
              (Inl err, s') \<Rightarrow> (Inl (Failure (''install token redeem failed with status ''
                                 @ itoa (hs_Status (store_error [] [] 500 err)))), s')
            | (Inr session, s') \<Rightarrow> (Inr (session_summary session), s'))"
proof -
  let ?r = "deliver c (post_request c ''/v1/install-sessions/redeem'' (JObj [(''token'', JStr token)]))"
  have d: "decode_text (json_write (JObj [(''token'', JStr token)])) = Inr (JObj [(''token'', JStr token)])"
    using written_members_read [of "[(''token'', token)]"] assms(2) by (simp del: json_write.simps)
  have "serve srv e ?r s = Handler_RedeemInstallToken (as_api srv) e ?r s"
    by (rule serve_fixed(1) [OF paired_authorized(2) [OF assms(1)]]) simp_all
  also have "\<dots> = (case rs_RedeemInstallToken (h_store (as_api srv)) e token s of
      (Inl err, s') \<Rightarrow> (store_error ''install_session_expired'' ''redeem_failed'' 500 err, s')
    | (Inr session, s') \<Rightarrow> (writeJSON 200 (BSession session), s'))"
    by (simp add: Handler_RedeemInstallToken_def d del: json_write.simps fold_name.simps)
  finally have serve: "serve srv e ?r s = \<dots>" .
  obtain out s' where o: "rs_RedeemInstallToken (h_store (as_api srv)) e token s = (out, s')" by fastforce
  show ?thesis
  proof (cases out)
    case (Inl err)
    then show ?thesis
      using store_error_bad [of 500 err] o
      by (simp add: Client_RedeemInstallToken_def fetch_def server_transport_def serve
          store_error_status [of "''install_session_expired''" "''redeem_failed''"])
  next
    case (Inr session)
    then show ?thesis
      using session_read [OF assms(3), of session] o
      by (simp add: Client_RedeemInstallToken_def fetch_def server_transport_def serve)
  qed
qed

lemma poll_call:
  assumes "paired srv c" and "plain_elem dev"
    and "\<forall>r \<in> set (fst (rs_ListPendingForDevice (h_store (as_api srv)) e dev s)). request_writable r"
  shows "PollPending (server_transport srv e c) c dev s
         = (Inr (map request_summary (fst (rs_ListPendingForDevice (h_store (as_api srv)) e dev s))),
            snd (rs_ListPendingForDevice (h_store (as_api srv)) e dev s))"
proof -
  let ?path = "id_path ''devices'' dev ''pending-requests''"
  let ?r = "deliver c (get_request c ?path)"
  have p: "hr_EscapedPath ?r = ?path" by simp
  have "serve srv e ?r s = ListPendingRequestsForDevice (as_api srv) e ?r s"
    by (rule serve_id(3) [OF p assms(2) _ _ refl paired_authorized(1) [OF assms(1)]]) simp_all
  also have "\<dots> = (let (its, s') = rs_ListPendingForDevice (h_store (as_api srv)) e dev s in (writeJSON 200 (BRequests its), s'))"
    using parse_id [OF p assms(2) literals(3,8)] by (simp add: ListPendingRequestsForDevice_def)
  finally have "fetch (server_transport srv e c) ''poll'' (\<lambda>body. res_bind (decode_text body) (slice_of request_of)) (get_request c ?path) s
      = (Inr (map request_summary (fst (rs_ListPendingForDevice (h_store (as_api srv)) e dev s))),
         snd (rs_ListPendingForDevice (h_store (as_api srv)) e dev s))"
    using requests_read [OF assms(3)] by (simp add: fetch_def server_transport_def split_def Let_def)
  then show ?thesis by (simp add: PollPending_def id_path_def)
qed

text \<open>
  C7. The client's posts are the store's calls. With the server's token and IDs that are path elements,
  each posting method of the client, sent over the server's own route table, performs exactly the store
  call of its name with its arguments: the store afterwards is the one that call leaves, and the method
  returns no error if and only if the call succeeded, and the call's status otherwise.
\<close>

theorem posts_are_store_calls:
  assumes "paired srv c" and "plain_elem i" and "valid_utf8 x" and "valid_utf8 y"
  shows "PostLocalDecision (server_transport srv e c) c i a s
         = map_prod (posted 500) (\<lambda>s. s) (rs_SetLocalDecision (h_store (as_api srv)) e i a s)
       \<and> PostResult (server_transport srv e c) c i x y s
         = map_prod (posted 500) (\<lambda>s. s) (rs_SetResult (h_store (as_api srv)) e i x y s)
       \<and> PostInstallResult (server_transport srv e c) c i x y s
         = map_prod (posted 500) (\<lambda>s. s) (rs_SetInstallResult (h_store (as_api srv)) e i x y s)
       \<and> RegisterInstallIdentity (server_transport srv e c) c i x y s
         = map_prod (posted 400) (\<lambda>s. s) (rs_SetInstallIdentity (h_store (as_api srv)) e i x y s)"
  using decision_call [OF assms(1,2)] result_call [OF assms] install_result_call [OF assms] registration_call [OF assms]
  by (simp add: map_prod_def split_def)

lemma demo_paired: "paired (demo_server st) (NewClient ''http://cp'' ''secret'')"
  by (simp add: paired_def demo_server_def NewClient_def visible_token_def graph_char_def)

lemma demo_server_store [simp]: "h_store (as_api (demo_server st)) = st"
  by (simp add: demo_server_def NewHandler_def)

theorem posts_are_store_calls_witness:
  "PostLocalDecision (server_transport (demo_server mem_store) (demo_env 5 ''a'' ''b'') (NewClient ''http://cp'' ''secret''))
     (NewClient ''http://cp'' ''secret'') ''r1'' True demo_store
   = (None, demo_store\<lparr>items := [''r1'' \<mapsto> demo_request\<lparr>req_Status := StatusApproved\<rparr>]\<rparr>)"
proof -
  let ?e = "demo_env 5 ''a'' ''b''"
  have i: "plain_elem ''r1''" "valid_utf8 ''''" by (simp_all add: plain_elem_def)
  have c: "SetLocalDecision ?e ''r1'' True demo_store
      = (Inr (demo_request\<lparr>req_Status := StatusApproved\<rparr>),
         demo_store\<lparr>items := [''r1'' \<mapsto> demo_request\<lparr>req_Status := StatusApproved\<rparr>]\<rparr>)"
    by (simp add: SetLocalDecision_def expireIfNeeded_def demo_env_def Let_def)
  show ?thesis
    using posts_are_store_calls [OF demo_paired [of mem_store] i(1) i(2) i(2), of ?e True demo_store]
    by (simp add: mem_store_def c posted_def)
qed

text \<open>
  C16. The client reads what the store answers. Polling returns exactly the pending requests the store lists
  for the device, in their order, and redeeming returns the session the store opened, or the status of its
  refusal; both decoded from the text the server wrote.
\<close>

theorem reads_are_store_calls:
  assumes "paired srv c" and "plain_elem dev" and "valid_utf8 token"
    and "\<forall>r \<in> set (fst (rs_ListPendingForDevice (h_store (as_api srv)) e dev s)). request_writable r"
    and "\<And>session. fst (rs_RedeemInstallToken (h_store (as_api srv)) e token s) = Inr session \<Longrightarrow> session_writable session"
  shows "PollPending (server_transport srv e c) c dev s
         = (case rs_ListPendingForDevice (h_store (as_api srv)) e dev s of (rs, s') \<Rightarrow> (Inr (map request_summary rs), s'))
       \<and> Client_RedeemInstallToken (server_transport srv e c) c token s
         = (case rs_RedeemInstallToken (h_store (as_api srv)) e token s of
              (Inl err, s') \<Rightarrow> (Inl (Failure (''install token redeem failed with status ''
                                 @ itoa (hs_Status (store_error [] [] 500 err)))), s')
            | (Inr session, s') \<Rightarrow> (Inr (session_summary session), s'))"
  using poll_call [OF assms(1,2,4)] redeem_call [OF assms(1,3,5)] by (simp add: split_def)

theorem reads_are_store_calls_witness:
  "fst (PollPending (server_transport (demo_server mem_store) ((demo_env 5 ''a'' ''b'')\<lparr>visits := [(''r1'', 6)]\<rparr>)
          (NewClient ''http://cp'' ''secret'')) (NewClient ''http://cp'' ''secret'') ''dev_1'' demo_store)
   = Inr [\<lparr>ar_ID = ''r1'', ar_ConnectorID = ''conn_1'', ar_DeviceID = ''dev_1'', ar_OpenClawUserID = ''usr_1''\<rparr>]"
proof -
  let ?e = "(demo_env 5 ''a'' ''b'')\<lparr>visits := [(''r1'', 6)]\<rparr>"
  have i: "plain_elem ''dev_1''" "valid_utf8 ''''" by (simp_all add: plain_elem_def)
  have l: "fst (ListPendingForDevice ?e ''dev_1'' demo_store) = [demo_request]"
    by (simp add: ListPendingForDevice_def expireIfNeeded_def Let_def)
  have w: "request_writable demo_request"
    by (simp add: request_writable_def demo_request_def StatusPendingLocalConfirm_def year_ok_def)
  have r: "fst (RedeemInstallToken ?e '''' demo_store) \<noteq> Inr session" for session
    by (simp add: redeem_absent)
  have "\<forall>q \<in> set (fst (rs_ListPendingForDevice (h_store (as_api (demo_server mem_store))) ?e ''dev_1'' demo_store)). request_writable q"
    "fst (rs_RedeemInstallToken (h_store (as_api (demo_server mem_store))) ?e '''' demo_store) = Inr session
     \<Longrightarrow> session_writable session" for session
    using l w r by (simp_all add: mem_store_def)
  from reads_are_store_calls [OF demo_paired [of mem_store] i this] l show ?thesis
    by (simp add: mem_store_def split_def request_summary_def demo_request_def)
qed

end
