(* ===== verification/Connect.thy ===== *)
theory Connect
  imports Calls
begin

text \<open>
  The started control plane and the agent together: a request that its owner approves becomes connected,
  and a client without the token gets nothing.
\<close>

section \<open>Without the token\<close>

lemma itoa_401 [simp]: "itoa 401 = ''401''"
  by code_simp

text \<open>An installer without a token cannot redeem: the answer is 401 and nothing changes.\<close>

lemma tokenless_redemption_fails:
  assumes "cl_token c = []" and "as_APIToken srv \<noteq> []"
  shows "Client_RedeemInstallToken (server_transport srv e c) c token s
         = (Inl (Failure ''install token redeem failed with status 401''), s)"
proof -
  let ?r = "deliver c (post_request c ''/v1/install-sessions/redeem'' (JObj [(''token'', JStr token)]))"
  have "hr_header ?r ''Authorization'' = []"
    using assms(1) by (simp add: deliver_def post_request_def addHeaders_def)
  then have a: "\<not> authorized (as_APIToken srv) ?r"
    using assms(2) by (auto simp: authorized_def parseBearerToken_def blank_Nil)
  have p: "hr_EscapedPath ?r = ''/v1/install-sessions/redeem''" "hr_Method ?r = ''POST''" by simp_all
  have "split_on CHR ''/'' ''/v1/install-sessions/redeem'' = [[], ''v1'', ''install-sessions'', ''redeem'']" by simp
  then have "serve srv e ?r s = (http_error ''unauthorized'' 401, s)"
    using a p by (simp add: serve_def serve_mux_def redirects_def path_segments_def path_clean_def unescape_plain
      api_routes_def RequireBearerToken_cases methodOnly_def Let_def pattern_weight_def)
  then show ?thesis
    by (simp add: Client_RedeemInstallToken_def fetch_def server_transport_def)
qed

section \<open>Fetching over the wire\<close>

lemma bundle_call:
  assumes "paired srv c" and "plain_elem i"
    and "rs_Get (h_store (as_api srv)) e i s = (Inr req, s')" and "req_Status req = StatusApproved"
    and "h_bundles (as_api srv) (req_ConnectorID req) = Inr tpl" and "h_nowFn (as_api srv) e \<le> req_ExpiresAt req"
    and "bsg_SignBundle (h_signer (as_api srv)) (bundle_payload (h_nowFn (as_api srv) e) req tpl) = Inr sb"
  shows "GetAttestationBundle (server_transport srv e c) c i s
         = (lift_res (bundle_of (body_text (writeJSON 200 (BBundle sb)))), s')"
proof -
  let ?path = "id_path ''connection-requests'' i ''attestation-bundle''"
  let ?r = "deliver c (get_request c ?path)"
  have p: "hr_EscapedPath ?r = ?path" and m: "hr_Method ?r = ''GET''" by simp_all
  have "serve srv e ?r s = connection_request_routes (as_APIToken srv) (as_api srv) e ?r s"
    by (rule serve_id(1) [OF p assms(2) _ _ refl paired_authorized(1) [OF assms(1)]]) simp_all
  also have "\<dots> = AttestationBundle (as_api srv) e ?r s"
    unfolding connection_request_routes_def id_path_suffix [OF p assms(2) literals(1,6)] suffix_op [OF literals(6) literals(4)]
      suffix_op [OF literals(6) literals(5)] suffix_op [OF literals(6) literals(6)]
    by (simp add: RequireBearerToken_cases paired_authorized(1) [OF assms(1)] m)
  also have "\<dots> = (writeJSON 200 (BBundle sb), s')"
    using parse_id [OF p assms(2) literals(1,6)] assms(3-7) by (simp add: AttestationBundle_def Let_def)
  finally have "serve srv e ?r s = (writeJSON 200 (BBundle sb), s')" .
  then show ?thesis by (simp add: GetAttestationBundle_def id_path_def fetch_def server_transport_def)
qed

lemma keys_call:
  assumes "paired srv c"
  shows "GetSigningKeyset (server_transport srv e c) c s
         = (lift_res (res_bind (decode_text (body_text (writeJSON 200 (BKeyset (bsg_Keyset (h_signer (as_api srv))))))) keyset_of), s)"
proof -
  let ?r = "deliver c (get_request c ''/v1/signing-keys'')"
  have "serve srv e ?r s = SigningKeys (as_api srv) e ?r s"
    by (rule serve_fixed(2) [OF paired_authorized(1) [OF assms]]) simp_all
  then show ?thesis by (simp add: GetSigningKeyset_def fetch_def server_transport_def SigningKeys_def)
qed

section \<open>The store on a working disk\<close>

definition calm :: "file_env \<Rightarrow> bool" where
  "calm e \<longleftrightarrow> mkdir_err e = None \<and> write_err e = None \<and> rename_err e = None"

lemma calm_persist: "calm e \<Longrightarrow> years_ok (fs_mem s) \<Longrightarrow> fst (persistLocked e s) = None"
  using marshal_total [of "fs_mem s"] by (auto simp: persistLocked_def calm_def Let_def)

lemma calm_commit:
  assumes "calm e" and "rm = (Inr x, m)" and "years_ok m"
  shows "fst (commit e rm s) = Inr x" "fs_mem (snd (commit e rm s)) = m"
proof -
  have "fst (persistLocked e (s\<lparr>fs_mem := m\<rparr>)) = None" by (rule calm_persist) (use assms in simp_all)
  with assms(2) show "fst (commit e rm s) = Inr x" by (auto simp: commit_def split: prod.split option.split)
  show "fs_mem (snd (commit e rm s)) = m" by (simp add: assms(2))
qed

text \<open>A stored request that has not expired, in three states of its life.\<close>

abbreviation with_request :: "InMemoryStore \<Rightarrow> string \<Rightarrow> ConnectionRequest \<Rightarrow> InMemoryStore" where
  "with_request m rid r \<equiv> m\<lparr>items := (items m)(rid \<mapsto> r)\<rparr>"

lemma years_with: "years_ok m \<Longrightarrow> items m rid = Some r \<Longrightarrow> req_CreatedAt r' = req_CreatedAt r \<Longrightarrow>
    req_ExpiresAt r' = req_ExpiresAt r \<Longrightarrow> years_ok (with_request m rid r')"
  by (auto simp: years_ok_def ran_def)

lemma unexpired: "t \<le> req_ExpiresAt r \<Longrightarrow> expireIfNeeded t r = r"
  by (simp add: expireIfNeeded_def)

lemma approve_call:
  assumes "calm e" and "years_ok (fs_mem s)" and "items (fs_mem s) rid = Some r" and "now e \<le> req_ExpiresAt r"
    and "req_Status r = StatusPendingLocalConfirm"
  shows "succeeds (fst (FileStore_SetLocalDecision e rid True s))"
    "fs_mem (snd (FileStore_SetLocalDecision e rid True s)) = with_request (fs_mem s) rid (r\<lparr>req_Status := StatusApproved\<rparr>)"
proof -
  let ?r = "r\<lparr>req_Status := StatusApproved\<rparr>"
  have c: "SetLocalDecision e rid True (fs_mem s) = (Inr ?r, with_request (fs_mem s) rid ?r)"
    using assms(3-5) by (simp add: SetLocalDecision_def unexpired Let_def)
  have y: "years_ok (with_request (fs_mem s) rid ?r)" using years_with [OF assms(2,3)] by simp
  show "succeeds (fst (FileStore_SetLocalDecision e rid True s))"
    "fs_mem (snd (FileStore_SetLocalDecision e rid True s)) = with_request (fs_mem s) rid ?r"
    using calm_commit [OF assms(1) c y, of s] by (simp_all add: FileStore_SetLocalDecision_def)
qed

lemma connect_call:
  assumes "calm e" and "years_ok (fs_mem s)" and "items (fs_mem s) rid = Some r" and "now e \<le> req_ExpiresAt r"
    and "req_Status r = StatusApproved"
  shows "succeeds (fst (FileStore_SetResult e rid StatusConnected [] s))"
    "fs_mem (snd (FileStore_SetResult e rid StatusConnected [] s))
     = with_request (fs_mem s) rid (r\<lparr>req_Status := StatusConnected, req_ReasonCode := []\<rparr>)"
proof -
  let ?r = "r\<lparr>req_Status := StatusConnected, req_ReasonCode := []\<rparr>"
  have c: "SetResult e rid StatusConnected [] (fs_mem s) = (Inr ?r, with_request (fs_mem s) rid ?r)"
    using assms(3-5) by (simp add: SetResult_def unexpired Let_def)
  have y: "years_ok (with_request (fs_mem s) rid ?r)" using years_with [OF assms(2,3)] by simp
  show "succeeds (fst (FileStore_SetResult e rid StatusConnected [] s))"
    "fs_mem (snd (FileStore_SetResult e rid StatusConnected [] s)) = with_request (fs_mem s) rid ?r"
    using calm_commit [OF assms(1) c y, of s] by (simp_all add: FileStore_SetResult_def)
qed

lemma get_call:
  assumes "items (fs_mem s) rid = Some r" and "now e \<le> req_ExpiresAt r"
  shows "fst (FileStore_Get e rid s) = Inr r" "fs_mem (snd (FileStore_Get e rid s)) = fs_mem s"
proof -
  have "Get e rid (fs_mem s) = (Inr r, fs_mem s)"
    using assms by (simp add: Get_def unexpired Let_def map_upd_triv)
  then show "fst (FileStore_Get e rid s) = Inr r" "fs_mem (snd (FileStore_Get e rid s)) = fs_mem s"
    by (simp_all add: FileStore_Get_def)
qed

section \<open>The agent over the wire\<close>

text \<open>
  A transport reaches the control plane for a client: requests below the client's base URL are handled by
  the server, each in an environment of its own.
\<close>

definition reaches :: "('e, 's) api_server \<Rightarrow> (client_request \<Rightarrow> 's \<Rightarrow> 'e) \<Rightarrow> 's transport \<Rightarrow> Client \<Rightarrow> bool" where
  "reaches srv env send c \<longleftrightarrow>
     (\<forall>cr s. HasPrefix (cq_URL cr) (cl_baseURL c @ ''/v1/'') \<longrightarrow> send cr s = server_transport srv (env cr s) c cr s)"

lemma below_base: "HasPrefix ((b @ ''/v1/'') @ x) (b @ ''/v1/'')"
  by (rule HasPrefix_append)

lemma reached:
  assumes "reaches srv env send c" and "path = ''/v1/'' @ x"
  shows "send (post_request c path j) s = server_transport srv (env (post_request c path j) s) c (post_request c path j) s"
    "send (get_request c path) s = server_transport srv (env (get_request c path) s) c (get_request c path) s"
proof -
  have "HasPrefix (cq_URL (post_request c path j)) (cl_baseURL c @ ''/v1/'')" "HasPrefix (cq_URL (get_request c path)) (cl_baseURL c @ ''/v1/'')"
    using below_base [of "cl_baseURL c" x] by (simp_all add: assms(2) get_request_def addHeaders_def)
  with assms(1) show "send (post_request c path j) s = server_transport srv (env (post_request c path j) s) c (post_request c path j) s"
    "send (get_request c path) s = server_transport srv (env (get_request c path) s) c (get_request c path) s"
    by (simp_all add: reaches_def)
qed

definition answered :: "'s agent_state \<Rightarrow> client_request \<Rightarrow> 'a \<times> 's \<Rightarrow> 'a \<times> 's agent_state" where
  "answered st cr x = (fst x, st\<lparr>ag_net := snd x, ag_sent := ag_sent st @ [cr]\<rparr>)"

lemma answered_sel [simp]:
  "fst (answered st cr x) = fst x" "ag_net (snd (answered st cr x)) = snd x" "ag_fs (snd (answered st cr x)) = ag_fs st"
  "ag_io (snd (answered st cr x)) = ag_io st" "ag_keys (snd (answered st cr x)) = ag_keys st"
  "ag_clock (snd (answered st cr x)) = ag_clock st"
  by (simp_all add: answered_def)

lemma post_over:
  assumes "reaches srv env (at_send ag) (at_client ag)" and "path = ''/v1/'' @ x"
  shows "\<exists>e. e = env (post_request (at_client ag) path j) (ag_net st)
    \<and> postJSON (client_send ag) (at_client ag) path j st
      = answered st (post_request (at_client ag) path j) (postJSON (server_transport srv e (at_client ag)) (at_client ag) path j (ag_net st))"
  by (simp add: postJSON_def client_send_def over_net_def answered_def split_def reached [OF assms] split: sum.split)

lemma fetch_over:
  assumes "reaches srv env (at_send ag) (at_client ag)" and "path = ''/v1/'' @ x"
  shows "\<exists>e. e = env (get_request (at_client ag) path) (ag_net st)
    \<and> fetch (client_send ag) what dec (get_request (at_client ag) path) st
      = answered st (get_request (at_client ag) path)
          (fetch (server_transport srv e (at_client ag)) what dec (get_request (at_client ag) path) (ag_net st))"
  by (simp add: fetch_def client_send_def over_net_def answered_def split_def reached [OF assms] split: sum.split)

lemma calls_over:
  assumes "reaches srv env (at_send ag) (at_client ag)"
  shows "\<exists>cr e. e = env cr (ag_net st) \<and> PostLocalDecision (client_send ag) (at_client ag) i a st
           = answered st cr (PostLocalDecision (server_transport srv e (at_client ag)) (at_client ag) i a (ag_net st))"
    "\<exists>cr e. e = env cr (ag_net st) \<and> PostResult (client_send ag) (at_client ag) i x y st
           = answered st cr (PostResult (server_transport srv e (at_client ag)) (at_client ag) i x y (ag_net st))"
    "\<exists>cr e. e = env cr (ag_net st) \<and> GetAttestationBundle (client_send ag) (at_client ag) i st
           = answered st cr (GetAttestationBundle (server_transport srv e (at_client ag)) (at_client ag) i (ag_net st))"
    "\<exists>cr e. e = env cr (ag_net st) \<and> GetSigningKeyset (client_send ag) (at_client ag) st
           = answered st cr (GetSigningKeyset (server_transport srv e (at_client ag)) (at_client ag) (ag_net st))"
    "\<exists>cr e. e = env cr (ag_net st) \<and> PollPending (client_send ag) (at_client ag) i st
           = answered st cr (PollPending (server_transport srv e (at_client ag)) (at_client ag) i (ag_net st))"
proof -
  have p: "''/v1/connection-requests/'' @ z = ''/v1/'' @ (''connection-requests/'' @ z)" "''/v1/signing-keys'' = ''/v1/'' @ ''signing-keys''"
    "''/v1/devices/'' @ z = ''/v1/'' @ (''devices/'' @ z)" for z by simp_all
  show "\<exists>cr e. e = env cr (ag_net st) \<and> PostLocalDecision (client_send ag) (at_client ag) i a st
           = answered st cr (PostLocalDecision (server_transport srv e (at_client ag)) (at_client ag) i a (ag_net st))"
    unfolding PostLocalDecision_def using post_over [OF assms p(1)] by blast
  show "\<exists>cr e. e = env cr (ag_net st) \<and> PostResult (client_send ag) (at_client ag) i x y st
           = answered st cr (PostResult (server_transport srv e (at_client ag)) (at_client ag) i x y (ag_net st))"
    unfolding PostResult_def using post_over [OF assms p(1)] by blast
  show "\<exists>cr e. e = env cr (ag_net st) \<and> GetAttestationBundle (client_send ag) (at_client ag) i st
           = answered st cr (GetAttestationBundle (server_transport srv e (at_client ag)) (at_client ag) i (ag_net st))"
    unfolding GetAttestationBundle_def using fetch_over [OF assms p(1)] by blast
  show "\<exists>cr e. e = env cr (ag_net st) \<and> GetSigningKeyset (client_send ag) (at_client ag) st
           = answered st cr (GetSigningKeyset (server_transport srv e (at_client ag)) (at_client ag) (ag_net st))"
    unfolding GetSigningKeyset_def using fetch_over [OF assms p(2)] by blast
  show "\<exists>cr e. e = env cr (ag_net st) \<and> PollPending (client_send ag) (at_client ag) i st
           = answered st cr (PollPending (server_transport srv e (at_client ag)) (at_client ag) i (ag_net st))"
    unfolding PollPending_def using fetch_over [OF assms p(3)] by blast
qed

text \<open>The verifier service vouches for a bundle, whenever it is asked.\<close>

definition attests :: "'s agent \<Rightarrow> Bundle \<Rightarrow> bool" where
  "attests ag b \<longleftrightarrow>
     \<not> blank (ab_QuoteHex b) \<and> CheckMeasurements (at_policy ag) b = None
     \<and> (\<forall>s. \<exists>res r. at_send ag (dcap_request (at_dcap ag) (ab_QuoteHex b)) s = (Inr res, s) \<and> cp_StatusCode res = 200
          \<and> read_dcap_response (cp_Body res) = Inr r \<and> dr_QuoteValid r \<and> dr_QEIdentityValid r \<and> dr_TCBValid r
          \<and> dr_ReportData r = ComputeExpectedReportData (ab_SSHPublicKey b))"

lemma attested:
  assumes "attests ag b"
  shows "rn_Verify (agent_runner ag) b st = (Inr \<lparr>dn_Trusted = True, dn_ReasonCode = []\<rparr>, st)"
proof -
  from assms obtain res r where a: "at_send ag (dcap_request (at_dcap ag) (ab_QuoteHex b)) (ag_net st) = (Inr res, ag_net st)"
    "cp_StatusCode res = 200" "read_dcap_response (cp_Body res) = Inr r" "dr_QuoteValid r" "dr_QEIdentityValid r" "dr_TCBValid r"
    "dr_ReportData r = ComputeExpectedReportData (ab_SSHPublicKey b)" and b: "\<not> blank (ab_QuoteHex b)"
    "CheckMeasurements (at_policy ag) b = None" unfolding attests_def by blast
  then show ?thesis
    by (simp add: agent_runner_def StrictVerifier_Verify_def HTTPDCAPVerifier_Verify_def dcap_send_def over_net_def)
qed

text \<open>With nothing cached, the keys are those of the keyset that is fetched.\<close>

lemma fetched_keys:
  assumes "src_trusted (ag_keys st) = Map.empty" and "covers (at_order ag)" and "trustedMapFromKeyset keyset = Inr trusted"
    and "\<And>st'. ag_net st' = ag_net st \<Longrightarrow> \<exists>cr s'. GetSigningKeyset (client_send ag) (at_client ag) st' = answered st' cr (Inr keyset, s') \<and> P s'"
  shows "\<exists>st'. agent_keys ag st = (Inr trusted, st') \<and> P (ag_net st') \<and> ag_fs st' = ag_fs st"
proof -
  obtain t st1 where t: "read_clock st = (t, st1)" by fastforce
  then have 1: "ag_net st1 = ag_net st" "ag_keys st1 = ag_keys st" "ag_fs st1 = ag_fs st"
    by (auto simp: read_clock_def split: list.splits)
  from assms(4) [OF 1(1)] obtain cr s' where g: "GetSigningKeyset (client_send ag) (at_client ag) st1 = answered st1 cr (Inr keyset, s')"
    and p: "P s'" by blast
  have "copyTrustedKeyMap (at_order ag trusted) trusted = trusted"
    by (rule copy_same [OF assms(2)]) (use trusted_map_ok [OF assms(3)] in simp_all)
  then show ?thesis
    using p 1 by (simp add: agent_keys_def t TrustedKeys_def cachedIfFresh_def assms(1,3) g answered_def Let_def)
qed

section \<open>A request that is approved gets connected\<close>

definition usable_template :: "BundleTemplate \<Rightarrow> bool" where
  "usable_template tpl \<longleftrightarrow>
     list_all valid_utf8 [bt_ConnectorID tpl, bt_SSHPublicKey tpl, bt_QuoteHex tpl, bt_EventLog tpl, bt_MRTD tpl, bt_RTMR0 tpl,
                          bt_RTMR1 tpl, bt_RTMR2 tpl, bt_RTMR3 tpl, bt_PolicyVersion tpl]
     \<and> bt_SSHPublicKey tpl \<noteq> [] \<and> bt_QuoteHex tpl \<noteq> []"

lemma payload_carried: "request_writable r \<Longrightarrow> usable_template tpl \<Longrightarrow> payload_utf8 (bundle_payload t r tpl)"
  by (simp add: payload_utf8_def payload_fields_def bundle_payload_def request_writable_def usable_template_def rfc3339_utf8
      policyVersionOrDefault_def ReportDataHashFromSSHPublicKey_def ascii_utf8 hex_encode_graph)

text \<open>The claims of the bundles made from a template for a request, which no clock enters.\<close>

definition claims_for :: "ConnectionRequest \<Rightarrow> BundleTemplate \<Rightarrow> Bundle" where
  "claims_for r tpl = claims_of (bundle_payload (req_CreatedAt r) r tpl)"

lemma claims_for: "claims_of (bundle_payload t r tpl) = claims_for r tpl"
  by (simp add: claims_for_def claims_of_def bundle_payload_def)

definition in_time :: "file_env start_env \<Rightarrow> ConnectionRequest \<Rightarrow> file_env \<Rightarrow> bool" where
  "in_time w r e \<longleftrightarrow> calm e \<and> now e \<le> req_ExpiresAt r \<and> se_clock w e \<le> req_ExpiresAt r \<and> year_ok (se_clock w e)"

text \<open>A control plane started in \<open>w\<close> whose keys have names that JSON can carry.\<close>

definition started :: "file_env start_env \<Rightarrow> (file_env, FileStore) api_server \<Rightarrow> bool" where
  "started w srv \<longleftrightarrow>
     (\<exists>s0. api_main w = Inr (srv, s0)) \<and> ed_laws (se_ed25519 w) \<and> distinct (se_key_order w)
     \<and> (\<forall>kid \<in> set (se_key_order w). valid_utf8 kid)
     \<and> (\<forall>cfg ss. Load (se_getenv w) (se_json_parse w) = Inr cfg \<longrightarrow>
          NewSignerSetFromSeedMap (se_ed25519 w) (se_seed_order w (cfg_SigningKeys cfg)) (cfg_SigningActiveKID cfg) = Inr ss \<longrightarrow>
          set (se_key_order w) = dom (ss_signers ss))"

text \<open>The bundle and the keyset as the agent reads them, when the server answers in an environment in time.\<close>

lemma started_answers:
  assumes "started w srv" and "in_time w r e" and "request_writable r" and "usable_template tpl"
  obtains sb b keyset trusted where
    "bsg_SignBundle (h_signer (as_api srv)) (bundle_payload (h_nowFn (as_api srv) e) r tpl) = Inr sb"
    "bundle_of (body_text (writeJSON 200 (BBundle sb))) = Inr b"
    "res_bind (decode_text (body_text (writeJSON 200 (BKeyset (bsg_Keyset (h_signer (as_api srv))))))) keyset_of = Inr keyset"
    "trustedMapFromKeyset keyset = Inr trusted"
    "VerifySignedBundleWithKeyset (se_ed25519 w) (cb_PayloadRaw b) (cb_Signature b) (cb_Alg b) (cb_KID b) trusted = None"
    "parseBundlePayload (cb_Payload b) = Inr (claims_for r tpl)"
    "h_store (as_api srv) = file_store" "h_nowFn (as_api srv) e \<le> req_ExpiresAt r"
proof -
  from assms(1) obtain s0 where m: "api_main w = Inr (srv, s0)" and ed: "ed_laws (se_ed25519 w)"
    and d: "distinct (se_key_order w)" and u: "\<forall>kid \<in> set (se_key_order w). valid_utf8 kid" by (auto simp: started_def)
  obtain cfg ss where c: "Load (se_getenv w) (se_json_parse w) = Inr cfg"
    and ss: "NewSignerSetFromSeedMap (se_ed25519 w) (se_seed_order w (cfg_SigningKeys cfg)) (cfg_SigningActiveKID cfg) = Inr ss"
    and sg: "h_signer (as_api srv) = \<lparr>bsg_SignBundle = SignerSet_SignBundle (se_ed25519 w) ss,
                                      bsg_Keyset = SignerSet_Keyset (se_key_order w) ss\<rparr>"
    and over: "server_over file_store DefaultRequestTTL srv" and clk: "h_nowFn (as_api srv) = se_clock w"
    by (rule api_main_parts [OF m]) blast
  have vs: "set (se_key_order w) = dom (ss_signers ss)" using assms(1) c ss by (simp add: started_def)
  let ?p = "bundle_payload (se_clock w e) r tpl"
  have years: "year_ok (bp_IssuedAt ?p)" "year_ok (bp_ExpiresAt ?p)"
    using assms(2,3) by (simp_all add: bundle_payload_def in_time_def request_writable_def)
  obtain sb where sb: "SignerSet_SignBundle (se_ed25519 w) ss ?p = Inr sb"
    using set_signs_total [OF new_signer_set_ok [OF ss] years] by blast
  have "bp_SSHPublicKey ?p \<noteq> []" "bp_QuoteHex ?p \<noteq> []" "\<forall>kid \<in> dom (ss_signers ss). valid_utf8 kid"
    using assms(4) u vs by (simp_all add: bundle_payload_def usable_template_def)
  with published_bundle_read [OF ed ss sb d vs _ payload_carried [OF assms(3,4)]] obtain b keyset trusted where
    "bundle_of (body_text (writeJSON 200 (BBundle sb))) = Inr b"
    "res_bind (decode_text (body_text (writeJSON 200 (BKeyset (SignerSet_Keyset (se_key_order w) ss))))) keyset_of = Inr keyset"
    "trustedMapFromKeyset keyset = Inr trusted"
    "VerifySignedBundleWithKeyset (se_ed25519 w) (cb_PayloadRaw b) (cb_Signature b) (cb_Alg b) (cb_KID b) trusted = None"
    "parseBundlePayload (cb_Payload b) = Inr (claims_of ?p)" by blast
  with sb show thesis
    using that [of sb b keyset trusted] over assms(2) by (simp add: sg clk claims_for server_over_def in_time_def)
qed

lemma process_connects:
  fixes ag :: "FileStore agent"
  assumes srv: "started w srv" "h_bundles (as_api srv) (req_ConnectorID r) = Inr tpl" "usable_template tpl"
    and ag: "paired srv (at_client ag)" "reaches srv env (at_send ag) (at_client ag)" "at_ed ag = se_ed25519 w" "covers (at_order ag)"
      "attests ag (claims_for r tpl)"
    and env: "\<And>cr s. in_time w r (env cr s)"
    and req: "items (fs_mem (ag_net st)) rid = Some r" "req_Status r = StatusPendingLocalConfirm" "req_ID r = rid"
      "plain_elem rid" "request_writable r" "years_ok (fs_mem (ag_net st))"
    and owner: "fst (Prompter_Confirm (at_prompter ag) \<lparr>rq_ID = rid, rq_ConnectorID = req_ConnectorID r\<rparr> (ag_io st)) = Inr True"
    and disk: "fst (Manager_Install (at_manager ag) (at_localUser ag) (bt_SSHPublicKey tpl) (ag_fs st)) = None"
    and keys: "src_trusted (ag_keys st) = Map.empty"
  shows "\<exists>st'. Process (at_ed ag) (agent_runner ag) (local_request ag (request_summary r)) st = (None, st')
           \<and> items (fs_mem (ag_net st')) rid = Some (r\<lparr>req_Status := StatusConnected, req_ReasonCode := []\<rparr>)
           \<and> ag_fs st' = snd (Manager_Install (at_manager ag) (at_localUser ag) (bt_SSHPublicKey tpl) (ag_fs st))"
proof -
  note intime = env [unfolded in_time_def]
  let ?r1 = "r\<lparr>req_Status := StatusApproved\<rparr>" and ?q = "local_request ag (request_summary r)"
  let ?m1 = "with_request (fs_mem (ag_net st)) rid ?r1" and ?b = "claims_for r tpl"
  have q: "fr_ID ?q = rid" "fr_ConnectorID ?q = req_ConnectorID r" "fr_LocalUser ?q = at_localUser ag"
    using req(3) by (simp_all add: local_request_def request_summary_def)
  have store: "h_store (as_api srv) = file_store"
    by (rule started_answers [OF srv(1) env req(5) srv(3)])
  have t: "in_time w ?r1 (env cr s)" for cr s using env [of cr s] by (simp add: in_time_def)
  have w1: "request_writable ?r1" using req(5) by (simp add: request_writable_def StatusApproved_def)
  have cl: "claims_for ?r1 tpl = ?b" by (simp add: claims_for_def claims_of_def bundle_payload_def)
  obtain st1 where c: "rn_Confirm (agent_runner ag) \<lparr>rq_ID = rid, rq_ConnectorID = req_ConnectorID r\<rparr> st = (Inr True, st1)"
    and st1: "ag_net st1 = ag_net st" "ag_fs st1 = ag_fs st" "ag_keys st1 = ag_keys st"
    using owner that [of "st\<lparr>ag_io := snd (Prompter_Confirm (at_prompter ag) \<lparr>rq_ID = rid, rq_ConnectorID = req_ConnectorID r\<rparr> (ag_io st))\<rparr>"]
    by (simp add: agent_runner_def over_io_def split_def)
  obtain st2 where d: "rn_PostLocalDecision (agent_runner ag) rid True st1 = (None, st2)"
    and st2: "fs_mem (ag_net st2) = ?m1" "ag_fs st2 = ag_fs st" "ag_keys st2 = ag_keys st"
  proof -
    obtain cr e where e: "e = env cr (ag_net st1)" and o: "PostLocalDecision (client_send ag) (at_client ag) rid True st1
        = answered st1 cr (PostLocalDecision (server_transport srv e (at_client ag)) (at_client ag) rid True (ag_net st1))"
      using calls_over(1) [OF ag(2)] by blast
    have "calm e" "now e \<le> req_ExpiresAt r" using intime e by simp_all
    note a = approve_call [OF this(1) req(6) req(1) this(2) req(2)]
    obtain y n where n: "FileStore_SetLocalDecision e rid True (ag_net st) = (y, n)" by fastforce
    have "PostLocalDecision (server_transport srv e (at_client ag)) (at_client ag) rid True (ag_net st1) = (None, n)"
      using a(1) by (simp add: decision_call [OF ag(1) req(4)] store st1(1) n posted_None)
    with o have "rn_PostLocalDecision (agent_runner ag) rid True st1 = answered st1 cr (None, n)" by (simp add: agent_runner_def)
    then show thesis using that [of "snd (answered st1 cr (None, n))"] a(2) st1 by (simp add: answered_def n)
  qed
  have i1: "items (fs_mem (ag_net st2)) rid = Some ?r1" by (simp add: st2)
  obtain e sb st3 b where g: "rn_GetAttestationBundle (agent_runner ag) rid st2 = (Inr b, st3)"
    and st3: "fs_mem (ag_net st3) = ?m1" "ag_fs st3 = ag_fs st" "ag_keys st3 = ag_keys st"
    and e: "in_time w ?r1 e" and sb: "bsg_SignBundle (h_signer (as_api srv)) (bundle_payload (h_nowFn (as_api srv) e) ?r1 tpl) = Inr sb"
    "bundle_of (body_text (writeJSON 200 (BBundle sb))) = Inr b"
  proof -
    obtain cr e where e: "e = env cr (ag_net st2)" and o: "GetAttestationBundle (client_send ag) (at_client ag) rid st2
        = answered st2 cr (GetAttestationBundle (server_transport srv e (at_client ag)) (at_client ag) rid (ag_net st2))"
      using calls_over(3) [OF ag(2)] by blast
    have ie: "in_time w ?r1 e" using t e by simp
    obtain sb b where sb: "bsg_SignBundle (h_signer (as_api srv)) (bundle_payload (h_nowFn (as_api srv) e) ?r1 tpl) = Inr sb"
      "bundle_of (body_text (writeJSON 200 (BBundle sb))) = Inr b" and n: "h_nowFn (as_api srv) e \<le> req_ExpiresAt ?r1"
      by (rule started_answers [OF srv(1) ie w1 srv(3)])
    have now: "now e \<le> req_ExpiresAt ?r1" using ie by (simp add: in_time_def)
    obtain s' where get: "rs_Get (h_store (as_api srv)) e rid (ag_net st2) = (Inr ?r1, s')" and s': "fs_mem s' = ?m1"
      using get_call [OF i1 now] st2(1) by (cases "FileStore_Get e rid (ag_net st2)") (simp add: store)
    have a: "req_Status ?r1 = StatusApproved" "h_bundles (as_api srv) (req_ConnectorID ?r1) = Inr tpl" using srv(2) by simp_all
    from o have "rn_GetAttestationBundle (agent_runner ag) rid st2 = answered st2 cr (Inr b, s')"
      by (simp add: agent_runner_def bundle_call [OF ag(1) req(4) get a n sb(1)] sb(2))
    then show thesis using that [of b "snd (answered st2 cr (Inr b, s'))" e sb] st2 ie sb s' by (simp add: answered_def)
  qed
  obtain keyset trusted where k: "res_bind (decode_text (body_text (writeJSON 200 (BKeyset (bsg_Keyset (h_signer (as_api srv))))))) keyset_of = Inr keyset"
    "trustedMapFromKeyset keyset = Inr trusted"
    and v: "VerifySignedBundleWithKeyset (at_ed ag) (cb_PayloadRaw b) (cb_Signature b) (cb_Alg b) (cb_KID b) trusted = None"
    and p: "parseBundlePayload (cb_Payload b) = Inr ?b"
    by (rule started_answers [OF srv(1) e w1 srv(3)]) (use sb ag(3) cl in auto)
  have "\<exists>cr s'. GetSigningKeyset (client_send ag) (at_client ag) st' = answered st' cr (Inr keyset, s') \<and> fs_mem s' = ?m1"
    if "ag_net st' = ag_net st3" for st'
    using calls_over(4) [OF ag(2), of st'] that st3(1) by (auto simp: keys_call [OF ag(1)] k(1))
  from fetched_keys [OF _ ag(4) k(2), of st3, OF _ this] obtain st4 where
    ks: "agent_keys ag st3 = (Inr trusted, st4)" and st4: "fs_mem (ag_net st4) = ?m1" "ag_fs st4 = ag_fs st"
    using keys st3 by auto
  let ?inst = "Manager_Install (at_manager ag) (at_localUser ag) (bt_SSHPublicKey tpl) (ag_fs st)"
  let ?st5 = "st4\<lparr>ag_fs := snd ?inst\<rparr>"
  have key: "ab_SSHPublicKey ?b = bt_SSHPublicKey tpl" by (simp add: claims_for_def claims_of_def bundle_payload_def)
  have ins: "rn_Install (agent_runner ag) (at_localUser ag) (bt_SSHPublicKey tpl) st4 = (None, ?st5)"
    using disk by (simp add: agent_runner_def over_fs_def st4 split_def)
  obtain st6 where res: "rn_PostResult (agent_runner ag) rid ''connected'' [] ?st5 = (None, st6)"
    and st6: "items (fs_mem (ag_net st6)) rid = Some (r\<lparr>req_Status := StatusConnected, req_ReasonCode := []\<rparr>)" "ag_fs st6 = snd ?inst"
  proof -
    obtain cr e where e: "e = env cr (ag_net ?st5)" and o: "PostResult (client_send ag) (at_client ag) rid ''connected'' [] ?st5
        = answered ?st5 cr (PostResult (server_transport srv e (at_client ag)) (at_client ag) rid ''connected'' [] (ag_net ?st5))"
      using calls_over(2) [OF ag(2)] by blast
    have i: "items (fs_mem (ag_net ?st5)) rid = Some ?r1" "years_ok (fs_mem (ag_net ?st5))"
      using st4(1) years_with [OF req(6,1), of ?r1] by simp_all
    have "calm e" "now e \<le> req_ExpiresAt ?r1" using intime e by simp_all
    note a = connect_call [OF this(1) i(2) i(1) this(2)]
    obtain y n where n: "FileStore_SetResult e rid StatusConnected [] (ag_net ?st5) = (y, n)" by fastforce
    have "PostResult (server_transport srv e (at_client ag)) (at_client ag) rid ''connected'' [] (ag_net ?st5) = (None, n)"
      using a(1) n by (simp add: result_call [OF ag(1) req(4)] store posted_None StatusConnected_def)
    with o have "rn_PostResult (agent_runner ag) rid ''connected'' [] ?st5 = answered ?st5 cr (None, n)" by (simp add: agent_runner_def)
    then show thesis using that [of "snd (answered ?st5 cr (None, n))"] a(2) n by (simp add: answered_def)
  qed
  have "check_bundle (at_ed ag) (agent_runner ag) ?q b trusted st4 = (None, st6)"
    by (simp add: check_bundle_def v p attested [OF ag(5)] finish_install_def key q ins res)
  moreover have "rn_TrustedKeys (agent_runner ag) = Some (agent_keys ag)" by (simp add: agent_runner_def)
  ultimately have "Process (at_ed ag) (agent_runner ag) ?q st = (None, st6)"
    by (simp add: Process_def q c d g ks)
  with st6 show ?thesis by blast
qed

section \<open>One tick\<close>

lemma loop_keeps:
  assumes "items m rid = Some r" and "\<forall>v \<in> set vs. snd v \<le> req_ExpiresAt r"
  shows "items (snd (list_pending_loop dev vs out m)) rid = Some r"
  using assms
proof (induction dev vs out m rule: list_pending_loop.induct)
  case (2 dev k t vs out m)
  show ?case
  proof (cases "items m k")
    case None
    with 2 show ?thesis by simp
  next
    case (Some q)
    have "items (with_request m k (expireIfNeeded t q)) rid = Some r" using 2(3,4) Some by (auto simp: unexpired)
    with 2 Some show ?thesis by (simp add: Let_def)
  qed
qed simp

lemma loop_years: "years_ok m \<Longrightarrow> years_ok (snd (list_pending_loop dev vs out m))"
proof (induction dev vs out m rule: list_pending_loop.induct)
  case (2 dev k t vs out m)
  show ?case
  proof (cases "items m k")
    case None
    with 2 show ?thesis by simp
  next
    case (Some q)
    have "years_ok (with_request m k (expireIfNeeded t q))"
      by (rule years_with [OF 2(3) Some]) (simp_all add: expireIfNeeded_def)
    with 2 Some show ?thesis by (simp add: Let_def)
  qed
qed simp

text \<open>
  C1. A request that its owner approves gets connected. Take a started control plane whose disk works and
  an agent with its token whose base URL reaches it; let the one request pending for the device be for a
  connector with a template that JSON can carry and whose quote the verifier vouches for. If the owner says
  yes, the key file can be written and every clock reading is before the request's expiry, then one tick of
  the agent leaves the request connected in the control plane's store and the template's SSH key installed
  for the agent's user, through the server's own routes, texts and signatures.
\<close>

theorem approved_request_gets_connected:
  fixes ag :: "FileStore agent"
  assumes "started w srv" and "h_bundles (as_api srv) (req_ConnectorID r) = Inr tpl" and "usable_template tpl"
    and "paired srv (at_client ag)" and "reaches srv env (at_send ag) (at_client ag)" and "at_ed ag = se_ed25519 w" and "covers (at_order ag)"
    and "attests ag (claims_for r tpl)" and "plain_elem (at_deviceID ag)"
    and "\<And>cr s. in_time w r (env cr s) \<and> (\<forall>v \<in> set (visits (env cr s)). snd v \<le> req_ExpiresAt r)"
    and "\<And>cr s. fst (ListPendingForDevice (env cr s) (at_deviceID ag) (fs_mem (ag_net st))) = [r]"
    and "items (fs_mem (ag_net st)) (req_ID r) = Some r" and "req_Status r = StatusPendingLocalConfirm"
    and "plain_elem (req_ID r)" and "request_writable r" and "years_ok (fs_mem (ag_net st))"
    and "fst (Prompter_Confirm (at_prompter ag) \<lparr>rq_ID = req_ID r, rq_ConnectorID = req_ConnectorID r\<rparr> (ag_io st)) = Inr True"
    and "fst (Manager_Install (at_manager ag) (at_localUser ag) (bt_SSHPublicKey tpl) (ag_fs st)) = None"
    and "src_trusted (ag_keys st) = Map.empty"
  shows "items (fs_mem (ag_net (agent_tick ag st))) (req_ID r) = Some (r\<lparr>req_Status := StatusConnected, req_ReasonCode := []\<rparr>)
         \<and> af_files (ag_fs (agent_tick ag st)) (keys_path (at_manager ag) (at_localUser ag)) = Some (TrimSpace (bt_SSHPublicKey tpl) @ newline)"
proof -
  have intime: "in_time w r (env cr s)" for cr s using assms(10) by blast
  have store: "h_store (as_api srv) = file_store" by (rule started_answers [OF assms(1) intime assms(15,3)])
  obtain cr e where e: "e = env cr (ag_net st)" and o: "PollPending (client_send ag) (at_client ag) (at_deviceID ag) st
      = answered st cr (PollPending (server_transport srv e (at_client ag)) (at_client ag) (at_deviceID ag) (ag_net st))"
    using calls_over(5) [OF assms(5)] by blast
  obtain l m where l: "ListPendingForDevice e (at_deviceID ag) (fs_mem (ag_net st)) = (l, m)" by fastforce
  with assms(11) [of cr "ag_net st"] e have lr: "l = [r]" by simp
  obtain n where n: "FileStore_ListPendingForDevice e (at_deviceID ag) (ag_net st) = ([r], n)" and nm: "fs_mem n = m"
    using l lr by (simp add: FileStore_ListPendingForDevice_def)
  have "PollPending (server_transport srv e (at_client ag)) (at_client ag) (at_deviceID ag) (ag_net st) = (Inr [request_summary r], n)"
    using poll_call [OF assms(4,9), of e "ag_net st"] assms(15) n store by simp
  with o have poll: "PollPending (client_send ag) (at_client ag) (at_deviceID ag) st = answered st cr (Inr [request_summary r], n)" by simp
  let ?st = "snd (answered st cr (Inr [request_summary r] :: Request list ares, n))"
  have m: "m = snd (list_pending_loop (at_deviceID ag) (visits e) [] (fs_mem (ag_net st)))"
    using l by (simp add: ListPendingForDevice_def)
  have i: "items (fs_mem (ag_net ?st)) (req_ID r) = Some r" "years_ok (fs_mem (ag_net ?st))"
    using loop_keeps [OF assms(12)] loop_years [OF assms(16)] assms(10) e by (simp_all add: nm m)
  have u: "fst (Prompter_Confirm (at_prompter ag) \<lparr>rq_ID = req_ID r, rq_ConnectorID = req_ConnectorID r\<rparr> (ag_io ?st)) = Inr True"
    "fst (Manager_Install (at_manager ag) (at_localUser ag) (bt_SSHPublicKey tpl) (ag_fs ?st)) = None"
    "src_trusted (ag_keys ?st) = Map.empty" using assms(17-19) by simp_all
  from process_connects [OF assms(1-8) intime i(1) assms(13) refl assms(14,15) i(2) u] obtain st' where
    p: "Process (at_ed ag) (agent_runner ag) (local_request ag (request_summary r)) ?st = (None, st')"
    "items (fs_mem (ag_net st')) (req_ID r) = Some (r\<lparr>req_Status := StatusConnected, req_ReasonCode := []\<rparr>)"
    "ag_fs st' = snd (Manager_Install (at_manager ag) (at_localUser ag) (bt_SSHPublicKey tpl) (ag_fs ?st))" by blast
  have tick: "agent_tick ag st = st'" using poll p(1) by (simp add: agent_tick_def answered_def)
  obtain fs where "Manager_Install (at_manager ag) (at_localUser ag) (bt_SSHPublicKey tpl) (ag_fs st) = (None, fs)"
    using assms(18) by (cases "Manager_Install (at_manager ag) (at_localUser ag) (bt_SSHPublicKey tpl) (ag_fs st)") simp
  then have "af_files fs (keys_path (at_manager ag) (at_localUser ag)) = Some (TrimSpace (bt_SSHPublicKey tpl) @ newline)"
    "ag_fs st' = fs" using p(3) by (auto elim: install_cases)
  then show ?thesis using p(2) tick by simp
qed

section \<open>A connection\<close>

definition demo_wire_env :: file_env where
  "demo_wire_env = (demo_disk_env 5 ''x'' ''y'' None)\<lparr>visits := [(''r1'', 5)]\<rparr>"

definition demo_wire :: "(file_env, FileStore) api_server \<Rightarrow> FileStore transport" where
  "demo_wire srv cr s =
     (if HasPrefix (cq_URL cr) ''http://cp/v1/'' then server_transport srv demo_wire_env (NewClient ''http://cp'' ''tok'') cr s
      else (Inr \<lparr>cp_StatusCode = 200, cp_Body = json_write demo_quote\<rparr>, s))"

definition demo_wired :: "(file_env, FileStore) api_server \<Rightarrow> FileStore agent" where
  "demo_wired srv =
     \<lparr>at_ed = toy_ed, at_send = demo_wire srv, at_client = NewClient ''http://cp'' ''tok'',
      at_prompter = NewPrompter (Some (\<lambda>q io. (Inr True, io))) None, at_policy = NewStaticPolicy [] [],
      at_dcap = \<lparr>hv_endpoint = ''http://v'', hv_token = [], hv_timeout = Second\<rparr>, at_manager = NewManager ''/keys'',
      at_order = demo_order, at_deviceID = ''dev_1'', at_localUser = ''alice''\<rparr>"

definition demo_wired_state :: "FileStore agent_state" where
  "demo_wired_state =
     \<lparr>ag_net = demo_new\<lparr>fs_mem := demo_store\<rparr>, ag_io = \<lparr>st_in = [], st_end = None, st_out = []\<rparr>,
      ag_fs = \<lparr>af_files = Map.empty, af_outcomes = []\<rparr>,
      ag_keys = \<lparr>src_ttl = 10, src_trusted = Map.empty, src_expiresAt = 0\<rparr>, ag_clock = [], ag_sent = []\<rparr>"

lemma demo_client: "NewClient ''http://cp'' ''tok'' = \<lparr>cl_baseURL = ''http://cp'', cl_token = ''tok''\<rparr>"
  by code_simp

lemma demo_started:
  obtains srv where "started demo_bundle_start srv" "as_APIToken srv = ''tok''" "h_bundles (as_api srv) ''conn_1'' = Inr demo_tpl"
proof -
  obtain srv ss where m: "api_main demo_bundle_start = Inr (srv, \<lparr>fs_path = defaultStorePath, fs_mem = NewInMemoryStore, fs_disk = Map.empty\<rparr>)"
    and tok: "as_APIToken srv = ''tok''" by (rule demo_bundle_main)
  have b: "h_bundles (as_api srv) ''conn_1'' = Inr demo_tpl"
    by (simp add: api_main_bundles [OF m] StaticBundleSource_GetBundle_def demo_template)
  have w: "se_ed25519 demo_bundle_start = toy_ed" "se_key_order demo_bundle_start = [''v1'']"
    "se_seed_order demo_bundle_start m = [(''v1'', b64_encode demo_seed)]" for m
    by (simp_all add: demo_bundle_start_def demo_start_def)
  have "cfg_SigningActiveKID cfg = ''v1''" if "Load (se_getenv demo_bundle_start) (se_json_parse demo_bundle_start) = Inr cfg" for cfg
    using that by (auto simp: Load_def demo_bundle_start_def demo_start_def demo_getenv_def demo_seed_def)
  moreover obtain s where s: "NewSignerSetFromSeedMap toy_ed [(''v1'', b64_encode demo_seed)] ''v1'' = Inr s"
    "dom (ss_signers s) = {''v1''}" using demo_signer_set by blast
  ultimately have "started demo_bundle_start srv"
    using m by (auto simp: started_def w toy_ed_laws)
  then show thesis by (rule that [OF _ tok b])
qed

lemma demo_claims:
  "ab_SSHPublicKey (claims_for demo_request demo_tpl) = ''k''" "ab_QuoteHex (claims_for demo_request demo_tpl) = ''aa''"
  "ab_RTMR0 (claims_for demo_request demo_tpl) = ''a''" "ab_RTMR1 (claims_for demo_request demo_tpl) = ''b''"
  "ab_RTMR2 (claims_for demo_request demo_tpl) = ''c''"
  by (simp_all add: claims_for_def claims_of_def bundle_payload_def demo_tpl_def)

theorem approved_request_gets_connected_witness:
  "\<exists>srv. started demo_bundle_start srv
     \<and> items (fs_mem (ag_net (agent_tick (demo_wired srv) demo_wired_state))) ''r1''
       = Some (demo_request\<lparr>req_Status := StatusConnected, req_ReasonCode := []\<rparr>)
     \<and> af_files (ag_fs (agent_tick (demo_wired srv) demo_wired_state)) (keys_path (NewManager ''/keys'') ''alice'') = Some (''k'' @ newline)"
proof -
  obtain srv where s: "started demo_bundle_start srv" and tok: "as_APIToken srv = ''tok''"
    and b: "h_bundles (as_api srv) ''conn_1'' = Inr demo_tpl" by (rule demo_started)
  let ?ag = "demo_wired srv" and ?env = "\<lambda>(cr :: client_request) (s :: FileStore). demo_wire_env"
  have 1: "h_bundles (as_api srv) (req_ConnectorID demo_request) = Inr demo_tpl" using b by (simp add: demo_request_def)
  have 2: "usable_template demo_tpl" by (simp add: usable_template_def demo_tpl_def)
  have 3: "paired srv (at_client ?ag)"
    by (simp add: paired_def demo_wired_def demo_client visible_token_def graph_char_def tok)
  have 4: "reaches srv ?env (at_send ?ag) (at_client ?ag)"
    by (simp add: reaches_def demo_wired_def demo_wire_def demo_client)
  have 5: "at_ed ?ag = se_ed25519 demo_bundle_start" by (simp add: demo_wired_def demo_bundle_start_def demo_start_def)
  have 6: "covers (at_order ?ag)" by (simp add: demo_wired_def demo_covers)
  have 7: "attests ?ag (claims_for demo_request demo_tpl)"
    unfolding attests_def demo_claims
    by (simp add: CheckMeasurements_def NewStaticPolicy_def demo_claims demo_wired_def demo_wire_def dcap_request_def HasPrefix_def
        read_demo_quote ComputeExpectedReportData_def del: json_write.simps)
  have 8: "plain_elem (at_deviceID ?ag)" by (simp add: demo_wired_def plain_elem_def)
  have 9: "in_time demo_bundle_start demo_request (?env cr s) \<and> (\<forall>v \<in> set (visits (?env cr s)). snd v \<le> req_ExpiresAt demo_request)" for cr s
    by (simp add: in_time_def calm_def demo_wire_env_def demo_disk_env_def demo_bundle_start_def demo_start_def year_ok_def)
  have 10: "fst (ListPendingForDevice (?env cr s) (at_deviceID ?ag) (fs_mem (ag_net demo_wired_state))) = [demo_request]" for cr s
    by (simp add: ListPendingForDevice_def expireIfNeeded_def demo_wire_env_def demo_disk_env_def demo_wired_def demo_wired_state_def Let_def)
  have 11: "items (fs_mem (ag_net demo_wired_state)) (req_ID demo_request) = Some demo_request" by (simp add: demo_wired_state_def)
  have 12: "req_Status demo_request = StatusPendingLocalConfirm" "plain_elem (req_ID demo_request)" by (simp_all add: plain_elem_def)
  have 13: "request_writable demo_request"
    by (simp add: request_writable_def demo_request_def StatusPendingLocalConfirm_def year_ok_def)
  have 14: "years_ok (fs_mem (ag_net demo_wired_state))"
    by (simp add: years_ok_def demo_wired_state_def) (simp add: demo_request_def year_ok_def)
  have 15: "fst (Prompter_Confirm (at_prompter ?ag) q (ag_io demo_wired_state)) = Inr True" for q
    by (simp add: demo_wired_def NewPrompter_def Prompter_Confirm_def)
  have 16: "fst (Manager_Install (at_manager ?ag) (at_localUser ?ag) (bt_SSHPublicKey demo_tpl) (ag_fs demo_wired_state)) = None"
    by (simp add: demo_wired_def demo_wired_state_def demo_tpl_def Manager_Install_def MkdirAll_def WriteFile_def Rename_def
        next_outcome_def and_then_def Let_def)
  have 17: "src_trusted (ag_keys demo_wired_state) = Map.empty" by (simp add: demo_wired_state_def)
  have "bt_SSHPublicKey demo_tpl = ''k''" "at_manager ?ag = NewManager ''/keys''" "at_localUser ?ag = ''alice''"
    by (simp_all add: demo_tpl_def demo_wired_def)
  with approved_request_gets_connected [OF s 1 2 3 4 5 6 7 8 9 10 11 12 13 14 15 16 17] s show ?thesis by auto
qed

end
