(* ===== verification/Installed.thy ===== *)
theory Installed
  imports Connect Service
begin

text \<open>
  The started control plane, the installer and the agent together: an approved installation session gets
  installed, and the service that is written starts an agent for the registered device.
\<close>

section \<open>The environment of a service\<close>

text \<open>
  \<open>os.Getenv\<close> in a process whose environment is the list of entries \<open>name=value\<close>: the first entry of a
  name counts.
\<close>

fun environ_get :: "string list \<Rightarrow> string \<Rightarrow> string" where
  "environ_get [] key = []"
| "environ_get (entry # es) key =
     (case split_first (CHR ''='') entry of
        None \<Rightarrow> environ_get es key
      | Some (k, v) \<Rightarrow> if k = key then v else environ_get es key)"

lemma environ_get_entries:
  "\<forall>k \<in> set ks. CHR ''='' \<notin> set k \<Longrightarrow>
   environ_get (map (\<lambda>k. k @ ''='' @ f k) ks) key = (if key \<in> set ks then f key else [])"
proof (induction ks)
  case (Cons k ks)
  then have "split_first (CHR ''='') (k @ ''='' @ f k) = Some (k, f k)" by (simp add: split_first_Some)
  with Cons show ?case by simp
qed simp

definition service_keys :: "string set" where
  "service_keys = {''CONTROL_PLANE_URL'', ''LOCAL_USERNAME'', ''DCAP_VERIFIER_URL'', ''CONNECTOR_ID'', ''DEVICE_ID''} \<union> set forwarded_keys"

lemma service_keys_plain: "finite service_keys" "k \<in> service_keys \<Longrightarrow> CHR ''='' \<notin> set k \<and> CHR ''%'' \<notin> set k \<and> one_line k"
  by (auto simp: service_keys_def forwarded_keys_def one_line_def)

lemma run_env_keys:
  assumes "install_plan args lookupEnv goos current_user = Inr (c, cfg)"
  shows "dom (run_env lower host cfg session) \<subseteq> service_keys"
proof (rule plan_env [OF assms])
  fix flag user
  assume e: "\<And>k. k \<notin> {''CONNECTOR_ID'', ''DEVICE_ID''} \<Longrightarrow> ic_Env cfg k =
      buildInstallEnv user (flag ''control-plane-url'') (flag ''dcap-verifier-url'') (envOrEmpty lookupEnv) k"
  show ?thesis
  proof
    fix k
    assume k: "k \<in> dom (run_env lower host cfg session)"
    show "k \<in> service_keys"
    proof (cases "k \<in> {''CONNECTOR_ID'', ''DEVICE_ID''}")
      case False
      with k e [OF False] show ?thesis
        by (auto simp: run_env_get(1) buildInstallEnv_def forward_keys_get service_keys_def split: if_splits)
    qed (auto simp: service_keys_def)
  qed
qed

text \<open>What a unit file can carry as it stands: systemd expands percent signs, and a line ends a value.\<close>

definition unit_safe :: "ServiceConfig \<Rightarrow> bool" where
  "unit_safe cfg \<longleftrightarrow>
     one_line (sc_AgentBinary cfg) \<and> (\<forall>v \<in> ran (sc_Env cfg). one_line v \<and> CHR ''%'' \<notin> set v)"

lemma unit_environ:
  assumes "dom (sc_Env cfg) \<subseteq> service_keys" and "unit_safe cfg"
  shows "environ_get (unit_environment spec (renderSystemdUnit cfg)) = env_get (sc_Env cfg)"
proof
  fix key
  have f: "finite (dom (sc_Env cfg))" using assms(1) service_keys_plain(1) by (rule finite_subset)
  have safe: "\<forall>key v. sc_Env cfg key = Some v \<longrightarrow> one_line key \<and> one_line v"
    "\<forall>key v. sc_Env cfg key = Some v \<longrightarrow> CHR ''%'' \<notin> set key \<and> CHR ''%'' \<notin> set v"
    using assms service_keys_plain(2) by (auto simp: unit_safe_def intro: ranI)
  have "unit_environment spec (renderSystemdUnit cfg) = map (\<lambda>key. key @ ''='' @ env_get (sc_Env cfg) key) (sorted_keys (sc_Env cfg))"
    by (rule conjunct2 [OF unit_expanded [OF f _ safe(1)], THEN mp, OF _ safe(2)]) (use assms(2) in \<open>simp add: unit_safe_def\<close>)
  moreover have "\<forall>k \<in> set (sorted_keys (sc_Env cfg)). CHR ''='' \<notin> set k"
    using assms(1) service_keys_plain(2) by (auto simp: sorted_keys_set [OF f])
  note environ_get_entries [OF this, of "env_get (sc_Env cfg)" key]
  ultimately show "environ_get (unit_environment spec (renderSystemdUnit cfg)) key = env_get (sc_Env cfg) key"
    by (simp add: sorted_keys_set [OF f] env_get_def domIff split: option.split)
qed

section \<open>Identities are settled\<close>

lemma default_identity_graph:
  assumes "list_all graph_char prefix"
  shows "c \<in> set (defaultIdentityID lower host prefix) \<Longrightarrow> graph_char c" "defaultIdentityID lower host prefix \<noteq> []"
proof -
  let ?h = "trim_hyphens (hyphenate (ToLower lower (TrimSpace (case host of None \<Rightarrow> [] | Some h \<Rightarrow> h))))"
  have g: "graph_char d" if "d \<in> set ?h" for d
  proof -
    have "ident_char d" using that trim_hyphens_sub hyphenate_chars by blast
    then show ?thesis by (auto simp: ident_char_def in_range_def graph_char_def)
  qed
  show "c \<in> set (defaultIdentityID lower host prefix) \<Longrightarrow> graph_char c"
    using assms g by (auto simp: defaultIdentityID_def list_all_iff Let_def graph_char_def split: if_splits)
  show "defaultIdentityID lower host prefix \<noteq> []"
    by (simp add: defaultIdentityID_def Let_def)
qed

lemma default_identity_trimmed:
  "list_all graph_char prefix \<Longrightarrow> TrimSpace (defaultIdentityID lower host prefix) = defaultIdentityID lower host prefix"
  by (rule TrimSpace_graph) (rule default_identity_graph)

lemma identity_settled:
  assumes "resolveInstallIdentity lower host env session = (connector, device)"
  shows "TrimSpace connector = connector" "connector \<noteq> []" "TrimSpace device = device" "device \<noteq> []"
proof -
  have p: "list_all graph_char ''conn''" "list_all graph_char ''dev''" by (simp_all add: graph_char_def)
  show "TrimSpace connector = connector" "connector \<noteq> []" "TrimSpace device = device" "device \<noteq> []"
    using assms default_identity_trimmed [OF p(1), of lower host] default_identity_trimmed [OF p(2), of lower host]
      default_identity_graph(2) [OF p(1), of lower host] default_identity_graph(2) [OF p(2), of lower host]
    by (auto simp: resolveInstallIdentity_def Let_def split: if_splits)
qed

section \<open>The store's part\<close>

text \<open>A stored session that has not expired, in the states of an installation.\<close>

lemma live_session: "t \<le> sess_ExpiresAt q \<Longrightarrow> expireInstallIfNeeded t q = (q, False)"
  by (simp add: expireInstallIfNeeded_def)

lemma years_session:
  "years_ok m \<Longrightarrow> installSessions m sid = Some q \<Longrightarrow> sess_CreatedAt q' = sess_CreatedAt q \<Longrightarrow>
   sess_ExpiresAt q' = sess_ExpiresAt q \<Longrightarrow> years_ok (put_session sid q' m)"
  "years_ok (deleteInstallTokensForSession sid m) = years_ok m"
  by (auto simp: years_ok_def put_session_def deleteInstallTokensForSession_def ran_def)

lemma calm_committed:
  assumes "calm e" and "rm = (Inr x, m)" and "years_ok m"
  shows "\<exists>s'. commit e rm s = (Inr x, s') \<and> fs_mem s' = m"
  using calm_commit [OF assms, of s] by (cases "commit e rm s") simp

abbreviation identified :: "InstallSession \<Rightarrow> string \<Rightarrow> string \<Rightarrow> InstallSession" where
  "identified q connector device \<equiv> q\<lparr>sess_ConnectorID := connector, sess_DeviceID := device\<rparr>"

lemma redeem_stored:
  assumes "calm e" and "years_ok (fs_mem s)" and "now e \<le> sess_ExpiresAt q" and "sess_Status q = InstallStatusApproved"
    and "installSessions (fs_mem s) (sess_ID q) = Some q" and "installTokens (fs_mem s) (digestInstallToken token) = Some (sess_ID q)"
  shows "\<exists>s'. FileStore_RedeemInstallToken e token s = (Inr q, s')
           \<and> fs_mem s' = deleteInstallTokensForSession (sess_ID q) (fs_mem s)"
proof -
  let ?m = "deleteInstallTokensForSession (sess_ID q) (fs_mem s)"
  have "RedeemInstallToken e token (fs_mem s) = (Inr q, ?m)"
    using assms(3-6) by (simp add: RedeemInstallToken_def live_session)
  then show ?thesis
    unfolding FileStore_RedeemInstallToken_def by (rule calm_committed [OF assms(1)]) (simp add: years_session(2) assms(2))
qed

lemma identity_stored:
  assumes "calm e" and "years_ok (fs_mem s)" and "now e \<le> sess_ExpiresAt q" and "sess_Status q = InstallStatusApproved"
    and "installSessions (fs_mem s) sid = Some q" and "TrimSpace connector = connector" "connector \<noteq> []"
    and "TrimSpace device = device" "device \<noteq> []"
  shows "\<exists>s' x. FileStore_SetInstallIdentity e sid connector device s = (Inr x, s')
           \<and> fs_mem s' = put_session sid (identified q connector device) (fs_mem s)"
proof -
  let ?q = "identified q connector device"
  have "SetInstallIdentity e sid connector device (fs_mem s) = (Inr ?q, put_session sid ?q (fs_mem s))"
    using assms(3-9) by (simp add: SetInstallIdentity_def live_session Let_def)
  from calm_committed [OF assms(1) this, of s] years_session(1) [OF assms(2,5), of ?q] show ?thesis
    by (auto simp: FileStore_SetInstallIdentity_def)
qed

lemma result_stored:
  assumes "calm e" and "years_ok (fs_mem s)" and "now e \<le> sess_ExpiresAt q" and "sess_Status q = InstallStatusApproved"
    and "installSessions (fs_mem s) sid = Some q" and "\<not> blank (sess_ConnectorID q)" and "\<not> blank (sess_DeviceID q)"
  shows "\<exists>s' x. FileStore_SetInstallResult e sid InstallStatusInstalled [] s = (Inr x, s')
           \<and> fs_mem s' = deleteInstallTokensForSession (sess_ID q)
                          (put_session sid (q\<lparr>sess_Status := InstallStatusInstalled, sess_ReasonCode := []\<rparr>) (fs_mem s))"
proof -
  let ?q = "q\<lparr>sess_Status := InstallStatusInstalled, sess_ReasonCode := []\<rparr>"
  let ?m = "deleteInstallTokensForSession (sess_ID q) (put_session sid ?q (fs_mem s))"
  have "SetInstallResult e sid InstallStatusInstalled [] (fs_mem s) = (Inr ?q, ?m)"
    using assms(3-7) by (simp add: SetInstallResult_def live_session Let_def)
  from calm_committed [OF assms(1) this, of s] years_session(1) [OF assms(2,5), of ?q] show ?thesis
    by (auto simp: FileStore_SetInstallResult_def years_session(2))
qed

section \<open>The installer over the wire\<close>

definition noted :: "'s install_state \<Rightarrow> client_request \<Rightarrow> 'a \<times> 's \<Rightarrow> 'a \<times> 's install_state" where
  "noted st cr x = (fst x, st\<lparr>is_net := snd x, is_sent := is_sent st @ [cr]\<rparr>)"

lemma noted_pair [simp]: "noted st cr (x, s) = (x, st\<lparr>is_net := s, is_sent := is_sent st @ [cr]\<rparr>)"
  by (simp add: noted_def)

lemma sent_over:
  assumes "reaches srv env send c" and "path = ''/v1/'' @ x"
  shows "postJSON (install_send send) c path j st
         = noted st (post_request c path j)
             (postJSON (server_transport srv (env (post_request c path j) (is_net st)) c) c path j (is_net st))"
    "fetch (install_send send) what dec (post_request c path j) st
         = noted st (post_request c path j)
             (fetch (server_transport srv (env (post_request c path j) (is_net st)) c) what dec (post_request c path j) (is_net st))"
  by (simp_all add: postJSON_def fetch_def install_send_def noted_def split_def Let_def reached [OF assms] split: sum.split)

lemma installer_calls:
  assumes "reaches srv env send c"
  shows "\<exists>cr e. e = env cr (is_net st) \<and> ia_RedeemInstallToken (install_client send c) token st
           = noted st cr (Client_RedeemInstallToken (server_transport srv e c) c token (is_net st))"
    "\<exists>cr e. e = env cr (is_net st) \<and> ia_RegisterInstallIdentity (install_client send c) i connector device st
           = noted st cr (RegisterInstallIdentity (server_transport srv e c) c i connector device (is_net st))"
    "\<exists>cr e. e = env cr (is_net st) \<and> ia_PostInstallResult (install_client send c) i status reason st
           = noted st cr (PostInstallResult (server_transport srv e c) c i status reason (is_net st))"
proof -
  have p: "''/v1/install-sessions/redeem'' = ''/v1/'' @ ''install-sessions/redeem''"
    "''/v1/install-sessions/'' @ z = ''/v1/'' @ (''install-sessions/'' @ z)" for z by simp_all
  show "\<exists>cr e. e = env cr (is_net st) \<and> ia_RedeemInstallToken (install_client send c) token st
           = noted st cr (Client_RedeemInstallToken (server_transport srv e c) c token (is_net st))"
    unfolding install_client_def InstallerAPI.select_convs Client_RedeemInstallToken_def using sent_over(2) [OF assms p(1)] by blast
  show "\<exists>cr e. e = env cr (is_net st) \<and> ia_RegisterInstallIdentity (install_client send c) i connector device st
           = noted st cr (RegisterInstallIdentity (server_transport srv e c) c i connector device (is_net st))"
    unfolding install_client_def InstallerAPI.select_convs RegisterInstallIdentity_def using sent_over(1) [OF assms p(2)] by blast
  show "\<exists>cr e. e = env cr (is_net st) \<and> ia_PostInstallResult (install_client send c) i status reason st
           = noted st cr (PostInstallResult (server_transport srv e c) c i status reason (is_net st))"
    unfolding install_client_def InstallerAPI.select_convs PostInstallResult_def using sent_over(1) [OF assms p(2)] by blast
qed

text \<open>Every answer comes in time for the session, and the server's disk works.\<close>

definition timely :: "(client_request \<Rightarrow> FileStore \<Rightarrow> file_env) \<Rightarrow> InstallSession \<Rightarrow> bool" where
  "timely env q \<longleftrightarrow> (\<forall>cr s. calm (env cr s) \<and> now (env cr s) \<le> sess_ExpiresAt q)"

text \<open>
  The commands succeed. The agent they start may already talk to the control plane, but no other
  installation call comes in between.
\<close>

definition commands_succeed :: "FileStore exec \<Rightarrow> bool" where
  "commands_succeed exec \<longleftrightarrow>
     (\<forall>args n. \<exists>out n'. exec args n = ((out, None), n') \<and> installSessions (fs_mem n') = installSessions (fs_mem n)
        \<and> installTokens (fs_mem n') = installTokens (fs_mem n) \<and> (years_ok (fs_mem n) \<longrightarrow> years_ok (fs_mem n')))"

definition same_sessions :: "FileStore \<Rightarrow> FileStore \<Rightarrow> bool" where
  "same_sessions n n' \<longleftrightarrow>
     installSessions (fs_mem n') = installSessions (fs_mem n) \<and> installTokens (fs_mem n') = installTokens (fs_mem n)
     \<and> (years_ok (fs_mem n) \<longrightarrow> years_ok (fs_mem n'))"

lemma command_succeeds:
  assumes "commands_succeed exec"
  obtains st' where "osCommandRunner_Run exec name args st = (None, st')" "is_fs st' = is_fs st" "same_sessions (is_net st) (is_net st')"
proof -
  from assms obtain out n' where "exec (name # args) (is_net st) = ((out, None), n')" "same_sessions (is_net st) n'"
    unfolding commands_succeed_def same_sessions_def by metis
  then show thesis
    by (intro that [of "st\<lparr>is_net := n', is_commands := is_commands st @ [name # args]\<rparr>"])
      (simp_all add: osCommandRunner_Run_def Let_def)
qed

lemma unit_installed:
  assumes "commands_succeed exec" and "af_outcomes (is_fs st) = []" and "\<not> blank (sc_PlistPath cfg)"
  shows "\<exists>st'. systemd_InstallAndStart exec cfg st = (None, st') \<and> same_sessions (is_net st) (is_net st')
           \<and> af_files (is_fs st') (TrimSpace (sc_PlistPath cfg)) = Some (renderSystemdUnit cfg)"
proof -
  let ?p = "TrimSpace (sc_PlistPath cfg)"
  let ?fs = "(is_fs st)\<lparr>af_files := (af_files (is_fs st))(?p \<mapsto> renderSystemdUnit cfg)\<rparr>"
  let ?name = "if HasSuffix (Base ?p) ''.service'' then Base ?p else Base ?p @ ''.service''"
  obtain st1 where c1: "osCommandRunner_Run exec ''systemctl'' [''--user'', ''daemon-reload''] (st\<lparr>is_fs := ?fs\<rparr>) = (None, st1)"
    "is_fs st1 = ?fs" "same_sessions (is_net st) (is_net st1)"
    using command_succeeds [OF assms(1), of "''systemctl''" "[''--user'', ''daemon-reload'']" "st\<lparr>is_fs := ?fs\<rparr>"] by auto
  obtain st2 where c2: "osCommandRunner_Run exec ''systemctl'' [''--user'', ''enable'', ''--now'', ?name] st1 = (None, st2)"
    "is_fs st2 = is_fs st1" "same_sessions (is_net st1) (is_net st2)"
    using command_succeeds [OF assms(1)] by blast
  have "systemd_InstallAndStart exec cfg st = (None, st2)"
    using assms(2,3) c1(1) c2(1)
    by (simp add: systemd_InstallAndStart_def on_fs_def MkdirAll_def WriteFile_def next_outcome_def Let_def split: if_splits)
  then show ?thesis using c1(2,3) c2(2,3) by (simp add: same_sessions_def)
qed

section \<open>An approved session gets installed\<close>

text \<open>What an installation needs of the server, the way to it, and the store when one of its calls is made.\<close>

definition installing ::
  "(file_env, FileStore) api_server \<Rightarrow> (client_request \<Rightarrow> FileStore \<Rightarrow> file_env) \<Rightarrow> FileStore transport \<Rightarrow> Client
   \<Rightarrow> InstallSession \<Rightarrow> FileStore \<Rightarrow> bool" where
  "installing srv env send c q n \<longleftrightarrow>
     h_store (as_api srv) = file_store \<and> paired srv c \<and> reaches srv env send c \<and> timely env q \<and> plain_elem (sess_ID q)
     \<and> years_ok (fs_mem n) \<and> installSessions (fs_mem n) (sess_ID q) = Some q \<and> sess_Status q = InstallStatusApproved"

lemma installingD:
  assumes "installing srv env send c q n"
  shows "h_store (as_api srv) = file_store" "paired srv c" "reaches srv env send c" "plain_elem (sess_ID q)" "years_ok (fs_mem n)"
    "installSessions (fs_mem n) (sess_ID q) = Some q" "sess_Status q = InstallStatusApproved"
    "calm (env cr s)" "now (env cr s) \<le> sess_ExpiresAt q"
  using assms by (simp_all add: installing_def timely_def)

lemma redeemed:
  assumes "installing srv env send c q (is_net st)"
    and "installTokens (fs_mem (is_net st)) (digestInstallToken token) = Some (sess_ID q)" "session_writable q" "valid_utf8 token"
  shows "\<exists>st'. ia_RedeemInstallToken (install_client send c) token st = (Inr (session_summary q), st') \<and> is_fs st' = is_fs st
         \<and> fs_mem (is_net st') = deleteInstallTokensForSession (sess_ID q) (fs_mem (is_net st))"
proof -
  note i = installingD [OF assms(1)]
  let ?n = "is_net st"
  obtain cr e where "e = env cr ?n" and o: "ia_RedeemInstallToken (install_client send c) token st
      = noted st cr (Client_RedeemInstallToken (server_transport srv e c) c token ?n)" using installer_calls(1) [OF i(3)] by blast
  with redeem_stored [OF i(8,5,9,7,6) assms(2)] obtain n where
    n: "FileStore_RedeemInstallToken e token ?n = (Inr q, n)" "fs_mem n = deleteInstallTokensForSession (sess_ID q) (fs_mem ?n)" by blast
  have "Client_RedeemInstallToken (server_transport srv e c) c token ?n = (Inr (session_summary q), n)"
    using redeem_call [OF i(2) assms(4), of e ?n] assms(3) n(1) by (simp add: i(1))
  with o n(2) show ?thesis by simp
qed

lemma registered:
  assumes "installing srv env send c q (is_net st)"
    and "valid_utf8 connector" "TrimSpace connector = connector" "connector \<noteq> []"
    and "valid_utf8 device" "TrimSpace device = device" "device \<noteq> []"
  shows "\<exists>st'. ia_RegisterInstallIdentity (install_client send c) (sess_ID q) connector device st = (None, st') \<and> is_fs st' = is_fs st
         \<and> fs_mem (is_net st') = put_session (sess_ID q) (identified q connector device) (fs_mem (is_net st))"
proof -
  note i = installingD [OF assms(1)]
  let ?n = "is_net st"
  obtain cr e where "e = env cr ?n" and o: "ia_RegisterInstallIdentity (install_client send c) (sess_ID q) connector device st
      = noted st cr (RegisterInstallIdentity (server_transport srv e c) c (sess_ID q) connector device ?n)"
    using installer_calls(2) [OF i(3)] by blast
  with identity_stored [OF i(8,5,9,7,6) assms(3,4,6,7)] obtain n x where
    n: "FileStore_SetInstallIdentity e (sess_ID q) connector device ?n = (Inr x, n)"
       "fs_mem n = put_session (sess_ID q) (identified q connector device) (fs_mem ?n)" by blast
  have "RegisterInstallIdentity (server_transport srv e c) c (sess_ID q) connector device ?n = (None, n)"
    using registration_call [OF i(2,4) assms(2,5), of e ?n] n(1) by (simp add: i(1) posted_def)
  with o n(2) show ?thesis by simp
qed

abbreviation installed :: "InstallSession \<Rightarrow> InstallSession" where
  "installed q \<equiv> q\<lparr>sess_Status := InstallStatusInstalled, sess_ReasonCode := []\<rparr>"

lemma reported_installed:
  assumes "installing srv env send c q (is_net st)" and "\<not> blank (sess_ConnectorID q)" and "\<not> blank (sess_DeviceID q)"
  shows "\<exists>st'. ia_PostInstallResult (install_client send c) (sess_ID q) InstallStatusInstalled [] st = (None, st') \<and> is_fs st' = is_fs st
         \<and> fs_mem (is_net st') = deleteInstallTokensForSession (sess_ID q) (put_session (sess_ID q) (installed q) (fs_mem (is_net st)))"
proof -
  note i = installingD [OF assms(1)]
  let ?n = "is_net st"
  obtain cr e where "e = env cr ?n" and o: "ia_PostInstallResult (install_client send c) (sess_ID q) InstallStatusInstalled [] st
      = noted st cr (PostInstallResult (server_transport srv e c) c (sess_ID q) InstallStatusInstalled [] ?n)"
    using installer_calls(3) [OF i(3)] by blast
  with result_stored [OF i(8,5,9,7,6) assms(2,3)] obtain n x where
    n: "FileStore_SetInstallResult e (sess_ID q) InstallStatusInstalled [] ?n = (Inr x, n)"
       "fs_mem n = deleteInstallTokensForSession (sess_ID q) (put_session (sess_ID q) (installed q) (fs_mem ?n))" by blast
  have "valid_utf8 InstallStatusInstalled" "valid_utf8 []" by (simp_all add: InstallStatusInstalled_def)
  from install_result_call [OF i(2,4) this, of e ?n] n(1)
  have "PostInstallResult (server_transport srv e c) c (sess_ID q) InstallStatusInstalled [] ?n = (None, n)"
    by (simp add: i(1) posted_def)
  with o n(2) show ?thesis by simp
qed

section \<open>An approved session gets installed\<close>

text \<open>What the installer is given, and what becomes of it.\<close>

lemma installation_succeeds:
  assumes "installing srv env send c q (is_net st)" and "session_writable q" and "valid_utf8 (ic_InstallToken cfg)"
    and "installTokens (fs_mem (is_net st)) (digestInstallToken (ic_InstallToken cfg)) = Some (sess_ID q)"
    and ids: "resolveInstallIdentity lower host (ic_Env cfg) (session_summary q) = (connector, device)"
    and "valid_utf8 connector" and "valid_utf8 device"
    and valid: "validateConfig cfg (run_env lower host cfg (session_summary q)) = None"
    and "commands_succeed exec" and "af_outcomes (is_fs st) = []"
  shows "\<exists>st'. install_Run lower host (install_client send c) (systemd_InstallAndStart exec) cfg st = (None, st')
     \<and> installSessions (fs_mem (is_net st')) (sess_ID q) = Some (installed (identified q connector device))
     \<and> installTokens (fs_mem (is_net st')) (digestInstallToken (ic_InstallToken cfg)) = None
     \<and> af_files (is_fs st') (TrimSpace (ic_PlistPath cfg)) = Some (renderSystemdUnit (run_service lower host cfg (session_summary q)))"
proof -
  let ?cfg = "run_service lower host cfg (session_summary q)" and ?q = "identified q connector device" and ?sid = "sess_ID q"
  note i = identity_settled [OF ids]
  obtain st1 where 1: "ia_RedeemInstallToken (install_client send c) (ic_InstallToken cfg) st = (Inr (session_summary q), st1)"
    "is_fs st1 = is_fs st" "fs_mem (is_net st1) = deleteInstallTokensForSession ?sid (fs_mem (is_net st))"
    using redeemed [OF assms(1,4,2,3)] by blast
  have n1: "installing srv env send c q (is_net st1)"
    using assms(1) by (simp add: installing_def 1(3) years_session(2)) (simp add: deleteInstallTokensForSession_def)
  obtain st2 where 2: "ia_RegisterInstallIdentity (install_client send c) ?sid connector device st1 = (None, st2)"
    "is_fs st2 = is_fs st1" "fs_mem (is_net st2) = put_session ?sid ?q (fs_mem (is_net st1))"
    using registered [OF n1 assms(6) i(1,2) assms(7) i(3,4)] by blast
  have "\<not> blank (sc_PlistPath ?cfg)" using valid by (auto simp: validateConfig_def run_service_def split: if_splits)
  then obtain st3 where 3: "systemd_InstallAndStart exec ?cfg st2 = (None, st3)" "same_sessions (is_net st2) (is_net st3)"
    "af_files (is_fs st3) (TrimSpace (sc_PlistPath ?cfg)) = Some (renderSystemdUnit ?cfg)"
    using unit_installed [OF assms(9)] assms(10) 1(2) 2(2) by metis
  have "years_ok (fs_mem (is_net st2))"
    unfolding 2(3) by (rule years_session(1) [OF installingD(5) [OF n1] installingD(6) [OF n1]]) simp_all
  then have n3: "installing srv env send c ?q (is_net st3)"
    using n1 3(2) 2(3) by (simp add: installing_def timely_def same_sessions_def put_session_def)
  obtain st4 where 4: "ia_PostInstallResult (install_client send c) (sess_ID ?q) InstallStatusInstalled [] st3 = (None, st4)"
    "is_fs st4 = is_fs st3"
    "fs_mem (is_net st4) = deleteInstallTokensForSession (sess_ID ?q) (put_session (sess_ID ?q) (installed ?q) (fs_mem (is_net st3)))"
    using reported_installed [OF n3] i by auto
  have sid: "ais_ID (session_summary q) = sess_ID q" by (simp add: session_summary_def)
  have "install_attempt lower host (install_client send c) (systemd_InstallAndStart exec) cfg (session_summary q) st1 = (None, st3)"
    using 2(1) 3(1) by (simp add: install_attempt_def valid ids sid)
  then have "install_Run lower host (install_client send c) (systemd_InstallAndStart exec) cfg st = (None, st4)"
    using 1(1) 4(1) by (simp add: run_attempt sid install_InstallStatusInstalled_def InstallStatusInstalled_def)
  moreover have "installTokens (fs_mem (is_net st3)) (digestInstallToken (ic_InstallToken cfg)) = None"
    using 3(2) assms(4) by (simp add: same_sessions_def 2(3) 1(3) put_session_def deleteInstallTokensForSession_def)
  ultimately show ?thesis
    using 3(3) 4(2,3) by (simp add: deleteInstallTokensForSession_def put_session_def run_service_def map_drop_value_None)
qed

text \<open>
  C2. An approved installation gets installed. Take a started control plane whose disk works, a usable
  command line on Linux with the server's token, whose base URL reaches it, and a token minted for an
  approved session that has not expired; let the service file be writable and carry the configured values,
  and the service manager's commands succeed. Then the command ends without an error, the session is
  installed under the identity that was registered, its token is gone, and an agent that gets the
  environment of the unit file starts and polls for the device of the session, with the control plane and
  the token of that environment.
\<close>

theorem approved_session_gets_installed:
  assumes "api_main w = Inr (srv, s0)" and "install_plan args lookupEnv ''linux'' current_user = Inr (c, cfg)"
    and "paired srv c" and "reaches srv env send c" and "timely env q"
    and "sess_Status q = InstallStatusApproved" and "session_writable q" and "plain_elem (sess_ID q)"
    and "installSessions (fs_mem (is_net st)) (sess_ID q) = Some q" and "years_ok (fs_mem (is_net st))"
    and "installTokens (fs_mem (is_net st)) (digestInstallToken (ic_InstallToken cfg)) = Some (sess_ID q)"
    and "resolveInstallIdentity lower host (ic_Env cfg) (session_summary q) = (connector, device)"
    and "valid_utf8 (ic_InstallToken cfg)" and "valid_utf8 connector" and "valid_utf8 device"
    and "validateConfig cfg (run_env lower host cfg (session_summary q)) = None"
    and "unit_safe (run_service lower host cfg (session_summary q))"
    and "commands_succeed exec" and "af_outcomes (is_fs st) = []"
    and "loadTrustedControlPlaneSigningKeysFromEnv (env_get (run_env lower host cfg (session_summary q))) = Inr keys"
    and "install_main send exec uid lower host args lookupEnv ''linux'' current_user st = (err, st')"
  shows "err = None
     \<and> installSessions (fs_mem (is_net st')) (sess_ID q)
       = Some (q\<lparr>sess_ConnectorID := connector, sess_DeviceID := device, sess_Status := InstallStatusInstalled, sess_ReasonCode := []\<rparr>)
     \<and> installTokens (fs_mem (is_net st')) (digestInstallToken (ic_InstallToken cfg)) = None
     \<and> (\<exists>unit ag src. af_files (is_fs st') (TrimSpace (ic_PlistPath cfg)) = Some unit
          \<and> agent_main ed agent_send native lower order scale (environ_get (unit_environment spec unit)) t = Inr (ag, src)
          \<and> at_deviceID ag = device
          \<and> at_client ag = NewClient (env_get (ic_Env cfg) ''CONTROL_PLANE_URL'') (env_get (ic_Env cfg) ''AGENT_TOKEN''))"
proof -
  let ?service = "run_service lower host cfg (session_summary q)"
  have store: "h_store (as_api srv) = file_store"
    by (rule api_main_parts [OF assms(1)]) (simp add: server_over_def)
  have "installing srv env send c q (is_net st)" using assms(3-6,8-10) store by (simp add: installing_def)
  from installation_succeeds [OF this assms(7,13,11,12,14-16,18,19)] have run: "err = None"
    "installSessions (fs_mem (is_net st')) (sess_ID q) = Some (installed (identified q connector device))"
    "installTokens (fs_mem (is_net st')) (digestInstallToken (ic_InstallToken cfg)) = None"
    "af_files (is_fs st') (TrimSpace (ic_PlistPath cfg)) = Some (renderSystemdUnit ?service)"
    using assms(21) by (auto simp: install_main_def installerFactoryForGOOS_def runWithDeps_def assms(2))
  have "environ_get (unit_environment spec (renderSystemdUnit ?service)) = env_get (run_env lower host cfg (session_summary q))"
    using unit_environ [of ?service spec] run_env_keys [OF assms(2)] assms(17) by (simp add: run_service_def)
  with run environment_starts_agent [OF assms(16,20), of ed agent_send native order scale t] show ?thesis
    by (auto simp: assms(12))
qed

section \<open>An installation\<close>

definition demo_install_args :: "string list" where
  "demo_install_args = [''-token'', ''t1'', ''-agent-bin'', ''/bin/agent'']"

definition demo_install_lookup :: "string \<Rightarrow> string option" where
  "demo_install_lookup = demo_lookup(''AGENT_TOKEN'' \<mapsto> ''tok'')"

definition demo_approved :: InstallSession where
  "demo_approved = \<lparr>sess_ID = ''s1'', sess_OpenClawUserID = ''u1'', sess_DeviceID = ''d1'', sess_ConnectorID = ''c1'',
     sess_SourceChannel = [], sess_Status = InstallStatusApproved, sess_CreatedAt = 0, sess_ExpiresAt = 10, sess_ReasonCode = []\<rparr>"

definition demo_machine :: "FileStore install_state" where
  "demo_machine =
     \<lparr>is_net = demo_new\<lparr>fs_mem := NewInMemoryStore\<lparr>installSessions := [''s1'' \<mapsto> demo_approved],
                                                    installTokens := [digestInstallToken ''t1'' \<mapsto> ''s1'']\<rparr>\<rparr>,
      is_fs = \<lparr>af_files = Map.empty, af_outcomes = []\<rparr>, is_sent = [], is_commands = []\<rparr>"

lemma demo_install_plan:
  obtains cfg where "install_plan demo_install_args demo_install_lookup ''linux'' (Inr ''alice'') = Inr (NewClient ''http://cp'' ''tok'', cfg)"
    "ic_InstallToken cfg = ''t1''" "ic_Label cfg = defaultLabel" "ic_AgentBinary cfg = ''/bin/agent''"
    "ic_PlistPath cfg = defaultSystemdUnitPath ''/home/a'' defaultLabel"
    "ic_Env cfg = (buildInstallEnv ''alice'' ''http://cp'' ''http://v'' (envOrEmpty demo_install_lookup))(''DEVICE_ID'' \<mapsto> ''d1'')"
proof -
  have "split_flag ''token'' = (''token'', None)" "split_flag ''agent-bin'' = (''agent-bin'', None)"
    by (simp_all add: split_flag_def)
  then have "parse_flags flag_names demo_install_args vals = Inr (vals(''token'' := ''t1'', ''agent-bin'' := ''/bin/agent''))" for vals
    by (simp add: demo_install_args_def flag_names_def Let_def)
  then show thesis
    using that by (simp add: install_plan_def flag_defaults_def demo_words envOrEmpty_def demo_install_lookup_def demo_lookup_def Let_def)
qed

lemma demo_install_env:
  assumes "ic_Env cfg = (buildInstallEnv ''alice'' ''http://cp'' ''http://v'' (envOrEmpty demo_install_lookup))(''DEVICE_ID'' \<mapsto> ''d1'')"
  shows "run_env lower host cfg (session_summary demo_approved) =
           [''CONTROL_PLANE_URL'' \<mapsto> ''http://cp'', ''LOCAL_USERNAME'' \<mapsto> ''alice'', ''DCAP_VERIFIER_URL'' \<mapsto> ''http://v'',
            ''AGENT_TOKEN'' \<mapsto> ''tok'', ''CONNECTOR_ID'' \<mapsto> ''c1'', ''DEVICE_ID'' \<mapsto> ''d1'']"
    "resolveInstallIdentity lower host (ic_Env cfg) (session_summary demo_approved) = (''c1'', ''d1'')"
    "ic_Env cfg ''CONTROL_PLANE_URL'' = Some ''http://cp''" "ic_Env cfg ''AGENT_TOKEN'' = Some ''tok''"
proof -
  have t: "TrimSpace ''tok'' = ''tok''" by code_simp
  note defs = assms session_summary_def demo_approved_def buildInstallEnv_def forward_keys_get forwarded_keys_def env_get_def envOrEmpty_def
    demo_install_lookup_def demo_lookup_def demo_words t Let_def
  show r: "resolveInstallIdentity lower host (ic_Env cfg) (session_summary demo_approved) = (''c1'', ''d1'')"
    by (simp add: resolveInstallIdentity_def defs)
  show "ic_Env cfg ''CONTROL_PLANE_URL'' = Some ''http://cp''" "ic_Env cfg ''AGENT_TOKEN'' = Some ''tok''" by (simp_all add: defs)
  show "run_env lower host cfg (session_summary demo_approved) =
           [''CONTROL_PLANE_URL'' \<mapsto> ''http://cp'', ''LOCAL_USERNAME'' \<mapsto> ''alice'', ''DCAP_VERIFIER_URL'' \<mapsto> ''http://v'',
            ''AGENT_TOKEN'' \<mapsto> ''tok'', ''CONNECTOR_ID'' \<mapsto> ''c1'', ''DEVICE_ID'' \<mapsto> ''d1'']"
    by (rule ext) (simp add: run_env_def r, simp add: defs)
qed

theorem approved_session_gets_installed_witness:
  "\<exists>srv s0 err st' unit ag src. api_main demo_bundle_start = Inr (srv, s0)
     \<and> install_main (demo_wire srv) (\<lambda>args n. (([], None), n)) 1000 (\<lambda>w. w) None demo_install_args demo_install_lookup ''linux'' (Inr ''alice'')
         demo_machine = (err, st')
     \<and> err = None
     \<and> installSessions (fs_mem (is_net st')) ''s1'' = Some (demo_approved\<lparr>sess_Status := InstallStatusInstalled\<rparr>)
     \<and> installTokens (fs_mem (is_net st')) (digestInstallToken ''t1'') = None
     \<and> af_files (is_fs st') (TrimSpace (defaultSystemdUnitPath ''/home/a'' defaultLabel)) = Some unit
     \<and> agent_main toy_ed (demo_wire srv) (\<lambda>q io. (Inr True, io)) (\<lambda>w. w) demo_order (\<lambda>a b c. c)
         (environ_get (unit_environment (\<lambda>c. None) unit)) 0 = Inr (ag, src)
     \<and> at_deviceID ag = ''d1'' \<and> at_client ag = NewClient ''http://cp'' ''tok''"
proof -
  obtain srv where s: "started demo_bundle_start srv" and tok: "as_APIToken srv = ''tok''" by (rule demo_started)
  from s obtain s0 where 1: "api_main demo_bundle_start = Inr (srv, s0)" by (auto simp: started_def)
  obtain cfg where 2: "install_plan demo_install_args demo_install_lookup ''linux'' (Inr ''alice'') = Inr (NewClient ''http://cp'' ''tok'', cfg)"
    and c: "ic_InstallToken cfg = ''t1''" "ic_Label cfg = defaultLabel" "ic_AgentBinary cfg = ''/bin/agent''"
      "ic_PlistPath cfg = defaultSystemdUnitPath ''/home/a'' defaultLabel"
    and e: "ic_Env cfg = (buildInstallEnv ''alice'' ''http://cp'' ''http://v'' (envOrEmpty demo_install_lookup))(''DEVICE_ID'' \<mapsto> ''d1'')"
    by (rule demo_install_plan)
  note env = demo_install_env [OF e]
  let ?env = "\<lambda>(cr :: client_request) (s :: FileStore). demo_wire_env" and ?sum = "session_summary demo_approved"
  have 3: "paired srv (NewClient ''http://cp'' ''tok'')"
    by (simp add: paired_def demo_client visible_token_def graph_char_def tok)
  have 4: "reaches srv ?env (demo_wire srv) (NewClient ''http://cp'' ''tok'')"
    by (simp add: reaches_def demo_wire_def demo_client)
  have 5: "timely ?env demo_approved"
    by (simp add: timely_def calm_def demo_wire_env_def demo_disk_env_def demo_approved_def)
  have 6: "sess_Status demo_approved = InstallStatusApproved" "plain_elem (sess_ID demo_approved)" "session_writable demo_approved"
    by (simp_all add: demo_approved_def plain_elem_def session_writable_def year_ok_def InstallStatusApproved_def)
  have 7: "installSessions (fs_mem (is_net demo_machine)) (sess_ID demo_approved) = Some demo_approved"
    "installTokens (fs_mem (is_net demo_machine)) (digestInstallToken (ic_InstallToken cfg)) = Some (sess_ID demo_approved)"
    "af_outcomes (is_fs demo_machine) = []"
    by (simp_all add: demo_machine_def c) (simp_all add: demo_approved_def)
  have 8: "years_ok (fs_mem (is_net demo_machine))"
    by (simp add: years_ok_def demo_machine_def NewInMemoryStore_def) (simp add: demo_approved_def year_ok_def)
  have 9: "valid_utf8 (ic_InstallToken cfg)" "valid_utf8 ''c1''" "valid_utf8 ''d1''" by (simp_all add: c)
  have "missing_key (run_env (\<lambda>w. w) None cfg ?sum) required_keys = None"
    by (simp add: missing_key_None required_keys_def env env_get_def demo_words)
  then have 10: "validateConfig cfg (run_env (\<lambda>w. w) None cfg ?sum) = None"
    using demo_unit_path by (simp add: validateConfig_def c defaultLabel_def demo_words)
  have 11: "unit_safe (run_service (\<lambda>w. w) None cfg ?sum)"
    by (simp add: unit_safe_def run_service_def c env one_line_def ran_map_upd)
  have 12: "commands_succeed (\<lambda>args n. (([], None), n))" by (simp add: commands_succeed_def)
  have 13: "loadTrustedControlPlaneSigningKeysFromEnv (env_get (run_env (\<lambda>w. w) None cfg ?sum)) = Inr Map.empty"
    by (simp add: loadTrustedControlPlaneSigningKeysFromEnv_def env env_get_def demo_words Let_def)
  obtain err st' where m: "install_main (demo_wire srv) (\<lambda>args n. (([], None), n)) 1000 (\<lambda>w. w) None demo_install_args
      demo_install_lookup ''linux'' (Inr ''alice'') demo_machine = (err, st')" by fastforce
  note r = approved_session_gets_installed [OF 1 2 3 4 5 6(1,3,2) 7(1) 8 7(2) env(2) 9 10 11 12 7(3) 13 m, of toy_ed "demo_wire srv"
      "\<lambda>q io. (Inr True, io)" demo_order "\<lambda>a b c. c" "\<lambda>c. None" 0]
  have "demo_approved\<lparr>sess_ConnectorID := ''c1'', sess_DeviceID := ''d1'', sess_Status := InstallStatusInstalled, sess_ReasonCode := []\<rparr>
      = demo_approved\<lparr>sess_Status := InstallStatusInstalled\<rparr>" "sess_ID demo_approved = ''s1''"
    "env_get (ic_Env cfg) ''CONTROL_PLANE_URL'' = ''http://cp''" "env_get (ic_Env cfg) ''AGENT_TOKEN'' = ''tok''"
    using env(3,4) by (simp_all add: demo_approved_def env_get_def)
  with r show ?thesis using 1 m by (auto simp: c)
qed

end
