(* ===== verification/JsonFuel.thy ===== *)
theory JsonFuel
  imports JsonParse
begin

text \<open>
  The fuel with which JSON text is read is enough: every reader leaves less text than it was given, so a
  call with more fuel than twice the length of its text comes to the same result whatever the fuel is.
\<close>

section \<open>Reading leaves less text\<close>

lemma scan_string_shorter: "scan_string s = Some (w, r) \<Longrightarrow> length r < length s"
proof (induction "length s" arbitrary: s w rule: less_induct)
  case less
  show ?case
  proof (cases s)
    case (Cons c cs)
    have ih: "length r < Suc k" if "scan_string t = Some (w', r)" "length t \<le> length cs" "length t \<le> k" for t w' k
      using less.hyps [of t w'] that Cons by simp
    from less.prems show ?thesis
      by (auto simp: Cons split: if_splits list.splits option.splits intro: ih)
  qed (use less in simp)
qed

lemma dropWhile_shorter: "length (dropWhile P s) \<le> length s"
  by (rule length_dropWhile_le)

lemma scan_digits_shorter: "scan_digits s = Some (w, r) \<Longrightarrow> length r < length s"
proof -
  assume a: "scan_digits s = Some (w, r)"
  then obtain c cs where "s = c # cs" "digit c" by (cases s) (auto simp: scan_digits_def split: if_splits)
  with a show ?thesis using dropWhile_shorter [of digit cs] by (auto simp: scan_digits_def le_imp_less_Suc)
qed

lemma scan_number_shorter: "scan_number s = Some (w, r) \<Longrightarrow> length r < length s"
proof -
  assume a: "scan_number s = Some (w, r)"
  have i: "length r < length s" if "scan_integer s = Some (w, r)" for s w r
    using that by (auto simp: scan_integer_def dest: scan_digits_shorter split: list.splits if_splits)
  have f: "length r \<le> length s" if "scan_fraction s = Some (w, r)" for s w r
    using that by (auto simp: scan_fraction_def dest!: scan_digits_shorter split: list.splits if_splits)
  have x: "length r \<le> length s" if "scan_exponent s = Some (w, r)" for s w r
    using that by (fastforce simp: scan_exponent_def dest!: scan_digits_shorter split: list.splits if_splits)
  let ?s = "if HasPrefix s ''-'' then tl s else s"
  from a obtain i1 s1 f1 s2 x1 where "scan_integer ?s = Some (i1, s1)" "scan_fraction s1 = Some (f1, s2)" "scan_exponent s2 = Some (x1, r)"
    by (auto simp: scan_number_def Let_def split: if_splits option.splits)
  then have "length r < length ?s" using i f x by (meson le_less_trans order_trans)
  then show ?thesis by (auto split: if_splits)
qed

lemma scan_literal_shorter: "scan_literal s = Some (v, r) \<Longrightarrow> length r < length s"
  by (auto simp: scan_literal_def HasPrefix_iff split: if_splits dest!: scan_number_shorter)

lemma skip_shorter: "skip_space s = c # cs \<Longrightarrow> length cs < length s"
  using dropWhile_shorter [of json_space s] by simp

declare json_value.simps [simp] json_members.simps [simp] json_elements.simps [simp]

lemma parse_shorter:
  "json_value n d s = Some (v, r) \<Longrightarrow> length r < length s"
  "json_members n d s = Some (ms, r) \<Longrightarrow> length r < length s"
  "json_elements n d s = Some (vs, r) \<Longrightarrow> length r < length s"
proof (induction n d s and n d s and n d s arbitrary: v r and ms r and vs r rule: json_value_json_members_json_elements.induct)
  case (2 n d s)
  show ?case
  proof (cases "skip_space s")
    case Nil
    with 2(3) show ?thesis by (simp only: json_value.simps list.case option.distinct)
  next
    case (Cons c cs)
    have e: "length (tl (skip_space cs)) \<le> length cs" using dropWhile_shorter [of json_space cs] by simp
    note k = skip_shorter [OF Cons]
    have m: "length r < length s" if "json_members n (d - Suc 0) cs = Some (ms, r)" "c = CHR 0x7B" "0 < d"
      "\<not> HasPrefix (skip_space cs) [CHR 0x7D]" for ms
      using 2(1) [OF Cons, of ms r] that k by simp
    have a: "length r < length s" if "json_elements n (d - Suc 0) cs = Some (vs, r)" "c = CHR ''[''" "0 < d"
      "\<not> HasPrefix (skip_space cs) '']''" for vs
      using 2(2) [OF Cons, of vs r] that k by simp
    from 2(3) show ?thesis using k e
      by (auto simp: Cons split: if_splits dest!: scan_string_shorter scan_literal_shorter intro: m a)
  qed
next
  case (4 n d s)
  note ihv = 4(1) and ihm = 4(2)
  let ?s = "skip_space s"
  obtain k t where k: "scan_string (tl ?s) = Some (k, t)"
    using 4(3) by (auto split: if_splits option.splits)
  let ?t = "skip_space (tl (skip_space t))"
  obtain v r' where v: "json_value n d ?t = Some (v, r')"
    using 4(3) k by (auto simp: Let_def split: if_splits option.splits)
  have lt: "length ?t \<le> length t"
    using dropWhile_shorter [of json_space t] dropWhile_shorter [of json_space "tl (skip_space t)"] by simp
  have "length (tl ?s) \<le> length s" using dropWhile_shorter [of json_space s] by simp
  then have l: "length t < length s" using scan_string_shorter [OF k] by simp
  obtain x xs where x: "skip_space r' = x # xs"
    using 4(3) k v by (cases "skip_space r'") (auto simp: Let_def simp del: dropWhile_eq_Nil_conv split: if_splits)
  have r': "length r' < length ?t"
    using ihv v 4(3) k by (auto simp: Let_def split: if_splits)
  have p: "HasPrefix ?s [CHR 0x22]" "HasPrefix (skip_space t) '':''"
    using 4(3) k by (auto simp: Let_def split: if_splits)
  have "length xs < length s" using skip_shorter [OF x] r' lt l by simp
  moreover have "r = xs \<or> (\<exists>ms'. json_members n d xs = Some (ms', r) \<and> x = CHR '','')"
    using 4(3) k v x by (auto simp: Let_def split: if_splits)
  moreover have "length r < length xs" if "json_members n d xs = Some (ms', r)" "x = CHR '',''" for ms'
    using ihm that p k v x by (simp add: Let_def)
  ultimately show ?case by auto
next
  case (6 n d s)
  obtain v r' where v: "json_value n d s = Some (v, r')" using 6(3) by (auto split: option.splits)
  obtain x xs where x: "skip_space r' = x # xs" using 6(3) v by (cases "skip_space r'") (auto simp del: dropWhile_eq_Nil_conv)
  have "length r' < length s" using 6(1) [OF v] .
  then have "length xs < length s" using skip_shorter [OF x] by simp
  moreover have "r = xs \<or> (\<exists>vs'. json_elements n d xs = Some (vs', r) \<and> x = CHR '','')"
    using 6(3) v x by (auto split: if_splits)
  moreover have "length r < length xs" if "json_elements n d xs = Some (vs', r)" "x = CHR '',''" for vs'
    using 6(2) [OF v refl x that(2,1)] .
  ultimately show ?case by auto
qed simp_all

section \<open>More fuel changes nothing\<close>

lemma fuel_step:
  "2 * length s < n \<Longrightarrow> json_value (Suc n) d s = json_value n d s"
  "2 * length s < n \<Longrightarrow> json_members (Suc n) d s = json_members n d s"
  "Suc (2 * length s) < n \<Longrightarrow> json_elements (Suc n) d s = json_elements n d s"
proof (induction n d s and n d s and n d s rule: json_value_json_members_json_elements.induct)
  case (2 n d s)
  show ?case
  proof (cases "skip_space s")
    case Nil
    then show ?thesis by (simp only: json_value.simps list.case)
  next
    case (Cons c cs)
    note k = skip_shorter [OF Cons]
    have "json_members (Suc n) (d - 1) cs = json_members n (d - 1) cs"
      if "c = CHR 0x7B" "d \<noteq> 0" "\<not> HasPrefix (skip_space cs) [CHR 0x7D]"
      using 2(1) [OF Cons] that k 2(3) by simp
    moreover have "json_elements (Suc n) (d - 1) cs = json_elements n (d - 1) cs"
      if "c = CHR ''[''" "d \<noteq> 0" "\<not> HasPrefix (skip_space cs) '']''"
      using 2(2) [OF Cons] that k 2(3) by simp
    ultimately show ?thesis by (auto simp: Cons)
  qed
next
  case (4 n d s)
  let ?s = "skip_space s"
  show ?case
  proof (cases "scan_string (tl ?s)")
    case (Some kt)
    obtain k t where kt: "kt = (k, t)" by fastforce
    let ?t = "skip_space (tl (skip_space t))"
    have "length ?t \<le> length t - 1"
      using dropWhile_shorter [of json_space t] dropWhile_shorter [of json_space "tl (skip_space t)"] by simp
    moreover have "length (tl ?s) \<le> length s" using dropWhile_shorter [of json_space s] by simp
    ultimately have t: "length ?t < length s" using scan_string_shorter [OF Some [unfolded kt]] by simp
    have v: "json_value (Suc n) d ?t = json_value n d ?t"
      if "HasPrefix ?s [CHR 0x22]" "HasPrefix (skip_space t) '':''"
      using 4(1) that Some kt t 4(3) by simp
    have m: "json_members (Suc n) d xs = json_members n d xs"
      if "HasPrefix ?s [CHR 0x22]" "HasPrefix (skip_space t) '':''" "json_value n d ?t = Some (w, r)" "skip_space r = CHR '','' # xs" for w r xs
    proof -
      have "length xs < length s" using skip_shorter [OF that(4)] parse_shorter(1) [OF that(3)] t by simp
      then show ?thesis using 4(2) that Some kt 4(3) by simp
    qed
    show ?thesis
      using v m by (subst (1 2) json_members.simps(2)) (auto simp: Some kt Let_def
          simp del: json_value.simps(2) json_members.simps(2) dropWhile_eq_Nil_conv split: option.split list.split)
  qed simp
next
  case (6 n d s)
  have v: "json_value (Suc n) d s = json_value n d s" using 6(1,3) by simp
  have e: "json_elements (Suc n) d xs = json_elements n d xs"
    if "json_value n d s = Some (w, r)" "skip_space r = CHR '','' # xs" for w r xs
  proof -
    have "length xs < length s" using skip_shorter [OF that(2)] parse_shorter(1) [OF that(1)] by simp
    then show ?thesis using 6(2) [OF that(1) refl that(2)] 6(3) by simp
  qed
  show ?case
    using v e by (subst (1 2) json_elements.simps(2)) (auto simp del: json_value.simps(2) json_elements.simps(2) dropWhile_eq_Nil_conv
        split: option.split list.split)
qed simp_all

declare json_value.simps [simp del] json_members.simps [simp del] json_elements.simps [simp del]

text \<open>
  So \<open>decode_text\<close> and \<open>unmarshal_text\<close> read what a reader without fuel would read: no text fails, or is
  read differently, for lack of it.
\<close>

lemma value_fuel: "2 * length s < n \<Longrightarrow> json_value n d s = json_value (Suc (2 * length s)) d s"
proof (induction n)
  case (Suc n)
  then show ?case using fuel_step(1) [of s n d] by (cases "2 * length s < n") (auto simp: less_Suc_eq)
qed simp

lemma decode_fuel:
  "2 * length s < n \<Longrightarrow>
   decode_text s = (case json_value n max_depth s of None \<Rightarrow> Inl json_syntax_error | Some (v, r) \<Rightarrow> Inr v)"
  using value_fuel [of s n max_depth] by (simp add: decode_text_def)

end
