(* ===== verification/Spec2Isabelle.thy ===== *)
theory Spec2Isabelle
  imports Installed JsonFuel
begin

text \<open>
  Enclout: a control plane and a local agent that give a chat agent access to a device.

  A chat user asks for a connection; the control plane stores a connection request. The agent on the
  device polls for the requests of its device, asks the device's owner, posts the decision, fetches a
  signed attestation bundle for the approved request, checks its signature against the published keys and
  its quote with a verifier service, installs the bundle's SSH key for the device's user and reports the
  result. Devices are set up by an install session: the chat hands out a one-time token, the installer
  redeems it, registers the device's identity, writes a service file, starts the agent and reports.

  Control plane, \<open>src/services/control-plane\<close>, bottom up:

  \<^item> \<open>RequestModel\<close>, \<open>Store\<close>, \<open>StoreInv\<close>, \<open>RequestStore\<close>: \<open>internal/requests/{model,id,store}.go\<close>. Structs are
    records, statuses strings with the code's constants, each operation a function on the memory of the
    store (one step, as the mutex makes it). The invariant \<open>store_ok\<close> is kept by every operation. The
    interface \<open>RequestStore\<close> is a record of operations; calls are also data (\<open>store_op\<close>), and \<open>run\<close>
    performs a history of them.
  \<^item> \<open>FileStore\<close>, \<open>Durability\<close>: \<open>file_store.go\<close>. The store written through to a file, over a disk whose calls
    fail or write a part as the environment says. The locale \<open>request_store\<close> is the contract of a store
    that refines the in-memory one; it is interpreted on both. Durability: a restart recovers the state of
    the last call whose persist went through.
  \<^item> \<open>Lifecycle\<close>, \<open>History\<close>, \<open>Sessions\<close>: the request and session machines (\<open>req_step\<close>, \<open>sess_step\<close>) as
    inductive relations, the refinement of them by every operation, and what a status says about the calls
    of any history: approval before connection, redemption at most once, closed entries final, every request settled.
  \<^item> \<open>Sha256\<close>, \<open>Base64\<close>, \<open>Instants\<close>, \<open>Json\<close>, \<open>JsonText\<close>, \<open>Signing\<close>: \<open>internal/signing\<close> and what it uses of Go's library,
    computed: digests, base64, RFC 3339 instants, the canonical JSON text that is signed.
  \<^item> \<open>Http\<close>, \<open>Handlers\<close>, \<open>Intents\<close>, \<open>Config\<close>, \<open>Routes\<close>: \<open>internal/http\<close>, \<open>internal/openclaw\<close>, \<open>internal/config\<close>
    and \<open>cmd/api/main.go\<close>. Every handler with every status code, the route table behind the bearer token,
    \<open>http.ServeMux\<close> for its patterns, the start-up.
  \<^item> \<open>Gateway\<close>, \<open>ControlPlane\<close>, \<open>Bundles\<close>, \<open>Startup\<close>: the control plane as a whole. A request over HTTP is no
    store call or exactly the one it asks for, so the properties of histories hold of sequences of HTTP
    requests; what a bundle certifies; a start-up that fails closed.

  Local agent, \<open>src/services/local-agent\<close>:

  \<^item> \<open>JsonParse\<close>, \<open>JsonFuel\<close>, \<open>AgentBase\<close>: JSON read from its text, paths, the file system and errors of the agent.
  \<^item> \<open>Approval\<close>, \<open>SshKeys\<close>, \<open>ApiClient\<close>, \<open>Verify\<close>, \<open>Trust\<close>: the packages of these names under \<open>internal\<close>: asking
    the owner, the key file, the client, the checks of a bundle, the cache of trusted keys. The lemmas give
    for each exactly what it accepts and what it changes.
  \<^item> \<open>Flow\<close>, \<open>AgentConfig\<close>, \<open>Agent\<close>, \<open>AgentRuns\<close>: \<open>internal/flow\<close> and \<open>cmd/agent\<close>. \<open>Process\<close> acts on any state
    through the interfaces of the code. The locales \<open>key_custody\<close> and \<open>reporting\<close> (both extend \<open>unobserved\<close>)
    say what the flow needs of them, and are interpreted on the agent's own runner. Over any number of
    ticks only vouched keys reach the device, and each fetched bundle is reported once.
  \<^item> \<open>InstallRunner\<close>, \<open>InstallService\<close>, \<open>InstallMain\<close>, \<open>Service\<close>: \<open>internal/install\<close> and \<open>cmd/install\<close>. The flags,
    the run with its single report, the launchd and systemd files byte by byte, and the start of the agent
    from the environment it was installed with.

  Both ends:

  \<^item> \<open>Wire\<close>, \<open>EndToEnd\<close>, \<open>Calls\<close>, \<open>Connect\<close>, \<open>Installed\<close>: the request the server sees for one the client builds and the text
    it answers with. What one end signs the other accepts; the client's methods are the store's calls; a
    request that its owner approves gets connected, and an approved session gets installed: the unit file
    that is written starts an agent for the registered device.

  Conventions. A Go string is a list of bytes. Clocks are instants in nanoseconds, unbounded; durations are
  wrapped to 64 bits where the agent reads them from text. What a call takes from outside the program
  (clock, random bytes, the order of a range over a map, outcomes of system calls, dialogs and commands)
  is an argument, usually in the record of its environment, so every theorem holds for all of it. Errors
  are values: \<open>res\<close> and \<open>ares\<close> are sums with the error on the left, and where the code returns only an
  error, \<open>None\<close> is success.

  Fuel and bounds. Reading JSON uses fuel \<open>2 * length + 1\<close>, which is enough for every text: \<open>decode_fuel\<close>
  in \<open>JsonFuel\<close> proves that any larger amount gives the same result. Nesting is
  limited to 10000 as in \<open>encoding/json\<close>. Every other definition is total by its own termination proof.
  The agent's loop has no bound; \<open>agent_run\<close> is any number of its ticks.

  Parameters. Ed25519 is a record of the four functions the code calls; its law (\<open>ed_laws\<close>: lengths, and
  what is signed verifies) is a hypothesis, and the witnesses use a concrete function that satisfies it.
  The transport of the client, the verifier service, the dialog programs, the service managers and the
  lower-case mapping of characters beyond ASCII are parameters without laws.

  Not modelled: \<open>services/connector-tee\<close> (JavaScript, a wrapper of an SDK), HTTP framing and TLS (a base URL
  that cannot be parsed is one more error of the transport), contexts, time-outs and signals (a tick that
  blocks at a prompt, and the select between ticks and the agent's cancellation, are outside the model),
  logging, the \<open>main\<close> functions' hand-over of arguments and exit codes, and the tests, scripts and documents.
\<close>

end
